(* ===== verification/CK_Prelude.thy ===== *)
theory CK_Prelude
  imports Main "HOL-Library.Word"
begin

text \<open>
  Shared vocabulary of the development: the integer type of the kernels
  (\<open>index_t\<close>, a 32-bit signed integer in \<^verbatim>\<open>common_header.hpp\<close>, modelled as
  \<open>int\<close> where no overflow is at stake and as \<open>32 word\<close> where it is), multi-indices
  as integer lists, the hyper-rectangle of indices below a list of lengths
  (\<open>in_box\<close>) and its lexicographic enumeration \<open>ford\<close> (the \<^verbatim>\<open>static_ford\<close>
  loop), the mixed-radix value of an index (\<open>radix\<close>), and generic list lemmas
  that the component theories share through the collection \<open>ck_simps\<close>.
\<close>

named_theorems ck_simps "generic facts on lists, boxes and enumerations shared by the components"

type_synonym index_t = int
type_synonym multi_index = "int list"

section \<open>Boxes of indices and their lexicographic enumeration\<close>

fun in_box :: "nat list \<Rightarrow> nat list \<Rightarrow> bool" where
  "in_box [] [] = True"
| "in_box (l # ls) (i # xs) = (i < l \<and> in_box ls xs)"
| "in_box _ _ = False"

text \<open>\<open>ford lens\<close> lists every index below \<open>lens\<close>, the last dimension varying fastest,
  in the order in which \<^verbatim>\<open>static_ford<Lengths>\<close> calls its body.\<close>

fun ford :: "nat list \<Rightarrow> nat list list" where
  "ford [] = [[]]"
| "ford (l # ls) = concat (map (\<lambda>i. map ((#) i) (ford ls)) [0..<l])"

text \<open>The mixed-radix value of an index: digit \<open>x\<close> of radix \<open>l\<close>, most significant first.\<close>

definition radix_from :: "nat \<Rightarrow> nat list \<Rightarrow> nat list \<Rightarrow> nat" where
  "radix_from c lens idx = foldl (\<lambda>t (l, x). t * l + x) c (zip lens idx)"

abbreviation maxes :: "nat list \<Rightarrow> nat list" where
  "maxes lens \<equiv> map (\<lambda>l. l - Suc 0) lens"

abbreviation zeros :: "nat list \<Rightarrow> nat list" where
  "zeros lens \<equiv> replicate (length lens) 0"

text \<open>The lexicographic successor of an index below \<open>lens\<close>, \<open>None\<close> for the last one.\<close>

fun next_idx :: "nat list \<Rightarrow> nat list \<Rightarrow> nat list option" where
  "next_idx (l # ls) (i # xs) =
     (case next_idx ls xs of
        Some ys \<Rightarrow> Some (i # ys)
      | None \<Rightarrow> if Suc i < l then Some (Suc i # zeros ls) else None)"
| "next_idx _ _ = None"

text \<open>The states a left fold passes through before each of its steps.\<close>

primrec fold_states :: "('s \<Rightarrow> 'x \<Rightarrow> 's) \<Rightarrow> 's \<Rightarrow> 'x list \<Rightarrow> 's list" where
  "fold_states f s [] = []"
| "fold_states f s (x # xs) = s # fold_states f (f s x) xs"

text \<open>The multi-index with value \<open>v\<close> in dimension \<open>d\<close> and zero elsewhere.\<close>

definition unitv :: "nat \<Rightarrow> nat \<Rightarrow> int \<Rightarrow> int list" where
  "unitv n d v = map (\<lambda>j. if d = j then v else 0) [0..<n]"


text \<open>A do-while loop: run the body, then test the condition on the new state.  A loop
  that does not end has the value \<open>None\<close>.\<close>

partial_function (option) do_while :: "('s \<Rightarrow> 's) \<Rightarrow> ('s \<Rightarrow> bool) \<Rightarrow> 's \<Rightarrow> 's option" where
  "do_while body cond s = (if cond (body s) then do_while body cond (body s) else Some (body s))"

text \<open>The counted loop \<^verbatim>\<open>for(i = b; i < e; i += s)\<close>: the values the counter takes.  A loop
  whose step is not positive runs forever on a non-empty range; the callers test that case
  before they use the list.\<close>

function int_range_step :: "int \<Rightarrow> int \<Rightarrow> int \<Rightarrow> int list" where
  "int_range_step b e s = (if 0 < s \<and> b < e then b # int_range_step (b + s) e s else [])"
  by pat_completeness auto
termination by (relation "measure (\<lambda>(b, e, s). nat (e - b))") auto

declare int_range_step.simps [simp del]

section \<open>Element-wise arithmetic on multi-indices\<close>

definition mi_add :: "multi_index \<Rightarrow> multi_index \<Rightarrow> multi_index" where
  "mi_add a b = map2 (+) a b"

definition mi_sub :: "multi_index \<Rightarrow> multi_index \<Rightarrow> multi_index" where
  "mi_sub a b = map2 (-) a b"

definition mi_mul :: "multi_index \<Rightarrow> multi_index \<Rightarrow> multi_index" where
  "mi_mul a b = map2 (*) a b"

section \<open>Lemmas on boxes and enumerations\<close>

lemma in_box_length [ck_simps]: "in_box lens idx \<Longrightarrow> length idx = length lens"
  by (induction lens idx rule: in_box.induct) auto

lemma in_box_Cons_iff [ck_simps]:
  "in_box (l # ls) idx \<longleftrightarrow> (\<exists>i xs. idx = i # xs \<and> i < l \<and> in_box ls xs)"
  by (cases idx) auto

lemma in_box_nth [ck_simps]:
  "in_box lens idx \<longleftrightarrow> length idx = length lens \<and> (\<forall>j < length lens. idx ! j < lens ! j)"
proof (induction lens arbitrary: idx)
  case Nil
  then show ?case by (cases idx) auto
next
  case (Cons l ls)
  show ?case
  proof (cases idx)
    case Nil
    then show ?thesis by simp
  next
    case (Cons i xs)
    then show ?thesis
      using Cons.IH[of "xs"] by (auto simp: nth_Cons' split: if_splits)
  qed
qed

lemma set_ford [ck_simps]: "set (ford lens) = {idx. in_box lens idx}"
proof (induction lens)
  case Nil
  then show ?case by (auto elim: in_box.elims)
next
  case (Cons l ls)
  then show ?case by (auto simp: in_box_Cons_iff)
qed

lemma distinct_ford [ck_simps]: "distinct (ford lens)"
proof (induction lens)
  case Nil
  then show ?case by simp
next
  case (Cons l ls)
  show ?case
  proof (cases "ford ls = []")
    case True
    then show ?thesis by (induction l) auto
  next
    case False
    show ?thesis
      unfolding ford.simps
    proof (rule distinct_concat)
      have "inj_on (\<lambda>i. map ((#) i) (ford ls)) {0..<l}"
        using False by (auto simp: inj_on_def neq_Nil_conv)
      then show "distinct (map (\<lambda>i. map ((#) i) (ford ls)) [0..<l])"
        by (simp add: distinct_map)
    next
      fix ys assume "ys \<in> set (map (\<lambda>i. map ((#) i) (ford ls)) [0..<l])"
      then show "distinct ys" using Cons.IH by (auto simp: distinct_map)
    next
      fix ys zs
      assume "ys \<in> set (map (\<lambda>i. map ((#) i) (ford ls)) [0..<l])"
        and "zs \<in> set (map (\<lambda>i. map ((#) i) (ford ls)) [0..<l])" and "ys \<noteq> zs"
      then show "set ys \<inter> set zs = {}" by auto
    qed
  qed
qed

lemma length_ford [ck_simps]: "length (ford lens) = prod_list lens"
  by (induction lens) (simp_all add: length_concat sum_list_triv comp_def)

lemma ford_nonempty_length [ck_simps]: "idx \<in> set (ford lens) \<Longrightarrow> length idx = length lens"
  by (simp add: set_ford in_box_length)

section \<open>Mixed-radix values\<close>

lemma radix_from_Nil [simp]: "radix_from c [] idx = c" "radix_from c lens [] = c"
  by (simp_all add: radix_from_def)

lemma radix_from_Cons [simp]:
  "radix_from c (l # ls) (x # xs) = radix_from (c * l + x) ls xs"
  by (simp add: radix_from_def)

lemma length_mi_add [simp]: "length (mi_add a b) = min (length a) (length b)"
  by (simp add: mi_add_def)

lemma length_mi_sub [simp]: "length (mi_sub a b) = min (length a) (length b)"
  by (simp add: mi_sub_def)

lemma length_mi_mul [simp]: "length (mi_mul a b) = min (length a) (length b)"
  by (simp add: mi_mul_def)

lemma nth_mi_add [simp]:
  "j < length a \<Longrightarrow> j < length b \<Longrightarrow> mi_add a b ! j = a ! j + b ! j"
  by (simp add: mi_add_def)

lemma nth_mi_sub [simp]:
  "j < length a \<Longrightarrow> j < length b \<Longrightarrow> mi_sub a b ! j = a ! j - b ! j"
  by (simp add: mi_sub_def)

lemma nth_mi_mul [simp]:
  "j < length a \<Longrightarrow> j < length b \<Longrightarrow> mi_mul a b ! j = a ! j * b ! j"
  by (simp add: mi_mul_def)

lemma mi_add_assoc [ck_simps]: "mi_add (mi_add a b) c = mi_add a (mi_add b c)"
  by (rule nth_equalityI) auto

lemma mi_add_sub_cancel [ck_simps]:
  "length a = length b \<Longrightarrow> mi_sub (mi_add a b) b = a"
  by (rule nth_equalityI) auto

lemma mi_add_zero [ck_simps]: "length a = n \<Longrightarrow> mi_add a (replicate n 0) = a"
  by (rule nth_equalityI) auto

section \<open>Further generic lemmas\<close>

lemma in_box_maxes: "(\<forall>l \<in> set lens. 0 < l) \<Longrightarrow> in_box lens (maxes lens)"
  by (induction lens) auto

lemma in_box_zeros: "(\<forall>l \<in> set lens. 0 < l) \<Longrightarrow> in_box lens (zeros lens)"
  by (induction lens) auto

lemma in_box_pos: "in_box lens xs \<Longrightarrow> \<forall>l \<in> set lens. 0 < l"
  by (induction lens xs rule: in_box.induct) auto

lemma ford_hd_last:
  "\<forall>l \<in> set lens. 0 < l \<Longrightarrow> ford lens \<noteq> [] \<and> hd (ford lens) = zeros lens \<and> last (ford lens) = maxes lens"
proof (induction lens)
  case Nil
  then show ?case by simp
next
  case (Cons l ls)
  then obtain k where k: "l = Suc k" by (cases l) auto
  have ne: "ford ls \<noteq> []" and hd: "hd (ford ls) = zeros ls" and lst: "last (ford ls) = maxes ls"
    using Cons by auto
  have "ford (l # ls) = map ((#) 0) (ford ls) @ concat (map (\<lambda>i. map ((#) i) (ford ls)) [1..<l])"
    using k by (simp add: upt_conv_Cons)
  then have "hd (ford (l # ls)) = zeros (l # ls)" using ne hd by (simp add: hd_map)
  moreover have "ford (l # ls) = concat (map (\<lambda>i. map ((#) i) (ford ls)) [0..<k]) @ map ((#) k) (ford ls)"
    using k by simp
  then have "last (ford (l # ls)) = maxes (l # ls)" using ne lst k by (simp add: last_map)
  moreover have "ford (l # ls) \<noteq> []" using ne k by (simp add: upt_conv_Cons)
  ultimately show ?case by simp
qed

lemma next_idx_None_iff:
  "in_box lens xs \<Longrightarrow> next_idx lens xs = None \<longleftrightarrow> xs = maxes lens"
proof (induction lens xs rule: next_idx.induct)
  case (1 l ls i xs)
  then show ?case by (auto split: option.splits)
qed (auto elim: in_box.elims)

lemma next_idx_maxes: "next_idx lens (maxes lens) = None"
  by (induction lens) (auto split: option.splits)

lemma successively_ford_next:
  assumes "\<forall>l \<in> set lens. 0 < l"
  shows "successively (\<lambda>x y. next_idx lens x = Some y) (ford lens)"
  using assms
proof (induction lens)
  case Nil
  then show ?case by simp
next
  case (Cons l ls)
  let ?P = "\<lambda>x y. next_idx (l # ls) x = Some y"
  let ?B = "\<lambda>i. map ((#) i) (ford ls)"
  have ne: "ford ls \<noteq> []" and hd: "hd (ford ls) = zeros ls" and lst: "last (ford ls) = maxes ls"
    using Cons.prems ford_hd_last[of ls] by auto
  have IH: "successively (\<lambda>x y. next_idx ls x = Some y) (ford ls)"
    using Cons by simp
  have blk: "successively ?P (?B i)" for i
    unfolding successively_map
    by (rule successively_mono[OF IH]) simp
  have "m \<le> l \<Longrightarrow> successively ?P (concat (map ?B [0..<m]))" for m
  proof (induction m)
    case 0
    then show ?case by simp
  next
    case (Suc m)
    have "concat (map ?B [0..<Suc m]) = concat (map ?B [0..<m]) @ ?B m" by simp
    moreover have "m = 0 \<or> ?P (last (concat (map ?B [0..<m]))) (hd (?B m))"
    proof (cases m)
      case (Suc k)
      have "concat (map ?B [0..<m]) = concat (map ?B [0..<k]) @ ?B k" using Suc by simp
      then have "last (concat (map ?B [0..<m])) = k # maxes ls" using ne lst by (simp add: last_map)
      moreover have "hd (?B m) = m # zeros ls" using ne hd by (simp add: hd_map)
      ultimately show ?thesis using Suc \<open>Suc m \<le> l\<close> next_idx_maxes[of ls] by simp
    qed simp
    ultimately show ?case using Suc blk by (auto simp: successively_append_iff)
  qed
  then show ?case by simp
qed

lemma radix_from_snoc:
  "length xs = length ys \<Longrightarrow> radix_from c (xs @ [l]) (ys @ [y]) = radix_from c xs ys * l + y"
  by (simp add: radix_from_def)

lemma drop_eq_maxes_iff:
  assumes "length xs = length lens"
  shows "drop k xs = maxes (drop k lens) \<longleftrightarrow> (\<forall>j. k \<le> j \<and> j < length lens \<longrightarrow> xs ! j = lens ! j - 1)"
proof
  assume h: "drop k xs = maxes (drop k lens)"
  show "\<forall>j. k \<le> j \<and> j < length lens \<longrightarrow> xs ! j = lens ! j - 1"
  proof (intro allI impI)
    fix j assume j: "k \<le> j \<and> j < length lens"
    have "drop k xs ! (j - k) = maxes (drop k lens) ! (j - k)" using h by simp
    moreover have "j - k < length (drop k lens)" using j by (simp add: diff_less_mono)
    ultimately show "xs ! j = lens ! j - 1" using j assms by simp
  qed
next
  assume "\<forall>j. k \<le> j \<and> j < length lens \<longrightarrow> xs ! j = lens ! j - 1"
  then show "drop k xs = maxes (drop k lens)" using assms by (auto simp: list_eq_iff_nth_eq)
qed

lemma int_eq_pred_iff: "0 < b \<Longrightarrow> int a = int b - 1 \<longleftrightarrow> a = b - 1"
  by linarith

lemma int_lt_pred_iff: "int a < int b - 1 \<longleftrightarrow> Suc a < b"
  by linarith

lemma sum_list_delta_upt:
  "p < n \<Longrightarrow> (\<Sum>i\<leftarrow>[0..<n]. if i = p then f i else (0::int)) = f p"
  by (simp add: sum_list_distinct_conv_sum_set)

lemma fold_states_commute:
  assumes "\<And>s x. g (f s x) = h (g s) x"
  shows "map g (fold_states f s xs) = fold_states h (g s) xs \<and> g (foldl f s xs) = foldl h (g s) xs"
  by (induction xs arbitrary: s) (simp_all add: assms)

lemma mi_mul_pos_inj:
  assumes "length a = length s" "length b = length s" "\<forall>x \<in> set s. 0 < x"
    and "mi_mul (map int a) (map int s) = mi_mul (map int b) (map int s)"
  shows "a = b"
proof (rule nth_equalityI)
  show "length a = length b" using assms by simp
  fix j assume j: "j < length a"
  have "int (a ! j) * int (s ! j) = int (b ! j) * int (s ! j)"
    using arg_cong[OF assms(4), of "\<lambda>v. v ! j"] j assms(1,2) by simp
  moreover have "0 < s ! j" using assms(1,3) j by (simp add: nth_mem)
  ultimately show "a ! j = b ! j" by simp
qed

lemma mi_add_left_inj:
  assumes "length a = length z" "length b = length z" "mi_add z a = mi_add z b"
  shows "a = b"
proof (rule nth_equalityI)
  fix i assume "i < length a"
  then show "a ! i = b ! i" using assms nth_mi_add[of i z a] nth_mi_add[of i z b] by simp
qed (use assms in simp)

lemma unitv_Suc_0: "unitv (Suc n) 0 s = s # replicate n 0"
  by (rule nth_equalityI) (auto simp: unitv_def nth_Cons nth_map_upt simp del: upt_Suc split: nat.split)

lemma unitv_Suc_Suc: "unitv (Suc n) (Suc k) s = 0 # unitv n k s"
  by (simp add: unitv_def upt_conv_Cons map_Suc_upt[symmetric] comp_def del: upt_Suc)

lemma mi_add_uminus_cancel:
  "length w = length a \<Longrightarrow> mi_add (mi_add a w) (map uminus w) = a"
  by (rule nth_equalityI) auto

lemma mi_sub_uminus: "mi_sub a (map uminus w) = mi_add a w"
  by (auto simp: mi_sub_def mi_add_def zip_map2)

lemma mi_add_uminus_shift:
  "length w = length a \<Longrightarrow> length s = length a \<Longrightarrow>
   mi_add (mi_add a w) (mi_add s (map uminus w)) = mi_add a s"
  by (rule nth_equalityI) auto


section \<open>Do-while loops\<close>

lemma do_while_rule:
  fixes f :: "'s \<Rightarrow> nat"
  assumes "I s"
    and step: "\<And>s. I s \<Longrightarrow> cond (body s) \<Longrightarrow> I (body s)"
    and dec: "\<And>s. I s \<Longrightarrow> cond (body s) \<Longrightarrow> f (body s) < f s"
  shows "\<exists>s'. I s' \<and> do_while body cond s = Some (body s') \<and> \<not> cond (body s')"
  using assms(1)
proof (induction "f s" arbitrary: s rule: less_induct)
  case less
  show ?case
  proof (cases "cond (body s)")
    case True
    then obtain s' where "I s'" "do_while body cond (body s) = Some (body s')" "\<not> cond (body s')"
      using less.hyps[OF dec[OF less.prems True] step[OF less.prems True]] by blast
    then show ?thesis using True by (subst do_while.simps) auto
  next
    case False
    then show ?thesis using less.prems by (subst do_while.simps) auto
  qed
qed

lemma do_while_partial:
  assumes "do_while body cond s = Some t" "I s"
    and step: "\<And>s. I s \<Longrightarrow> cond (body s) \<Longrightarrow> I (body s)"
  shows "\<exists>s'. I s' \<and> t = body s' \<and> \<not> cond t"
proof -
  have "b = body \<longrightarrow> c = cond \<longrightarrow> I x \<longrightarrow> (\<exists>s'. I s' \<and> y = body s' \<and> \<not> cond y)"
    if "do_while b c x = Some y" for b c x y
  proof (rule do_while.raw_induct[where P = "\<lambda>b c x y. b = body \<longrightarrow> c = cond \<longrightarrow> I x
              \<longrightarrow> (\<exists>s'. I s' \<and> y = body s' \<and> \<not> cond y)", OF _ that])
    fix dw b c x y
    assume ih: "\<And>b c x y. dw b c x = Some y \<Longrightarrow> b = body \<longrightarrow> c = cond \<longrightarrow> I x
                  \<longrightarrow> (\<exists>s'. I s' \<and> y = body s' \<and> \<not> cond y)"
      and e: "(if c (b x) then dw b c (b x) else Some (b x)) = Some y"
    show "b = body \<longrightarrow> c = cond \<longrightarrow> I x \<longrightarrow> (\<exists>s'. I s' \<and> y = body s' \<and> \<not> cond y)"
    proof (intro impI)
      assume bc: "b = body" "c = cond" and ix: "I x"
      show "\<exists>s'. I s' \<and> y = body s' \<and> \<not> cond y"
      proof (cases "cond (body x)")
        case True
        then show ?thesis using e bc ih[of b c "b x" y] step[OF ix True] by simp
      next
        case False
        then show ?thesis using e bc ix by auto
      qed
    qed
  qed
  then show ?thesis using assms(1,2) by blast
qed

lemma do_while_None:
  assumes j0: "J (body s)"
    and stepJ: "\<And>s. J s \<Longrightarrow> J (body s)"
    and cnd: "\<And>s. J s \<Longrightarrow> cond s"
  shows "do_while body cond s = None"
proof (rule ccontr)
  assume "do_while body cond s \<noteq> None"
  then obtain y where y: "do_while body cond s = Some y" by blast
  have "b = body \<longrightarrow> c = cond \<longrightarrow> J (b x) \<longrightarrow> False" if "do_while b c x = Some y" for b c x y
  proof (rule do_while.raw_induct[where P = "\<lambda>b c x y. b = body \<longrightarrow> c = cond \<longrightarrow> J (b x) \<longrightarrow> False", OF _ that])
    fix dw b c x y
    assume ih: "\<And>b c x y. dw b c x = Some y \<Longrightarrow> b = body \<longrightarrow> c = cond \<longrightarrow> J (b x) \<longrightarrow> False"
      and e: "(if c (b x) then dw b c (b x) else Some (b x)) = Some y"
    show "b = body \<longrightarrow> c = cond \<longrightarrow> J (b x) \<longrightarrow> False"
    proof (intro impI)
      assume bc: "b = body" "c = cond" and jx: "J (b x)"
      then have "dw b c (b x) = Some y" using e cnd[OF jx] by simp
      then show False using ih[of b c "b x" y] bc stepJ[OF jx] by simp
    qed
  qed
  then show False using y j0 by blast
qed

lemma concat_replicate_snoc: "concat (replicate n xs) @ xs = concat (replicate (Suc n) xs)"
  by (induction n) auto

lemma int_mult_less_cancel: "0 < (p :: int) \<Longrightarrow> int a * p < int b * p \<longleftrightarrow> a < b"
  by simp

section \<open>Folds of pointwise updates\<close>

text \<open>A memory is a function from addresses to values; a loop nest that updates it is a fold
  of function updates.  These lemmas read such a fold at one address.\<close>

lemma foldl_acc_upd:
  "foldl (\<lambda>c x. c(key x := f (c (key x)) (val x))) c xs p
   = foldl f (c p) (map val (filter (\<lambda>x. key x = p) xs))"
  by (induction xs arbitrary: c) auto

lemma foldl_upd_last:
  "foldl (\<lambda>d x. d(key x := val x)) d xs p
   = (if filter (\<lambda>x. key x = p) xs = [] then d p else val (last (filter (\<lambda>x. key x = p) xs)))"
  by (induction xs arbitrary: d rule: rev_induct) auto

lemma comprehension2_product:
  "concat (map (\<lambda>i. map (\<lambda>j. (i, j)) J) I) = List.product I J"
  by (induction I) auto

lemma comprehension3_product:
  "concat (map (\<lambda>k. concat (map (\<lambda>i. map (\<lambda>j. (k, i, j)) J) I)) K) = List.product K (List.product I J)"
  by (induction K) (auto simp: comprehension2_product[symmetric] map_concat comp_def)

lemma filter_product_snd:
  "filter (\<lambda>x. P (snd x)) (List.product K L) = List.product K (filter P L)"
  by (induction K) (auto simp: filter_map comp_def)

lemma filter_inj_singleton:
  assumes "distinct xs" "x0 \<in> set xs" "inj_on g (set xs)"
  shows "filter (\<lambda>x. g x = g x0) xs = [x0]"
  using assms
proof (induction xs)
  case Nil
  then show ?case by simp
next
  case (Cons y ys)
  show ?case
  proof (cases "y = x0")
    case True
    then have "\<forall>x \<in> set ys. g x \<noteq> g x0"
      using Cons.prems by (auto simp: inj_on_insert image_iff)
    then show ?thesis using True by (simp add: filter_empty_conv)
  next
    case False
    then have "g y \<noteq> g x0" using Cons.prems by (auto dest: inj_onD)
    then show ?thesis using False Cons by (simp add: inj_on_insert)
  qed
qed

lemma product_singleton: "List.product K [x] = map (\<lambda>k. (k, x)) K"
  by (induction K) auto

lemma foldl_write_other:
  assumes "\<And>x d. x \<in> set xs \<Longrightarrow> f d x p = d p"
  shows "foldl f d xs p = d p"
  using assms by (induction xs arbitrary: d) auto

lemma foldl_write_at:
  assumes "x0 \<in> set xs"
    and other: "\<And>x d. x \<in> set xs \<Longrightarrow> x \<noteq> x0 \<Longrightarrow> f d x p = d p"
    and at: "\<And>d. f d x0 p = v"
  shows "foldl f d xs p = v"
  using assms(1) other
proof (induction xs arbitrary: d rule: rev_induct)
  case Nil
  then show ?case by simp
next
  case (snoc x xs)
  show ?case
  proof (cases "x = x0")
    case True
    then show ?thesis by (simp add: at)
  next
    case False
    then have "x0 \<in> set xs" using snoc.prems by simp
    then show ?thesis using snoc False by simp
  qed
qed

lemma foldl_acc_product_at:
  assumes "distinct L" "lsel \<in> set L" "inj_on key (set L)"
  shows "foldl (\<lambda>c x. c(key (snd x) := f (c (key (snd x))) (val x))) c (List.product K L) (key lsel)
         = foldl f (c (key lsel)) (map (\<lambda>k. val (k, lsel)) K)"
proof -
  have "filter (\<lambda>x. key (snd x) = key lsel) (List.product K L) = List.product K [lsel]"
    using filter_product_snd[of "\<lambda>l. key l = key lsel" K L] filter_inj_singleton[OF assms] by simp
  then show ?thesis
    unfolding foldl_acc_upd[where key = "\<lambda>x. key (snd x)"] by (simp add: product_singleton comp_def)
qed

lemma foldl_acc_product_other:
  assumes "p \<notin> key ` set L"
  shows "foldl (\<lambda>c x. c(key (snd x) := f (c (key (snd x))) (val x))) c (List.product K L) p = c p"
proof -
  have "filter (\<lambda>x. key (snd x) = p) (List.product K L) = []"
    using assms by (force simp: filter_empty_conv)
  then show ?thesis unfolding foldl_acc_upd[where key = "\<lambda>x. key (snd x)"] by simp
qed

section \<open>Integer digits and counted loops\<close>

lemma int_div_less_of_less_mult:
  fixes x a b :: int
  assumes "0 \<le> x" "x < a * b" "0 < b"
  shows "x div b < a"
proof -
  have "x div b * b + x mod b = x" by (rule div_mult_mod_eq)
  moreover have "0 \<le> x mod b" using assms(3) by simp
  ultimately have "x div b * b \<le> x" by linarith
  then have "x div b * b < a * b" using assms(2) by linarith
  then show ?thesis using assms(3) by (simp add: mult_less_cancel_right)
qed

lemma mod0_eq: "(x :: int) mod b = 0 \<Longrightarrow> x = x div b * b"
  using div_mult_mod_eq[of x b] by simp

lemma radix_lt:
  fixes q r a b :: int
  assumes "0 \<le> r" "r < b" "q < a"
  shows "q * b + r < a * b"
proof -
  have "q * b \<le> (a - 1) * b" using assms by (intro mult_right_mono) auto
  then show ?thesis using assms by (simp add: algebra_simps)
qed

lemma concat_map_map_product:
  "concat (map (\<lambda>x. map (f x) ys) xs) = map (\<lambda>(x, y). f x y) (List.product xs ys)"
  by (induction xs) auto

lemma nonneg_div_mod_bounds:
  fixes x b :: int
  assumes "0 \<le> x" "0 < b"
  shows "0 \<le> x div b" "0 \<le> x mod b" "x mod b < b"
  using assms by (simp_all add: pos_imp_zdiv_nonneg_iff)

lemma int_range_step_Cons: "0 < s \<Longrightarrow> b < e \<Longrightarrow> int_range_step b e s = b # int_range_step (b + s) e s"
  by (simp add: int_range_step.simps)

lemma int_range_step_Nil: "\<not> (0 < s \<and> b < e) \<Longrightarrow> int_range_step b e s = []"
  by (simp add: int_range_step.simps)

lemma map_plus_upto: "map (\<lambda>k. b + k) [i..j] = [b + i..b + j]"
proof (induction i j rule: upto.induct)
  case (1 i j)
  then show ?case by (cases "i \<le> j") (simp_all add: upto_rec1 add.assoc)
qed

lemma int_range_step_concat:
  "0 < s \<Longrightarrow> b \<le> e \<Longrightarrow> (e - b) mod s = 0
   \<Longrightarrow> concat (map (\<lambda>kb. [kb + k. k \<leftarrow> [0..s - 1]]) (int_range_step b e s)) = [b..e - 1]"
proof (induction b e s rule: int_range_step.induct)
  case (1 b e s)
  show ?case
  proof (cases "b < e")
    case False
    then show ?thesis using "1.prems" by (simp add: int_range_step_Nil)
  next
    case True
    have dv: "s dvd e - b" using "1.prems"(3) by (simp add: mod_eq_0_iff_dvd)
    then have "s \<le> e - b" using True by (simp add: zdvd_imp_le)
    moreover have "(e - (b + s)) mod s = 0" using dv by (simp add: mod_eq_0_iff_dvd diff_diff_eq[symmetric])
    ultimately have "concat (map (\<lambda>kb. [kb + k. k \<leftarrow> [0..s - 1]]) (int_range_step (b + s) e s)) = [b + s..e - 1]"
      using "1.IH" "1.prems"(1) True by simp
    moreover have "[b..e - 1] = [b..b + s - 1] @ [b + s..e - 1]"
    proof (cases "b + s = e")
      case False
      then show ?thesis using upto_split1[of b "b + s" "e - 1"] "1.prems"(1) \<open>s \<le> e - b\<close> by simp
    qed simp
    ultimately show ?thesis using True "1.prems"(1) by (simp add: int_range_step_Cons map_plus_upto add_diff_eq)
  qed
qed

section \<open>Folds that touch one position\<close>

lemma foldl_map_cong:
  "(\<And>k. k \<in> set xs \<Longrightarrow> g k = h k) \<Longrightarrow> foldl f c (map g xs) = foldl f c (map h xs)"
  by (simp cong: map_cong)

lemma foldl_proj_other:
  "(\<And>d x. x \<in> set xs \<Longrightarrow> proj (F d x) = proj d) \<Longrightarrow> proj (foldl F d xs) = proj d"
  by (induction xs arbitrary: d) auto

lemma foldl_proj_once:
  assumes "distinct xs" "xsel \<in> set xs"
    and "\<And>d x. x \<in> set xs \<Longrightarrow> x \<noteq> xsel \<Longrightarrow> proj (F d x) = proj d"
    and "\<And>d. proj (F d xsel) = h (proj d)"
  shows "proj (foldl F d xs) = h (proj d)"
  using assms
proof (induction xs arbitrary: d)
  case Nil
  then show ?case by simp
next
  case (Cons x xs)
  show ?case
  proof (cases "x = xsel")
    case True
    then have "proj (foldl F (F d x) xs) = proj (F d x)"
      using Cons.prems by (intro foldl_proj_other) auto
    then show ?thesis using True Cons.prems by simp
  next
    case False
    then show ?thesis using Cons by simp
  qed
qed

lemma foldl_pair_fst:
  "fst (foldl (\<lambda>(a, b) x. (G a x, H a b x)) s xs) = foldl G (fst s) xs"
  by (induction xs arbitrary: s) (auto simp: split_def)

lemma upto_snoc_nonneg: "0 \<le> n \<Longrightarrow> [0..n] = [0..n - 1] @ [n]"
  by (simp add: upto_rec2)

lemma int_factor_le:
  fixes x q S :: int
  assumes "x = q * S" "0 < q" "0 < S"
  shows "S \<le> x"
proof -
  have "1 * S \<le> q * S" using assms by (intro mult_right_mono) auto
  then show ?thesis using assms by simp
qed

lemma int_range_step_one: "b \<le> e \<Longrightarrow> int_range_step b e 1 = [b..e - 1]"
  using int_range_step_concat[of 1 b e] by simp

end
