(* ===== verification/MatrixDesc.thy ===== *)
theory MatrixDesc
  imports CK_Prelude
begin

text \<open>
  The compile-time matrix descriptor of \<^verbatim>\<open>src/src/include/ConstantMatrixDescriptor.hip.hpp\<close>:
  a row-major matrix view with a row stride that may exceed the number of columns.
  Its template arguments become the fields of a record; the constructor's
  \<^verbatim>\<open>static_assert\<close> is the well-formedness predicate \<open>cmd_wf\<close>.  The lemmas show
  that the offset map is injective on the matrix and stays below the element space,
  and that sub-matrix descriptors keep both facts.
\<close>

record cmd =
  NRow :: index_t
  NCol :: index_t
  RowStride :: index_t

definition cmd_wf :: "cmd \<Rightarrow> bool" where
  "cmd_wf d \<longleftrightarrow> NCol d \<le> RowStride d"

definition GetElementSize :: "cmd \<Rightarrow> index_t" where
  "GetElementSize d = NRow d * NCol d"

definition GetElementSpace :: "cmd \<Rightarrow> index_t" where
  "GetElementSpace d = NRow d * RowStride d"

definition GetOffsetFromMultiIndex :: "cmd \<Rightarrow> index_t \<Rightarrow> index_t \<Rightarrow> index_t" where
  "GetOffsetFromMultiIndex d irow icol = irow * RowStride d + icol"

definition MakeSubMatrixDescriptor :: "cmd \<Rightarrow> index_t \<Rightarrow> index_t \<Rightarrow> cmd" where
  "MakeSubMatrixDescriptor d sub_nrow sub_ncol =
     \<lparr>NRow = sub_nrow, NCol = sub_ncol, RowStride = RowStride d\<rparr>"

definition make_ConstantMatrixDescriptor :: "index_t \<Rightarrow> index_t \<Rightarrow> cmd" where
  "make_ConstantMatrixDescriptor nrow ncol = \<lparr>NRow = nrow, NCol = ncol, RowStride = ncol\<rparr>"

definition make_ConstantMatrixDescriptor_strided :: "index_t \<Rightarrow> index_t \<Rightarrow> index_t \<Rightarrow> cmd" where
  "make_ConstantMatrixDescriptor_strided nrow ncol stride =
     \<lparr>NRow = nrow, NCol = ncol, RowStride = stride\<rparr>"

definition cmd_in_range :: "cmd \<Rightarrow> index_t \<Rightarrow> index_t \<Rightarrow> bool" where
  "cmd_in_range d irow icol \<longleftrightarrow> 0 \<le> irow \<and> irow < NRow d \<and> 0 \<le> icol \<and> icol < NCol d"

lemmas cmd_defs = GetOffsetFromMultiIndex_def GetElementSpace_def GetElementSize_def
  cmd_in_range_def cmd_wf_def MakeSubMatrixDescriptor_def make_ConstantMatrixDescriptor_def
  make_ConstantMatrixDescriptor_strided_def

text \<open>Row-major offsets decompose uniquely once the column is below the stride.\<close>

lemma rowmajor_offset_unique:
  fixes r1 r2 c1 c2 s :: int
  assumes "0 \<le> c1" "c1 < s" "0 \<le> c2" "c2 < s" "r1 * s + c1 = r2 * s + c2"
  shows "r1 = r2 \<and> c1 = c2"
proof -
  have d: "(r1 - r2) * s = c2 - c1"
    using assms(5) by (simp add: algebra_simps)
  have "r1 = r2"
  proof (rule ccontr)
    assume "r1 \<noteq> r2"
    then consider "1 \<le> r1 - r2" | "r1 - r2 \<le> -1" by linarith
    then show False
    proof cases
      case 1
      then have "1 * s \<le> (r1 - r2) * s" using assms by (intro mult_right_mono) auto
      with d assms show False by linarith
    next
      case 2
      then have "(r1 - r2) * s \<le> (-1) * s" using assms by (intro mult_right_mono) auto
      with d assms show False by linarith
    qed
  qed
  with assms(5) show ?thesis by simp
qed

lemma cmd_offset_injective:
  assumes "cmd_wf d" "cmd_in_range d r1 c1" "cmd_in_range d r2 c2"
    and "GetOffsetFromMultiIndex d r1 c1 = GetOffsetFromMultiIndex d r2 c2"
  shows "r1 = r2 \<and> c1 = c2"
  using assms rowmajor_offset_unique[of c1 "RowStride d" c2 r1 r2]
  by (simp add: cmd_defs)

lemma cmd_offset_bounds:
  assumes "cmd_wf d" "cmd_in_range d r c"
  shows "0 \<le> GetOffsetFromMultiIndex d r c \<and> GetOffsetFromMultiIndex d r c < GetElementSpace d"
proof -
  have s: "0 < RowStride d" and rc: "0 \<le> r" "r < NRow d" "0 \<le> c" "c < RowStride d"
    using assms by (auto simp: cmd_defs)
  have "r * RowStride d + c < (r + 1) * RowStride d"
    using rc by (simp add: algebra_simps)
  also have "\<dots> \<le> NRow d * RowStride d"
    using rc s by (intro mult_right_mono) auto
  finally show ?thesis
    using rc s by (simp add: cmd_defs)
qed

lemma cmd_sub_wf:
  "cmd_wf d \<Longrightarrow> sub_ncol \<le> NCol d \<Longrightarrow> cmd_wf (MakeSubMatrixDescriptor d sub_nrow sub_ncol)"
  by (simp add: cmd_defs)

lemma cmd_sub_offset:
  "GetOffsetFromMultiIndex (MakeSubMatrixDescriptor d m n) r c = GetOffsetFromMultiIndex d r c"
  by (simp add: cmd_defs)

end
