(* ===== verification/SliceTransfer.thy ===== *)
theory SliceTransfer
  imports CK_Prelude
begin

text \<open>
  The thread-wise slice transfer of
  \<^verbatim>\<open>src/composable_kernel/include/tensor_operation/threadwise_tensor_slice_transfer_v6r2.hpp\<close>
  (\<^verbatim>\<open>ThreadwiseTensorSliceTransfer_v6r2\<close>): it walks a slice of two source tensors and one
  destination tensor in vector-sized accesses, in a serpentine order over the dimensions
  permuted by \<^verbatim>\<open>DimAccessOrder\<close>, moving three tensor coordinates by unit steps.

  The template arguments are the record \<open>xfer_cfg\<close>; the object's state (its three
  coordinates) and the destination buffer are the record \<open>xfer_state\<close>.  A tensor
  coordinate is represented by its visible multi-index; the descriptor it is bound to is
  the interface \<open>desc_view\<close> (offset and validity of a visible index), which the
  theory of transforms implements.  The lemmas show that one run visits every vector
  access of the slice exactly once, in unit steps, ends where
  \<^verbatim>\<open>GetCoordinateResetStep\<close> says, and that moving the slice window compensates an
  unreset coordinate exactly.
\<close>

section \<open>Data model\<close>

datatype InMemoryDataOperation = InMemSet | InMemAtomicAdd

record xfer_cfg =
  SliceLengths :: "nat list"
  DimAccessOrder :: "nat list"
  VectorDim :: nat
  ScalarPerVector :: nat
  DstInMemOp :: InMemoryDataOperation
  Src0ResetCoordinateAfterRun :: bool
  Src1ResetCoordinateAfterRun :: bool
  DstResetCoordinateAfterRun :: bool

record 'c xfer_state =
  src0_coord :: multi_index
  src1_coord :: multi_index
  dst_coord :: multi_index
  dst_buf :: "int \<Rightarrow> 'c"

text \<open>What a tensor coordinate bound to a descriptor answers: its offset, and whether that
  offset is valid (\<^verbatim>\<open>coordinate_has_valid_offset_assuming_visible_index_is_valid\<close>).\<close>

record desc_view =
  dv_offset :: "multi_index \<Rightarrow> int"
  dv_valid :: "multi_index \<Rightarrow> bool"

abbreviation nDim :: "xfer_cfg \<Rightarrow> nat" where
  "nDim c \<equiv> length (SliceLengths c)"

section \<open>Sequences and reorders of \<^verbatim>\<open>container_helper\<close>\<close>

text \<open>\<^verbatim>\<open>container_reorder_given_new2old(xs, order)\<close>: element \<open>i\<close> of the result is
  \<open>xs[order[i]]\<close>; \<^verbatim>\<open>container_reorder_given_old2new\<close> is its inverse, putting
  \<open>xs[i]\<close> at position \<open>order[i]\<close>.\<close>

primrec pos_of :: "nat list \<Rightarrow> nat \<Rightarrow> nat" where
  "pos_of [] j = 0"
| "pos_of (x # xs) j = (if x = j then 0 else Suc (pos_of xs j))"

definition reorder_new2old :: "'a list \<Rightarrow> nat list \<Rightarrow> 'a list" where
  "reorder_new2old xs order = map (\<lambda>i. xs ! i) order"

definition reorder_old2new :: "'a list \<Rightarrow> nat list \<Rightarrow> 'a list" where
  "reorder_old2new xs order = map (\<lambda>j. xs ! pos_of order j) [0..<length xs]"

definition is_perm :: "nat list \<Rightarrow> nat \<Rightarrow> bool" where
  "is_perm order n \<longleftrightarrow> distinct order \<and> set order = {0..<n}"

section \<open>The access pattern (lines 94--104)\<close>

definition scalar_per_access :: "xfer_cfg \<Rightarrow> nat list" where
  "scalar_per_access c =
     map (\<lambda>i. if i = VectorDim c then ScalarPerVector c else 1) [0..<nDim c]"

definition access_lengths :: "xfer_cfg \<Rightarrow> nat list" where
  "access_lengths c = map2 (div) (SliceLengths c) (scalar_per_access c)"

definition ordered_access_lengths :: "xfer_cfg \<Rightarrow> nat list" where
  "ordered_access_lengths c = reorder_new2old (access_lengths c) (DimAccessOrder c)"

text \<open>The constructor's \<^verbatim>\<open>static_assert\<close> together with what the template arguments
  are assumed to be: a permutation as access order, a vector dimension among the
  dimensions, and non-empty slices.\<close>

definition xfer_cfg_ok :: "xfer_cfg \<Rightarrow> bool" where
  "xfer_cfg_ok c \<longleftrightarrow>
     SliceLengths c ! VectorDim c mod ScalarPerVector c = 0
     \<and> 0 < ScalarPerVector c \<and> VectorDim c < nDim c
     \<and> is_perm (DimAccessOrder c) (nDim c)
     \<and> (\<forall>l \<in> set (SliceLengths c). 0 < l)"

text \<open>Unit steps of the coordinates, forward and backward (lines 106--132).\<close>

definition forward_step :: "xfer_cfg \<Rightarrow> nat \<Rightarrow> multi_index" where
  "forward_step c i =
     map (\<lambda>j. if i = j then int (scalar_per_access c ! i) else 0) [0..<nDim c]"

definition backward_step :: "xfer_cfg \<Rightarrow> nat \<Rightarrow> multi_index" where
  "backward_step c i =
     map (\<lambda>j. if i = j then - int (scalar_per_access c ! i) else 0) [0..<nDim c]"

text \<open>Direction of the sweep on each ordered dimension at an access (lines 147--163):
  dimension \<open>i\<close> is swept forward iff the mixed-radix number formed by the ordered
  index digits before \<open>i\<close> is even.\<close>

definition forward_sweep :: "nat list \<Rightarrow> nat list \<Rightarrow> bool list" where
  "forward_sweep olens oidx =
     map (\<lambda>i. if i = 0 then True
              else even (foldl (\<lambda>tmp j. tmp * olens ! j + oidx ! j) (oidx ! 0) [1..<i]))
         [0..<length olens]"

text \<open>The dimension on which the coordinate moves after an access (lines 215--229):
  the one whose digit is not at its maximum while all later digits are.\<close>

definition move_on_dim :: "nat list \<Rightarrow> nat list \<Rightarrow> bool list" where
  "move_on_dim olens oidx =
     map (\<lambda>i. int (oidx ! i) < int (olens ! i) - 1
              \<and> list_all (\<lambda>j. int (oidx ! j) = int (olens ! j) - 1) [Suc i..<length olens])
         [0..<length olens]"

text \<open>Moving one coordinate after an access (lines 231--258): a \<^verbatim>\<open>static_for\<close> over
  the ordered dimensions, with the step of the original dimension \<open>order[i]\<close>.\<close>

definition move_coord :: "xfer_cfg \<Rightarrow> nat list \<Rightarrow> multi_index \<Rightarrow> multi_index" where
  "move_coord c oidx co =
     (let olens = ordered_access_lengths c;
          mv = move_on_dim olens oidx; fw = forward_sweep olens oidx;
          order = DimAccessOrder c
      in foldl (\<lambda>co i. if mv ! i
                        then (if fw ! i then mi_add co (forward_step c (order ! i))
                              else mi_add co (backward_step c (order ! i)))
                        else co)
               co [0..<nDim c])"

section \<open>Buffers (the \<^verbatim>\<open>DynamicBuffer\<close> accessors the transfer calls)\<close>

text \<open>\<^verbatim>\<open>Get<vector_t>(offset, valid)\<close> reads \<open>S\<close> consecutive elements, or zeros when the
  offset is not valid; \<^verbatim>\<open>Set\<close> writes them only when valid; \<^verbatim>\<open>AtomicAdd\<close> adds them.\<close>

definition buf_get :: "(int \<Rightarrow> 'a::zero) \<Rightarrow> int \<Rightarrow> bool \<Rightarrow> nat \<Rightarrow> 'a list" where
  "buf_get mem off valid S = map (\<lambda>k. if valid then mem (off + int k) else 0) [0..<S]"

definition buf_set :: "(int \<Rightarrow> 'a) \<Rightarrow> int \<Rightarrow> bool \<Rightarrow> 'a list \<Rightarrow> (int \<Rightarrow> 'a)" where
  "buf_set mem off valid v =
     (if valid then (\<lambda>a. if off \<le> a \<and> a < off + int (length v) then v ! nat (a - off) else mem a)
      else mem)"

definition buf_atomic_add :: "(int \<Rightarrow> 'a::plus) \<Rightarrow> int \<Rightarrow> bool \<Rightarrow> 'a list \<Rightarrow> (int \<Rightarrow> 'a)" where
  "buf_atomic_add mem off valid v =
     (if valid then (\<lambda>a. if off \<le> a \<and> a < off + int (length v) then mem a + v ! nat (a - off) else mem a)
      else mem)"

section \<open>The transfer object\<close>

text \<open>Constructor (lines 53--67) and \<^verbatim>\<open>SetSrc0SliceOrigin\<close>, \<^verbatim>\<open>SetSrc1SliceOrigin\<close>,
  \<^verbatim>\<open>SetDstSliceOrigin\<close> (lines 69--84): each coordinate is made from its origin.  The
  constructor's \<^verbatim>\<open>static_assert\<close> is a compile-time error: \<open>None\<close>.\<close>

definition v6r2_make ::
  "xfer_cfg \<Rightarrow> multi_index \<Rightarrow> multi_index \<Rightarrow> multi_index \<Rightarrow> (int \<Rightarrow> 'c) \<Rightarrow> 'c xfer_state option" where
  "v6r2_make c o0 o1 od mem =
     (if SliceLengths c ! VectorDim c mod ScalarPerVector c = 0
      then Some \<lparr>src0_coord = o0, src1_coord = o1, dst_coord = od, dst_buf = mem\<rparr>
      else None)"

definition v6r2_SetSrc0SliceOrigin :: "'c xfer_state \<Rightarrow> multi_index \<Rightarrow> 'c xfer_state" where
  "v6r2_SetSrc0SliceOrigin st o0 = st\<lparr>src0_coord := o0\<rparr>"

definition v6r2_SetSrc1SliceOrigin :: "'c xfer_state \<Rightarrow> multi_index \<Rightarrow> 'c xfer_state" where
  "v6r2_SetSrc1SliceOrigin st o1 = st\<lparr>src1_coord := o1\<rparr>"

definition v6r2_SetDstSliceOrigin :: "'c xfer_state \<Rightarrow> multi_index \<Rightarrow> 'c xfer_state" where
  "v6r2_SetDstSliceOrigin st od = st\<lparr>dst_coord := od\<rparr>"

text \<open>One iteration of the \<^verbatim>\<open>static_ford\<close> body of \<^verbatim>\<open>Run\<close> (lines 145--258): read both
  sources at their coordinates, apply the element-wise operation, store or atomically add
  the vector at the destination coordinate, then move the three coordinates.\<close>

definition v6r2_access ::
  "xfer_cfg \<Rightarrow> desc_view \<Rightarrow> (int \<Rightarrow> 'a::zero) \<Rightarrow> desc_view \<Rightarrow> (int \<Rightarrow> 'b::zero) \<Rightarrow> desc_view
   \<Rightarrow> ('a \<Rightarrow> 'b \<Rightarrow> 'c::plus) \<Rightarrow> 'c xfer_state \<Rightarrow> nat list \<Rightarrow> 'c xfer_state" where
  "v6r2_access c d0 m0 d1 m1 dd op st oidx =
     (let S = ScalarPerVector c;
          v0 = buf_get m0 (dv_offset d0 (src0_coord st)) (dv_valid d0 (src0_coord st)) S;
          v1 = buf_get m1 (dv_offset d1 (src1_coord st)) (dv_valid d1 (src1_coord st)) S;
          vd = map2 op v0 v1;
          off = dv_offset dd (dst_coord st); ok = dv_valid dd (dst_coord st);
          mem' = (case DstInMemOp c of
                    InMemSet \<Rightarrow> buf_set (dst_buf st) off ok vd
                  | InMemAtomicAdd \<Rightarrow> buf_atomic_add (dst_buf st) off ok vd)
      in st\<lparr>src0_coord := move_coord c oidx (src0_coord st),
            src1_coord := move_coord c oidx (src1_coord st),
            dst_coord := move_coord c oidx (dst_coord st),
            dst_buf := mem'\<rparr>)"

text \<open>\<^verbatim>\<open>GetCoordinateResetStep\<close> (lines 287--342): the direction of every ordered
  dimension during the last access, the data index reached there, and its negation.\<close>

definition v6r2_GetCoordinateResetStep :: "xfer_cfg \<Rightarrow> multi_index" where
  "v6r2_GetCoordinateResetStep c =
     (let olens = ordered_access_lengths c;
          fw = map (\<lambda>i. if i = 0 then True
                        else even (foldl (\<lambda>tmp j. tmp * int (olens ! j) + int (olens ! j) - 1)
                                         (int (olens ! 0) - 1) [1..<i]))
                   [0..<length olens];
          ordered_idx = map (\<lambda>i. if fw ! i then int (olens ! i) - 1 else 0) [0..<length olens];
          data_idx = mi_mul (reorder_old2new ordered_idx (DimAccessOrder c))
                            (map int (scalar_per_access c))
      in map uminus data_idx)"

text \<open>\<^verbatim>\<open>Run\<close> (lines 86--285): all accesses, then the optional resets.\<close>

definition v6r2_Run ::
  "xfer_cfg \<Rightarrow> desc_view \<Rightarrow> (int \<Rightarrow> 'a::zero) \<Rightarrow> desc_view \<Rightarrow> (int \<Rightarrow> 'b::zero) \<Rightarrow> desc_view
   \<Rightarrow> ('a \<Rightarrow> 'b \<Rightarrow> 'c::plus) \<Rightarrow> 'c xfer_state \<Rightarrow> 'c xfer_state" where
  "v6r2_Run c d0 m0 d1 m1 dd op st =
     (let st' = foldl (v6r2_access c d0 m0 d1 m1 dd op) st (ford (ordered_access_lengths c));
          r = v6r2_GetCoordinateResetStep c;
          st0 = (if Src0ResetCoordinateAfterRun c then st'\<lparr>src0_coord := mi_add (src0_coord st') r\<rparr> else st');
          st1 = (if Src1ResetCoordinateAfterRun c then st0\<lparr>src1_coord := mi_add (src1_coord st0) r\<rparr> else st0)
      in if DstResetCoordinateAfterRun c then st1\<lparr>dst_coord := mi_add (dst_coord st1) r\<rparr> else st1)"

text \<open>\<^verbatim>\<open>MoveSrc0SliceWindow\<close>, \<^verbatim>\<open>MoveSrc1SliceWindow\<close>, \<^verbatim>\<open>MoveDstSliceWindow\<close>
  (lines 344--387): a coordinate that \<^verbatim>\<open>Run\<close> did not reset is moved by the step plus the
  reset step.\<close>

definition adjusted_step :: "xfer_cfg \<Rightarrow> bool \<Rightarrow> multi_index \<Rightarrow> multi_index" where
  "adjusted_step c reset step =
     (if reset then step else mi_add step (v6r2_GetCoordinateResetStep c))"

definition v6r2_MoveSrc0SliceWindow :: "xfer_cfg \<Rightarrow> 'c xfer_state \<Rightarrow> multi_index \<Rightarrow> 'c xfer_state" where
  "v6r2_MoveSrc0SliceWindow c st step =
     st\<lparr>src0_coord := mi_add (src0_coord st) (adjusted_step c (Src0ResetCoordinateAfterRun c) step)\<rparr>"

definition v6r2_MoveSrc1SliceWindow :: "xfer_cfg \<Rightarrow> 'c xfer_state \<Rightarrow> multi_index \<Rightarrow> 'c xfer_state" where
  "v6r2_MoveSrc1SliceWindow c st step =
     st\<lparr>src1_coord := mi_add (src1_coord st) (adjusted_step c (Src1ResetCoordinateAfterRun c) step)\<rparr>"

definition v6r2_MoveDstSliceWindow :: "xfer_cfg \<Rightarrow> 'c xfer_state \<Rightarrow> multi_index \<Rightarrow> 'c xfer_state" where
  "v6r2_MoveDstSliceWindow c st step =
     st\<lparr>dst_coord := mi_add (dst_coord st) (adjusted_step c (DstResetCoordinateAfterRun c) step)\<rparr>"

section \<open>The abstract serpentine walk\<close>

text \<open>\<open>posw c lens xs\<close> is the position reached at the ordered index \<open>xs\<close> of a
  serpentine walk over the box \<open>lens\<close>, \<open>c\<close> being the mixed-radix value of the digits
  before: a digit runs forward when that value is even, backward otherwise.  \<open>mvw\<close> is
  the move from that index to the next one.\<close>

fun posw :: "nat \<Rightarrow> nat list \<Rightarrow> nat list \<Rightarrow> nat list" where
  "posw c (l # ls) (i # xs) = (if even c then i else l - 1 - i) # posw (c * l + i) ls xs"
| "posw c _ _ = []"

fun mvw :: "nat \<Rightarrow> nat list \<Rightarrow> nat list \<Rightarrow> int list" where
  "mvw c (l # ls) (i # xs) =
     (if Suc i < l \<and> xs = maxes ls then (if even c then 1 else -1) else 0) # mvw (c * l + i) ls xs"
| "mvw c _ _ = []"

text \<open>The data index of an ordered position: reordered back to the original dimensions and
  scaled by the vector width (the \<open>data_idx\<close> of lines 175--186 and 321--330).\<close>

definition slice_data_idx :: "xfer_cfg \<Rightarrow> int list \<Rightarrow> multi_index" where
  "slice_data_idx c v = mi_mul (reorder_old2new v (DimAccessOrder c)) (map int (scalar_per_access c))"

abbreviation walk_pos :: "xfer_cfg \<Rightarrow> nat list \<Rightarrow> multi_index" where
  "walk_pos c oidx \<equiv> slice_data_idx c (map int (posw 0 (ordered_access_lengths c) oidx))"

section \<open>Lemmas of the walk\<close>

lemma length_posw [simp]: "length (posw c lens xs) = min (length lens) (length xs)"
  by (induction c lens xs rule: posw.induct) auto

lemma length_mvw [simp]: "length (mvw c lens xs) = min (length lens) (length xs)"
  by (induction c lens xs rule: mvw.induct) auto

lemma mvw_maxes: "mvw c lens (maxes lens) = replicate (length lens) 0"
  by (induction lens arbitrary: c) auto

lemma posw_zeros_maxes:
  "\<forall>l \<in> set lens. 0 < l \<Longrightarrow> posw (Suc c) lens (zeros lens) = posw c lens (maxes lens)"
proof (induction lens arbitrary: c)
  case Nil
  then show ?case by simp
next
  case (Cons l ls)
  then have l: "0 < l" by simp
  have IH: "posw (Suc (c * l + (l - 1))) ls (zeros ls) = posw (c * l + (l - 1)) ls (maxes ls)"
    using Cons.prems by (intro Cons.IH) simp
  have e: "Suc c * l + 0 = Suc (c * l + (l - 1))" using l by simp
  have "posw (Suc c) (l # ls) (zeros (l # ls))
        = (if even (Suc c) then 0 else l - 1 - 0) # posw (Suc c * l + 0) ls (zeros ls)"
    by simp
  also have "\<dots> = (if even c then l - 1 else l - 1 - (l - 1)) # posw (c * l + (l - 1)) ls (maxes ls)"
    unfolding e IH by simp
  also have "\<dots> = posw c (l # ls) (maxes (l # ls))"
    by simp
  finally show ?case .
qed

text \<open>The key step: the coordinate move computed at an index leads to the position of
  the next index of the enumeration.\<close>

lemma posw_next:
  assumes "in_box lens xs" "next_idx lens xs = Some ys"
  shows "map int (posw c lens ys) = mi_add (map int (posw c lens xs)) (mvw c lens xs)"
  using assms
proof (induction lens xs arbitrary: c ys rule: next_idx.induct)
  case (1 l ls i xs)
  show ?case
  proof (cases "next_idx ls xs")
    case (Some zs)
    then have ys: "ys = i # zs" using "1.prems" by simp
    have "xs \<noteq> maxes ls" using Some "1.prems"(1) next_idx_None_iff[of ls xs] by auto
    have "map int (posw (c * l + i) ls zs) = mi_add (map int (posw (c * l + i) ls xs)) (mvw (c * l + i) ls xs)"
      using "1.IH"[where c = "c * l + i" and ys = zs] "1.prems"(1) Some by simp
    then show ?thesis using ys Some \<open>xs \<noteq> maxes ls\<close> by (simp add: mi_add_def)
  next
    case None
    then have xs: "xs = maxes ls" and i: "Suc i < l" and ys: "ys = Suc i # zeros ls"
      using "1.prems" next_idx_None_iff[of ls xs] by (auto split: if_splits)
    have pos: "\<forall>l \<in> set ls. 0 < l" using "1.prems"(1) in_box_pos by auto
    have "posw (c * l + Suc i) ls (zeros ls) = posw (c * l + i) ls (maxes ls)"
      using posw_zeros_maxes[OF pos, of "c * l + i"] by simp
    then show ?thesis using xs i ys mvw_maxes[of "c * l + i" ls]
      by (simp add: mi_add_def map2_map_map zip_replicate2 comp_def of_nat_diff)
  qed
qed auto

lemma forward_sweep_fold:
  assumes "1 \<le> i" "i \<le> length olens" "length oidx = length olens"
  shows "foldl (\<lambda>tmp j. tmp * olens ! j + oidx ! j) (oidx ! 0) [1..<i]
         = radix_from 0 (take i olens) (take i oidx)"
  using assms
proof (induction i rule: nat_induct_at_least)
  case base
  then show ?case by (cases olens; cases oidx) auto
next
  case (Suc i)
  have "take (Suc i) olens = take i olens @ [olens ! i]" "take (Suc i) oidx = take i oidx @ [oidx ! i]"
    using Suc.prems by (simp_all add: take_Suc_conv_app_nth)
  then show ?case using Suc by (simp add: radix_from_snoc)
qed

lemma nth_forward_sweep:
  assumes "i < length olens" "length oidx = length olens"
  shows "forward_sweep olens oidx ! i = even (radix_from 0 (take i olens) (take i oidx))"
  using assms forward_sweep_fold[of i olens oidx] by (simp add: forward_sweep_def)

lemma nth_posw:
  assumes "i < length lens" "length xs = length lens"
  shows "posw c lens xs ! i =
           (if even (radix_from c (take i lens) (take i xs)) then xs ! i else lens ! i - 1 - xs ! i)"
  using assms
proof (induction c lens xs arbitrary: i rule: posw.induct)
  case (1 c l ls x xs)
  then show ?case by (cases i) auto
qed auto

lemma nth_mvw:
  assumes "i < length lens" "length xs = length lens"
  shows "mvw c lens xs ! i =
           (if Suc (xs ! i) < lens ! i \<and> drop (Suc i) xs = maxes (drop (Suc i) lens)
            then (if even (radix_from c (take i lens) (take i xs)) then 1 else -1) else 0)"
  using assms
proof (induction c lens xs arbitrary: i rule: mvw.induct)
  case (1 c l ls x xs)
  then show ?case by (cases i) auto
qed auto

lemma nth_move_on_dim:
  assumes "in_box olens oidx" "i < length olens"
  shows "move_on_dim olens oidx ! i \<longleftrightarrow>
           Suc (oidx ! i) < olens ! i \<and> drop (Suc i) oidx = maxes (drop (Suc i) olens)"
proof -
  have len: "length oidx = length olens" using assms(1) by (rule in_box_length)
  have pos: "\<forall>j < length olens. 0 < olens ! j" using assms(1) in_box_pos by (auto simp: in_box_nth)
  have "list_all (\<lambda>j. int (oidx ! j) = int (olens ! j) - 1) [Suc i..<length olens]
        \<longleftrightarrow> (\<forall>j. Suc i \<le> j \<and> j < length olens \<longrightarrow> oidx ! j = olens ! j - 1)"
    using pos by (auto simp: list_all_iff int_eq_pred_iff)
  then show ?thesis
    using assms len drop_eq_maxes_iff[OF len, of "Suc i"] by (simp add: move_on_dim_def int_lt_pred_iff)
qed

lemma nth_mvw_code:
  assumes "in_box olens oidx" "i < length olens"
  shows "mvw 0 olens oidx ! i =
           (if move_on_dim olens oidx ! i then (if forward_sweep olens oidx ! i then 1 else -1) else 0)"
  using assms nth_move_on_dim[OF assms] nth_mvw[of i olens oidx 0] nth_forward_sweep[of i olens oidx]
    in_box_length[OF assms(1)] by simp

lemma pos_of_nth:
  "j \<in> set xs \<Longrightarrow> pos_of xs j < length xs \<and> xs ! pos_of xs j = j"
  by (induction xs) auto

lemma pos_of_distinct: "distinct xs \<Longrightarrow> i < length xs \<Longrightarrow> pos_of xs (xs ! i) = i"
proof (induction xs arbitrary: i)
  case (Cons x xs)
  then show ?case by (cases i) (auto simp: nth_mem)
qed simp

lemma is_perm_length: "is_perm order n \<Longrightarrow> length order = n"
  unfolding is_perm_def using distinct_card by fastforce

lemma is_perm_pos_of:
  assumes "is_perm order n" "j < n"
  shows "pos_of order j < n \<and> order ! pos_of order j = j"
  using assms pos_of_nth[of j order] is_perm_length[OF assms(1)] by (auto simp: is_perm_def)

lemma is_perm_nth_eq:
  assumes "is_perm order n" "i < n" "j < n"
  shows "order ! i = j \<longleftrightarrow> i = pos_of order j"
  using assms pos_of_distinct[of order i] is_perm_length[OF assms(1)] is_perm_pos_of[OF assms(1)]
  by (auto simp: is_perm_def)

lemma foldl_unit_moves:
  assumes "length co = n"
  shows "length (foldl (\<lambda>co i. if P i then (if F i then mi_add co (unitv n (order ! i) (a i))
                                              else mi_add co (unitv n (order ! i) (- a i))) else co) co [0..<k]) = n
   \<and> (\<forall>j < n. foldl (\<lambda>co i. if P i then (if F i then mi_add co (unitv n (order ! i) (a i))
                                              else mi_add co (unitv n (order ! i) (- a i))) else co) co [0..<k] ! j
        = co ! j + (\<Sum>i\<leftarrow>[0..<k]. if P i \<and> order ! i = j then (if F i then a i else - a i) else 0))"
proof (induction k)
  case 0
  then show ?case using assms by simp
next
  case (Suc k)
  then show ?case by (auto simp: unitv_def)
qed

lemma length_scalar_per_access [simp]: "length (scalar_per_access c) = nDim c"
  by (simp add: scalar_per_access_def)

lemma length_access_lengths [simp]: "length (access_lengths c) = nDim c"
  by (simp add: access_lengths_def)

lemma length_ordered_access_lengths [simp]:
  "length (ordered_access_lengths c) = length (DimAccessOrder c)"
  by (simp add: ordered_access_lengths_def reorder_new2old_def)

lemma xfer_cfg_ok_order_length: "xfer_cfg_ok c \<Longrightarrow> length (DimAccessOrder c) = nDim c"
  by (simp add: xfer_cfg_ok_def is_perm_length)

lemma length_slice_data_idx [simp]: "length (slice_data_idx c v) = min (length v) (nDim c)"
  by (simp add: slice_data_idx_def reorder_old2new_def)

lemma nth_slice_data_idx:
  "j < length v \<Longrightarrow> j < nDim c \<Longrightarrow>
     slice_data_idx c v ! j = v ! pos_of (DimAccessOrder c) j * int (scalar_per_access c ! j)"
  by (simp add: slice_data_idx_def reorder_old2new_def)

lemma forward_step_unitv: "forward_step c i = unitv (nDim c) i (int (scalar_per_access c ! i))"
  by (simp add: forward_step_def unitv_def)

lemma backward_step_unitv: "backward_step c i = unitv (nDim c) i (- int (scalar_per_access c ! i))"
  by (simp add: backward_step_def unitv_def)

lemma move_coord_eq:
  assumes ok: "xfer_cfg_ok c" and box: "in_box (ordered_access_lengths c) oidx"
    and len: "length co = nDim c"
  shows "move_coord c oidx co = mi_add co (slice_data_idx c (mvw 0 (ordered_access_lengths c) oidx))"
proof -
  let ?n = "nDim c" and ?order = "DimAccessOrder c" and ?olens = "ordered_access_lengths c"
  let ?mv = "move_on_dim ?olens oidx" and ?fw = "forward_sweep ?olens oidx"
  let ?spa = "scalar_per_access c"
  let ?a = "\<lambda>i. int (?spa ! (?order ! i))"
  have perm: "is_perm ?order ?n" using ok by (simp add: xfer_cfg_ok_def)
  have olen: "length ?olens = ?n" using ok by (simp add: xfer_cfg_ok_order_length)
  have mlen: "length (mvw 0 ?olens oidx) = ?n" using box olen in_box_length[OF box] by simp
  have unf: "move_coord c oidx co =
      foldl (\<lambda>co i. if ?mv ! i then (if ?fw ! i then mi_add co (unitv ?n (?order ! i) (?a i))
                                     else mi_add co (unitv ?n (?order ! i) (- ?a i))) else co) co [0..<?n]"
    by (simp add: move_coord_def Let_def forward_step_unitv backward_step_unitv cong: if_cong)
  note fu = foldl_unit_moves[OF len, of "\<lambda>i. ?mv ! i" "\<lambda>i. ?fw ! i" ?order ?a ?n]
  show ?thesis
  proof (rule nth_equalityI)
    show "length (move_coord c oidx co) = length (mi_add co (slice_data_idx c (mvw 0 ?olens oidx)))"
      using fu unf len mlen by simp
  next
    fix j assume "j < length (move_coord c oidx co)"
    then have j: "j < ?n" using fu unf by simp
    let ?p = "pos_of ?order j"
    have p: "?p < ?n" "?order ! ?p = j" using is_perm_pos_of[OF perm j] by auto
    have "(\<Sum>i\<leftarrow>[0..<?n]. if ?mv ! i \<and> ?order ! i = j then (if ?fw ! i then ?a i else - ?a i) else 0)
          = (\<Sum>i\<leftarrow>[0..<?n]. if i = ?p then (if ?mv ! i then (if ?fw ! i then ?a i else - ?a i) else 0) else 0)"
      by (rule arg_cong[where f = sum_list], rule map_cong) (auto simp: is_perm_nth_eq[OF perm _ j])
    also have "\<dots> = (if ?mv ! ?p then (if ?fw ! ?p then ?a ?p else - ?a ?p) else 0)"
      by (rule sum_list_delta_upt[OF p(1)])
    finally have s: "(\<Sum>i\<leftarrow>[0..<?n]. if ?mv ! i \<and> ?order ! i = j then (if ?fw ! i then ?a i else - ?a i) else 0)
                     = (if ?mv ! ?p then (if ?fw ! ?p then ?a ?p else - ?a ?p) else 0)" .
    have m: "mvw 0 ?olens oidx ! ?p = (if ?mv ! ?p then (if ?fw ! ?p then 1 else -1) else 0)"
      using nth_mvw_code[OF box] p olen by simp
    show "move_coord c oidx co ! j = mi_add co (slice_data_idx c (mvw 0 ?olens oidx)) ! j"
      using fu unf j s m p len mlen by (simp add: nth_slice_data_idx)
  qed
qed

lemma slice_data_idx_add:
  assumes "xfer_cfg_ok c" "length u = nDim c" "length v = nDim c"
  shows "slice_data_idx c (mi_add u v) = mi_add (slice_data_idx c u) (slice_data_idx c v)"
proof (rule nth_equalityI)
  fix j assume "j < length (slice_data_idx c (mi_add u v))"
  then have j: "j < nDim c" using assms by simp
  have "pos_of (DimAccessOrder c) j < nDim c"
    using is_perm_pos_of[of "DimAccessOrder c" "nDim c" j] assms(1) j by (simp add: xfer_cfg_ok_def)
  then show "slice_data_idx c (mi_add u v) ! j = mi_add (slice_data_idx c u) (slice_data_idx c v) ! j"
    using assms j by (simp add: nth_slice_data_idx algebra_simps)
qed (use assms in simp)

lemma slice_data_idx_zero:
  assumes "xfer_cfg_ok c"
  shows "slice_data_idx c (replicate (nDim c) 0) = replicate (nDim c) 0"
proof (rule nth_equalityI)
  fix j assume "j < length (slice_data_idx c (replicate (nDim c) 0))"
  then have j: "j < nDim c" by simp
  have "pos_of (DimAccessOrder c) j < nDim c"
    using is_perm_pos_of[of "DimAccessOrder c" "nDim c" j] assms j by (simp add: xfer_cfg_ok_def)
  then show "slice_data_idx c (replicate (nDim c) 0) ! j = replicate (nDim c) 0 ! j"
    using j by (simp add: nth_slice_data_idx)
qed simp

lemma posw_zero_zeros: "posw 0 lens (zeros lens) = zeros lens"
  by (induction lens) auto

lemma walk_states:
  assumes ok: "xfer_cfg_ok c"
    and succ: "successively (\<lambda>x y. next_idx (ordered_access_lengths c) x = Some y) xs"
    and box: "\<forall>x \<in> set xs. in_box (ordered_access_lengths c) x" and ne: "xs \<noteq> []"
    and base: "length base = nDim c" and co: "co = mi_add base (walk_pos c (hd xs))"
  shows "fold_states (\<lambda>co x. move_coord c x co) co xs = map (\<lambda>x. mi_add base (walk_pos c x)) xs
         \<and> foldl (\<lambda>co x. move_coord c x co) co xs = move_coord c (last xs) (mi_add base (walk_pos c (last xs)))"
  using succ box ne co
proof (induction xs arbitrary: co)
  case Nil
  then show ?case by simp
next
  case (Cons x xs)
  show ?case
  proof (cases xs)
    case Nil
    then show ?thesis using Cons.prems by simp
  next
    case (Cons y zs)
    let ?olens = "ordered_access_lengths c"
    have olen: "length ?olens = nDim c" using ok by (simp add: xfer_cfg_ok_order_length)
    have bx: "in_box ?olens x" and nxt: "next_idx ?olens x = Some y"
      using Cons.prems \<open>xs = y # zs\<close> by auto
    have lx: "length x = nDim c" using in_box_length[OF bx] olen by simp
    have co: "co = mi_add base (walk_pos c x)" using Cons.prems by simp
    have lco: "length co = nDim c" using co base lx olen by simp
    have "move_coord c x co = mi_add co (slice_data_idx c (mvw 0 ?olens x))"
      using move_coord_eq[OF ok bx lco] .
    also have "\<dots> = mi_add base (slice_data_idx c (mi_add (map int (posw 0 ?olens x)) (mvw 0 ?olens x)))"
      using co ok lx olen base by (simp add: slice_data_idx_add mi_add_assoc)
    also have "\<dots> = mi_add base (walk_pos c y)"
      using posw_next[OF bx nxt, of 0] by simp
    finally have step: "move_coord c x co = mi_add base (walk_pos c y)" .
    have IH: "fold_states (\<lambda>co x. move_coord c x co) (mi_add base (walk_pos c y)) xs
          = map (\<lambda>x. mi_add base (walk_pos c x)) xs
          \<and> foldl (\<lambda>co x. move_coord c x co) (mi_add base (walk_pos c y)) xs
          = move_coord c (last xs) (mi_add base (walk_pos c (last xs)))"
      using Cons.IH[of "mi_add base (walk_pos c y)"] Cons.prems \<open>xs = y # zs\<close> by simp
    show ?thesis using IH step co \<open>xs = y # zs\<close> by simp
  qed
qed

lemma ordered_access_lengths_pos:
  assumes "xfer_cfg_ok c"
  shows "\<forall>l \<in> set (ordered_access_lengths c). 0 < l"
proof
  fix l assume "l \<in> set (ordered_access_lengths c)"
  then obtain i where i: "i \<in> set (DimAccessOrder c)" and l: "l = access_lengths c ! i"
    by (auto simp: ordered_access_lengths_def reorder_new2old_def)
  have i_lt: "i < nDim c" using assms i by (auto simp: xfer_cfg_ok_def is_perm_def)
  have L: "0 < SliceLengths c ! i" using assms i_lt by (auto simp: xfer_cfg_ok_def)
  show "0 < l"
  proof (cases "i = VectorDim c")
    case True
    then have "ScalarPerVector c dvd SliceLengths c ! i" "0 < ScalarPerVector c"
      using assms by (auto simp: xfer_cfg_ok_def)
    then have "0 < SliceLengths c ! i div ScalarPerVector c"
      using L by (auto elim!: dvdE)
    then show ?thesis using True i_lt l by (simp add: access_lengths_def scalar_per_access_def)
  next
    case False
    then show ?thesis using L i_lt l by (simp add: access_lengths_def scalar_per_access_def)
  qed
qed

lemma walk_pos_zeros:
  assumes "xfer_cfg_ok c"
  shows "walk_pos c (zeros (ordered_access_lengths c)) = replicate (nDim c) 0"
proof -
  have "map int (posw 0 (ordered_access_lengths c) (zeros (ordered_access_lengths c))) = replicate (nDim c) 0"
    using assms by (simp only: posw_zero_zeros) (simp add: xfer_cfg_ok_order_length)
  then show ?thesis using slice_data_idx_zero[OF assms] by simp
qed

lemma move_coord_maxes:
  assumes "xfer_cfg_ok c" "length co = nDim c"
  shows "move_coord c (maxes (ordered_access_lengths c)) co = co"
proof -
  have b: "in_box (ordered_access_lengths c) (maxes (ordered_access_lengths c))"
    using in_box_maxes ordered_access_lengths_pos[OF assms(1)] by blast
  show ?thesis
    using move_coord_eq[OF assms(1) b assms(2)] slice_data_idx_zero[OF assms(1)] assms
    by (simp add: mvw_maxes xfer_cfg_ok_order_length mi_add_zero)
qed

lemma ford_walk:
  assumes ok: "xfer_cfg_ok c" and len: "length co = nDim c"
  shows "fold_states (\<lambda>co x. move_coord c x co) co (ford (ordered_access_lengths c))
           = map (\<lambda>x. mi_add co (walk_pos c x)) (ford (ordered_access_lengths c))
         \<and> foldl (\<lambda>co x. move_coord c x co) co (ford (ordered_access_lengths c))
           = mi_add co (walk_pos c (maxes (ordered_access_lengths c)))"
proof -
  let ?olens = "ordered_access_lengths c"
  have pos: "\<forall>l \<in> set ?olens. 0 < l" by (rule ordered_access_lengths_pos[OF ok])
  have hl: "ford ?olens \<noteq> []" "hd (ford ?olens) = zeros ?olens" "last (ford ?olens) = maxes ?olens"
    using ford_hd_last[OF pos] by auto
  have co: "co = mi_add co (walk_pos c (hd (ford ?olens)))"
    using hl walk_pos_zeros[OF ok] len mi_add_zero[of co] by simp
  have lw: "length (mi_add co (walk_pos c (maxes ?olens))) = nDim c"
    using len ok by (simp add: xfer_cfg_ok_order_length)
  show ?thesis
    using walk_states[OF ok successively_ford_next[OF pos] _ hl(1) len co] move_coord_maxes[OF ok lw] hl
    by (simp add: set_ford)
qed

lemma reset_step_fold:
  assumes "1 \<le> i" "i \<le> length olens" "\<forall>l \<in> set olens. 0 < l"
  shows "foldl (\<lambda>tmp j. tmp * int (olens ! j) + int (olens ! j) - 1) (int (olens ! 0) - 1) [1..<i]
         = int (radix_from 0 (take i olens) (take i (maxes olens)))"
  using assms
proof (induction i rule: nat_induct_at_least)
  case base
  then show ?case by (cases olens) (auto simp: of_nat_diff)
next
  case (Suc i)
  let ?R = "radix_from 0 (take i olens) (take i (maxes olens))"
  have tk: "take (Suc i) olens = take i olens @ [olens ! i]"
    "take (Suc i) (maxes olens) = take i (maxes olens) @ [olens ! i - 1]"
    using Suc.prems by (simp_all add: take_Suc_conv_app_nth)
  have p: "0 < olens ! i" using Suc.prems by (simp add: nth_mem)
  have "foldl (\<lambda>tmp j. tmp * int (olens ! j) + int (olens ! j) - 1) (int (olens ! 0) - 1) [1..<Suc i]
        = int ?R * int (olens ! i) + int (olens ! i) - 1"
    using Suc by simp
  also have "\<dots> = int (?R * olens ! i + (olens ! i - 1))"
    using p by (simp add: of_nat_diff)
  also have "\<dots> = int (radix_from 0 (take (Suc i) olens) (take (Suc i) (maxes olens)))"
    using tk Suc.prems by (simp add: radix_from_snoc)
  finally show ?case .
qed

lemma reset_step_walk:
  assumes ok: "xfer_cfg_ok c"
  shows "v6r2_GetCoordinateResetStep c = map uminus (walk_pos c (maxes (ordered_access_lengths c)))"
proof -
  let ?olens = "ordered_access_lengths c"
  let ?fw = "map (\<lambda>i. if i = 0 then True
                      else even (foldl (\<lambda>tmp j. tmp * int (?olens ! j) + int (?olens ! j) - 1)
                                       (int (?olens ! 0) - 1) [1..<i])) [0..<length ?olens]"
  have pos: "\<forall>l \<in> set ?olens. 0 < l" by (rule ordered_access_lengths_pos[OF ok])
  have "map (\<lambda>i. if ?fw ! i then int (?olens ! i) - 1 else 0) [0..<length ?olens]
        = map int (posw 0 ?olens (maxes ?olens))"
  proof (rule nth_equalityI)
    fix i assume "i < length (map (\<lambda>i. if ?fw ! i then int (?olens ! i) - 1 else 0) [0..<length ?olens])"
    then have i: "i < length ?olens" by simp
    have p: "0 < ?olens ! i" using pos i by (simp add: nth_mem)
    show "map (\<lambda>i. if ?fw ! i then int (?olens ! i) - 1 else 0) [0..<length ?olens] ! i
          = map int (posw 0 ?olens (maxes ?olens)) ! i"
      using i p reset_step_fold[of i ?olens, OF _ _ pos] nth_posw[of i ?olens "maxes ?olens" 0]
      by (cases "i = 0") (auto simp: of_nat_diff)
  qed simp
  then show ?thesis by (simp add: v6r2_GetCoordinateResetStep_def Let_def slice_data_idx_def)
qed

lemma posw_in_box: "in_box lens xs \<Longrightarrow> in_box lens (posw c lens xs)"
  by (induction c lens xs rule: posw.induct) auto

lemma posw_inj:
  "in_box lens xs \<Longrightarrow> in_box lens ys \<Longrightarrow> posw c lens xs = posw c lens ys \<Longrightarrow> xs = ys"
proof (induction c lens xs arbitrary: ys rule: posw.induct)
  case (1 c l ls x xs)
  obtain y ys' where ys: "ys = y # ys'" "y < l" "in_box ls ys'"
    using "1.prems"(2) by (auto simp: in_box_Cons_iff)
  have hx: "x < l" "in_box ls xs" using "1.prems"(1) by auto
  have "(if even c then x else l - 1 - x) = (if even c then y else l - 1 - y)"
    using "1.prems"(3) ys by simp
  then have xy: "x = y" using hx ys by (cases "even c") auto
  then have "posw (c * l + x) ls xs = posw (c * l + x) ls ys'" using "1.prems"(3) ys by simp
  then have "xs = ys'" using "1.IH" hx ys by blast
  then show ?case using xy ys by simp
qed (auto elim: in_box.elims)

lemma posw_surj: "in_box lens p \<Longrightarrow> \<exists>xs. in_box lens xs \<and> posw c lens xs = p"
proof (induction lens arbitrary: c p)
  case Nil
  then show ?case by (auto elim: in_box.elims)
next
  case (Cons l ls)
  then obtain q qs where p: "p = q # qs" "q < l" "in_box ls qs" by (auto simp: in_box_Cons_iff)
  define x where "x = (if even c then q else l - 1 - q)"
  have x: "x < l" "(if even c then x else l - 1 - x) = q" using p by (auto simp: x_def)
  obtain xs where "in_box ls xs" "posw (c * l + x) ls xs = qs" using Cons.IH p(3) by blast
  then show ?case using x p by (intro exI[of _ "x # xs"]) simp
qed

lemma posw_image: "posw c lens ` {xs. in_box lens xs} = {p. in_box lens p}"
proof
  show "posw c lens ` {xs. in_box lens xs} \<subseteq> {p. in_box lens p}"
    using posw_in_box by blast
next
  show "{p. in_box lens p} \<subseteq> posw c lens ` {xs. in_box lens xs}"
  proof
    fix p assume "p \<in> {p. in_box lens p}"
    then obtain xs where "in_box lens xs" "posw c lens xs = p" using posw_surj by blast
    then show "p \<in> posw c lens ` {xs. in_box lens xs}" by blast
  qed
qed

lemma reorder_old2new_int:
  "is_perm order (length p) \<Longrightarrow> reorder_old2new (map int p) order = map int (reorder_old2new p order)"
  by (simp add: reorder_old2new_def is_perm_pos_of)

lemma reorder_roundtrip:
  assumes "is_perm order n" "length p = n"
  shows "reorder_new2old (reorder_old2new p order) order = p"
proof (rule nth_equalityI)
  show "length (reorder_new2old (reorder_old2new p order) order) = length p"
    using assms is_perm_length by (simp add: reorder_new2old_def)
next
  fix i assume "i < length (reorder_new2old (reorder_old2new p order) order)"
  then have i: "i < n" using assms is_perm_length by (simp add: reorder_new2old_def)
  have oi: "order ! i < n" using assms(1) i is_perm_length[OF assms(1)] by (auto simp: is_perm_def)
  have "pos_of order (order ! i) = i"
    using pos_of_distinct[of order i] assms(1) i is_perm_length[OF assms(1)] by (simp add: is_perm_def)
  then show "reorder_new2old (reorder_old2new p order) order ! i = p ! i"
    using i oi assms is_perm_length[OF assms(1)] by (simp add: reorder_new2old_def reorder_old2new_def)
qed

lemma reorder_box:
  assumes perm: "is_perm order n" and al: "length al = n"
  shows "in_box (reorder_new2old al order) p \<longleftrightarrow> length p = n \<and> in_box al (reorder_old2new p order)"
proof -
  have lo: "length order = n" by (rule is_perm_length[OF perm])
  have "in_box al (reorder_old2new p order) \<longleftrightarrow> (\<forall>j < n. p ! pos_of order j < al ! j)"
    if "length p = n" using that al by (simp add: in_box_nth reorder_old2new_def)
  moreover have "(\<forall>j < n. p ! pos_of order j < al ! j) \<longleftrightarrow> (\<forall>i < n. p ! i < al ! (order ! i))"
  proof
    assume h: "\<forall>j < n. p ! pos_of order j < al ! j"
    show "\<forall>i < n. p ! i < al ! (order ! i)"
    proof (intro allI impI)
      fix i assume i: "i < n"
      have "order ! i < n" "pos_of order (order ! i) = i"
        using perm i lo pos_of_distinct[of order i] by (auto simp: is_perm_def)
      then show "p ! i < al ! (order ! i)" using h by metis
    qed
  next
    assume h: "\<forall>i < n. p ! i < al ! (order ! i)"
    show "\<forall>j < n. p ! pos_of order j < al ! j"
      using h is_perm_pos_of[OF perm] by metis
  qed
  ultimately show ?thesis
    using lo by (auto simp: in_box_nth reorder_new2old_def)
qed

lemma reorder_roundtrip2:
  assumes "is_perm order n" "length q = n"
  shows "reorder_old2new (reorder_new2old q order) order = q"
proof (rule nth_equalityI)
  have lo: "length order = n" by (rule is_perm_length[OF assms(1)])
  show "length (reorder_old2new (reorder_new2old q order) order) = length q"
    using assms lo by (simp add: reorder_new2old_def reorder_old2new_def)
  fix j assume "j < length (reorder_old2new (reorder_new2old q order) order)"
  then have j: "j < n" using lo by (simp add: reorder_new2old_def reorder_old2new_def)
  show "reorder_old2new (reorder_new2old q order) order ! j = q ! j"
    using j lo is_perm_pos_of[OF assms(1) j] by (simp add: reorder_new2old_def reorder_old2new_def)
qed

lemma scalar_per_access_pos: "xfer_cfg_ok c \<Longrightarrow> \<forall>x \<in> set (scalar_per_access c). 0 < x"
  by (auto simp: scalar_per_access_def xfer_cfg_ok_def)

lemma walk_pos_grid:
  assumes ok: "xfer_cfg_ok c" and b: "in_box (ordered_access_lengths c) x"
  shows "walk_pos c x = mi_mul (map int (reorder_old2new (posw 0 (ordered_access_lengths c) x) (DimAccessOrder c)))
                               (map int (scalar_per_access c))"
proof -
  have "length (posw 0 (ordered_access_lengths c) x) = nDim c"
    using in_box_length[OF b] ok by (simp add: xfer_cfg_ok_order_length)
  then show ?thesis
    using ok reorder_old2new_int[of "DimAccessOrder c" "posw 0 (ordered_access_lengths c) x"]
    by (simp add: slice_data_idx_def xfer_cfg_ok_def)
qed

lemma walk_exactly_once:
  assumes ok: "xfer_cfg_ok c"
  shows "distinct (map (walk_pos c) (ford (ordered_access_lengths c)))
         \<and> set (map (walk_pos c) (ford (ordered_access_lengths c)))
           = (\<lambda>q. mi_mul (map int q) (map int (scalar_per_access c))) ` {q. in_box (access_lengths c) q}"
proof -
  let ?order = "DimAccessOrder c" and ?olens = "ordered_access_lengths c" and ?al = "access_lengths c"
  let ?n = "nDim c"
  let ?f1 = "posw 0 ?olens" and ?f2 = "\<lambda>p. reorder_old2new p ?order"
  let ?f3 = "\<lambda>q. mi_mul (map int q) (map int (scalar_per_access c))"
  have perm: "is_perm ?order ?n" using ok by (simp add: xfer_cfg_ok_def)
  have olens: "?olens = reorder_new2old ?al ?order" by (simp add: ordered_access_lengths_def)
  have box2: "in_box ?olens p \<longleftrightarrow> length p = ?n \<and> in_box ?al (?f2 p)" for p
    using reorder_box[OF perm, of ?al p] olens by simp
  have eq: "walk_pos c x = (?f3 \<circ> ?f2 \<circ> ?f1) x" if "x \<in> set (ford ?olens)" for x
    using walk_pos_grid[OF ok] that by (simp add: set_ford)
  have img2: "?f2 ` {p. in_box ?olens p} = {q. in_box ?al q}"
  proof
    show "?f2 ` {p. in_box ?olens p} \<subseteq> {q. in_box ?al q}" using box2 by blast
  next
    show "{q. in_box ?al q} \<subseteq> ?f2 ` {p. in_box ?olens p}"
    proof
      fix q assume q: "q \<in> {q. in_box ?al q}"
      then have lq: "length q = ?n" using in_box_length by fastforce
      have "length (reorder_new2old q ?order) = ?n"
        using is_perm_length[OF perm] by (simp add: reorder_new2old_def)
      then have "in_box ?olens (reorder_new2old q ?order)"
        using box2 q reorder_roundtrip2[OF perm lq] by simp
      moreover have "?f2 (reorder_new2old q ?order) = q" by (rule reorder_roundtrip2[OF perm lq])
      ultimately show "q \<in> ?f2 ` {p. in_box ?olens p}" by (intro image_eqI[where x = "reorder_new2old q ?order"]) simp_all
    qed
  qed
  have inj1: "inj_on ?f1 {p. in_box ?olens p}" using posw_inj by (auto intro: inj_onI)
  have inj2: "inj_on ?f2 {p. in_box ?olens p}"
  proof (rule inj_onI)
    fix p p' assume p: "p \<in> {p. in_box ?olens p}" and p': "p' \<in> {p. in_box ?olens p}" and e: "?f2 p = ?f2 p'"
    have l: "length p = nDim c" "length p' = nDim c" using p p' box2 by auto
    have "p = reorder_new2old (?f2 p) ?order" using reorder_roundtrip[OF perm l(1)] by simp
    also have "\<dots> = reorder_new2old (?f2 p') ?order" using e by simp
    also have "\<dots> = p'" using reorder_roundtrip[OF perm l(2)] by simp
    finally show "p = p'" .
  qed
  have inj3: "inj_on ?f3 {q. in_box ?al q}"
  proof (rule inj_onI)
    fix q q' assume q: "q \<in> {q. in_box ?al q}" and q': "q' \<in> {q. in_box ?al q}" and e: "?f3 q = ?f3 q'"
    have "length q = length (scalar_per_access c)" "length q' = length (scalar_per_access c)"
      using q q' in_box_length by auto
    then show "q = q'" using mi_mul_pos_inj[OF _ _ scalar_per_access_pos[OF ok] e] by simp
  qed
  have im1: "?f1 ` {p. in_box ?olens p} = {p. in_box ?olens p}" by (rule posw_image)
  have mapeq: "map (walk_pos c) (ford ?olens) = map (?f3 \<circ> ?f2 \<circ> ?f1) (ford ?olens)"
    by (rule map_cong[OF refl], rule eq)
  have "set (map (?f3 \<circ> ?f2 \<circ> ?f1) (ford ?olens)) = (?f3 \<circ> ?f2 \<circ> ?f1) ` {p. in_box ?olens p}"
    by (simp only: set_map set_ford)
  also have "\<dots> = ?f3 ` {q. in_box ?al q}"
    by (simp only: image_comp[symmetric] im1 img2)
  finally have set_eq: "set (map (?f3 \<circ> ?f2 \<circ> ?f1) (ford ?olens)) = ?f3 ` {q. in_box ?al q}" .
  have "inj_on (?f3 \<circ> ?f2) {p. in_box ?olens p}"
    using comp_inj_on[OF inj2] inj3 img2 by simp
  then have "inj_on ((?f3 \<circ> ?f2) \<circ> ?f1) {p. in_box ?olens p}"
    using comp_inj_on[OF inj1] im1 by simp
  then have "distinct (map (?f3 \<circ> ?f2 \<circ> ?f1) (ford ?olens))"
    using distinct_ford[of ?olens] by (simp add: distinct_map set_ford comp_assoc)
  then show ?thesis unfolding mapeq using set_eq by blast
qed

lemma mvw_unit:
  assumes "in_box lens xs" "next_idx lens xs = Some ys"
  shows "\<exists>k < length lens. \<exists>s \<in> {1, -1}. mvw c lens xs = unitv (length lens) k s"
  using assms
proof (induction lens xs arbitrary: c ys rule: next_idx.induct)
  case (1 l ls i xs)
  have bx: "in_box ls xs" "i < l" using "1.prems" by auto
  show ?case
  proof (cases "next_idx ls xs")
    case None
    then have m: "xs = maxes ls" using next_idx_None_iff[OF bx(1)] by simp
    then have "Suc i < l" using "1.prems" None by (auto split: if_splits)
    then have "mvw c (l # ls) (i # xs) = unitv (length (l # ls)) 0 (if even c then 1 else -1)"
      using m by (simp add: mvw_maxes unitv_Suc_0)
    then show ?thesis by force
  next
    case (Some ys')
    then have nm: "xs \<noteq> maxes ls" using next_idx_None_iff[OF bx(1)] by auto
    obtain k s where k: "k < length ls" "s \<in> {1, -1}" "mvw (c * l + i) ls xs = unitv (length ls) k s"
      using "1.IH"[OF bx(1) Some] by blast
    then have "mvw c (l # ls) (i # xs) = unitv (length (l # ls)) (Suc k) s"
      using nm by (simp add: unitv_Suc_Suc)
    then show ?thesis using k by force
  qed
qed simp_all

lemma slice_data_idx_unitv:
  assumes ok: "xfer_cfg_ok c" and k: "k < nDim c"
  shows "slice_data_idx c (unitv (nDim c) k s)
         = unitv (nDim c) (DimAccessOrder c ! k) (s * int (scalar_per_access c ! (DimAccessOrder c ! k)))"
proof (rule nth_equalityI)
  fix j assume "j < length (slice_data_idx c (unitv (nDim c) k s))"
  then have j: "j < nDim c" by (simp add: unitv_def)
  have perm: "is_perm (DimAccessOrder c) (nDim c)" using ok by (simp add: xfer_cfg_ok_def)
  have p: "pos_of (DimAccessOrder c) j < nDim c" using is_perm_pos_of[OF perm j] by simp
  show "slice_data_idx c (unitv (nDim c) k s) ! j
        = unitv (nDim c) (DimAccessOrder c ! k) (s * int (scalar_per_access c ! (DimAccessOrder c ! k))) ! j"
    using j p is_perm_nth_eq[OF perm k j]
    by (auto simp: nth_slice_data_idx unitv_def)
qed (simp add: unitv_def)

lemma v6r2_access_coords [simp]:
  "src0_coord (v6r2_access c d0 m0 d1 m1 dd op st x) = move_coord c x (src0_coord st)"
  "src1_coord (v6r2_access c d0 m0 d1 m1 dd op st x) = move_coord c x (src1_coord st)"
  "dst_coord (v6r2_access c d0 m0 d1 m1 dd op st x) = move_coord c x (dst_coord st)"
  by (simp_all add: v6r2_access_def Let_def)

lemma access_run_coord:
  assumes ok: "xfer_cfg_ok c"
    and sel: "\<And>s x. sel (v6r2_access c d0 m0 d1 m1 dd op s x) = move_coord c x (sel s)"
    and len: "length (sel st) = nDim c"
  shows "map sel (fold_states (v6r2_access c d0 m0 d1 m1 dd op) st (ford (ordered_access_lengths c)))
           = map (\<lambda>x. mi_add (sel st) (walk_pos c x)) (ford (ordered_access_lengths c))
         \<and> sel (foldl (v6r2_access c d0 m0 d1 m1 dd op) st (ford (ordered_access_lengths c)))
           = mi_add (sel st) (walk_pos c (maxes (ordered_access_lengths c)))"
  using fold_states_commute[of sel "v6r2_access c d0 m0 d1 m1 dd op" "\<lambda>co x. move_coord c x co", OF sel]
    ford_walk[OF ok len] by simp

lemma walk_pos_length:
  assumes "xfer_cfg_ok c" "in_box (ordered_access_lengths c) x"
  shows "length (walk_pos c x) = nDim c"
  using assms in_box_length[OF assms(2)] by (simp add: xfer_cfg_ok_order_length)

lemma run_coord_reset:
  assumes ok: "xfer_cfg_ok c" and len: "length co = nDim c"
  shows "mi_add (mi_add co (walk_pos c (maxes (ordered_access_lengths c)))) (v6r2_GetCoordinateResetStep c) = co"
    and "mi_sub co (v6r2_GetCoordinateResetStep c) = mi_add co (walk_pos c (maxes (ordered_access_lengths c)))"
proof -
  have b: "in_box (ordered_access_lengths c) (maxes (ordered_access_lengths c))"
    using in_box_maxes ordered_access_lengths_pos[OF ok] by blast
  show "mi_add (mi_add co (walk_pos c (maxes (ordered_access_lengths c)))) (v6r2_GetCoordinateResetStep c) = co"
    using reset_step_walk[OF ok] mi_add_uminus_cancel walk_pos_length[OF ok b] len by simp
  show "mi_sub co (v6r2_GetCoordinateResetStep c) = mi_add co (walk_pos c (maxes (ordered_access_lengths c)))"
    using reset_step_walk[OF ok] by (simp add: mi_sub_uminus)
qed

lemma v6r2_Run_coord_walk:
  assumes ok: "xfer_cfg_ok c" and l0: "length (src0_coord st) = nDim c"
    and l1: "length (src1_coord st) = nDim c" and ld: "length (dst_coord st) = nDim c"
  defines "w \<equiv> walk_pos c (maxes (ordered_access_lengths c))"
  shows "src0_coord (v6r2_Run c da ma db mb dd op st)
           = (if Src0ResetCoordinateAfterRun c then src0_coord st else mi_add (src0_coord st) w)"
    and "src1_coord (v6r2_Run c da ma db mb dd op st)
           = (if Src1ResetCoordinateAfterRun c then src1_coord st else mi_add (src1_coord st) w)"
    and "dst_coord (v6r2_Run c da ma db mb dd op st)
           = (if DstResetCoordinateAfterRun c then dst_coord st else mi_add (dst_coord st) w)"
  using access_run_coord[OF ok v6r2_access_coords(1)[of c da ma db mb dd op] l0]
    access_run_coord[OF ok v6r2_access_coords(2)[of c da ma db mb dd op] l1]
    access_run_coord[OF ok v6r2_access_coords(3)[of c da ma db mb dd op] ld]
    run_coord_reset(1)[OF ok l0] run_coord_reset(1)[OF ok l1] run_coord_reset(1)[OF ok ld]
  by (simp_all add: v6r2_Run_def Let_def w_def)

section \<open>Properties of the transfer\<close>

text \<open>C1: during one \<^verbatim>\<open>Run\<close> of \<^verbatim>\<open>ThreadwiseTensorSliceTransfer_v6r2\<close>, the destination
  coordinate at the successive accesses visits every vector position of the slice exactly
  once: the coordinates are pairwise distinct and they are exactly the origin plus each
  multiple of \<open>scalar_per_access\<close> inside \<open>access_lengths\<close>.\<close>

theorem v6r2_Run_dst_exactly_once:
  assumes ok: "xfer_cfg_ok c" and len: "length (dst_coord st) = nDim c"
  shows "distinct (map dst_coord (fold_states (v6r2_access c d0 m0 d1 m1 dd op) st (ford (ordered_access_lengths c))))
         \<and> set (map dst_coord (fold_states (v6r2_access c d0 m0 d1 m1 dd op) st (ford (ordered_access_lengths c))))
           = (\<lambda>q. mi_add (dst_coord st) (mi_mul (map int q) (map int (scalar_per_access c))))
               ` {q. in_box (access_lengths c) q}"
proof -
  let ?F = "ford (ordered_access_lengths c)" and ?o = "dst_coord st"
  have tr: "map dst_coord (fold_states (v6r2_access c d0 m0 d1 m1 dd op) st ?F)
            = map (mi_add ?o) (map (walk_pos c) ?F)"
    using access_run_coord[OF ok v6r2_access_coords(3)[of c d0 m0 d1 m1 dd op] len] by simp
  note w = walk_exactly_once[OF ok]
  have lw: "length v = length ?o" if "v \<in> set (map (walk_pos c) ?F)" for v
    using that walk_pos_length[OF ok] len by (auto simp: set_ford)
  have "inj_on (mi_add ?o) (set (map (walk_pos c) ?F))"
    by (rule inj_onI) (rule mi_add_left_inj[OF lw lw])
  then have "distinct (map (mi_add ?o) (map (walk_pos c) ?F))"
    using w by (simp only: distinct_map)
  moreover have "set (map (mi_add ?o) (map (walk_pos c) ?F))
      = (\<lambda>q. mi_add ?o (mi_mul (map int q) (map int (scalar_per_access c)))) ` {q. in_box (access_lengths c) q}"
    using w by (simp only: set_map image_comp) (simp add: comp_def)
  ultimately show ?thesis using tr by simp
qed

theorem v6r2_Run_dst_exactly_once_witness:
  "xfer_cfg_ok (\<lparr>SliceLengths = [2, 3, 4], DimAccessOrder = [1, 0, 2], VectorDim = 2, ScalarPerVector = 2,
       DstInMemOp = InMemSet, Src0ResetCoordinateAfterRun = True, Src1ResetCoordinateAfterRun = False,
       DstResetCoordinateAfterRun = False\<rparr>) \<and> length (dst_coord (\<lparr>src0_coord = [0, 0, 0], src1_coord = [1, 0, 0], dst_coord = [0, 2, 0], dst_buf = \<lambda>a. 0 :: int\<rparr>)) = nDim (\<lparr>SliceLengths = [2, 3, 4], DimAccessOrder = [1, 0, 2], VectorDim = 2, ScalarPerVector = 2,
       DstInMemOp = InMemSet, Src0ResetCoordinateAfterRun = True, Src1ResetCoordinateAfterRun = False,
       DstResetCoordinateAfterRun = False\<rparr>)
   \<and> distinct (map dst_coord (fold_states (v6r2_access (\<lparr>SliceLengths = [2, 3, 4], DimAccessOrder = [1, 0, 2], VectorDim = 2, ScalarPerVector = 2,
       DstInMemOp = InMemSet, Src0ResetCoordinateAfterRun = True, Src1ResetCoordinateAfterRun = False,
       DstResetCoordinateAfterRun = False\<rparr>) (\<lparr>dv_offset = \<lambda>x. 0, dv_valid = \<lambda>x. True\<rparr>) (\<lambda>a. 0 :: int) (\<lparr>dv_offset = \<lambda>x. 0, dv_valid = \<lambda>x. True\<rparr>) (\<lambda>a. 0 :: int) (\<lparr>dv_offset = \<lambda>x. 0, dv_valid = \<lambda>x. True\<rparr>) (+)) (\<lparr>src0_coord = [0, 0, 0], src1_coord = [1, 0, 0], dst_coord = [0, 2, 0], dst_buf = \<lambda>a. 0 :: int\<rparr>) (ford (ordered_access_lengths (\<lparr>SliceLengths = [2, 3, 4], DimAccessOrder = [1, 0, 2], VectorDim = 2, ScalarPerVector = 2,
       DstInMemOp = InMemSet, Src0ResetCoordinateAfterRun = True, Src1ResetCoordinateAfterRun = False,
       DstResetCoordinateAfterRun = False\<rparr>)))))
   \<and> set (map dst_coord (fold_states (v6r2_access (\<lparr>SliceLengths = [2, 3, 4], DimAccessOrder = [1, 0, 2], VectorDim = 2, ScalarPerVector = 2,
       DstInMemOp = InMemSet, Src0ResetCoordinateAfterRun = True, Src1ResetCoordinateAfterRun = False,
       DstResetCoordinateAfterRun = False\<rparr>) (\<lparr>dv_offset = \<lambda>x. 0, dv_valid = \<lambda>x. True\<rparr>) (\<lambda>a. 0 :: int) (\<lparr>dv_offset = \<lambda>x. 0, dv_valid = \<lambda>x. True\<rparr>) (\<lambda>a. 0 :: int) (\<lparr>dv_offset = \<lambda>x. 0, dv_valid = \<lambda>x. True\<rparr>) (+)) (\<lparr>src0_coord = [0, 0, 0], src1_coord = [1, 0, 0], dst_coord = [0, 2, 0], dst_buf = \<lambda>a. 0 :: int\<rparr>) (ford (ordered_access_lengths (\<lparr>SliceLengths = [2, 3, 4], DimAccessOrder = [1, 0, 2], VectorDim = 2, ScalarPerVector = 2,
       DstInMemOp = InMemSet, Src0ResetCoordinateAfterRun = True, Src1ResetCoordinateAfterRun = False,
       DstResetCoordinateAfterRun = False\<rparr>)))))
     = (\<lambda>q. mi_add [0, 2, 0] (mi_mul (map int q) (map int (scalar_per_access (\<lparr>SliceLengths = [2, 3, 4], DimAccessOrder = [1, 0, 2], VectorDim = 2, ScalarPerVector = 2,
       DstInMemOp = InMemSet, Src0ResetCoordinateAfterRun = True, Src1ResetCoordinateAfterRun = False,
       DstResetCoordinateAfterRun = False\<rparr>)))))
         ` {q. in_box (access_lengths (\<lparr>SliceLengths = [2, 3, 4], DimAccessOrder = [1, 0, 2], VectorDim = 2, ScalarPerVector = 2,
       DstInMemOp = InMemSet, Src0ResetCoordinateAfterRun = True, Src1ResetCoordinateAfterRun = False,
       DstResetCoordinateAfterRun = False\<rparr>)) q}"
proof -
  have ok: "xfer_cfg_ok (\<lparr>SliceLengths = [2, 3, 4], DimAccessOrder = [1, 0, 2], VectorDim = 2, ScalarPerVector = 2,
       DstInMemOp = InMemSet, Src0ResetCoordinateAfterRun = True, Src1ResetCoordinateAfterRun = False,
       DstResetCoordinateAfterRun = False\<rparr>)" by code_simp
  have len: "length (dst_coord (\<lparr>src0_coord = [0, 0, 0], src1_coord = [1, 0, 0], dst_coord = [0, 2, 0], dst_buf = \<lambda>a. 0 :: int\<rparr>)) = nDim (\<lparr>SliceLengths = [2, 3, 4], DimAccessOrder = [1, 0, 2], VectorDim = 2, ScalarPerVector = 2,
       DstInMemOp = InMemSet, Src0ResetCoordinateAfterRun = True, Src1ResetCoordinateAfterRun = False,
       DstResetCoordinateAfterRun = False\<rparr>)" by simp
  show ?thesis using v6r2_Run_dst_exactly_once[OF ok len] ok len by simp
qed

text \<open>C2: after \<^verbatim>\<open>Run\<close>, each of the three coordinates is back at its slice origin when its
  \<^verbatim>\<open>ResetCoordinateAfterRun\<close> flag is set, and otherwise it is the origin minus
  \<^verbatim>\<open>GetCoordinateResetStep()\<close>: the reset step is exactly the way back from the last access.\<close>

theorem v6r2_Run_coordinates:
  assumes ok: "xfer_cfg_ok c" and l0: "length (src0_coord st) = nDim c"
    and l1: "length (src1_coord st) = nDim c" and ld: "length (dst_coord st) = nDim c"
  shows "src0_coord (v6r2_Run c d0 m0 d1 m1 dd op st)
           = (if Src0ResetCoordinateAfterRun c then src0_coord st
              else mi_sub (src0_coord st) (v6r2_GetCoordinateResetStep c))
         \<and> src1_coord (v6r2_Run c d0 m0 d1 m1 dd op st)
           = (if Src1ResetCoordinateAfterRun c then src1_coord st
              else mi_sub (src1_coord st) (v6r2_GetCoordinateResetStep c))
         \<and> dst_coord (v6r2_Run c d0 m0 d1 m1 dd op st)
           = (if DstResetCoordinateAfterRun c then dst_coord st
              else mi_sub (dst_coord st) (v6r2_GetCoordinateResetStep c))"
  using v6r2_Run_coord_walk[OF ok l0 l1 ld, where da = d0 and ma = m0 and db = d1 and mb = m1 and dd = dd and op = op] run_coord_reset(2)[OF ok l0]
    run_coord_reset(2)[OF ok l1] run_coord_reset(2)[OF ok ld]
  by simp

theorem v6r2_Run_coordinates_witness:
  "src0_coord (v6r2_Run (\<lparr>SliceLengths = [2, 3, 4], DimAccessOrder = [1, 0, 2], VectorDim = 2, ScalarPerVector = 2,
       DstInMemOp = InMemSet, Src0ResetCoordinateAfterRun = True, Src1ResetCoordinateAfterRun = False,
       DstResetCoordinateAfterRun = False\<rparr>) (\<lparr>dv_offset = \<lambda>x. 0, dv_valid = \<lambda>x. True\<rparr>) (\<lambda>a. 0 :: int) (\<lparr>dv_offset = \<lambda>x. 0, dv_valid = \<lambda>x. True\<rparr>) (\<lambda>a. 0 :: int) (\<lparr>dv_offset = \<lambda>x. 0, dv_valid = \<lambda>x. True\<rparr>) (+) (\<lparr>src0_coord = [0, 0, 0], src1_coord = [1, 0, 0], dst_coord = [0, 2, 0], dst_buf = \<lambda>a. 0 :: int\<rparr>)) = [0, 0, 0]
   \<and> src1_coord (v6r2_Run (\<lparr>SliceLengths = [2, 3, 4], DimAccessOrder = [1, 0, 2], VectorDim = 2, ScalarPerVector = 2,
       DstInMemOp = InMemSet, Src0ResetCoordinateAfterRun = True, Src1ResetCoordinateAfterRun = False,
       DstResetCoordinateAfterRun = False\<rparr>) (\<lparr>dv_offset = \<lambda>x. 0, dv_valid = \<lambda>x. True\<rparr>) (\<lambda>a. 0 :: int) (\<lparr>dv_offset = \<lambda>x. 0, dv_valid = \<lambda>x. True\<rparr>) (\<lambda>a. 0 :: int) (\<lparr>dv_offset = \<lambda>x. 0, dv_valid = \<lambda>x. True\<rparr>) (+) (\<lparr>src0_coord = [0, 0, 0], src1_coord = [1, 0, 0], dst_coord = [0, 2, 0], dst_buf = \<lambda>a. 0 :: int\<rparr>)) = [2, 2, 0]
   \<and> dst_coord (v6r2_Run (\<lparr>SliceLengths = [2, 3, 4], DimAccessOrder = [1, 0, 2], VectorDim = 2, ScalarPerVector = 2,
       DstInMemOp = InMemSet, Src0ResetCoordinateAfterRun = True, Src1ResetCoordinateAfterRun = False,
       DstResetCoordinateAfterRun = False\<rparr>) (\<lparr>dv_offset = \<lambda>x. 0, dv_valid = \<lambda>x. True\<rparr>) (\<lambda>a. 0 :: int) (\<lparr>dv_offset = \<lambda>x. 0, dv_valid = \<lambda>x. True\<rparr>) (\<lambda>a. 0 :: int) (\<lparr>dv_offset = \<lambda>x. 0, dv_valid = \<lambda>x. True\<rparr>) (+) (\<lparr>src0_coord = [0, 0, 0], src1_coord = [1, 0, 0], dst_coord = [0, 2, 0], dst_buf = \<lambda>a. 0 :: int\<rparr>)) = [1, 4, 0]"
proof -
  have ok: "xfer_cfg_ok (\<lparr>SliceLengths = [2, 3, 4], DimAccessOrder = [1, 0, 2], VectorDim = 2, ScalarPerVector = 2,
       DstInMemOp = InMemSet, Src0ResetCoordinateAfterRun = True, Src1ResetCoordinateAfterRun = False,
       DstResetCoordinateAfterRun = False\<rparr>)" by code_simp
  have r: "v6r2_GetCoordinateResetStep (\<lparr>SliceLengths = [2, 3, 4], DimAccessOrder = [1, 0, 2], VectorDim = 2, ScalarPerVector = 2,
       DstInMemOp = InMemSet, Src0ResetCoordinateAfterRun = True, Src1ResetCoordinateAfterRun = False,
       DstResetCoordinateAfterRun = False\<rparr>) = [-1, -2, 0]" by code_simp
  show ?thesis using v6r2_Run_coordinates[OF ok, of "\<lparr>src0_coord = [0, 0, 0], src1_coord = [1, 0, 0], dst_coord = [0, 2, 0], dst_buf = \<lambda>a. 0 :: int\<rparr>"] r by (simp add: mi_sub_def)
qed

text \<open>C3: after \<^verbatim>\<open>Run\<close>, \<^verbatim>\<open>MoveSrc0SliceWindow\<close>, \<^verbatim>\<open>MoveSrc1SliceWindow\<close> and
  \<^verbatim>\<open>MoveDstSliceWindow\<close> by a step put each coordinate at its origin plus the step, whether
  or not the coordinate was reset: the window moves without drift.\<close>

theorem v6r2_MoveSliceWindow_after_Run:
  assumes ok: "xfer_cfg_ok c" and l0: "length (src0_coord st) = nDim c"
    and l1: "length (src1_coord st) = nDim c" and ld: "length (dst_coord st) = nDim c"
    and ls: "length step = nDim c"
  shows "src0_coord (v6r2_MoveSrc0SliceWindow c (v6r2_Run c d0 m0 d1 m1 dd op st) step)
           = mi_add (src0_coord st) step
         \<and> src1_coord (v6r2_MoveSrc1SliceWindow c (v6r2_Run c d0 m0 d1 m1 dd op st) step)
           = mi_add (src1_coord st) step
         \<and> dst_coord (v6r2_MoveDstSliceWindow c (v6r2_Run c d0 m0 d1 m1 dd op st) step)
           = mi_add (dst_coord st) step"
proof -
  let ?w = "walk_pos c (maxes (ordered_access_lengths c))"
  have "in_box (ordered_access_lengths c) (maxes (ordered_access_lengths c))"
    using in_box_maxes ordered_access_lengths_pos[OF ok] by blast
  then have lw: "length ?w = nDim c" by (rule walk_pos_length[OF ok])
  have r: "v6r2_GetCoordinateResetStep c = map uminus ?w" by (rule reset_step_walk[OF ok])
  show ?thesis
    using v6r2_Run_coord_walk[OF ok l0 l1 ld, where da = d0 and ma = m0 and db = d1 and mb = m1 and dd = dd and op = op] lw ls l0 l1 ld
      mi_add_uminus_shift[of ?w "src0_coord st" step] mi_add_uminus_shift[of ?w "src1_coord st" step]
      mi_add_uminus_shift[of ?w "dst_coord st" step]
    by (simp add: v6r2_MoveSrc0SliceWindow_def v6r2_MoveSrc1SliceWindow_def
        v6r2_MoveDstSliceWindow_def adjusted_step_def r)
qed

theorem v6r2_MoveSliceWindow_after_Run_witness:
  "src0_coord (v6r2_MoveSrc0SliceWindow (\<lparr>SliceLengths = [2, 3, 4], DimAccessOrder = [1, 0, 2], VectorDim = 2, ScalarPerVector = 2,
       DstInMemOp = InMemSet, Src0ResetCoordinateAfterRun = True, Src1ResetCoordinateAfterRun = False,
       DstResetCoordinateAfterRun = False\<rparr>) (v6r2_Run (\<lparr>SliceLengths = [2, 3, 4], DimAccessOrder = [1, 0, 2], VectorDim = 2, ScalarPerVector = 2,
       DstInMemOp = InMemSet, Src0ResetCoordinateAfterRun = True, Src1ResetCoordinateAfterRun = False,
       DstResetCoordinateAfterRun = False\<rparr>) (\<lparr>dv_offset = \<lambda>x. 0, dv_valid = \<lambda>x. True\<rparr>) (\<lambda>a. 0 :: int) (\<lparr>dv_offset = \<lambda>x. 0, dv_valid = \<lambda>x. True\<rparr>) (\<lambda>a. 0 :: int) (\<lparr>dv_offset = \<lambda>x. 0, dv_valid = \<lambda>x. True\<rparr>) (+) (\<lparr>src0_coord = [0, 0, 0], src1_coord = [1, 0, 0], dst_coord = [0, 2, 0], dst_buf = \<lambda>a. 0 :: int\<rparr>)) [0, 0, 4]) = [0, 0, 4]
   \<and> src1_coord (v6r2_MoveSrc1SliceWindow (\<lparr>SliceLengths = [2, 3, 4], DimAccessOrder = [1, 0, 2], VectorDim = 2, ScalarPerVector = 2,
       DstInMemOp = InMemSet, Src0ResetCoordinateAfterRun = True, Src1ResetCoordinateAfterRun = False,
       DstResetCoordinateAfterRun = False\<rparr>) (v6r2_Run (\<lparr>SliceLengths = [2, 3, 4], DimAccessOrder = [1, 0, 2], VectorDim = 2, ScalarPerVector = 2,
       DstInMemOp = InMemSet, Src0ResetCoordinateAfterRun = True, Src1ResetCoordinateAfterRun = False,
       DstResetCoordinateAfterRun = False\<rparr>) (\<lparr>dv_offset = \<lambda>x. 0, dv_valid = \<lambda>x. True\<rparr>) (\<lambda>a. 0 :: int) (\<lparr>dv_offset = \<lambda>x. 0, dv_valid = \<lambda>x. True\<rparr>) (\<lambda>a. 0 :: int) (\<lparr>dv_offset = \<lambda>x. 0, dv_valid = \<lambda>x. True\<rparr>) (+) (\<lparr>src0_coord = [0, 0, 0], src1_coord = [1, 0, 0], dst_coord = [0, 2, 0], dst_buf = \<lambda>a. 0 :: int\<rparr>)) [0, 0, 4]) = [1, 0, 4]
   \<and> dst_coord (v6r2_MoveDstSliceWindow (\<lparr>SliceLengths = [2, 3, 4], DimAccessOrder = [1, 0, 2], VectorDim = 2, ScalarPerVector = 2,
       DstInMemOp = InMemSet, Src0ResetCoordinateAfterRun = True, Src1ResetCoordinateAfterRun = False,
       DstResetCoordinateAfterRun = False\<rparr>) (v6r2_Run (\<lparr>SliceLengths = [2, 3, 4], DimAccessOrder = [1, 0, 2], VectorDim = 2, ScalarPerVector = 2,
       DstInMemOp = InMemSet, Src0ResetCoordinateAfterRun = True, Src1ResetCoordinateAfterRun = False,
       DstResetCoordinateAfterRun = False\<rparr>) (\<lparr>dv_offset = \<lambda>x. 0, dv_valid = \<lambda>x. True\<rparr>) (\<lambda>a. 0 :: int) (\<lparr>dv_offset = \<lambda>x. 0, dv_valid = \<lambda>x. True\<rparr>) (\<lambda>a. 0 :: int) (\<lparr>dv_offset = \<lambda>x. 0, dv_valid = \<lambda>x. True\<rparr>) (+) (\<lparr>src0_coord = [0, 0, 0], src1_coord = [1, 0, 0], dst_coord = [0, 2, 0], dst_buf = \<lambda>a. 0 :: int\<rparr>)) [0, 0, 4]) = [0, 2, 4]"
proof -
  have ok: "xfer_cfg_ok (\<lparr>SliceLengths = [2, 3, 4], DimAccessOrder = [1, 0, 2], VectorDim = 2, ScalarPerVector = 2,
       DstInMemOp = InMemSet, Src0ResetCoordinateAfterRun = True, Src1ResetCoordinateAfterRun = False,
       DstResetCoordinateAfterRun = False\<rparr>)" by code_simp
  show ?thesis using v6r2_MoveSliceWindow_after_Run[OF ok, of "\<lparr>src0_coord = [0, 0, 0], src1_coord = [1, 0, 0], dst_coord = [0, 2, 0], dst_buf = \<lambda>a. 0 :: int\<rparr>" "[0, 0, 4]"] by (simp add: mi_add_def)
qed

text \<open>C4: after each access but the last, a coordinate moves by exactly one vector step
  (plus or minus \<open>scalar_per_access\<close>) along one dimension; after the last access it does not
  move.\<close>

theorem move_coord_unit_step:
  assumes ok: "xfer_cfg_ok c" and box: "in_box (ordered_access_lengths c) oidx" and len: "length co = nDim c"
  shows "(oidx = maxes (ordered_access_lengths c) \<longrightarrow> move_coord c oidx co = co)
         \<and> (oidx \<noteq> maxes (ordered_access_lengths c) \<longrightarrow>
              (\<exists>d < nDim c. \<exists>s \<in> {1, -1}.
                 move_coord c oidx co = mi_add co (unitv (nDim c) d (s * int (scalar_per_access c ! d)))))"
proof (intro conjI impI)
  assume "oidx = maxes (ordered_access_lengths c)"
  then show "move_coord c oidx co = co" using move_coord_maxes[OF ok len] by simp
next
  let ?olens = "ordered_access_lengths c" and ?order = "DimAccessOrder c"
  assume "oidx \<noteq> maxes ?olens"
  then obtain y where "next_idx ?olens oidx = Some y" using next_idx_None_iff[OF box] by fastforce
  then obtain k s where ks: "k < length ?olens" "s \<in> {1, -1}" "mvw 0 ?olens oidx = unitv (length ?olens) k s"
    using mvw_unit[OF box] by blast
  have olen: "length ?olens = nDim c" using ok by (simp add: xfer_cfg_ok_order_length)
  have perm: "is_perm ?order (nDim c)" using ok by (simp add: xfer_cfg_ok_def)
  have d: "?order ! k < nDim c" using perm ks(1) olen is_perm_length[OF perm] by (auto simp: is_perm_def)
  have "move_coord c oidx co = mi_add co (unitv (nDim c) (?order ! k) (s * int (scalar_per_access c ! (?order ! k))))"
    using move_coord_eq[OF ok box len] ks olen slice_data_idx_unitv[OF ok, of k s] by simp
  then show "\<exists>d < nDim c. \<exists>s \<in> {1, -1}.
               move_coord c oidx co = mi_add co (unitv (nDim c) d (s * int (scalar_per_access c ! d)))"
    using d ks(2) by blast
qed

theorem move_coord_unit_step_witness:
  "xfer_cfg_ok (\<lparr>SliceLengths = [2, 3, 4], DimAccessOrder = [1, 0, 2], VectorDim = 2, ScalarPerVector = 2,
       DstInMemOp = InMemSet, Src0ResetCoordinateAfterRun = True, Src1ResetCoordinateAfterRun = False,
       DstResetCoordinateAfterRun = False\<rparr>) \<and> in_box (ordered_access_lengths (\<lparr>SliceLengths = [2, 3, 4], DimAccessOrder = [1, 0, 2], VectorDim = 2, ScalarPerVector = 2,
       DstInMemOp = InMemSet, Src0ResetCoordinateAfterRun = True, Src1ResetCoordinateAfterRun = False,
       DstResetCoordinateAfterRun = False\<rparr>)) [0, 1, 0]
   \<and> move_coord (\<lparr>SliceLengths = [2, 3, 4], DimAccessOrder = [1, 0, 2], VectorDim = 2, ScalarPerVector = 2,
       DstInMemOp = InMemSet, Src0ResetCoordinateAfterRun = True, Src1ResetCoordinateAfterRun = False,
       DstResetCoordinateAfterRun = False\<rparr>) [0, 1, 0] [0, 0, 0] = [0, 0, -2]
   \<and> [0, 1, 0] \<noteq> maxes (ordered_access_lengths (\<lparr>SliceLengths = [2, 3, 4], DimAccessOrder = [1, 0, 2], VectorDim = 2, ScalarPerVector = 2,
       DstInMemOp = InMemSet, Src0ResetCoordinateAfterRun = True, Src1ResetCoordinateAfterRun = False,
       DstResetCoordinateAfterRun = False\<rparr>))
   \<and> (\<exists>d < nDim (\<lparr>SliceLengths = [2, 3, 4], DimAccessOrder = [1, 0, 2], VectorDim = 2, ScalarPerVector = 2,
       DstInMemOp = InMemSet, Src0ResetCoordinateAfterRun = True, Src1ResetCoordinateAfterRun = False,
       DstResetCoordinateAfterRun = False\<rparr>). \<exists>s \<in> {1, -1}. move_coord (\<lparr>SliceLengths = [2, 3, 4], DimAccessOrder = [1, 0, 2], VectorDim = 2, ScalarPerVector = 2,
       DstInMemOp = InMemSet, Src0ResetCoordinateAfterRun = True, Src1ResetCoordinateAfterRun = False,
       DstResetCoordinateAfterRun = False\<rparr>) [0, 1, 0] [0, 0, 0]
           = mi_add [0, 0, 0] (unitv (nDim (\<lparr>SliceLengths = [2, 3, 4], DimAccessOrder = [1, 0, 2], VectorDim = 2, ScalarPerVector = 2,
       DstInMemOp = InMemSet, Src0ResetCoordinateAfterRun = True, Src1ResetCoordinateAfterRun = False,
       DstResetCoordinateAfterRun = False\<rparr>)) d (s * int (scalar_per_access (\<lparr>SliceLengths = [2, 3, 4], DimAccessOrder = [1, 0, 2], VectorDim = 2, ScalarPerVector = 2,
       DstInMemOp = InMemSet, Src0ResetCoordinateAfterRun = True, Src1ResetCoordinateAfterRun = False,
       DstResetCoordinateAfterRun = False\<rparr>) ! d))))"
proof -
  have ok: "xfer_cfg_ok (\<lparr>SliceLengths = [2, 3, 4], DimAccessOrder = [1, 0, 2], VectorDim = 2, ScalarPerVector = 2,
       DstInMemOp = InMemSet, Src0ResetCoordinateAfterRun = True, Src1ResetCoordinateAfterRun = False,
       DstResetCoordinateAfterRun = False\<rparr>)" by code_simp
  have box: "in_box (ordered_access_lengths (\<lparr>SliceLengths = [2, 3, 4], DimAccessOrder = [1, 0, 2], VectorDim = 2, ScalarPerVector = 2,
       DstInMemOp = InMemSet, Src0ResetCoordinateAfterRun = True, Src1ResetCoordinateAfterRun = False,
       DstResetCoordinateAfterRun = False\<rparr>)) [0, 1, 0]" by code_simp
  have mv: "move_coord (\<lparr>SliceLengths = [2, 3, 4], DimAccessOrder = [1, 0, 2], VectorDim = 2, ScalarPerVector = 2,
       DstInMemOp = InMemSet, Src0ResetCoordinateAfterRun = True, Src1ResetCoordinateAfterRun = False,
       DstResetCoordinateAfterRun = False\<rparr>) [0, 1, 0] [0, 0, 0] = [0, 0, -2]" by code_simp
  have len: "length [0, 0, 0 :: int] = nDim (\<lparr>SliceLengths = [2, 3, 4], DimAccessOrder = [1, 0, 2], VectorDim = 2, ScalarPerVector = 2,
       DstInMemOp = InMemSet, Src0ResetCoordinateAfterRun = True, Src1ResetCoordinateAfterRun = False,
       DstResetCoordinateAfterRun = False\<rparr>)" by simp
  have nm: "[0, 1, 0] \<noteq> maxes (ordered_access_lengths (\<lparr>SliceLengths = [2, 3, 4], DimAccessOrder = [1, 0, 2], VectorDim = 2, ScalarPerVector = 2,
       DstInMemOp = InMemSet, Src0ResetCoordinateAfterRun = True, Src1ResetCoordinateAfterRun = False,
       DstResetCoordinateAfterRun = False\<rparr>))" by code_simp
  show ?thesis using move_coord_unit_step[OF ok box len] ok box mv nm by blast
qed

end
