(* ===== verification/GridwiseGemm.thy ===== *)
theory GridwiseGemm
  imports CK_Prelude
begin

text \<open>
  The block-level pipeline of \<^verbatim>\<open>GridwiseDynamicGemm_km_kn_m0m1n0n1_v1r2::Run\<close>
  (\<^verbatim>\<open>src/composable_kernel/include/tensor_operation/gridwise_dynamic_gemm_v1r2.hpp\<close>):
  the preload of the first K-tile into the even LDS buffers, the do-while main loop that
  overlaps the global read of the next tile with the GEMM on the current one, and the
  single or double tail.  The blockwise copies, the blockwise GEMM and the barrier are the
  steps of the model; the state records the source windows, the thread and LDS buffers,
  the accumulator and the sequence of steps performed.  The lemmas show that the pipeline
  returns when \<open>KPerBlock > 0\<close> (and hangs otherwise when the main loop is entered on a
  long K), that it accumulates exactly the K-tiles \<open>0 .. nK-1\<close> in order, like a
  single-buffered loop, that no barrier interval both writes and reads an LDS buffer, that
  every tile written to LDS is multiplied exactly once before its buffer is rewritten, and
  that the LDS layout puts the four buffers apart inside the shared block.
\<close>

section \<open>Data model and operations\<close>

datatype lds_slot = Even | Odd

datatype gg_event = EvMoveSrcSliceWindow | EvSyncThreads | EvRunRead | EvRunWrite lds_slot
  | EvBlockwiseGemm lds_slot

record gg_cfg =
  gK :: index_t
  gM :: index_t
  gN :: index_t
  MPerBlock :: index_t
  NPerBlock :: index_t
  KPerBlock :: index_t

record ('a, 'b, 'c) gg_state =
  a_win :: multi_index
  b_win :: multi_index
  a_thread_buf :: 'a
  b_thread_buf :: 'b
  a_block_buf :: "lds_slot \<Rightarrow> 'a"
  b_block_buf :: "lds_slot \<Rightarrow> 'b"
  c_thread_buf :: 'c
  gg_events :: "gg_event list"

definition gg_MoveSrcSliceWindow :: "gg_cfg \<Rightarrow> ('a, 'b, 'c) gg_state \<Rightarrow> ('a, 'b, 'c) gg_state" where
  "gg_MoveSrcSliceWindow cfg st =
     st\<lparr>a_win := mi_add (a_win st) [KPerBlock cfg, 0], b_win := mi_add (b_win st) [KPerBlock cfg, 0],
        gg_events := gg_events st @ [EvMoveSrcSliceWindow]\<rparr>"

definition gg_syncthreads :: "('a, 'b, 'c) gg_state \<Rightarrow> ('a, 'b, 'c) gg_state" where
  "gg_syncthreads st = st\<lparr>gg_events := gg_events st @ [EvSyncThreads]\<rparr>"

definition gg_RunRead ::
  "(multi_index \<Rightarrow> 'a) \<Rightarrow> (multi_index \<Rightarrow> 'b) \<Rightarrow> ('a, 'b, 'c) gg_state \<Rightarrow> ('a, 'b, 'c) gg_state" where
  "gg_RunRead A B st =
     st\<lparr>a_thread_buf := A (a_win st), b_thread_buf := B (b_win st),
        gg_events := gg_events st @ [EvRunRead]\<rparr>"

definition gg_RunWrite :: "lds_slot \<Rightarrow> ('a, 'b, 'c) gg_state \<Rightarrow> ('a, 'b, 'c) gg_state" where
  "gg_RunWrite s st =
     st\<lparr>a_block_buf := (a_block_buf st)(s := a_thread_buf st),
        b_block_buf := (b_block_buf st)(s := b_thread_buf st),
        gg_events := gg_events st @ [EvRunWrite s]\<rparr>"

definition gg_blockwise_gemm ::
  "('c \<Rightarrow> 'a \<Rightarrow> 'b \<Rightarrow> 'c) \<Rightarrow> lds_slot \<Rightarrow> ('a, 'b, 'c) gg_state \<Rightarrow> ('a, 'b, 'c) gg_state" where
  "gg_blockwise_gemm g s st =
     st\<lparr>c_thread_buf := g (c_thread_buf st) (a_block_buf st s) (b_block_buf st s),
        gg_events := gg_events st @ [EvBlockwiseGemm s]\<rparr>"

definition gg_preload ::
  "(multi_index \<Rightarrow> 'a) \<Rightarrow> (multi_index \<Rightarrow> 'b) \<Rightarrow> ('a, 'b, 'c) gg_state \<Rightarrow> ('a, 'b, 'c) gg_state" where
  "gg_preload A B st = gg_RunWrite Even (gg_RunRead A B st)"

definition gg_main_body ::
  "gg_cfg \<Rightarrow> (multi_index \<Rightarrow> 'a) \<Rightarrow> (multi_index \<Rightarrow> 'b) \<Rightarrow> ('c \<Rightarrow> 'a \<Rightarrow> 'b \<Rightarrow> 'c)
   \<Rightarrow> ('a, 'b, 'c) gg_state \<Rightarrow> ('a, 'b, 'c) gg_state" where
  "gg_main_body cfg A B g st =
     (let s1 = gg_MoveSrcSliceWindow cfg st;
          s2 = gg_syncthreads s1;
          s3 = gg_RunRead A B s2;
          s4 = gg_blockwise_gemm g Even s3;
          s5 = gg_RunWrite Odd s4;
          s6 = gg_MoveSrcSliceWindow cfg s5;
          s7 = gg_syncthreads s6;
          s8 = gg_RunRead A B s7;
          s9 = gg_blockwise_gemm g Odd s8
      in gg_RunWrite Even s9)"

definition gg_main_loop ::
  "gg_cfg \<Rightarrow> (multi_index \<Rightarrow> 'a) \<Rightarrow> (multi_index \<Rightarrow> 'b) \<Rightarrow> ('c \<Rightarrow> 'a \<Rightarrow> 'b \<Rightarrow> 'c)
   \<Rightarrow> index_t \<times> ('a, 'b, 'c) gg_state \<Rightarrow> (index_t \<times> ('a, 'b, 'c) gg_state) option" where
  "gg_main_loop cfg A B g =
     do_while (\<lambda>(k, st). (k + 2 * KPerBlock cfg, gg_main_body cfg A B g st))
              (\<lambda>(k, st). k < gK cfg - 2 * KPerBlock cfg)"

definition gg_tail_double ::
  "gg_cfg \<Rightarrow> (multi_index \<Rightarrow> 'a) \<Rightarrow> (multi_index \<Rightarrow> 'b) \<Rightarrow> ('c \<Rightarrow> 'a \<Rightarrow> 'b \<Rightarrow> 'c)
   \<Rightarrow> ('a, 'b, 'c) gg_state \<Rightarrow> ('a, 'b, 'c) gg_state" where
  "gg_tail_double cfg A B g st =
     (let s1 = gg_MoveSrcSliceWindow cfg st;
          s2 = gg_syncthreads s1;
          s3 = gg_RunRead A B s2;
          s4 = gg_blockwise_gemm g Even s3;
          s5 = gg_RunWrite Odd s4;
          s6 = gg_syncthreads s5
      in gg_blockwise_gemm g Odd s6)"

definition gg_tail_single ::
  "('c \<Rightarrow> 'a \<Rightarrow> 'b \<Rightarrow> 'c) \<Rightarrow> ('a, 'b, 'c) gg_state \<Rightarrow> ('a, 'b, 'c) gg_state" where
  "gg_tail_single g st = gg_blockwise_gemm g Even (gg_syncthreads st)"

definition gg_Run ::
  "gg_cfg \<Rightarrow> bool \<Rightarrow> bool \<Rightarrow> (multi_index \<Rightarrow> 'a) \<Rightarrow> (multi_index \<Rightarrow> 'b) \<Rightarrow> ('c::zero \<Rightarrow> 'a \<Rightarrow> 'b \<Rightarrow> 'c)
   \<Rightarrow> index_t \<Rightarrow> index_t \<Rightarrow> ('a, 'b, 'c) gg_state \<Rightarrow> ('a, 'b, 'c) gg_state option" where
  "gg_Run cfg HasMainKBlockLoop HasDoubleTailKBlockLoop A B g m_block_work_idx n_block_work_idx st0 =
     (let st = st0\<lparr>a_win := [0, m_block_work_idx * MPerBlock cfg], b_win := [0, n_block_work_idx * NPerBlock cfg],
                   c_thread_buf := 0, gg_events := []\<rparr>;
          st1 = gg_preload A B st
      in case (if HasMainKBlockLoop then map_option snd (gg_main_loop cfg A B g (0, st1)) else Some st1) of
           None \<Rightarrow> None
         | Some st2 \<Rightarrow> Some (if HasDoubleTailKBlockLoop then gg_tail_double cfg A B g st2
                             else gg_tail_single g st2))"

definition gg_has_main_k_block_loop :: "gg_cfg \<Rightarrow> bool" where
  "gg_has_main_k_block_loop cfg \<longleftrightarrow> gK cfg > 2 * KPerBlock cfg"

definition gg_has_double_tail_k_block_loop :: "gg_cfg \<Rightarrow> bool" where
  "gg_has_double_tail_k_block_loop cfg \<longleftrightarrow> even (gK cfg div KPerBlock cfg)"

definition gg_reference ::
  "gg_cfg \<Rightarrow> (multi_index \<Rightarrow> 'a) \<Rightarrow> (multi_index \<Rightarrow> 'b) \<Rightarrow> ('c::zero \<Rightarrow> 'a \<Rightarrow> 'b \<Rightarrow> 'c)
   \<Rightarrow> index_t \<Rightarrow> index_t \<Rightarrow> nat \<Rightarrow> 'c" where
  "gg_reference cfg A B g m_block_work_idx n_block_work_idx n =
     foldl (\<lambda>c i. g c (A [int i * KPerBlock cfg, m_block_work_idx * MPerBlock cfg])
                      (B [int i * KPerBlock cfg, n_block_work_idx * NPerBlock cfg])) 0 [0..<n]"

fun epoch_ok :: "lds_slot list \<Rightarrow> lds_slot list \<Rightarrow> gg_event list \<Rightarrow> bool" where
  "epoch_ok w r [] = True"
| "epoch_ok w r (EvSyncThreads # es) = epoch_ok [] [] es"
| "epoch_ok w r (EvRunWrite s # es) = (s \<notin> set r \<and> epoch_ok (s # w) r es)"
| "epoch_ok w r (EvBlockwiseGemm s # es) = (s \<notin> set w \<and> epoch_ok w (s # r) es)"
| "epoch_ok w r (EvMoveSrcSliceWindow # es) = epoch_ok w r es"
| "epoch_ok w r (EvRunRead # es) = epoch_ok w r es"

definition lds_hazard_free :: "gg_event list \<Rightarrow> bool" where
  "lds_hazard_free es = epoch_ok [] [] es"

text \<open>The LDS tiles written and not yet multiplied, along a trace: a write must not overwrite a
  pending tile, a blockwise GEMM must read a pending one, and nothing may be pending at the
  end.  Every tile written to LDS is then multiplied exactly once, before it is overwritten.\<close>

fun lds_tiles_once :: "lds_slot list \<Rightarrow> gg_event list \<Rightarrow> bool" where
  "lds_tiles_once p [] = (p = [])"
| "lds_tiles_once p (EvRunWrite s # es) = (s \<notin> set p \<and> lds_tiles_once (s # p) es)"
| "lds_tiles_once p (EvBlockwiseGemm s # es) = (s \<in> set p \<and> lds_tiles_once (removeAll s p) es)"
| "lds_tiles_once p (EvSyncThreads # es) = lds_tiles_once p es"
| "lds_tiles_once p (EvMoveSrcSliceWindow # es) = lds_tiles_once p es"
| "lds_tiles_once p (EvRunRead # es) = lds_tiles_once p es"

definition gg_ready ::
  "gg_cfg \<Rightarrow> (multi_index \<Rightarrow> 'a) \<Rightarrow> (multi_index \<Rightarrow> 'b) \<Rightarrow> ('c::zero \<Rightarrow> 'a \<Rightarrow> 'b \<Rightarrow> 'c)
   \<Rightarrow> index_t \<Rightarrow> index_t \<Rightarrow> nat \<Rightarrow> ('a, 'b, 'c) gg_state \<Rightarrow> bool" where
  "gg_ready cfg A B g mi ni i st \<longleftrightarrow>
     a_win st = [int i * KPerBlock cfg, mi * MPerBlock cfg]
     \<and> b_win st = [int i * KPerBlock cfg, ni * NPerBlock cfg]
     \<and> a_block_buf st Even = A (a_win st) \<and> b_block_buf st Even = B (b_win st)
     \<and> c_thread_buf st = gg_reference cfg A B g mi ni i"

text \<open>LDS allocation (lines 102--127, 319--327 and 354--363): each operand's block space is its
  element space rounded up to \<^verbatim>\<open>max_lds_align\<close>; A's even and odd buffers come first, then B's.\<close>

definition integer_least_multiple :: "index_t \<Rightarrow> index_t \<Rightarrow> index_t" where
  "integer_least_multiple x y = y * ((x + y - 1) div y)"

definition gg_GetSharedMemoryNumberOfByte :: "index_t \<Rightarrow> index_t \<Rightarrow> index_t \<Rightarrow> index_t \<Rightarrow> index_t" where
  "gg_GetSharedMemoryNumberOfByte a_elem b_elem max_lds_align sizeof_FloatAB =
     (let a_block_space_size = integer_least_multiple a_elem max_lds_align;
          b_block_space_size = integer_least_multiple b_elem max_lds_align
      in 2 * (a_block_space_size + b_block_space_size) * sizeof_FloatAB)"

definition gg_lds_buffers :: "index_t \<Rightarrow> index_t \<Rightarrow> index_t \<Rightarrow> (index_t \<times> index_t) list" where
  "gg_lds_buffers a_elem b_elem max_lds_align =
     (let a_block_space_size = integer_least_multiple a_elem max_lds_align;
          b_block_space_size = integer_least_multiple b_elem max_lds_align;
          p_a_block_double = 0;
          p_b_block_double = 0 + 2 * a_block_space_size
      in [(p_a_block_double, a_elem), (p_a_block_double + a_block_space_size, a_elem),
          (p_b_block_double, b_elem), (p_b_block_double + b_block_space_size, b_elem)])"

section \<open>Lemmas of the pipeline\<close>

lemma gg_reference_Suc:
  "gg_reference cfg A B g mi ni (Suc n) =
     g (gg_reference cfg A B g mi ni n) (A [int n * KPerBlock cfg, mi * MPerBlock cfg])
       (B [int n * KPerBlock cfg, ni * NPerBlock cfg])"
  by (simp add: gg_reference_def)

lemma gg_step_simps [simp]:
  "a_win (gg_MoveSrcSliceWindow cfg st) = mi_add (a_win st) [KPerBlock cfg, 0]"
  "b_win (gg_MoveSrcSliceWindow cfg st) = mi_add (b_win st) [KPerBlock cfg, 0]"
  "c_thread_buf (gg_MoveSrcSliceWindow cfg st) = c_thread_buf st"
  "a_block_buf (gg_MoveSrcSliceWindow cfg st) = a_block_buf st"
  "b_block_buf (gg_MoveSrcSliceWindow cfg st) = b_block_buf st"
  "a_thread_buf (gg_MoveSrcSliceWindow cfg st) = a_thread_buf st"
  "b_thread_buf (gg_MoveSrcSliceWindow cfg st) = b_thread_buf st"
  "gg_events (gg_MoveSrcSliceWindow cfg st) = gg_events st @ [EvMoveSrcSliceWindow]"
  by (simp_all add: gg_MoveSrcSliceWindow_def)

lemma mi_add_pair [simp]: "mi_add [a, b] [c, d] = [a + c, b + d]"
  by (simp add: mi_add_def)

lemma gg_ready_body:
  assumes "gg_ready cfg A B g mi ni i st"
  shows "gg_ready cfg A B g mi ni (i + 2) (gg_main_body cfg A B g st)"
  using assms
  by (simp add: gg_ready_def gg_main_body_def gg_syncthreads_def gg_RunRead_def gg_RunWrite_def
      gg_blockwise_gemm_def gg_reference_Suc algebra_simps)

lemmas gg_op_defs = gg_syncthreads_def gg_RunRead_def gg_RunWrite_def gg_blockwise_gemm_def

lemma gg_ready_tail_single:
  "gg_ready cfg A B g mi ni i st \<Longrightarrow>
   c_thread_buf (gg_tail_single g st) = gg_reference cfg A B g mi ni (i + 1)"
  by (simp add: gg_ready_def gg_tail_single_def gg_op_defs gg_reference_Suc)

lemma gg_ready_tail_double:
  "gg_ready cfg A B g mi ni i st \<Longrightarrow>
   c_thread_buf (gg_tail_double cfg A B g st) = gg_reference cfg A B g mi ni (i + 2)"
  by (simp add: gg_ready_def gg_tail_double_def gg_op_defs gg_reference_Suc algebra_simps)

lemma gg_ready_preload:
  "gg_ready cfg A B g mi ni 0
     (gg_preload A B (st0\<lparr>a_win := [0, mi * MPerBlock cfg], b_win := [0, ni * NPerBlock cfg],
                        c_thread_buf := 0, gg_events := []\<rparr>))"
  by (simp add: gg_ready_def gg_preload_def gg_op_defs gg_reference_def)

lemma gg_loop_step_bound:
  assumes "0 < KPerBlock cfg" "gK cfg = int nK * KPerBlock cfg"
    and "int (2 * j) * KPerBlock cfg + 2 * KPerBlock cfg < gK cfg - 2 * KPerBlock cfg"
  shows "2 * (j + 1) + 2 < nK"
proof -
  have "int (2 * (j + 1) + 2) * KPerBlock cfg < int nK * KPerBlock cfg"
    using assms(2,3) by (simp add: algebra_simps)
  then show ?thesis using int_mult_less_cancel[OF assms(1)] by blast
qed

lemma gg_loop_exit_bound:
  assumes "0 < KPerBlock cfg" "gK cfg = int nK * KPerBlock cfg"
    and "\<not> int (2 * j) * KPerBlock cfg + 2 * KPerBlock cfg < gK cfg - 2 * KPerBlock cfg"
  shows "nK \<le> 2 * j + 4"
proof -
  have "\<not> int nK * KPerBlock cfg > int (2 * j + 4) * KPerBlock cfg"
    using assms(2,3) by (simp add: algebra_simps)
  then show ?thesis using int_mult_less_cancel[OF assms(1), of "2 * j + 4" nK] by simp
qed

lemma gg_main_loop_ready:
  assumes kpb: "0 < KPerBlock cfg" and K: "gK cfg = int nK * KPerBlock cfg" and big: "2 < nK"
    and r0: "gg_ready cfg A B g mi ni 0 st"
  shows "\<exists>j st'. gg_main_loop cfg A B g (0, st) = Some (int j * KPerBlock cfg, st')
           \<and> gg_ready cfg A B g mi ni j st' \<and> even j \<and> j < nK \<and> nK \<le> j + 2"
proof -
  define I where "I = (\<lambda>(k, st). \<exists>j. k = int (2 * j) * KPerBlock cfg
                        \<and> gg_ready cfg A B g mi ni (2 * j) st \<and> 2 * j + 2 < nK)"
  define body where "body = (\<lambda>(k :: int, st). (k + 2 * KPerBlock cfg, gg_main_body cfg A B g st))"
  define cond where "cond = (\<lambda>(k :: int, st :: ('a, 'b, 'c) gg_state). k < gK cfg - 2 * KPerBlock cfg)"
  define f where "f = (\<lambda>(k :: int, st :: ('a, 'b, 'c) gg_state). nat (gK cfg - k))"
  have i0: "I (0, st)" unfolding I_def using r0 big by (intro case_prodI exI[of _ 0]) simp
  have step: "I (body s)" if a: "I s" and c: "cond (body s)" for s
  proof -
    obtain k st where s: "s = (k, st)" by (cases s)
    obtain j where j: "k = int (2 * j) * KPerBlock cfg" "gg_ready cfg A B g mi ni (2 * j) st"
      using a unfolding s I_def by blast
    have "2 * (j + 1) + 2 < nK"
      using gg_loop_step_bound[OF kpb K, of j] c j(1) unfolding s body_def cond_def by simp
    moreover have "gg_ready cfg A B g mi ni (2 * (j + 1)) (gg_main_body cfg A B g st)"
      using gg_ready_body[OF j(2)] by (simp add: algebra_simps)
    moreover have "k + 2 * KPerBlock cfg = int (2 * (j + 1)) * KPerBlock cfg"
      using j(1) by (simp add: algebra_simps)
    ultimately have "\<exists>j'. k + 2 * KPerBlock cfg = int (2 * j') * KPerBlock cfg
        \<and> gg_ready cfg A B g mi ni (2 * j') (gg_main_body cfg A B g st) \<and> 2 * j' + 2 < nK"
      by blast
    then show ?thesis unfolding s I_def body_def by simp
  qed
  have dec: "f (body s) < f s" if a: "I s" and c: "cond (body s)" for s
  proof -
    obtain k st where s: "s = (k, st)" by (cases s)
    show ?thesis using c kpb unfolding s f_def body_def cond_def by simp
  qed
  obtain s' where s': "I s'" "do_while body cond (0, st) = Some (body s')" "\<not> cond (body s')"
    using do_while_rule[where I = I and body = body and cond = cond and f = f, OF i0 step dec] by blast
  obtain k st1 where k: "s' = (k, st1)" by (cases s')
  obtain j where j: "k = int (2 * j) * KPerBlock cfg" "gg_ready cfg A B g mi ni (2 * j) st1" "2 * j + 2 < nK"
    using s'(1) unfolding k I_def by blast
  have "nK \<le> 2 * j + 4"
    using gg_loop_exit_bound[OF kpb K, of j] s'(3) j(1) unfolding k body_def cond_def by simp
  moreover have "gg_main_loop cfg A B g (0, st) = Some (int (2 * j + 2) * KPerBlock cfg, gg_main_body cfg A B g st1)"
    using s'(2) j(1) unfolding gg_main_loop_def k body_def cond_def by (simp add: algebra_simps)
  moreover have "gg_ready cfg A B g mi ni (2 * j + 2) (gg_main_body cfg A B g st1)"
    using gg_ready_body[OF j(2)] by simp
  ultimately show ?thesis using j(3) by (intro exI[of _ "2 * j + 2"]) auto
qed

lemma gg_flags:
  assumes kpb: "0 < KPerBlock cfg" and K: "gK cfg = int nK * KPerBlock cfg"
  shows "gg_has_main_k_block_loop cfg \<longleftrightarrow> 2 < nK"
    and "gg_has_double_tail_k_block_loop cfg \<longleftrightarrow> even nK"
proof -
  show "gg_has_main_k_block_loop cfg \<longleftrightarrow> 2 < nK"
    using int_mult_less_cancel[OF kpb, of 2 nK] K by (simp add: gg_has_main_k_block_loop_def)
  show "gg_has_double_tail_k_block_loop cfg \<longleftrightarrow> even nK"
    using K kpb by (simp add: gg_has_double_tail_k_block_loop_def)
qed

lemma gg_tails:
  assumes r: "gg_ready cfg A B g mi ni j st" and b: "j < nK" "nK \<le> j + 2"
    and par: "even nK \<longleftrightarrow> nK = j + 2"
  shows "c_thread_buf (if even nK then gg_tail_double cfg A B g st else gg_tail_single g st)
         = gg_reference cfg A B g mi ni nK"
proof (cases "even nK")
  case True
  then show ?thesis using gg_ready_tail_double[OF r] par by simp
next
  case False
  then have "nK = j + 1" using par b by simp
  then show ?thesis using gg_ready_tail_single[OF r] False by simp
qed

lemma gg_events_body:
  "gg_events (gg_main_body cfg A B g st) = gg_events st @
     [EvMoveSrcSliceWindow, EvSyncThreads, EvRunRead, EvBlockwiseGemm Even, EvRunWrite Odd,
      EvMoveSrcSliceWindow, EvSyncThreads, EvRunRead, EvBlockwiseGemm Odd, EvRunWrite Even]"
  by (simp add: gg_main_body_def gg_op_defs)

lemma gg_events_tails:
  "gg_events (gg_tail_double cfg A B g st) = gg_events st @
     [EvMoveSrcSliceWindow, EvSyncThreads, EvRunRead, EvBlockwiseGemm Even, EvRunWrite Odd,
      EvSyncThreads, EvBlockwiseGemm Odd]"
  "gg_events (gg_tail_single g st) = gg_events st @ [EvSyncThreads, EvBlockwiseGemm Even]"
  by (simp_all add: gg_tail_double_def gg_tail_single_def gg_op_defs)

lemma epoch_ok_bodies:
  "epoch_ok w r (concat (replicate (Suc n)
     [EvMoveSrcSliceWindow, EvSyncThreads, EvRunRead, EvBlockwiseGemm Even, EvRunWrite Odd,
      EvMoveSrcSliceWindow, EvSyncThreads, EvRunRead, EvBlockwiseGemm Odd, EvRunWrite Even]) @ es)
   = epoch_ok [Even] [Odd] es"
  by (induction n arbitrary: w r) simp_all

lemma gg_main_loop_events:
  assumes "gg_main_loop cfg A B g (k, st) = Some (k', st')"
  shows "\<exists>n. gg_events st' = gg_events st @ concat (replicate (Suc n)
     [EvMoveSrcSliceWindow, EvSyncThreads, EvRunRead, EvBlockwiseGemm Even, EvRunWrite Odd,
      EvMoveSrcSliceWindow, EvSyncThreads, EvRunRead, EvBlockwiseGemm Odd, EvRunWrite Even])"
proof -
  let ?ev = "[EvMoveSrcSliceWindow, EvSyncThreads, EvRunRead, EvBlockwiseGemm Even, EvRunWrite Odd,
      EvMoveSrcSliceWindow, EvSyncThreads, EvRunRead, EvBlockwiseGemm Odd, EvRunWrite Even]"
  define I where "I = (\<lambda>(k :: int, s :: ('a, 'b, 'c) gg_state). \<exists>n. gg_events s = gg_events st @ concat (replicate n ?ev))"
  define body where "body = (\<lambda>(k :: int, st). (k + 2 * KPerBlock cfg, gg_main_body cfg A B g st))"
  have i0: "I (k, st)" unfolding I_def by (simp add: exI[of _ 0])
  have step: "I (body s)" if a: "I s" for s
  proof -
    obtain k s1 where s: "s = (k, s1)" by (cases s)
    then obtain n where "gg_events s1 = gg_events st @ concat (replicate n ?ev)" using a I_def by auto
    then have "gg_events (gg_main_body cfg A B g s1) = gg_events st @ concat (replicate (Suc n) ?ev)"
      by (simp add: gg_events_body concat_replicate_snoc del: replicate_Suc)
    then show ?thesis unfolding s I_def body_def by (auto simp del: replicate_Suc)
  qed
  obtain s' where "I s'" "(k', st') = body s'"
    using do_while_partial[where I = I and body = body, OF assms[unfolded gg_main_loop_def, folded body_def] i0 step]
    by blast
  then show ?thesis unfolding I_def body_def
    by (cases s') (auto simp: gg_events_body concat_replicate_snoc simp del: replicate_Suc)
qed

lemma integer_least_multiple_ge:
  assumes "0 < y" shows "x \<le> integer_least_multiple x y"
proof -
  have "(x + y - 1) mod y < y" using assms by simp
  moreover have "y * ((x + y - 1) div y) + (x + y - 1) mod y = x + y - 1"
    by (rule mult_div_mod_eq)
  ultimately show ?thesis unfolding integer_least_multiple_def by linarith
qed

section \<open>Properties of the pipeline\<close>

lemma gg_main_loop_returns:
  assumes "0 < KPerBlock cfg"
  shows "gg_main_loop cfg A B g (k, st) \<noteq> None"
proof -
  have "\<exists>s'. True \<and> gg_main_loop cfg A B g (k, st)
               = Some ((\<lambda>(k, st). (k + 2 * KPerBlock cfg, gg_main_body cfg A B g st)) s')
             \<and> \<not> (\<lambda>(k, st). k < gK cfg - 2 * KPerBlock cfg)
                  ((\<lambda>(k, st). (k + 2 * KPerBlock cfg, gg_main_body cfg A B g st)) s')"
    unfolding gg_main_loop_def
    by (rule do_while_rule[where I = "\<lambda>_. True" and f = "\<lambda>(k, st). nat (gK cfg - k)"])
      (use assms in \<open>auto split: prod.splits\<close>)
  then show ?thesis by auto
qed

lemma gg_Run_events:
  assumes "gg_Run cfg HasMainKBlockLoop HasDoubleTailKBlockLoop A B g mi ni st0 = Some st"
  shows "\<exists>n. gg_events st = [EvRunRead, EvRunWrite Even] @ concat (replicate n
     [EvMoveSrcSliceWindow, EvSyncThreads, EvRunRead, EvBlockwiseGemm Even, EvRunWrite Odd,
      EvMoveSrcSliceWindow, EvSyncThreads, EvRunRead, EvBlockwiseGemm Odd, EvRunWrite Even])
     @ (if HasDoubleTailKBlockLoop
        then [EvMoveSrcSliceWindow, EvSyncThreads, EvRunRead, EvBlockwiseGemm Even, EvRunWrite Odd,
              EvSyncThreads, EvBlockwiseGemm Odd]
        else [EvSyncThreads, EvBlockwiseGemm Even])"
proof -
  define st1 where "st1 = gg_preload A B (st0\<lparr>a_win := [0, mi * MPerBlock cfg], b_win := [0, ni * NPerBlock cfg],
                        c_thread_buf := 0, gg_events := []\<rparr>)"
  have e1: "gg_events st1 = [EvRunRead, EvRunWrite Even]" by (simp add: st1_def gg_preload_def gg_op_defs)
  obtain st2 where st2: "(if HasMainKBlockLoop then map_option snd (gg_main_loop cfg A B g (0, st1)) else Some st1) = Some st2"
    and st: "st = (if HasDoubleTailKBlockLoop then gg_tail_double cfg A B g st2 else gg_tail_single g st2)"
  proof -
    have "gg_Run cfg HasMainKBlockLoop HasDoubleTailKBlockLoop A B g mi ni st0 =
      (case (if HasMainKBlockLoop then map_option snd (gg_main_loop cfg A B g (0, st1)) else Some st1) of
         None \<Rightarrow> None
       | Some st2 \<Rightarrow> Some (if HasDoubleTailKBlockLoop then gg_tail_double cfg A B g st2 else gg_tail_single g st2))"
      by (simp add: gg_Run_def st1_def Let_def)
    then show ?thesis using assms that by (auto split: option.splits)
  qed
  have "\<exists>n. gg_events st2 = [EvRunRead, EvRunWrite Even] @ concat (replicate n [EvMoveSrcSliceWindow, EvSyncThreads, EvRunRead, EvBlockwiseGemm Even, EvRunWrite Odd,
      EvMoveSrcSliceWindow, EvSyncThreads, EvRunRead, EvBlockwiseGemm Odd, EvRunWrite Even])"
  proof (cases HasMainKBlockLoop)
    case True
    then obtain k' where "gg_main_loop cfg A B g (0, st1) = Some (k', st2)" using st2 by auto
    then show ?thesis using gg_main_loop_events e1 by metis
  next
    case False
    then show ?thesis using st2 e1 by (intro exI[of _ 0]) simp
  qed
  then show ?thesis using st by (auto simp: gg_events_tails)
qed

lemma lds_tiles_once_bodies:
  "lds_tiles_once [Even] (concat (replicate n [EvMoveSrcSliceWindow, EvSyncThreads, EvRunRead, EvBlockwiseGemm Even, EvRunWrite Odd,
      EvMoveSrcSliceWindow, EvSyncThreads, EvRunRead, EvBlockwiseGemm Odd, EvRunWrite Even]) @ es) = lds_tiles_once [Even] es"
  by (induction n) simp_all

text \<open>C5: with \<open>KPerBlock > 0\<close>, \<open>K = nK * KPerBlock\<close> and \<open>nK > 0\<close>, and the loop flags the host
  derives from K, \<^verbatim>\<open>Run\<close> returns and its accumulator equals the single-buffered reference
  that applies the blockwise GEMM to the K-tiles \<open>0, 1, .., nK-1\<close> in order.\<close>

theorem gg_Run_reference:
  assumes kpb: "0 < KPerBlock cfg" and K: "gK cfg = int nK * KPerBlock cfg" and pos: "0 < nK"
  shows "\<exists>st. gg_Run cfg (gg_has_main_k_block_loop cfg) (gg_has_double_tail_k_block_loop cfg) A B g mi ni st0
                = Some st
             \<and> c_thread_buf st = gg_reference cfg A B g mi ni nK"
proof -
  define st1 where "st1 = gg_preload A B (st0\<lparr>a_win := [0, mi * MPerBlock cfg], b_win := [0, ni * NPerBlock cfg],
                        c_thread_buf := 0, gg_events := []\<rparr>)"
  have r0: "gg_ready cfg A B g mi ni 0 st1" unfolding st1_def by (rule gg_ready_preload)
  have run: "gg_Run cfg hm hd A B g mi ni st0 =
      (case (if hm then map_option snd (gg_main_loop cfg A B g (0, st1)) else Some st1) of
         None \<Rightarrow> None
       | Some st2 \<Rightarrow> Some (if hd then gg_tail_double cfg A B g st2 else gg_tail_single g st2))" for hm hd
    by (simp add: gg_Run_def st1_def Let_def)
  show ?thesis
  proof (cases "2 < nK")
    case True
    then obtain j st' where l: "gg_main_loop cfg A B g (0, st1) = Some (int j * KPerBlock cfg, st')"
      "gg_ready cfg A B g mi ni j st'" "even j" "j < nK" "nK \<le> j + 2"
      using gg_main_loop_ready[OF kpb K True r0] by blast
    have par: "even nK \<longleftrightarrow> nK = j + 2" using l(3-5) by presburger
    show ?thesis
      using run gg_flags[OF kpb K] True l(1) gg_tails[OF l(2) l(4) l(5) par] by simp
  next
    case False
    then have par: "even nK \<longleftrightarrow> nK = 0 + 2" and b: "0 < nK" "nK \<le> 0 + 2" using pos by presburger+
    show ?thesis
      using run gg_flags[OF kpb K] False gg_tails[OF r0 b par] by simp
  qed
qed

text \<open>C6: whatever the flags and the configuration, when \<^verbatim>\<open>Run\<close> returns, no interval between two
  \<^verbatim>\<open>__syncthreads()\<close> contains both a write of an LDS buffer and a blockwise GEMM reading it.\<close>

theorem gg_Run_lds_hazard_free:
  assumes "gg_Run cfg HasMainKBlockLoop HasDoubleTailKBlockLoop A B g mi ni st0 = Some st"
  shows "lds_hazard_free (gg_events st)"
proof -
  obtain n where n: "gg_events st = [EvRunRead, EvRunWrite Even] @ concat (replicate n [EvMoveSrcSliceWindow, EvSyncThreads, EvRunRead, EvBlockwiseGemm Even, EvRunWrite Odd,
      EvMoveSrcSliceWindow, EvSyncThreads, EvRunRead, EvBlockwiseGemm Odd, EvRunWrite Even])
     @ (if HasDoubleTailKBlockLoop
        then [EvMoveSrcSliceWindow, EvSyncThreads, EvRunRead, EvBlockwiseGemm Even, EvRunWrite Odd,
              EvSyncThreads, EvBlockwiseGemm Odd]
        else [EvSyncThreads, EvBlockwiseGemm Even])"
    using gg_Run_events[OF assms] by blast
  show ?thesis
  proof (cases n)
    case 0
    then show ?thesis using n by (simp add: lds_hazard_free_def)
  next
    case (Suc m)
    then show ?thesis using n epoch_ok_bodies[of "[Even]" "[]" m]
      by (simp add: lds_hazard_free_def del: replicate_Suc)
  qed
qed

text \<open>C7: \<^verbatim>\<open>Run\<close> returns exactly when the main loop is not entered, or \<open>KPerBlock > 0\<close>, or K is
  at most four K-tiles; with \<open>KPerBlock \<le> 0\<close> and a longer K the do-while loop never ends.\<close>

theorem gg_Run_returns_iff:
  "(\<exists>st. gg_Run cfg HasMainKBlockLoop HasDoubleTailKBlockLoop A B g mi ni st0 = Some st)
   \<longleftrightarrow> \<not> HasMainKBlockLoop \<or> 0 < KPerBlock cfg \<or> gK cfg \<le> 4 * KPerBlock cfg"
proof -
  define st1 where "st1 = gg_preload A B (st0\<lparr>a_win := [0, mi * MPerBlock cfg], b_win := [0, ni * NPerBlock cfg],
                        c_thread_buf := 0, gg_events := []\<rparr>)"
  define body where "body = (\<lambda>(k :: int, st). (k + 2 * KPerBlock cfg, gg_main_body cfg A B g st))"
  define cond where "cond = (\<lambda>(k :: int, st :: ('a, 'b, 'c) gg_state). k < gK cfg - 2 * KPerBlock cfg)"
  have run: "(\<exists>st. gg_Run cfg HasMainKBlockLoop HasDoubleTailKBlockLoop A B g mi ni st0 = Some st)
     \<longleftrightarrow> \<not> HasMainKBlockLoop \<or> do_while body cond (0, st1) \<noteq> None"
    by (auto simp: gg_Run_def st1_def Let_def gg_main_loop_def body_def cond_def split: option.splits)
  have terminates: "do_while body cond (0, st1) \<noteq> None" if "0 < KPerBlock cfg"
    using gg_main_loop_returns[OF that, of A B g 0 st1] by (simp add: gg_main_loop_def body_def cond_def)
  have short: "do_while body cond (0, st1) \<noteq> None" if "gK cfg \<le> 4 * KPerBlock cfg"
    using that by (subst do_while.simps) (simp add: body_def cond_def)
  have hang: "do_while body cond (0, st1) = None" if "KPerBlock cfg \<le> 0" "4 * KPerBlock cfg < gK cfg"
    by (rule do_while_None[where J = "\<lambda>(k, st). k \<le> 2 * KPerBlock cfg"])
      (use that in \<open>auto simp: body_def cond_def split: prod.splits\<close>)
  show ?thesis using run terminates short hang by force
qed

text \<open>C8: the four LDS buffers (A even, A odd, B even, B odd) lie one after the other without
  overlap, and all of them inside the shared block of \<^verbatim>\<open>GetSharedMemoryNumberOfByte() /
  sizeof(FloatAB)\<close> elements.\<close>

theorem gg_lds_buffers_disjoint:
  assumes "0 \<le> a_elem" "0 \<le> b_elem" "0 < max_lds_align" "0 < sizeof_FloatAB"
  defines "bufs \<equiv> gg_lds_buffers a_elem b_elem max_lds_align"
  shows "(\<forall>i < 4. \<forall>j < 4. i < j \<longrightarrow> fst (bufs ! i) + snd (bufs ! i) \<le> fst (bufs ! j))
         \<and> (\<forall>(off, len) \<in> set bufs. 0 \<le> off \<and> off + len
              \<le> gg_GetSharedMemoryNumberOfByte a_elem b_elem max_lds_align sizeof_FloatAB div sizeof_FloatAB)"
proof -
  let ?as = "integer_least_multiple a_elem max_lds_align"
  let ?bs = "integer_least_multiple b_elem max_lds_align"
  have a: "a_elem \<le> ?as" and b: "b_elem \<le> ?bs"
    using integer_least_multiple_ge[OF assms(3)] by auto
  have sz: "gg_GetSharedMemoryNumberOfByte a_elem b_elem max_lds_align sizeof_FloatAB div sizeof_FloatAB
            = 2 * (?as + ?bs)"
    using assms(4) by (simp add: gg_GetSharedMemoryNumberOfByte_def Let_def)
  have l: "bufs = [(0, a_elem), (?as, a_elem), (2 * ?as, b_elem), (2 * ?as + ?bs, b_elem)]"
    by (simp add: bufs_def gg_lds_buffers_def Let_def)
  have ord: "fst (bufs ! i) + snd (bufs ! i) \<le> fst (bufs ! j)" if "i < j" "j < 4" for i j :: nat
    using that a b assms(1,2) unfolding l
    by (auto simp: less_Suc_eq numeral_eq_Suc nth_Cons split: nat.splits)
  show ?thesis using ord a b assms(1,2) unfolding sz l by auto
qed

text \<open>C26: whenever \<open>KPerBlock > 0\<close>, whatever the loop flags, \<^verbatim>\<open>Run\<close> returns, and along
  its trace every K-tile written to an LDS buffer is eventually multiplied by the blockwise
  GEMM, exactly once and before the buffer is written again; no GEMM reads a buffer that
  holds no fresh tile.\<close>

theorem gg_Run_tiles_consumed:
  assumes "0 < KPerBlock cfg"
  shows "\<exists>st. gg_Run cfg HasMainKBlockLoop HasDoubleTailKBlockLoop A B g mi ni st0 = Some st
              \<and> lds_tiles_once [] (gg_events st)"
proof -
  have "\<exists>st. gg_Run cfg HasMainKBlockLoop HasDoubleTailKBlockLoop A B g mi ni st0 = Some st"
    using gg_main_loop_returns[OF assms, of A B g 0]
    by (cases HasMainKBlockLoop) (auto simp: gg_Run_def Let_def split: option.splits)
  then obtain st where st: "gg_Run cfg HasMainKBlockLoop HasDoubleTailKBlockLoop A B g mi ni st0 = Some st"
    by blast
  obtain n where n: "gg_events st = [EvRunRead, EvRunWrite Even] @ concat (replicate n [EvMoveSrcSliceWindow, EvSyncThreads, EvRunRead, EvBlockwiseGemm Even, EvRunWrite Odd,
      EvMoveSrcSliceWindow, EvSyncThreads, EvRunRead, EvBlockwiseGemm Odd, EvRunWrite Even])
     @ (if HasDoubleTailKBlockLoop
        then [EvMoveSrcSliceWindow, EvSyncThreads, EvRunRead, EvBlockwiseGemm Even, EvRunWrite Odd,
              EvSyncThreads, EvBlockwiseGemm Odd]
        else [EvSyncThreads, EvBlockwiseGemm Even])"
    using gg_Run_events[OF st] by blast
  have "lds_tiles_once [] (gg_events st)"
    unfolding n by (simp add: lds_tiles_once_bodies del: replicate_Suc)
  then show ?thesis using st by blast
qed

theorem gg_Run_reference_witness:
  "\<exists>st. gg_Run (\<lparr>gK = 24, gM = 64, gN = 64, MPerBlock = 32, NPerBlock = 32, KPerBlock = 8\<rparr>) (gg_has_main_k_block_loop (\<lparr>gK = 24, gM = 64, gN = 64, MPerBlock = 32, NPerBlock = 32, KPerBlock = 8\<rparr>)) (gg_has_double_tail_k_block_loop (\<lparr>gK = 24, gM = 64, gN = 64, MPerBlock = 32, NPerBlock = 32, KPerBlock = 8\<rparr>))
          (\<lambda>x. x ! 0 :: int) (\<lambda>x. x ! 0 + 1 :: int) (\<lambda>c a b. c + a * b) 1 0 (\<lparr>a_win = [], b_win = [], a_thread_buf = 0, b_thread_buf = 0, a_block_buf = \<lambda>s. 0,
          b_block_buf = \<lambda>s. 0, c_thread_buf = 0, gg_events = []\<rparr>) = Some st
        \<and> c_thread_buf st = 344"
  using gg_Run_reference[of "\<lparr>gK = 24, gM = 64, gN = 64, MPerBlock = 32, NPerBlock = 32, KPerBlock = 8\<rparr>" 3 "\<lambda>x. x ! 0 :: int" "\<lambda>x. x ! 0 + 1 :: int" "\<lambda>c a b. c + a * b" 1 0 "\<lparr>a_win = [], b_win = [], a_thread_buf = 0, b_thread_buf = 0, a_block_buf = \<lambda>s. 0,
          b_block_buf = \<lambda>s. 0, c_thread_buf = 0, gg_events = []\<rparr>"]
  by (simp add: gg_reference_def numeral_3_eq_3)

theorem gg_Run_lds_hazard_free_witness:
  "\<exists>st. gg_Run (\<lparr>gK = 24, gM = 64, gN = 64, MPerBlock = 32, NPerBlock = 32, KPerBlock = 8\<rparr>) False True (\<lambda>x. x ! 0 :: int) (\<lambda>x. x ! 0 + 1 :: int) (\<lambda>c a b. c + a * b) 0 0 (\<lparr>a_win = [], b_win = [], a_thread_buf = 0, b_thread_buf = 0, a_block_buf = \<lambda>s. 0,
          b_block_buf = \<lambda>s. 0, c_thread_buf = 0, gg_events = []\<rparr>) = Some st \<and> lds_hazard_free (gg_events st)"
proof -
  obtain st where st: "gg_Run (\<lparr>gK = 24, gM = 64, gN = 64, MPerBlock = 32, NPerBlock = 32, KPerBlock = 8\<rparr>) False True (\<lambda>x. x ! 0 :: int) (\<lambda>x. x ! 0 + 1 :: int) (\<lambda>c a b. c + a * b) 0 0 (\<lparr>a_win = [], b_win = [], a_thread_buf = 0, b_thread_buf = 0, a_block_buf = \<lambda>s. 0,
          b_block_buf = \<lambda>s. 0, c_thread_buf = 0, gg_events = []\<rparr>) = Some st"
    by (simp add: gg_Run_def Let_def)
  show ?thesis using st gg_Run_lds_hazard_free[OF st] by blast
qed

theorem gg_Run_returns_iff_witness:
  "(\<exists>st. gg_Run (\<lparr>gK = 24, gM = 64, gN = 64, MPerBlock = 32, NPerBlock = 32, KPerBlock = 8\<rparr>) True True (\<lambda>x. x ! 0 :: int) (\<lambda>x. x ! 0 + 1 :: int) (\<lambda>c a b. c + a * b) 0 0 (\<lparr>a_win = [], b_win = [], a_thread_buf = 0, b_thread_buf = 0, a_block_buf = \<lambda>s. 0,
          b_block_buf = \<lambda>s. 0, c_thread_buf = 0, gg_events = []\<rparr>) = Some st)
   \<and> \<not> (\<exists>st. gg_Run (\<lparr>gK = 24, gM = 64, gN = 64, MPerBlock = 32, NPerBlock = 32, KPerBlock = 0\<rparr>) True True (\<lambda>x. x ! 0 :: int) (\<lambda>x. x ! 0 + 1 :: int) (\<lambda>c a b. c + a * b) 0 0 (\<lparr>a_win = [], b_win = [], a_thread_buf = 0, b_thread_buf = 0, a_block_buf = \<lambda>s. 0,
          b_block_buf = \<lambda>s. 0, c_thread_buf = 0, gg_events = []\<rparr>) = Some st)"
  using gg_Run_returns_iff[of "\<lparr>gK = 24, gM = 64, gN = 64, MPerBlock = 32, NPerBlock = 32, KPerBlock = 8\<rparr>" True True "\<lambda>x. x ! 0 :: int" "\<lambda>x. x ! 0 + 1 :: int" "\<lambda>c a b. c + a * b" 0 0 "\<lparr>a_win = [], b_win = [], a_thread_buf = 0, b_thread_buf = 0, a_block_buf = \<lambda>s. 0,
          b_block_buf = \<lambda>s. 0, c_thread_buf = 0, gg_events = []\<rparr>"]
    gg_Run_returns_iff[of "\<lparr>gK = 24, gM = 64, gN = 64, MPerBlock = 32, NPerBlock = 32, KPerBlock = 0\<rparr>" True True "\<lambda>x. x ! 0 :: int" "\<lambda>x. x ! 0 + 1 :: int" "\<lambda>c a b. c + a * b" 0 0 "\<lparr>a_win = [], b_win = [], a_thread_buf = 0, b_thread_buf = 0, a_block_buf = \<lambda>s. 0,
          b_block_buf = \<lambda>s. 0, c_thread_buf = 0, gg_events = []\<rparr>"]
  by simp

theorem gg_lds_buffers_disjoint_witness:
  "gg_lds_buffers 1028 1028 4 = [(0, 1028), (1028, 1028), (2056, 1028), (3084, 1028)]
   \<and> gg_GetSharedMemoryNumberOfByte 1028 1028 4 4 = 16448
   \<and> fst (gg_lds_buffers 1028 1028 4 ! 2) + snd (gg_lds_buffers 1028 1028 4 ! 2)
       \<le> fst (gg_lds_buffers 1028 1028 4 ! 3)"
  using gg_lds_buffers_disjoint[of 1028 1028 4 4]
  by (simp add: gg_lds_buffers_def gg_GetSharedMemoryNumberOfByte_def integer_least_multiple_def)

theorem gg_Run_tiles_consumed_witness:
  "0 < KPerBlock \<lparr>gK = 24, gM = 64, gN = 64, MPerBlock = 32, NPerBlock = 32, KPerBlock = 8\<rparr>
   \<and> (\<exists>st. gg_Run (\<lparr>gK = 24, gM = 64, gN = 64, MPerBlock = 32, NPerBlock = 32, KPerBlock = 8\<rparr>) True False
          (\<lambda>x. x ! 0 :: int) (\<lambda>x. x ! 0 + 1 :: int) (\<lambda>c a b. c + a * b) 0 0 (\<lparr>a_win = [], b_win = [], a_thread_buf = 0,
          b_thread_buf = 0, a_block_buf = \<lambda>s. 0, b_block_buf = \<lambda>s. 0, c_thread_buf = 0, gg_events = []\<rparr>) = Some st
        \<and> lds_tiles_once [] (gg_events st))"
  using gg_Run_tiles_consumed[of "\<lparr>gK = 24, gM = 64, gN = 64, MPerBlock = 32, NPerBlock = 32, KPerBlock = 8\<rparr>" True False
      "\<lambda>x. x ! 0 :: int" "\<lambda>x. x ! 0 + 1 :: int" "\<lambda>c a b. c + a * b" 0 0 "\<lparr>a_win = [], b_win = [], a_thread_buf = 0,
          b_thread_buf = 0, a_block_buf = \<lambda>s. 0, b_block_buf = \<lambda>s. 0, c_thread_buf = 0, gg_events = []\<rparr>"]
  by simp

end
