(* ===== verification/ThreadwiseGemm.thy ===== *)
theory ThreadwiseGemm
  imports MatrixDesc
begin

text \<open>
  The per-thread primitives that the blockwise GEMM calls: \<open>threadwise_matrix_copy\<close> and
  \<open>threadwise_gemm\<close> (transposed A, normal B and C).  Their header
  \<^verbatim>\<open>threadwise_gemm.hip.hpp\<close> is not part of the sources, so both are modelled from their
  contract: a copy of a \<open>lens\<close>-sized sub-matrix between two descriptors, and the
  accumulation \<open>C[i][j] = f_accum C[i][j] (A[k][i] * B[k][j])\<close> for \<open>k\<close>, \<open>i\<close>, \<open>j\<close> in
  that loop order.  A thread's registers and the shared memory are functions from
  addresses to values.  The lemmas read both operations at one address: the written
  positions get the copied value or the fold over \<open>k\<close>, every other address is unchanged.
\<close>

definition threadwise_matrix_copy ::
  "cmd \<Rightarrow> (int \<Rightarrow> 'a) \<Rightarrow> int \<Rightarrow> cmd \<Rightarrow> (int \<Rightarrow> 'a) \<Rightarrow> int \<Rightarrow> index_t \<times> index_t \<Rightarrow> (int \<Rightarrow> 'a)" where
  "threadwise_matrix_copy src_mtx p_src src_off dst_mtx p_dst dst_off lens =
     foldl (\<lambda>d (i, j). d(dst_off + GetOffsetFromMultiIndex dst_mtx i j :=
                            p_src (src_off + GetOffsetFromMultiIndex src_mtx i j)))
           p_dst [(i, j). i \<leftarrow> [0..fst lens - 1], j \<leftarrow> [0..snd lens - 1]]"

definition threadwise_gemm ::
  "cmd \<Rightarrow> (int \<Rightarrow> 'a::times) \<Rightarrow> int \<Rightarrow> cmd \<Rightarrow> (int \<Rightarrow> 'a) \<Rightarrow> int \<Rightarrow> cmd \<Rightarrow> (int \<Rightarrow> 'a) \<Rightarrow> int
   \<Rightarrow> ('a \<Rightarrow> 'a \<Rightarrow> 'a) \<Rightarrow> (int \<Rightarrow> 'a)" where
  "threadwise_gemm a_mtx p_a a_off b_mtx p_b b_off c_mtx p_c c_off f_accum =
     foldl (\<lambda>c (k, i, j). c(c_off + GetOffsetFromMultiIndex c_mtx i j :=
                            f_accum (c (c_off + GetOffsetFromMultiIndex c_mtx i j))
                                    (p_a (a_off + GetOffsetFromMultiIndex a_mtx k i)
                                     * p_b (b_off + GetOffsetFromMultiIndex b_mtx k j))))
           p_c [(k, i, j). k \<leftarrow> [0..NRow a_mtx - 1], i \<leftarrow> [0..NCol a_mtx - 1], j \<leftarrow> [0..NCol b_mtx - 1]]"

lemma cmd_offset_inj_on:
  assumes "NC \<le> RowStride m"
  shows "inj_on (\<lambda>(i, j). GetOffsetFromMultiIndex m i j) (A \<times> {0..NC - 1})"
proof (rule inj_onI, clarify)
  fix i j i' j' assume "j \<in> {0..NC - 1}" "j' \<in> {0..NC - 1}"
    and e: "GetOffsetFromMultiIndex m i j = GetOffsetFromMultiIndex m i' j'"
  then show "i = i' \<and> j = j'"
    using rowmajor_offset_unique[of j "RowStride m" j' i i'] assms by (auto simp: GetOffsetFromMultiIndex_def)
qed

lemma threadwise_gemm_fold:
  "threadwise_gemm a_mtx p_a a_off b_mtx p_b b_off c_mtx p_c c_off f
   = foldl (\<lambda>c x. c((\<lambda>(i, j). c_off + GetOffsetFromMultiIndex c_mtx i j) (snd x) :=
              f (c ((\<lambda>(i, j). c_off + GetOffsetFromMultiIndex c_mtx i j) (snd x)))
                ((\<lambda>(k, i, j). p_a (a_off + GetOffsetFromMultiIndex a_mtx k i)
                               * p_b (b_off + GetOffsetFromMultiIndex b_mtx k j)) x)))
       p_c (List.product [0..NRow a_mtx - 1] (List.product [0..NCol a_mtx - 1] [0..NCol b_mtx - 1]))"
  by (simp add: threadwise_gemm_def comprehension3_product split_def)

lemma threadwise_gemm_at:
  assumes wf: "NCol b_mtx \<le> RowStride c_mtx"
    and isel: "0 \<le> isel" "isel < NCol a_mtx" and jsel: "0 \<le> jsel" "jsel < NCol b_mtx"
  shows "threadwise_gemm a_mtx p_a a_off b_mtx p_b b_off c_mtx p_c c_off f (c_off + GetOffsetFromMultiIndex c_mtx isel jsel)
         = foldl f (p_c (c_off + GetOffsetFromMultiIndex c_mtx isel jsel))
             [p_a (a_off + GetOffsetFromMultiIndex a_mtx k isel) * p_b (b_off + GetOffsetFromMultiIndex b_mtx k jsel).
              k \<leftarrow> [0..NRow a_mtx - 1]]"
proof -
  have inj: "inj_on (\<lambda>(i, j). c_off + GetOffsetFromMultiIndex c_mtx i j)
               (set (List.product [0..NCol a_mtx - 1] [0..NCol b_mtx - 1]))"
    using cmd_offset_inj_on[OF wf, of "{0..NCol a_mtx - 1}"] by (auto simp: inj_on_def)
  show ?thesis
    using foldl_acc_product_at[OF _ _ inj, where lsel = "(isel, jsel)" and f = f and c = p_c
        and K = "[0..NRow a_mtx - 1]" and val = "\<lambda>(k, i, j). p_a (a_off + GetOffsetFromMultiIndex a_mtx k i)
                               * p_b (b_off + GetOffsetFromMultiIndex b_mtx k j)"] isel jsel
    by (simp add: threadwise_gemm_fold distinct_product)
qed

lemma threadwise_gemm_other:
  assumes "\<And>i j. 0 \<le> i \<Longrightarrow> i < NCol a_mtx \<Longrightarrow> 0 \<le> j \<Longrightarrow> j < NCol b_mtx
             \<Longrightarrow> p \<noteq> c_off + GetOffsetFromMultiIndex c_mtx i j"
  shows "threadwise_gemm a_mtx p_a a_off b_mtx p_b b_off c_mtx p_c c_off f p = p_c p"
  unfolding threadwise_gemm_fold by (rule foldl_acc_product_other) (use assms in force)

lemma threadwise_matrix_copy_at:
  assumes wf: "snd lens \<le> RowStride dst_mtx"
    and isel: "0 \<le> isel" "isel < fst lens" and jsel: "0 \<le> jsel" "jsel < snd lens"
  shows "threadwise_matrix_copy src_mtx p_src src_off dst_mtx p_dst dst_off lens
           (dst_off + GetOffsetFromMultiIndex dst_mtx isel jsel)
         = p_src (src_off + GetOffsetFromMultiIndex src_mtx isel jsel)"
proof -
  let ?I = "[0..fst lens - 1]" and ?J = "[0..snd lens - 1]"
  let ?key = "\<lambda>x. dst_off + GetOffsetFromMultiIndex dst_mtx (fst x) (snd x)"
  let ?val = "\<lambda>x. p_src (src_off + GetOffsetFromMultiIndex src_mtx (fst x) (snd x))"
  have tc: "threadwise_matrix_copy src_mtx p_src src_off dst_mtx p_dst dst_off lens
            = foldl (\<lambda>d x. d(?key x := ?val x)) p_dst (List.product ?I ?J)"
    by (simp add: threadwise_matrix_copy_def comprehension2_product split_def)
  have inj: "inj_on ?key (set (List.product ?I ?J))"
    using cmd_offset_inj_on[OF wf, of "set ?I"] by (auto simp: inj_on_def)
  have "filter (\<lambda>x. ?key x = ?key (isel, jsel)) (List.product ?I ?J) = [(isel, jsel)]"
    by (rule filter_inj_singleton[OF _ _ inj]) (use isel jsel in \<open>simp_all add: distinct_product\<close>)
  then show ?thesis unfolding tc foldl_upd_last[where key = ?key and val = ?val] by simp
qed

lemma threadwise_matrix_copy_other:
  assumes "\<And>i j. 0 \<le> i \<Longrightarrow> i < fst lens \<Longrightarrow> 0 \<le> j \<Longrightarrow> j < snd lens
             \<Longrightarrow> p \<noteq> dst_off + GetOffsetFromMultiIndex dst_mtx i j"
  shows "threadwise_matrix_copy src_mtx p_src src_off dst_mtx p_dst dst_off lens p = p_dst p"
proof -
  let ?I = "[0..fst lens - 1]" and ?J = "[0..snd lens - 1]"
  let ?key = "\<lambda>x. dst_off + GetOffsetFromMultiIndex dst_mtx (fst x) (snd x)"
  let ?val = "\<lambda>x. p_src (src_off + GetOffsetFromMultiIndex src_mtx (fst x) (snd x))"
  have tc: "threadwise_matrix_copy src_mtx p_src src_off dst_mtx p_dst dst_off lens
            = foldl (\<lambda>d x. d(?key x := ?val x)) p_dst (List.product ?I ?J)"
    by (simp add: threadwise_matrix_copy_def comprehension2_product split_def)
  have "filter (\<lambda>x. ?key x = p) (List.product ?I ?J) = []"
    using assms by (force simp: filter_empty_conv)
  then show ?thesis unfolding tc foldl_upd_last[where key = ?key and val = ?val] by simp
qed

lemma tmc_region_at:
  fixes S k i m :: int
  assumes "S \<le> RowStride dst" "0 < S" "0 \<le> k" "k < KP" "0 \<le> i" "i div S = m"
  shows "threadwise_matrix_copy src p_src src_off dst p_dst (GetOffsetFromMultiIndex dst 0 (m * S)) (KP, S)
           (GetOffsetFromMultiIndex dst k i)
         = p_src (src_off + GetOffsetFromMultiIndex src k (i mod S))"
proof -
  have "GetOffsetFromMultiIndex dst k i
        = GetOffsetFromMultiIndex dst 0 (m * S) + GetOffsetFromMultiIndex dst k (i mod S)"
    using div_mult_mod_eq[of i S] assms(6) by (simp add: cmd_defs algebra_simps)
  then show ?thesis
    using threadwise_matrix_copy_at[of "(KP, S)" dst k "i mod S" src p_src src_off p_dst
        "GetOffsetFromMultiIndex dst 0 (m * S)"] assms by simp
qed

lemma tmc_region_other:
  fixes S T k i m :: int
  assumes S: "0 < S" and RS: "RowStride dst = T" and T: "T = T div S * S"
    and m: "0 \<le> m" "m < T div S" and i: "0 \<le> i" "i < T" "i div S \<noteq> m"
  shows "threadwise_matrix_copy src p_src src_off dst p_dst (GetOffsetFromMultiIndex dst 0 (m * S)) (KP, S)
           (GetOffsetFromMultiIndex dst k i)
         = p_dst (GetOffsetFromMultiIndex dst k i)"
proof (rule threadwise_matrix_copy_other)
  fix k' j' assume j': "0 \<le> j'" "j' < snd (KP, S)"
  have lt: "m * S + j' < T" using radix_lt[of j' S m "T div S"] j' m T by simp
  show "GetOffsetFromMultiIndex dst k i
        \<noteq> GetOffsetFromMultiIndex dst 0 (m * S) + GetOffsetFromMultiIndex dst k' j'"
  proof
    assume "GetOffsetFromMultiIndex dst k i
        = GetOffsetFromMultiIndex dst 0 (m * S) + GetOffsetFromMultiIndex dst k' j'"
    then have "k * T + i = k' * T + (m * S + j')" using RS by (simp add: cmd_defs algebra_simps)
    then have "i = m * S + j'"
      using rowmajor_offset_unique[of i T "m * S + j'" k k'] i lt m j' S by (simp add: zero_le_mult_iff)
    then show False using j' S i(3) by simp
  qed
qed

end
