(* ===== verification/BlockwiseGemm.thy ===== *)
theory BlockwiseGemm
  imports ThreadwiseGemm
begin

text \<open>
  \<^verbatim>\<open>src/src/include/blockwise_gemm.hip.hpp\<close>,
  \<^verbatim>\<open>BlockwiseGemmBlockABlockBThreadCTransANormalBNormalC_v2\<close>: the GEMM of a workgroup,
  \<open>C[m][n] += sum_k A[k][m] * B[k][n]\<close> with A and B in shared memory and C split over
  the threads of the block.  The template parameters become the record \<open>bg_cfg\<close>; the
  constructor's \<^verbatim>\<open>static_assert\<close>s are \<open>bg_static_ok\<close>; a thread object is \<open>bg_thread\<close>
  (its two offsets into the block matrices).  \<open>GetBeginOfThreadMatrixC\<close> and
  \<open>GetDistanceFromBeginOfThreadMatrixC\<close> place a thread's C sub-matrix in the block; the
  \<open>k\<close> loop of \<open>Run\<close> is a fold of \<open>bg_Run_step\<close> over \<open>int_range_step\<close>.  The lemmas
  show that the thread tiles partition the block's C, and that \<open>Run\<close> computes the
  micro-GEMM contract \<open>bg_reference\<close> when \<open>KPerThreadLoop\<close> divides K.
\<close>

record bg_cfg =
  BlockSize :: index_t
  BlockMatrixA :: cmd
  BlockMatrixB :: cmd
  ThreadMatrixC :: cmd
  MPerThreadSubC :: index_t
  NPerThreadSubC :: index_t
  MLevel0Cluster :: index_t
  NLevel0Cluster :: index_t
  MLevel1Cluster :: index_t
  NLevel1Cluster :: index_t
  KPerThreadLoop :: index_t

record MatrixIndex =
  row :: index_t
  col :: index_t

definition bg_static_ok :: "bg_cfg \<Rightarrow> bool" where
  "bg_static_ok cfg \<longleftrightarrow>
     (let ThreadPerLevel1Cluster = MLevel0Cluster cfg * NLevel0Cluster cfg * MLevel1Cluster cfg * NLevel1Cluster cfg;
          M = NCol (BlockMatrixA cfg); N = NCol (BlockMatrixB cfg);
          MPerThread = NRow (ThreadMatrixC cfg); NPerThread = NCol (ThreadMatrixC cfg);
          MRepeat = MPerThread div MPerThreadSubC cfg; NRepeat = NPerThread div NPerThreadSubC cfg;
          MPerLevel1Cluster = M div MRepeat; NPerLevel1Cluster = N div NRepeat;
          MPerLevel0Cluster = MPerLevel1Cluster div MLevel1Cluster cfg;
          NPerLevel0Cluster = NPerLevel1Cluster div NLevel1Cluster cfg
      in BlockSize cfg = ThreadPerLevel1Cluster
         \<and> NRow (BlockMatrixA cfg) = NRow (BlockMatrixB cfg)
         \<and> MPerThread mod MPerThreadSubC cfg = 0 \<and> NPerThread mod NPerThreadSubC cfg = 0
         \<and> M mod MRepeat = 0 \<and> N mod NRepeat = 0
         \<and> MPerLevel1Cluster mod MLevel1Cluster cfg = 0 \<and> NPerLevel1Cluster mod NLevel1Cluster cfg = 0
         \<and> MPerLevel0Cluster mod MLevel0Cluster cfg = 0 \<and> NPerLevel0Cluster mod NLevel0Cluster cfg = 0
         \<and> MPerThreadSubC cfg = MPerLevel0Cluster div MLevel0Cluster cfg
         \<and> NPerThreadSubC cfg = NPerLevel0Cluster div NLevel0Cluster cfg)"

definition bg_positive :: "bg_cfg \<Rightarrow> bool" where
  "bg_positive cfg \<longleftrightarrow>
     0 < MPerThreadSubC cfg \<and> 0 < NPerThreadSubC cfg \<and> 0 < MLevel0Cluster cfg \<and> 0 < NLevel0Cluster cfg
     \<and> 0 < MLevel1Cluster cfg \<and> 0 < NLevel1Cluster cfg \<and> 0 < NRow (ThreadMatrixC cfg)
     \<and> 0 < NCol (ThreadMatrixC cfg) \<and> 0 < KPerThreadLoop cfg"

definition GetBeginOfThreadMatrixC :: "bg_cfg \<Rightarrow> index_t \<Rightarrow> MatrixIndex" where
  "GetBeginOfThreadMatrixC cfg thread_id =
     (let ThreadPerLevel0Cluster = MLevel0Cluster cfg * NLevel0Cluster cfg;
          level1_id = thread_id div ThreadPerLevel0Cluster;
          level1_m_id = level1_id div NLevel1Cluster cfg;
          level1_n_id = level1_id mod NLevel1Cluster cfg;
          level0_id = thread_id mod ThreadPerLevel0Cluster;
          level0_m_id = level0_id div NLevel0Cluster cfg;
          level0_n_id = level0_id mod NLevel0Cluster cfg;
          MPerLevel0Cluster = MPerThreadSubC cfg * MLevel0Cluster cfg;
          NPerLevel0Cluster = NPerThreadSubC cfg * NLevel0Cluster cfg
      in \<lparr>row = level1_m_id * MPerLevel0Cluster + level0_m_id * MPerThreadSubC cfg,
          col = level1_n_id * NPerLevel0Cluster + level0_n_id * NPerThreadSubC cfg\<rparr>)"

definition GetDistanceFromBeginOfThreadMatrixC :: "bg_cfg \<Rightarrow> index_t \<Rightarrow> index_t \<Rightarrow> MatrixIndex" where
  "GetDistanceFromBeginOfThreadMatrixC cfg m_in_c n_in_c =
     (let MPerLevel1Cluster = MPerThreadSubC cfg * MLevel0Cluster cfg * MLevel1Cluster cfg;
          NPerLevel1Cluster = NPerThreadSubC cfg * NLevel0Cluster cfg * NLevel1Cluster cfg;
          m_repeat = m_in_c div MPerThreadSubC cfg;
          n_repeat = n_in_c div NPerThreadSubC cfg;
          m_in_sub_c = m_in_c mod MPerThreadSubC cfg;
          n_in_sub_c = n_in_c mod NPerThreadSubC cfg
      in \<lparr>row = m_repeat * MPerLevel1Cluster + m_in_sub_c, col = n_repeat * NPerLevel1Cluster + n_in_sub_c\<rparr>)"

definition bg_thread_tile :: "bg_cfg \<Rightarrow> index_t \<Rightarrow> (index_t \<times> index_t) list" where
  "bg_thread_tile cfg t =
     [(row (GetBeginOfThreadMatrixC cfg t) + row (GetDistanceFromBeginOfThreadMatrixC cfg i j),
       col (GetBeginOfThreadMatrixC cfg t) + col (GetDistanceFromBeginOfThreadMatrixC cfg i j)).
      i \<leftarrow> [0..NRow (ThreadMatrixC cfg) - 1], j \<leftarrow> [0..NCol (ThreadMatrixC cfg) - 1]]"

definition bg_block_tiles :: "bg_cfg \<Rightarrow> (index_t \<times> index_t) list" where
  "bg_block_tiles cfg = concat (map (bg_thread_tile cfg) ([0..BlockSize cfg - 1]))"

record bg_thread =
  mMyThreadOffsetA :: index_t
  mMyThreadOffsetB :: index_t

definition bg_make :: "bg_cfg \<Rightarrow> index_t \<Rightarrow> bg_thread option" where
  "bg_make cfg thread_id =
     (if bg_static_ok cfg
      then (let c_thread_mtx_index = GetBeginOfThreadMatrixC cfg thread_id
            in Some \<lparr>mMyThreadOffsetA = GetOffsetFromMultiIndex (BlockMatrixA cfg) 0 (row c_thread_mtx_index),
                     mMyThreadOffsetB = GetOffsetFromMultiIndex (BlockMatrixB cfg) 0 (col c_thread_mtx_index)\<rparr>)
      else None)"

definition bg_copy_subs ::
  "cmd \<Rightarrow> (int \<Rightarrow> 'a) \<Rightarrow> (index_t \<Rightarrow> int) \<Rightarrow> cmd \<Rightarrow> (int \<Rightarrow> 'a) \<Rightarrow> (index_t \<Rightarrow> int)
   \<Rightarrow> index_t \<times> index_t \<Rightarrow> index_t \<Rightarrow> (int \<Rightarrow> 'a)" where
  "bg_copy_subs src_mtx p_src src_off dst_mtx p_dst dst_off lens Repeat =
     foldl (\<lambda>d r. threadwise_matrix_copy src_mtx p_src (src_off r) dst_mtx d (dst_off r) lens)
           p_dst [0..Repeat - 1]"

definition bg_Run_step ::
  "bg_cfg \<Rightarrow> bg_thread \<Rightarrow> (int \<Rightarrow> 'a::times) \<Rightarrow> (int \<Rightarrow> 'a) \<Rightarrow> ('a \<Rightarrow> 'a \<Rightarrow> 'a)
   \<Rightarrow> (int \<Rightarrow> 'a) \<times> (int \<Rightarrow> 'a) \<times> (int \<Rightarrow> 'a) \<Rightarrow> index_t \<Rightarrow> (int \<Rightarrow> 'a) \<times> (int \<Rightarrow> 'a) \<times> (int \<Rightarrow> 'a)" where
  "bg_Run_step cfg th p_a_block p_b_block f_accum s k_begin =
     (let (p_a_thread, p_b_thread, p_c_thread) = s;
          a_block_mtx = BlockMatrixA cfg; b_block_mtx = BlockMatrixB cfg; c_thread_mtx = ThreadMatrixC cfg;
          MPerThread = NRow c_thread_mtx; NPerThread = NCol c_thread_mtx;
          a_thread_mtx = make_ConstantMatrixDescriptor (KPerThreadLoop cfg) MPerThread;
          b_thread_mtx = make_ConstantMatrixDescriptor (KPerThreadLoop cfg) NPerThread;
          a_thread_sub_mtx = make_ConstantMatrixDescriptor_strided (KPerThreadLoop cfg) (MPerThreadSubC cfg) MPerThread;
          b_thread_sub_mtx = make_ConstantMatrixDescriptor_strided (KPerThreadLoop cfg) (NPerThreadSubC cfg) NPerThread;
          MPerLevel1Cluster = MPerThreadSubC cfg * MLevel0Cluster cfg * MLevel1Cluster cfg;
          NPerLevel1Cluster = NPerThreadSubC cfg * NLevel0Cluster cfg * NLevel1Cluster cfg;
          MRepeat = MPerThread div MPerThreadSubC cfg; NRepeat = NPerThread div NPerThreadSubC cfg;
          p_a_thread' = bg_copy_subs a_block_mtx p_a_block
            (\<lambda>m_repeat. GetOffsetFromMultiIndex a_block_mtx k_begin (m_repeat * MPerLevel1Cluster) + mMyThreadOffsetA th)
            a_thread_mtx p_a_thread (\<lambda>m_repeat. GetOffsetFromMultiIndex a_thread_mtx 0 (m_repeat * MPerThreadSubC cfg))
            (NRow a_thread_sub_mtx, NCol a_thread_sub_mtx) MRepeat;
          p_b_thread' = bg_copy_subs b_block_mtx p_b_block
            (\<lambda>n_repeat. GetOffsetFromMultiIndex b_block_mtx k_begin (n_repeat * NPerLevel1Cluster) + mMyThreadOffsetB th)
            b_thread_mtx p_b_thread (\<lambda>n_repeat. GetOffsetFromMultiIndex b_thread_mtx 0 (n_repeat * NPerThreadSubC cfg))
            (NRow b_thread_sub_mtx, NCol b_thread_sub_mtx) NRepeat
      in (p_a_thread', p_b_thread',
          threadwise_gemm a_thread_mtx p_a_thread' 0 b_thread_mtx p_b_thread' 0 c_thread_mtx p_c_thread 0 f_accum))"

definition bg_Run ::
  "bg_cfg \<Rightarrow> bg_thread \<Rightarrow> (int \<Rightarrow> 'a::times) \<Rightarrow> (int \<Rightarrow> 'a) \<Rightarrow> (int \<Rightarrow> 'a) \<Rightarrow> ('a \<Rightarrow> 'a \<Rightarrow> 'a)
   \<Rightarrow> (int \<Rightarrow> 'a) \<Rightarrow> (int \<Rightarrow> 'a) \<Rightarrow> (int \<Rightarrow> 'a) option" where
  "bg_Run cfg th p_a_block p_b_block p_c_thread f_accum p_a_thread0 p_b_thread0 =
     (let K = NRow (BlockMatrixA cfg)
      in if KPerThreadLoop cfg \<le> 0 \<and> 0 < K then None
         else Some (snd (snd (foldl (bg_Run_step cfg th p_a_block p_b_block f_accum)
                                    (p_a_thread0, p_b_thread0, p_c_thread)
                                    (int_range_step 0 K (KPerThreadLoop cfg))))))"

definition bg_reference ::
  "bg_cfg \<Rightarrow> bg_thread \<Rightarrow> (int \<Rightarrow> 'a::times) \<Rightarrow> (int \<Rightarrow> 'a) \<Rightarrow> (int \<Rightarrow> 'a) \<Rightarrow> ('a \<Rightarrow> 'a \<Rightarrow> 'a) \<Rightarrow> (int \<Rightarrow> 'a)" where
  "bg_reference cfg th p_a_block p_b_block p_c_thread f_accum =
     foldl (\<lambda>c (k, i, j).
              c(GetOffsetFromMultiIndex (ThreadMatrixC cfg) i j :=
                  f_accum (c (GetOffsetFromMultiIndex (ThreadMatrixC cfg) i j))
                    (p_a_block (mMyThreadOffsetA th
                                + GetOffsetFromMultiIndex (BlockMatrixA cfg) k (row (GetDistanceFromBeginOfThreadMatrixC cfg i j)))
                     * p_b_block (mMyThreadOffsetB th
                                + GetOffsetFromMultiIndex (BlockMatrixB cfg) k (col (GetDistanceFromBeginOfThreadMatrixC cfg i j))))))
       p_c_thread [(k, i, j). k \<leftarrow> [0..NRow (BlockMatrixA cfg) - 1],
                   i \<leftarrow> [0..NRow (ThreadMatrixC cfg) - 1], j \<leftarrow> [0..NCol (ThreadMatrixC cfg) - 1]]"

lemma radix_digits_unique:
  fixes q q' r r' b :: int
  assumes "0 \<le> r" "r < b" "0 \<le> r'" "r' < b" "q * b + r = q' * b + r'"
  shows "q = q' \<and> r = r'"
  using rowmajor_offset_unique[OF assms] .

lemma bg_tile_row:
  "row (GetBeginOfThreadMatrixC cfg t) + row (GetDistanceFromBeginOfThreadMatrixC cfg i j)
   = ((i div MPerThreadSubC cfg * MLevel1Cluster cfg
       + t div (MLevel0Cluster cfg * NLevel0Cluster cfg) div NLevel1Cluster cfg) * MLevel0Cluster cfg
      + t mod (MLevel0Cluster cfg * NLevel0Cluster cfg) div NLevel0Cluster cfg) * MPerThreadSubC cfg
     + i mod MPerThreadSubC cfg"
  by (simp add: GetBeginOfThreadMatrixC_def GetDistanceFromBeginOfThreadMatrixC_def Let_def algebra_simps)

lemma bg_tile_col:
  "col (GetBeginOfThreadMatrixC cfg t) + col (GetDistanceFromBeginOfThreadMatrixC cfg i j)
   = ((j div NPerThreadSubC cfg * NLevel1Cluster cfg
       + t div (MLevel0Cluster cfg * NLevel0Cluster cfg) mod NLevel1Cluster cfg) * NLevel0Cluster cfg
      + t mod (MLevel0Cluster cfg * NLevel0Cluster cfg) mod NLevel0Cluster cfg) * NPerThreadSubC cfg
     + j mod NPerThreadSubC cfg"
  by (simp add: GetBeginOfThreadMatrixC_def GetDistanceFromBeginOfThreadMatrixC_def Let_def algebra_simps)

lemma bg_shape_dim:
  fixes M T Sub L0 L1 :: int
  assumes "T mod Sub = 0" "M mod (T div Sub) = 0" "M div (T div Sub) mod L1 = 0"
    "M div (T div Sub) div L1 mod L0 = 0" "Sub = M div (T div Sub) div L1 div L0"
    "0 < T" "0 < Sub"
  shows "T = T div Sub * Sub" "M = T div Sub * L1 * L0 * Sub" "0 < T div Sub"
proof -
  show t: "T = T div Sub * Sub" using mod0_eq[OF assms(1)] .
  show "0 < T div Sub"
  proof (rule ccontr)
    assume "\<not> 0 < T div Sub"
    then have "T div Sub * Sub \<le> 0" using assms(7) by (simp add: mult_nonpos_nonneg)
    then show False using t assms(6) by linarith
  qed
  have "M = M div (T div Sub) * (T div Sub)" using mod0_eq[OF assms(2)] .
  also have "M div (T div Sub) = M div (T div Sub) div L1 * L1" using mod0_eq[OF assms(3)] .
  also have "M div (T div Sub) div L1 = M div (T div Sub) div L1 div L0 * L0" using mod0_eq[OF assms(4)] .
  finally show "M = T div Sub * L1 * L0 * Sub" using assms(5) by (simp add: algebra_simps)
qed

lemma bg_static_ok_facts:
  assumes "bg_static_ok cfg"
  shows "BlockSize cfg = MLevel0Cluster cfg * NLevel0Cluster cfg * MLevel1Cluster cfg * NLevel1Cluster cfg"
    and "NRow (ThreadMatrixC cfg) mod MPerThreadSubC cfg = 0" "NCol (ThreadMatrixC cfg) mod NPerThreadSubC cfg = 0"
    and "NCol (BlockMatrixA cfg) mod (NRow (ThreadMatrixC cfg) div MPerThreadSubC cfg) = 0"
    and "NCol (BlockMatrixB cfg) mod (NCol (ThreadMatrixC cfg) div NPerThreadSubC cfg) = 0"
    and "NCol (BlockMatrixA cfg) div (NRow (ThreadMatrixC cfg) div MPerThreadSubC cfg) mod MLevel1Cluster cfg = 0"
    and "NCol (BlockMatrixB cfg) div (NCol (ThreadMatrixC cfg) div NPerThreadSubC cfg) mod NLevel1Cluster cfg = 0"
    and "NCol (BlockMatrixA cfg) div (NRow (ThreadMatrixC cfg) div MPerThreadSubC cfg) div MLevel1Cluster cfg
           mod MLevel0Cluster cfg = 0"
    and "NCol (BlockMatrixB cfg) div (NCol (ThreadMatrixC cfg) div NPerThreadSubC cfg) div NLevel1Cluster cfg
           mod NLevel0Cluster cfg = 0"
    and "MPerThreadSubC cfg = NCol (BlockMatrixA cfg) div (NRow (ThreadMatrixC cfg) div MPerThreadSubC cfg)
           div MLevel1Cluster cfg div MLevel0Cluster cfg"
    and "NPerThreadSubC cfg = NCol (BlockMatrixB cfg) div (NCol (ThreadMatrixC cfg) div NPerThreadSubC cfg)
           div NLevel1Cluster cfg div NLevel0Cluster cfg"
  using assms unfolding bg_static_ok_def Let_def by blast+

lemma bg_shape:
  assumes ok: "bg_static_ok cfg" and pos: "bg_positive cfg"
  shows "NRow (ThreadMatrixC cfg) = NRow (ThreadMatrixC cfg) div MPerThreadSubC cfg * MPerThreadSubC cfg"
    and "NCol (BlockMatrixA cfg) = NRow (ThreadMatrixC cfg) div MPerThreadSubC cfg * MLevel1Cluster cfg
                                   * MLevel0Cluster cfg * MPerThreadSubC cfg"
    and "0 < NRow (ThreadMatrixC cfg) div MPerThreadSubC cfg"
    and "NCol (ThreadMatrixC cfg) = NCol (ThreadMatrixC cfg) div NPerThreadSubC cfg * NPerThreadSubC cfg"
    and "NCol (BlockMatrixB cfg) = NCol (ThreadMatrixC cfg) div NPerThreadSubC cfg * NLevel1Cluster cfg
                                   * NLevel0Cluster cfg * NPerThreadSubC cfg"
    and "0 < NCol (ThreadMatrixC cfg) div NPerThreadSubC cfg"
    and "BlockSize cfg = MLevel0Cluster cfg * NLevel0Cluster cfg * MLevel1Cluster cfg * NLevel1Cluster cfg"
proof -
  note f = bg_static_ok_facts[OF ok]
  have p: "0 < NRow (ThreadMatrixC cfg)" "0 < MPerThreadSubC cfg" "0 < NCol (ThreadMatrixC cfg)" "0 < NPerThreadSubC cfg"
    using pos by (simp_all add: bg_positive_def)
  note m = bg_shape_dim[OF f(2) f(4) f(6) f(8) f(10) p(1,2)]
  note n = bg_shape_dim[OF f(3) f(5) f(7) f(9) f(11) p(3,4)]
  show "NRow (ThreadMatrixC cfg) = NRow (ThreadMatrixC cfg) div MPerThreadSubC cfg * MPerThreadSubC cfg" by (rule m(1))
  show "NCol (BlockMatrixA cfg) = NRow (ThreadMatrixC cfg) div MPerThreadSubC cfg * MLevel1Cluster cfg
                                   * MLevel0Cluster cfg * MPerThreadSubC cfg" by (rule m(2))
  show "0 < NRow (ThreadMatrixC cfg) div MPerThreadSubC cfg" by (rule m(3))
  show "NCol (ThreadMatrixC cfg) = NCol (ThreadMatrixC cfg) div NPerThreadSubC cfg * NPerThreadSubC cfg" by (rule n(1))
  show "NCol (BlockMatrixB cfg) = NCol (ThreadMatrixC cfg) div NPerThreadSubC cfg * NLevel1Cluster cfg
                                   * NLevel0Cluster cfg * NPerThreadSubC cfg" by (rule n(2))
  show "0 < NCol (ThreadMatrixC cfg) div NPerThreadSubC cfg" by (rule n(3))
  show "BlockSize cfg = MLevel0Cluster cfg * NLevel0Cluster cfg * MLevel1Cluster cfg * NLevel1Cluster cfg" by (rule f(1))
qed

lemma bg_thread_digits:
  assumes pos: "bg_positive cfg" and sh: "BlockSize cfg = MLevel0Cluster cfg * NLevel0Cluster cfg * MLevel1Cluster cfg * NLevel1Cluster cfg"
    and t: "0 \<le> t" "t < BlockSize cfg"
  defines "P0 \<equiv> MLevel0Cluster cfg * NLevel0Cluster cfg"
  shows "0 \<le> t div P0 div NLevel1Cluster cfg \<and> t div P0 div NLevel1Cluster cfg < MLevel1Cluster cfg"
    and "0 \<le> t div P0 mod NLevel1Cluster cfg \<and> t div P0 mod NLevel1Cluster cfg < NLevel1Cluster cfg"
    and "0 \<le> t mod P0 div NLevel0Cluster cfg \<and> t mod P0 div NLevel0Cluster cfg < MLevel0Cluster cfg"
    and "0 \<le> t mod P0 mod NLevel0Cluster cfg \<and> t mod P0 mod NLevel0Cluster cfg < NLevel0Cluster cfg"
proof -
  have p: "0 < MLevel0Cluster cfg" "0 < NLevel0Cluster cfg" "0 < MLevel1Cluster cfg" "0 < NLevel1Cluster cfg"
    using pos by (auto simp: bg_positive_def)
  then have p0: "0 < P0" unfolding P0_def by simp
  have d1: "0 \<le> t div P0" "t div P0 < MLevel1Cluster cfg * NLevel1Cluster cfg"
    using t p0 sh int_div_less_of_less_mult[of t "MLevel1Cluster cfg * NLevel1Cluster cfg" P0]
    by (simp_all add: P0_def algebra_simps pos_imp_zdiv_nonneg_iff)
  have d0: "0 \<le> t mod P0" "t mod P0 < MLevel0Cluster cfg * NLevel0Cluster cfg"
    using p0 by (simp_all add: P0_def)
  show "0 \<le> t div P0 div NLevel1Cluster cfg \<and> t div P0 div NLevel1Cluster cfg < MLevel1Cluster cfg"
    using d1 p int_div_less_of_less_mult by (simp add: pos_imp_zdiv_nonneg_iff)
  show "0 \<le> t div P0 mod NLevel1Cluster cfg \<and> t div P0 mod NLevel1Cluster cfg < NLevel1Cluster cfg"
    using p by simp
  show "0 \<le> t mod P0 div NLevel0Cluster cfg \<and> t mod P0 div NLevel0Cluster cfg < MLevel0Cluster cfg"
    using d0 p int_div_less_of_less_mult by (simp add: pos_imp_zdiv_nonneg_iff)
  show "0 \<le> t mod P0 mod NLevel0Cluster cfg \<and> t mod P0 mod NLevel0Cluster cfg < NLevel0Cluster cfg"
    using p by simp
qed

lemma radix3_unique:
  fixes a b c d a' b' c' d' A B S :: int
  assumes "0 \<le> d" "d < S" "0 \<le> d'" "d' < S" "0 \<le> c" "c < A" "0 \<le> c'" "c' < A"
    "0 \<le> b" "b < B" "0 \<le> b'" "b' < B"
    and e: "((a * B + b) * A + c) * S + d = ((a' * B + b') * A + c') * S + d'"
  shows "a = a' \<and> b = b' \<and> c = c' \<and> d = d'"
proof -
  have 1: "(a * B + b) * A + c = (a' * B + b') * A + c' \<and> d = d'"
    using radix_digits_unique[OF assms(1-4) e] .
  then have 2: "a * B + b = a' * B + b' \<and> c = c'"
    using radix_digits_unique[OF assms(5-8)] by blast
  then have "a = a' \<and> b = b'"
    using radix_digits_unique[OF assms(9-12)] by blast
  then show ?thesis using 1 2 by blast
qed

lemma radix3_bounds:
  fixes a b c d A B S R :: int
  assumes "0 \<le> a" "a < R" "0 \<le> b" "b < B" "0 \<le> c" "c < A" "0 \<le> d" "d < S"
  shows "0 \<le> ((a * B + b) * A + c) * S + d \<and> ((a * B + b) * A + c) * S + d < R * B * A * S"
proof
  have "a * B + b < R * B" using radix_lt assms by blast
  then have "(a * B + b) * A + c < R * B * A" using radix_lt assms by blast
  then show "((a * B + b) * A + c) * S + d < R * B * A * S" using radix_lt assms by blast
  show "0 \<le> ((a * B + b) * A + c) * S + d" using assms by simp
qed

lemma bg_local_digits:
  fixes i T S :: int
  assumes "0 \<le> i" "i < T" "T = T div S * S" "0 < S"
  shows "0 \<le> i div S \<and> i div S < T div S" "0 \<le> i mod S \<and> i mod S < S" "i = i div S * S + i mod S"
proof -
  show "0 \<le> i div S \<and> i div S < T div S"
    using assms int_div_less_of_less_mult[of i "T div S" S] by (simp add: pos_imp_zdiv_nonneg_iff)
  show "0 \<le> i mod S \<and> i mod S < S" using assms(4) by simp
  show "i = i div S * S + i mod S" by simp
qed

lemma bg_positives:
  assumes "bg_positive cfg"
  shows "0 < MPerThreadSubC cfg" "0 < NPerThreadSubC cfg" "0 < MLevel0Cluster cfg" "0 < NLevel0Cluster cfg"
    "0 < MLevel1Cluster cfg" "0 < NLevel1Cluster cfg"
  using assms by (simp_all add: bg_positive_def)

lemma bg_coord_digits:
  assumes ok: "bg_static_ok cfg" and pos: "bg_positive cfg"
    and t: "0 \<le> t" "t < BlockSize cfg" and i: "0 \<le> i" "i < NRow (ThreadMatrixC cfg)"
    and j: "0 \<le> j" "j < NCol (ThreadMatrixC cfg)"
  defines "P0 \<equiv> MLevel0Cluster cfg * NLevel0Cluster cfg"
  shows "0 \<le> i div MPerThreadSubC cfg \<and> i div MPerThreadSubC cfg < NRow (ThreadMatrixC cfg) div MPerThreadSubC cfg"
    "0 \<le> i mod MPerThreadSubC cfg \<and> i mod MPerThreadSubC cfg < MPerThreadSubC cfg"
    "0 \<le> j div NPerThreadSubC cfg \<and> j div NPerThreadSubC cfg < NCol (ThreadMatrixC cfg) div NPerThreadSubC cfg"
    "0 \<le> j mod NPerThreadSubC cfg \<and> j mod NPerThreadSubC cfg < NPerThreadSubC cfg"
    "0 \<le> t div P0 div NLevel1Cluster cfg \<and> t div P0 div NLevel1Cluster cfg < MLevel1Cluster cfg"
    "0 \<le> t div P0 mod NLevel1Cluster cfg \<and> t div P0 mod NLevel1Cluster cfg < NLevel1Cluster cfg"
    "0 \<le> t mod P0 div NLevel0Cluster cfg \<and> t mod P0 div NLevel0Cluster cfg < MLevel0Cluster cfg"
    "0 \<le> t mod P0 mod NLevel0Cluster cfg \<and> t mod P0 mod NLevel0Cluster cfg < NLevel0Cluster cfg"
  using bg_local_digits[OF i bg_shape(1)[OF ok pos] bg_positives(1)[OF pos]]
    bg_local_digits[OF j bg_shape(4)[OF ok pos] bg_positives(2)[OF pos]]
    bg_thread_digits[OF pos bg_shape(7)[OF ok pos] t] unfolding P0_def by blast+

lemma bg_coord_inj:
  assumes ok: "bg_static_ok cfg" and pos: "bg_positive cfg"
    and t: "0 \<le> t" "t < BlockSize cfg" and i: "0 \<le> i" "i < NRow (ThreadMatrixC cfg)"
    and j: "0 \<le> j" "j < NCol (ThreadMatrixC cfg)"
    and t': "0 \<le> t'" "t' < BlockSize cfg" and i': "0 \<le> i'" "i' < NRow (ThreadMatrixC cfg)"
    and j': "0 \<le> j'" "j' < NCol (ThreadMatrixC cfg)"
    and er: "row (GetBeginOfThreadMatrixC cfg t) + row (GetDistanceFromBeginOfThreadMatrixC cfg i j)
             = row (GetBeginOfThreadMatrixC cfg t') + row (GetDistanceFromBeginOfThreadMatrixC cfg i' j')"
    and ec: "col (GetBeginOfThreadMatrixC cfg t) + col (GetDistanceFromBeginOfThreadMatrixC cfg i j)
             = col (GetBeginOfThreadMatrixC cfg t') + col (GetDistanceFromBeginOfThreadMatrixC cfg i' j')"
  shows "t = t' \<and> i = i' \<and> j = j'"
proof -
  let ?SM = "MPerThreadSubC cfg" and ?SN = "NPerThreadSubC cfg" and ?P0 = "MLevel0Cluster cfg * NLevel0Cluster cfg"
  note d = bg_coord_digits[OF ok pos t i j] and d' = bg_coord_digits[OF ok pos t' i' j']
  have r: "i div ?SM = i' div ?SM \<and> t div ?P0 div NLevel1Cluster cfg = t' div ?P0 div NLevel1Cluster cfg
           \<and> t mod ?P0 div NLevel0Cluster cfg = t' mod ?P0 div NLevel0Cluster cfg \<and> i mod ?SM = i' mod ?SM"
    using er unfolding bg_tile_row by (rule radix3_unique[rotated 12]) (use d d' in blast)+
  have c: "j div ?SN = j' div ?SN \<and> t div ?P0 mod NLevel1Cluster cfg = t' div ?P0 mod NLevel1Cluster cfg
           \<and> t mod ?P0 mod NLevel0Cluster cfg = t' mod ?P0 mod NLevel0Cluster cfg \<and> j mod ?SN = j' mod ?SN"
    using ec unfolding bg_tile_col by (rule radix3_unique[rotated 12]) (use d d' in blast)+
  have "i = i'" using r div_mult_mod_eq[of i ?SM] div_mult_mod_eq[of i' ?SM] by metis
  moreover have "j = j'" using c div_mult_mod_eq[of j ?SN] div_mult_mod_eq[of j' ?SN] by metis
  moreover have "t div ?P0 = t' div ?P0"
    using r c div_mult_mod_eq[of "t div ?P0" "NLevel1Cluster cfg"] div_mult_mod_eq[of "t' div ?P0" "NLevel1Cluster cfg"]
    by metis
  moreover have "t mod ?P0 = t' mod ?P0"
    using r c div_mult_mod_eq[of "t mod ?P0" "NLevel0Cluster cfg"] div_mult_mod_eq[of "t' mod ?P0" "NLevel0Cluster cfg"]
    by metis
  ultimately show ?thesis using div_mult_mod_eq[of t ?P0] div_mult_mod_eq[of t' ?P0] by metis
qed

lemma bg_coord_bounds:
  assumes ok: "bg_static_ok cfg" and pos: "bg_positive cfg"
    and t: "0 \<le> t" "t < BlockSize cfg" and i: "0 \<le> i" "i < NRow (ThreadMatrixC cfg)"
    and j: "0 \<le> j" "j < NCol (ThreadMatrixC cfg)"
  shows "0 \<le> row (GetBeginOfThreadMatrixC cfg t) + row (GetDistanceFromBeginOfThreadMatrixC cfg i j)
         \<and> row (GetBeginOfThreadMatrixC cfg t) + row (GetDistanceFromBeginOfThreadMatrixC cfg i j)
             < NCol (BlockMatrixA cfg)"
    and "0 \<le> col (GetBeginOfThreadMatrixC cfg t) + col (GetDistanceFromBeginOfThreadMatrixC cfg i j)
         \<and> col (GetBeginOfThreadMatrixC cfg t) + col (GetDistanceFromBeginOfThreadMatrixC cfg i j)
             < NCol (BlockMatrixB cfg)"
proof -
  note d = bg_coord_digits[OF ok pos t i j]
  show "0 \<le> row (GetBeginOfThreadMatrixC cfg t) + row (GetDistanceFromBeginOfThreadMatrixC cfg i j)
         \<and> row (GetBeginOfThreadMatrixC cfg t) + row (GetDistanceFromBeginOfThreadMatrixC cfg i j)
             < NCol (BlockMatrixA cfg)"
    unfolding bg_tile_row bg_shape(2)[OF ok pos] by (rule radix3_bounds) (use d in blast)+
  show "0 \<le> col (GetBeginOfThreadMatrixC cfg t) + col (GetDistanceFromBeginOfThreadMatrixC cfg i j)
         \<and> col (GetBeginOfThreadMatrixC cfg t) + col (GetDistanceFromBeginOfThreadMatrixC cfg i j)
             < NCol (BlockMatrixB cfg)"
    unfolding bg_tile_col bg_shape(5)[OF ok pos] by (rule radix3_bounds) (use d in blast)+
qed

lemma bg_shape_product:
  fixes BS MT NT M N a b c d r s q u :: int
  assumes "BS = a * b * c * d" "MT = r * s" "NT = q * u" "M = r * c * a * s" "N = q * d * b * u"
  shows "BS * (MT * NT) = M * N"
  using assms by (simp add: algebra_simps)

lemma bg_block_tiles_map:
  "bg_block_tiles cfg = map (\<lambda>(t, i, j).
       (row (GetBeginOfThreadMatrixC cfg t) + row (GetDistanceFromBeginOfThreadMatrixC cfg i j),
        col (GetBeginOfThreadMatrixC cfg t) + col (GetDistanceFromBeginOfThreadMatrixC cfg i j)))
     (List.product ([0..BlockSize cfg - 1])
        (List.product ([0..NRow (ThreadMatrixC cfg) - 1]) ([0..NCol (ThreadMatrixC cfg) - 1])))"
  by (simp add: bg_block_tiles_def bg_thread_tile_def[abs_def] concat_map_map_product split_def comp_def)

text \<open>C9: under the constructor's static assertions, the C sub-matrices of the threads
  \<open>0 .. BlockSize - 1\<close> cover every element of the block's \<open>M x N\<close> matrix C exactly once:
  the list of all thread-tile coordinates has no duplicate and its set is the whole block.\<close>

theorem bg_block_tiles_partition:
  assumes ok: "bg_static_ok cfg" and pos: "bg_positive cfg"
  shows "distinct (bg_block_tiles cfg)
         \<and> set (bg_block_tiles cfg) = {0..<NCol (BlockMatrixA cfg)} \<times> {0..<NCol (BlockMatrixB cfg)}"
proof -
  let ?F = "\<lambda>(t, i, j).
       (row (GetBeginOfThreadMatrixC cfg t) + row (GetDistanceFromBeginOfThreadMatrixC cfg i j),
        col (GetBeginOfThreadMatrixC cfg t) + col (GetDistanceFromBeginOfThreadMatrixC cfg i j))"
  let ?T = "[0..BlockSize cfg - 1]" and ?I = "[0..NRow (ThreadMatrixC cfg) - 1]"
    and ?J = "[0..NCol (ThreadMatrixC cfg) - 1]"
  let ?D = "List.product ?T (List.product ?I ?J)"
  let ?M = "NCol (BlockMatrixA cfg)" and ?N = "NCol (BlockMatrixB cfg)"
  have inj: "inj_on ?F (set ?D)"
    by (rule inj_onI) (auto dest: bg_coord_inj[OF ok pos])
  have dist: "distinct (map ?F ?D)"
    using inj by (simp add: distinct_map distinct_product)
  have sub: "set (map ?F ?D) \<subseteq> {0..<?M} \<times> {0..<?N}"
    using bg_coord_bounds[OF ok pos] by auto
  have eqn: "BlockSize cfg * (NRow (ThreadMatrixC cfg) * NCol (ThreadMatrixC cfg)) = ?M * ?N"
    using bg_shape_product[OF bg_shape(7,1,4,2,5)[OF ok pos]] .
  have nn: "0 \<le> BlockSize cfg" "0 \<le> NRow (ThreadMatrixC cfg)" "0 \<le> NCol (ThreadMatrixC cfg)"
    "0 \<le> ?M" "0 \<le> ?N"
    using bg_shape[OF ok pos] pos by (auto simp: bg_positive_def)
  have "card (set (map ?F ?D)) = nat (BlockSize cfg * (NRow (ThreadMatrixC cfg) * NCol (ThreadMatrixC cfg)))"
    using distinct_card[OF dist] nn by (simp add: length_product nat_mult_distrib)
  also have "\<dots> = card ({0..<?M} \<times> {0..<?N})"
    using eqn nn by (simp add: card_cartesian_product nat_mult_distrib)
  finally have "set (map ?F ?D) = {0..<?M} \<times> {0..<?N}"
    using card_subset_eq[OF _ sub] by simp
  then show ?thesis using dist bg_block_tiles_map[of cfg] by simp
qed

lemma bg_copy_subs_at:
  fixes T S L KP base k i :: int
  assumes S: "0 < S" and T: "T = T div S * S" and RS: "RowStride dst = T"
    and so: "\<And>r. src_off r = base + r * L" and dof: "\<And>r. dst_off r = r * S"
    and k: "0 \<le> k" "k < KP" and i: "0 \<le> i" "i < T"
  shows "bg_copy_subs src p_src src_off dst p_dst dst_off (KP, S) (T div S) (GetOffsetFromMultiIndex dst k i)
         = p_src (base + GetOffsetFromMultiIndex src k (i div S * L + i mod S))"
proof -
  let ?m0 = "i div S" and ?j = "i mod S"
  have j: "0 \<le> ?j" "?j < S" using S by simp_all
  have m0: "0 \<le> ?m0" "?m0 < T div S" using i S T int_div_less_of_less_mult[of i "T div S" S]
    by (simp_all add: pos_imp_zdiv_nonneg_iff)
  have ST: "S \<le> T" using T m0 S
    by (metis mult_le_cancel_right1 not_le zero_less_iff_neq_zero less_le_not_le
        int_one_le_iff_zero_less order.strict_trans1 le_less)
  have pos: "k * T + i = ?m0 * S + (k * T + ?j)" using div_mult_mod_eq[of i S] by (simp add: algebra_simps)
  show ?thesis unfolding bg_copy_subs_def
  proof (rule foldl_write_at[of ?m0])
    show "?m0 \<in> set [0..T div S - 1]" using m0 by simp
  next
    fix d
    show "threadwise_matrix_copy src p_src (src_off ?m0) dst d (dst_off ?m0) (KP, S) (GetOffsetFromMultiIndex dst k i)
          = p_src (base + GetOffsetFromMultiIndex src k (i div S * L + i mod S))"
      using threadwise_matrix_copy_at[of "(KP, S)" dst k ?j src p_src "src_off ?m0" d "dst_off ?m0"] ST k j pos RS
      by (simp add: so dof cmd_defs algebra_simps)
  next
    fix m d assume m: "m \<in> set [0..T div S - 1]" "m \<noteq> ?m0"
    show "threadwise_matrix_copy src p_src (src_off m) dst d (dst_off m) (KP, S) (GetOffsetFromMultiIndex dst k i)
          = d (GetOffsetFromMultiIndex dst k i)"
    proof (rule threadwise_matrix_copy_other)
      fix k' j' assume k': "0 \<le> k'" "k' < fst (KP, S)" and j': "0 \<le> j'" "j' < snd (KP, S)"
      have mr: "0 \<le> m" "m < T div S" using m(1) by auto
      have lt: "m * S + j' < T" using radix_lt[of j' S m "T div S"] j' mr T by simp
      show "GetOffsetFromMultiIndex dst k i \<noteq> dst_off m + GetOffsetFromMultiIndex dst k' j'"
      proof
        assume "GetOffsetFromMultiIndex dst k i = dst_off m + GetOffsetFromMultiIndex dst k' j'"
        then have "k * T + i = k' * T + (m * S + j')" using RS by (simp add: dof cmd_defs algebra_simps)
        then have "i = m * S + j'"
          using rowmajor_offset_unique[of i T "m * S + j'" k k'] i lt mr j' S
          by (simp add: zero_le_mult_iff)
        then have "i div S = m" using j' S by simp
        then show False using m(2) by simp
      qed
    qed
  qed
qed

lemma bg_Run_step_at:
  assumes ok: "bg_static_ok cfg" and pos: "bg_positive cfg"
    and wf: "NCol (ThreadMatrixC cfg) \<le> RowStride (ThreadMatrixC cfg)"
    and i0: "0 \<le> i0" "i0 < NRow (ThreadMatrixC cfg)" and j0: "0 \<le> j0" "j0 < NCol (ThreadMatrixC cfg)"
  shows "snd (snd (bg_Run_step cfg th p_a_block p_b_block f s kb)) (GetOffsetFromMultiIndex (ThreadMatrixC cfg) i0 j0)
         = foldl f (snd (snd s) (GetOffsetFromMultiIndex (ThreadMatrixC cfg) i0 j0))
             [p_a_block (mMyThreadOffsetA th
                  + GetOffsetFromMultiIndex (BlockMatrixA cfg) (kb + k) (row (GetDistanceFromBeginOfThreadMatrixC cfg i0 j0)))
              * p_b_block (mMyThreadOffsetB th
                  + GetOffsetFromMultiIndex (BlockMatrixB cfg) (kb + k) (col (GetDistanceFromBeginOfThreadMatrixC cfg i0 j0))).
              k \<leftarrow> [0..KPerThreadLoop cfg - 1]]"
proof -
  obtain pa pb pc where s: "s = (pa, pb, pc)" by (cases s) auto
  let ?C = "ThreadMatrixC cfg" and ?A = "BlockMatrixA cfg" and ?B = "BlockMatrixB cfg"
  let ?KP = "KPerThreadLoop cfg" and ?MT = "NRow (ThreadMatrixC cfg)" and ?NT = "NCol (ThreadMatrixC cfg)"
  let ?SM = "MPerThreadSubC cfg" and ?SN = "NPerThreadSubC cfg"
  let ?L1M = "MPerThreadSubC cfg * MLevel0Cluster cfg * MLevel1Cluster cfg"
  let ?L1N = "NPerThreadSubC cfg * NLevel0Cluster cfg * NLevel1Cluster cfg"
  let ?pa' = "bg_copy_subs ?A p_a_block
            (\<lambda>m. GetOffsetFromMultiIndex ?A kb (m * ?L1M) + mMyThreadOffsetA th)
            (make_ConstantMatrixDescriptor ?KP ?MT) pa
            (\<lambda>m. GetOffsetFromMultiIndex (make_ConstantMatrixDescriptor ?KP ?MT) 0 (m * ?SM))
            (NRow (make_ConstantMatrixDescriptor_strided ?KP ?SM ?MT), NCol (make_ConstantMatrixDescriptor_strided ?KP ?SM ?MT))
            (?MT div ?SM)"
  let ?pb' = "bg_copy_subs ?B p_b_block
            (\<lambda>n. GetOffsetFromMultiIndex ?B kb (n * ?L1N) + mMyThreadOffsetB th)
            (make_ConstantMatrixDescriptor ?KP ?NT) pb
            (\<lambda>n. GetOffsetFromMultiIndex (make_ConstantMatrixDescriptor ?KP ?NT) 0 (n * ?SN))
            (NRow (make_ConstantMatrixDescriptor_strided ?KP ?SN ?NT), NCol (make_ConstantMatrixDescriptor_strided ?KP ?SN ?NT))
            (?NT div ?SN)"
  have SM: "0 < ?SM" and SN: "0 < ?SN" using bg_positives[OF pos] by simp_all
  have MT: "?MT = ?MT div ?SM * ?SM" and NT: "?NT = ?NT div ?SN * ?SN" using bg_shape[OF ok pos] by simp_all
  have step: "snd (snd (bg_Run_step cfg th p_a_block p_b_block f s kb))
        = threadwise_gemm (make_ConstantMatrixDescriptor ?KP ?MT) ?pa' 0 (make_ConstantMatrixDescriptor ?KP ?NT) ?pb' 0 ?C pc 0 f"
    by (simp add: bg_Run_step_def s Let_def)
  have ra: "?pa' (GetOffsetFromMultiIndex (make_ConstantMatrixDescriptor ?KP ?MT) k i0)
          = p_a_block (mMyThreadOffsetA th + GetOffsetFromMultiIndex ?A (kb + k) (row (GetDistanceFromBeginOfThreadMatrixC cfg i0 j0)))"
    if "0 \<le> k" "k < ?KP" for k
    using bg_copy_subs_at[OF SM MT, where dst = "make_ConstantMatrixDescriptor ?KP ?MT" and src = ?A
        and base = "GetOffsetFromMultiIndex ?A kb 0 + mMyThreadOffsetA th" and L = ?L1M and KP = ?KP
        and src_off = "\<lambda>m. GetOffsetFromMultiIndex ?A kb (m * ?L1M) + mMyThreadOffsetA th"
        and dst_off = "\<lambda>m. GetOffsetFromMultiIndex (make_ConstantMatrixDescriptor ?KP ?MT) 0 (m * ?SM)"
        and k = k and i = i0 and p_src = p_a_block and p_dst = pa]
      that i0
    by (simp add: cmd_defs GetDistanceFromBeginOfThreadMatrixC_def algebra_simps)
  have rb: "?pb' (GetOffsetFromMultiIndex (make_ConstantMatrixDescriptor ?KP ?NT) k j0)
          = p_b_block (mMyThreadOffsetB th + GetOffsetFromMultiIndex ?B (kb + k) (col (GetDistanceFromBeginOfThreadMatrixC cfg i0 j0)))"
    if "0 \<le> k" "k < ?KP" for k
    using bg_copy_subs_at[OF SN NT, where dst = "make_ConstantMatrixDescriptor ?KP ?NT" and src = ?B
        and base = "GetOffsetFromMultiIndex ?B kb 0 + mMyThreadOffsetB th" and L = ?L1N and KP = ?KP
        and src_off = "\<lambda>n. GetOffsetFromMultiIndex ?B kb (n * ?L1N) + mMyThreadOffsetB th"
        and dst_off = "\<lambda>n. GetOffsetFromMultiIndex (make_ConstantMatrixDescriptor ?KP ?NT) 0 (n * ?SN)"
        and k = k and i = j0 and p_src = p_b_block and p_dst = pb]
      that j0
    by (simp add: cmd_defs GetDistanceFromBeginOfThreadMatrixC_def algebra_simps)
  have "threadwise_gemm (make_ConstantMatrixDescriptor ?KP ?MT) ?pa' 0 (make_ConstantMatrixDescriptor ?KP ?NT) ?pb' 0 ?C pc 0 f
          (0 + GetOffsetFromMultiIndex ?C i0 j0)
        = foldl f (pc (0 + GetOffsetFromMultiIndex ?C i0 j0))
            [?pa' (0 + GetOffsetFromMultiIndex (make_ConstantMatrixDescriptor ?KP ?MT) k i0)
             * ?pb' (0 + GetOffsetFromMultiIndex (make_ConstantMatrixDescriptor ?KP ?NT) k j0).
             k \<leftarrow> [0..NRow (make_ConstantMatrixDescriptor ?KP ?MT) - 1]]"
    by (rule threadwise_gemm_at) (use wf i0 j0 in \<open>simp_all add: cmd_defs\<close>)
  also have "\<dots> = foldl f (pc (GetOffsetFromMultiIndex ?C i0 j0))
             [p_a_block (mMyThreadOffsetA th + GetOffsetFromMultiIndex ?A (kb + k) (row (GetDistanceFromBeginOfThreadMatrixC cfg i0 j0)))
              * p_b_block (mMyThreadOffsetB th + GetOffsetFromMultiIndex ?B (kb + k) (col (GetDistanceFromBeginOfThreadMatrixC cfg i0 j0))).
              k \<leftarrow> [0..?KP - 1]]"
  proof (rule arg_cong2[where f = "foldl f"], simp, rule map_cong)
    show "[0..NRow (make_ConstantMatrixDescriptor ?KP ?MT) - 1] = [0..?KP - 1]"
      by (simp add: make_ConstantMatrixDescriptor_def)
  next
    fix k assume "k \<in> set [0..?KP - 1]"
    then have "0 \<le> k" "k < ?KP" by simp_all
    then show "?pa' (0 + GetOffsetFromMultiIndex (make_ConstantMatrixDescriptor ?KP ?MT) k i0)
             * ?pb' (0 + GetOffsetFromMultiIndex (make_ConstantMatrixDescriptor ?KP ?NT) k j0)
          = p_a_block (mMyThreadOffsetA th + GetOffsetFromMultiIndex ?A (kb + k) (row (GetDistanceFromBeginOfThreadMatrixC cfg i0 j0)))
            * p_b_block (mMyThreadOffsetB th + GetOffsetFromMultiIndex ?B (kb + k) (col (GetDistanceFromBeginOfThreadMatrixC cfg i0 j0)))"
      using ra rb by simp
  qed
  finally show ?thesis using step s by simp
qed

lemma bg_Run_step_other:
  assumes "\<And>i j. 0 \<le> i \<Longrightarrow> i < NRow (ThreadMatrixC cfg) \<Longrightarrow> 0 \<le> j \<Longrightarrow> j < NCol (ThreadMatrixC cfg)
             \<Longrightarrow> p \<noteq> GetOffsetFromMultiIndex (ThreadMatrixC cfg) i j"
  shows "snd (snd (bg_Run_step cfg th p_a_block p_b_block f s kb)) p = snd (snd s) p"
proof -
  obtain pa pb pc where s: "s = (pa, pb, pc)" by (cases s) auto
  show ?thesis
    unfolding bg_Run_step_def s Let_def prod.case snd_conv
    by (rule threadwise_gemm_other) (use assms in \<open>simp add: make_ConstantMatrixDescriptor_def\<close>)
qed

lemma bg_Run_fold_at:
  assumes ok: "bg_static_ok cfg" and pos: "bg_positive cfg"
    and wf: "NCol (ThreadMatrixC cfg) \<le> RowStride (ThreadMatrixC cfg)"
    and i0: "0 \<le> i0" "i0 < NRow (ThreadMatrixC cfg)" and j0: "0 \<le> j0" "j0 < NCol (ThreadMatrixC cfg)"
  shows "snd (snd (foldl (bg_Run_step cfg th p_a_block p_b_block f) s kbs)) (GetOffsetFromMultiIndex (ThreadMatrixC cfg) i0 j0)
         = foldl f (snd (snd s) (GetOffsetFromMultiIndex (ThreadMatrixC cfg) i0 j0))
             [p_a_block (mMyThreadOffsetA th
                  + GetOffsetFromMultiIndex (BlockMatrixA cfg) k (row (GetDistanceFromBeginOfThreadMatrixC cfg i0 j0)))
              * p_b_block (mMyThreadOffsetB th
                  + GetOffsetFromMultiIndex (BlockMatrixB cfg) k (col (GetDistanceFromBeginOfThreadMatrixC cfg i0 j0))).
              k \<leftarrow> concat (map (\<lambda>kb. [kb + k'. k' \<leftarrow> [0..KPerThreadLoop cfg - 1]]) kbs)]"
proof (induction kbs arbitrary: s)
  case Nil
  then show ?case by simp
next
  case (Cons kb kbs)
  then show ?case by (simp add: bg_Run_step_at[OF ok pos wf i0 j0] comp_def)
qed

lemma bg_Run_fold_other:
  assumes "\<And>i j. 0 \<le> i \<Longrightarrow> i < NRow (ThreadMatrixC cfg) \<Longrightarrow> 0 \<le> j \<Longrightarrow> j < NCol (ThreadMatrixC cfg)
             \<Longrightarrow> p \<noteq> GetOffsetFromMultiIndex (ThreadMatrixC cfg) i j"
  shows "snd (snd (foldl (bg_Run_step cfg th p_a_block p_b_block f) s kbs)) p = snd (snd s) p"
  by (induction kbs arbitrary: s) (simp_all add: bg_Run_step_other[OF assms])

lemma bg_reference_fold:
  "bg_reference cfg th p_a_block p_b_block p_c f
   = foldl (\<lambda>c x. c((\<lambda>(i, j). GetOffsetFromMultiIndex (ThreadMatrixC cfg) i j) (snd x) :=
              f (c ((\<lambda>(i, j). GetOffsetFromMultiIndex (ThreadMatrixC cfg) i j) (snd x)))
                ((\<lambda>(k, i, j). p_a_block (mMyThreadOffsetA th
                                + GetOffsetFromMultiIndex (BlockMatrixA cfg) k (row (GetDistanceFromBeginOfThreadMatrixC cfg i j)))
                     * p_b_block (mMyThreadOffsetB th
                                + GetOffsetFromMultiIndex (BlockMatrixB cfg) k (col (GetDistanceFromBeginOfThreadMatrixC cfg i j)))) x)))
       p_c (List.product [0..NRow (BlockMatrixA cfg) - 1]
             (List.product [0..NRow (ThreadMatrixC cfg) - 1] [0..NCol (ThreadMatrixC cfg) - 1]))"
  by (simp add: bg_reference_def comprehension3_product split_def)

lemma bg_reference_at:
  assumes wf: "NCol (ThreadMatrixC cfg) \<le> RowStride (ThreadMatrixC cfg)"
    and i0: "0 \<le> i0" "i0 < NRow (ThreadMatrixC cfg)" and j0: "0 \<le> j0" "j0 < NCol (ThreadMatrixC cfg)"
  shows "bg_reference cfg th p_a_block p_b_block p_c f (GetOffsetFromMultiIndex (ThreadMatrixC cfg) i0 j0)
         = foldl f (p_c (GetOffsetFromMultiIndex (ThreadMatrixC cfg) i0 j0))
             [p_a_block (mMyThreadOffsetA th
                  + GetOffsetFromMultiIndex (BlockMatrixA cfg) k (row (GetDistanceFromBeginOfThreadMatrixC cfg i0 j0)))
              * p_b_block (mMyThreadOffsetB th
                  + GetOffsetFromMultiIndex (BlockMatrixB cfg) k (col (GetDistanceFromBeginOfThreadMatrixC cfg i0 j0))).
              k \<leftarrow> [0..NRow (BlockMatrixA cfg) - 1]]"
proof -
  have inj: "inj_on (\<lambda>(i, j). GetOffsetFromMultiIndex (ThreadMatrixC cfg) i j)
               (set (List.product [0..NRow (ThreadMatrixC cfg) - 1] [0..NCol (ThreadMatrixC cfg) - 1]))"
    using cmd_offset_inj_on[OF wf, of "{0..NRow (ThreadMatrixC cfg) - 1}"] by (auto simp: inj_on_def)
  show ?thesis
    using foldl_acc_product_at[OF _ _ inj, where lsel = "(i0, j0)" and f = f and c = p_c
        and K = "[0..NRow (BlockMatrixA cfg) - 1]"
        and val = "\<lambda>(k, i, j). p_a_block (mMyThreadOffsetA th
                                + GetOffsetFromMultiIndex (BlockMatrixA cfg) k (row (GetDistanceFromBeginOfThreadMatrixC cfg i j)))
                     * p_b_block (mMyThreadOffsetB th
                                + GetOffsetFromMultiIndex (BlockMatrixB cfg) k (col (GetDistanceFromBeginOfThreadMatrixC cfg i j)))"]
      i0 j0
    by (simp add: bg_reference_fold distinct_product)
qed

lemma bg_reference_other:
  assumes "\<And>i j. 0 \<le> i \<Longrightarrow> i < NRow (ThreadMatrixC cfg) \<Longrightarrow> 0 \<le> j \<Longrightarrow> j < NCol (ThreadMatrixC cfg)
             \<Longrightarrow> p \<noteq> GetOffsetFromMultiIndex (ThreadMatrixC cfg) i j"
  shows "bg_reference cfg th p_a_block p_b_block p_c f p = p_c p"
  unfolding bg_reference_fold by (rule foldl_acc_product_other) (use assms in force)

theorem bg_block_tiles_partition_witness:
  "bg_static_ok \<lparr>BlockSize = 4, BlockMatrixA = \<lparr>NRow = 2, NCol = 8, RowStride = 8\<rparr>,
       BlockMatrixB = \<lparr>NRow = 2, NCol = 8, RowStride = 8\<rparr>, ThreadMatrixC = \<lparr>NRow = 4, NCol = 4, RowStride = 4\<rparr>,
       MPerThreadSubC = 2, NPerThreadSubC = 2, MLevel0Cluster = 1, NLevel0Cluster = 1,
       MLevel1Cluster = 2, NLevel1Cluster = 2, KPerThreadLoop = 1\<rparr> \<and> bg_positive \<lparr>BlockSize = 4, BlockMatrixA = \<lparr>NRow = 2, NCol = 8, RowStride = 8\<rparr>,
       BlockMatrixB = \<lparr>NRow = 2, NCol = 8, RowStride = 8\<rparr>, ThreadMatrixC = \<lparr>NRow = 4, NCol = 4, RowStride = 4\<rparr>,
       MPerThreadSubC = 2, NPerThreadSubC = 2, MLevel0Cluster = 1, NLevel0Cluster = 1,
       MLevel1Cluster = 2, NLevel1Cluster = 2, KPerThreadLoop = 1\<rparr>
   \<and> distinct (bg_block_tiles \<lparr>BlockSize = 4, BlockMatrixA = \<lparr>NRow = 2, NCol = 8, RowStride = 8\<rparr>,
       BlockMatrixB = \<lparr>NRow = 2, NCol = 8, RowStride = 8\<rparr>, ThreadMatrixC = \<lparr>NRow = 4, NCol = 4, RowStride = 4\<rparr>,
       MPerThreadSubC = 2, NPerThreadSubC = 2, MLevel0Cluster = 1, NLevel0Cluster = 1,
       MLevel1Cluster = 2, NLevel1Cluster = 2, KPerThreadLoop = 1\<rparr>) \<and> set (bg_block_tiles \<lparr>BlockSize = 4, BlockMatrixA = \<lparr>NRow = 2, NCol = 8, RowStride = 8\<rparr>,
       BlockMatrixB = \<lparr>NRow = 2, NCol = 8, RowStride = 8\<rparr>, ThreadMatrixC = \<lparr>NRow = 4, NCol = 4, RowStride = 4\<rparr>,
       MPerThreadSubC = 2, NPerThreadSubC = 2, MLevel0Cluster = 1, NLevel0Cluster = 1,
       MLevel1Cluster = 2, NLevel1Cluster = 2, KPerThreadLoop = 1\<rparr>) = {0..<8} \<times> {0..<8}"
  using bg_block_tiles_partition[of "\<lparr>BlockSize = 4, BlockMatrixA = \<lparr>NRow = 2, NCol = 8, RowStride = 8\<rparr>,
       BlockMatrixB = \<lparr>NRow = 2, NCol = 8, RowStride = 8\<rparr>, ThreadMatrixC = \<lparr>NRow = 4, NCol = 4, RowStride = 4\<rparr>,
       MPerThreadSubC = 2, NPerThreadSubC = 2, MLevel0Cluster = 1, NLevel0Cluster = 1,
       MLevel1Cluster = 2, NLevel1Cluster = 2, KPerThreadLoop = 1\<rparr>"] by (simp add: bg_static_ok_def bg_positive_def)

text \<open>C10: \<open>Run\<close> refines the micro-GEMM contract: when \<open>KPerThreadLoop\<close> divides K, the
  thread's C registers after \<open>Run\<close> are those of \<open>bg_reference\<close>, where each element
  \<open>(i, j)\<close> of the thread's C has accumulated \<open>A[k][row] * B[k][col]\<close> for \<open>k = 0 .. K - 1\<close>
  in order, at the block coordinates the thread owns, and no other register has changed.\<close>

theorem bg_Run_refines_reference:
  assumes ok: "bg_static_ok cfg" and pos: "bg_positive cfg" and wf: "cmd_wf (ThreadMatrixC cfg)"
    and K: "0 \<le> NRow (BlockMatrixA cfg)" "NRow (BlockMatrixA cfg) mod KPerThreadLoop cfg = 0"
  shows "bg_Run cfg th p_a_block p_b_block p_c f p_a_thread0 p_b_thread0
         = Some (bg_reference cfg th p_a_block p_b_block p_c f)"
proof -
  have KP: "0 < KPerThreadLoop cfg" using pos by (simp add: bg_positive_def)
  have wf': "NCol (ThreadMatrixC cfg) \<le> RowStride (ThreadMatrixC cfg)" using wf by (simp add: cmd_wf_def)
  have ks: "concat (map (\<lambda>kb. [kb + k'. k' \<leftarrow> [0..KPerThreadLoop cfg - 1]])
                 (int_range_step 0 (NRow (BlockMatrixA cfg)) (KPerThreadLoop cfg))) = [0..NRow (BlockMatrixA cfg) - 1]"
    using int_range_step_concat[OF KP, of 0 "NRow (BlockMatrixA cfg)"] K by simp
  have "snd (snd (foldl (bg_Run_step cfg th p_a_block p_b_block f) (p_a_thread0, p_b_thread0, p_c)
                   (int_range_step 0 (NRow (BlockMatrixA cfg)) (KPerThreadLoop cfg)))) p
        = bg_reference cfg th p_a_block p_b_block p_c f p" for p
  proof (cases "\<exists>i j. 0 \<le> i \<and> i < NRow (ThreadMatrixC cfg) \<and> 0 \<le> j \<and> j < NCol (ThreadMatrixC cfg)
                     \<and> p = GetOffsetFromMultiIndex (ThreadMatrixC cfg) i j")
    case True
    then obtain i j where ij: "0 \<le> i" "i < NRow (ThreadMatrixC cfg)" "0 \<le> j" "j < NCol (ThreadMatrixC cfg)"
      and p: "p = GetOffsetFromMultiIndex (ThreadMatrixC cfg) i j" by blast
    show ?thesis
      by (simp only: p bg_Run_fold_at[OF ok pos wf' ij] bg_reference_at[OF wf' ij] ks snd_conv)
  next
    case False
    then have h: "\<And>i j. 0 \<le> i \<Longrightarrow> i < NRow (ThreadMatrixC cfg) \<Longrightarrow> 0 \<le> j \<Longrightarrow> j < NCol (ThreadMatrixC cfg)
                   \<Longrightarrow> p \<noteq> GetOffsetFromMultiIndex (ThreadMatrixC cfg) i j" by blast
    show ?thesis by (simp add: bg_Run_fold_other[OF h] bg_reference_other[OF h])
  qed
  then have eq: "snd (snd (foldl (bg_Run_step cfg th p_a_block p_b_block f) (p_a_thread0, p_b_thread0, p_c)
                   (int_range_step 0 (NRow (BlockMatrixA cfg)) (KPerThreadLoop cfg))))
        = bg_reference cfg th p_a_block p_b_block p_c f" by (rule ext)
  show ?thesis unfolding bg_Run_def Let_def eq using KP by simp
qed

theorem bg_Run_refines_reference_witness:
  "bg_static_ok \<lparr>BlockSize = 4, BlockMatrixA = \<lparr>NRow = 2, NCol = 8, RowStride = 8\<rparr>,
       BlockMatrixB = \<lparr>NRow = 2, NCol = 8, RowStride = 8\<rparr>, ThreadMatrixC = \<lparr>NRow = 4, NCol = 4, RowStride = 4\<rparr>,
       MPerThreadSubC = 2, NPerThreadSubC = 2, MLevel0Cluster = 1, NLevel0Cluster = 1,
       MLevel1Cluster = 2, NLevel1Cluster = 2, KPerThreadLoop = 1\<rparr> \<and> bg_positive \<lparr>BlockSize = 4, BlockMatrixA = \<lparr>NRow = 2, NCol = 8, RowStride = 8\<rparr>,
       BlockMatrixB = \<lparr>NRow = 2, NCol = 8, RowStride = 8\<rparr>, ThreadMatrixC = \<lparr>NRow = 4, NCol = 4, RowStride = 4\<rparr>,
       MPerThreadSubC = 2, NPerThreadSubC = 2, MLevel0Cluster = 1, NLevel0Cluster = 1,
       MLevel1Cluster = 2, NLevel1Cluster = 2, KPerThreadLoop = 1\<rparr> \<and> cmd_wf (ThreadMatrixC \<lparr>BlockSize = 4, BlockMatrixA = \<lparr>NRow = 2, NCol = 8, RowStride = 8\<rparr>,
       BlockMatrixB = \<lparr>NRow = 2, NCol = 8, RowStride = 8\<rparr>, ThreadMatrixC = \<lparr>NRow = 4, NCol = 4, RowStride = 4\<rparr>,
       MPerThreadSubC = 2, NPerThreadSubC = 2, MLevel0Cluster = 1, NLevel0Cluster = 1,
       MLevel1Cluster = 2, NLevel1Cluster = 2, KPerThreadLoop = 1\<rparr>)
   \<and> 0 \<le> NRow (BlockMatrixA \<lparr>BlockSize = 4, BlockMatrixA = \<lparr>NRow = 2, NCol = 8, RowStride = 8\<rparr>,
       BlockMatrixB = \<lparr>NRow = 2, NCol = 8, RowStride = 8\<rparr>, ThreadMatrixC = \<lparr>NRow = 4, NCol = 4, RowStride = 4\<rparr>,
       MPerThreadSubC = 2, NPerThreadSubC = 2, MLevel0Cluster = 1, NLevel0Cluster = 1,
       MLevel1Cluster = 2, NLevel1Cluster = 2, KPerThreadLoop = 1\<rparr>) \<and> NRow (BlockMatrixA \<lparr>BlockSize = 4, BlockMatrixA = \<lparr>NRow = 2, NCol = 8, RowStride = 8\<rparr>,
       BlockMatrixB = \<lparr>NRow = 2, NCol = 8, RowStride = 8\<rparr>, ThreadMatrixC = \<lparr>NRow = 4, NCol = 4, RowStride = 4\<rparr>,
       MPerThreadSubC = 2, NPerThreadSubC = 2, MLevel0Cluster = 1, NLevel0Cluster = 1,
       MLevel1Cluster = 2, NLevel1Cluster = 2, KPerThreadLoop = 1\<rparr>) mod KPerThreadLoop \<lparr>BlockSize = 4, BlockMatrixA = \<lparr>NRow = 2, NCol = 8, RowStride = 8\<rparr>,
       BlockMatrixB = \<lparr>NRow = 2, NCol = 8, RowStride = 8\<rparr>, ThreadMatrixC = \<lparr>NRow = 4, NCol = 4, RowStride = 4\<rparr>,
       MPerThreadSubC = 2, NPerThreadSubC = 2, MLevel0Cluster = 1, NLevel0Cluster = 1,
       MLevel1Cluster = 2, NLevel1Cluster = 2, KPerThreadLoop = 1\<rparr> = 0
   \<and> bg_Run \<lparr>BlockSize = 4, BlockMatrixA = \<lparr>NRow = 2, NCol = 8, RowStride = 8\<rparr>,
       BlockMatrixB = \<lparr>NRow = 2, NCol = 8, RowStride = 8\<rparr>, ThreadMatrixC = \<lparr>NRow = 4, NCol = 4, RowStride = 4\<rparr>,
       MPerThreadSubC = 2, NPerThreadSubC = 2, MLevel0Cluster = 1, NLevel0Cluster = 1,
       MLevel1Cluster = 2, NLevel1Cluster = 2, KPerThreadLoop = 1\<rparr> \<lparr>mMyThreadOffsetA = 2, mMyThreadOffsetB = 4\<rparr> (\<lambda>x. x) (\<lambda>x. 1 - x) (\<lambda>x. 0 :: int) (+) (\<lambda>x. 0) (\<lambda>x. 0)
     = Some (bg_reference \<lparr>BlockSize = 4, BlockMatrixA = \<lparr>NRow = 2, NCol = 8, RowStride = 8\<rparr>,
       BlockMatrixB = \<lparr>NRow = 2, NCol = 8, RowStride = 8\<rparr>, ThreadMatrixC = \<lparr>NRow = 4, NCol = 4, RowStride = 4\<rparr>,
       MPerThreadSubC = 2, NPerThreadSubC = 2, MLevel0Cluster = 1, NLevel0Cluster = 1,
       MLevel1Cluster = 2, NLevel1Cluster = 2, KPerThreadLoop = 1\<rparr> \<lparr>mMyThreadOffsetA = 2, mMyThreadOffsetB = 4\<rparr> (\<lambda>x. x) (\<lambda>x. 1 - x) (\<lambda>x. 0) (+))"
  using bg_Run_refines_reference[of "\<lparr>BlockSize = 4, BlockMatrixA = \<lparr>NRow = 2, NCol = 8, RowStride = 8\<rparr>,
       BlockMatrixB = \<lparr>NRow = 2, NCol = 8, RowStride = 8\<rparr>, ThreadMatrixC = \<lparr>NRow = 4, NCol = 4, RowStride = 4\<rparr>,
       MPerThreadSubC = 2, NPerThreadSubC = 2, MLevel0Cluster = 1, NLevel0Cluster = 1,
       MLevel1Cluster = 2, NLevel1Cluster = 2, KPerThreadLoop = 1\<rparr>" "\<lparr>mMyThreadOffsetA = 2, mMyThreadOffsetB = 4\<rparr>" "\<lambda>x. x" "\<lambda>x. 1 - x" "\<lambda>x. 0 :: int" "(+)" "\<lambda>x. 0" "\<lambda>x. 0"]
  by (simp add: bg_static_ok_def bg_positive_def cmd_wf_def)

end
