(* ===== verification/BlockwiseGemmVariants.thy ===== *)
theory BlockwiseGemmVariants
  imports BlockwiseGemm
begin

text \<open>
  The two other schedules of \<^verbatim>\<open>src/src/include/blockwise_gemm.hip.hpp\<close>:
  \<open>Run_RegisterDoubleBuffer\<close> (two register buffers per operand, the next row prefetched
  while the current one is multiplied) and \<open>Run_PipelineReadAndCompute\<close> (copies of
  the A- and B-sub-matrices interleaved with the sub-GEMMs).  The register buffers and the
  parity flag \<open>even_loop\<close> form the record \<open>bg_db_state\<close>; one iteration of each loop is a
  step function folded over the values of \<open>k_begin\<close>.  \<open>bg_rows_loaded\<close> says which rows
  of the block matrices the registers hold; the lemmas follow it through the loops.
\<close>

record 'a bg_db_state =
  p_a_thread_0 :: "int \<Rightarrow> 'a"
  p_b_thread_0 :: "int \<Rightarrow> 'a"
  p_a_thread_1 :: "int \<Rightarrow> 'a"
  p_b_thread_1 :: "int \<Rightarrow> 'a"
  p_c_thread_db :: "int \<Rightarrow> 'a"
  even_loop :: bool

definition bg_db_preload ::
  "bg_cfg \<Rightarrow> bg_thread \<Rightarrow> (int \<Rightarrow> 'a) \<Rightarrow> (int \<Rightarrow> 'a) \<Rightarrow> index_t \<Rightarrow> (int \<Rightarrow> 'a) \<Rightarrow> (int \<Rightarrow> 'a)
   \<Rightarrow> (int \<Rightarrow> 'a) \<times> (int \<Rightarrow> 'a)" where
  "bg_db_preload cfg th p_a_block p_b_block row_off p_a p_b =
     (let a_block_mtx = BlockMatrixA cfg; b_block_mtx = BlockMatrixB cfg;
          MPerThread = NRow (ThreadMatrixC cfg); NPerThread = NCol (ThreadMatrixC cfg);
          a_thread_sub_mtx = make_ConstantMatrixDescriptor_strided (KPerThreadLoop cfg) (MPerThreadSubC cfg) MPerThread;
          b_thread_sub_mtx = make_ConstantMatrixDescriptor_strided (KPerThreadLoop cfg) (NPerThreadSubC cfg) NPerThread;
          MPerLevel1Cluster = MPerThreadSubC cfg * MLevel0Cluster cfg * MLevel1Cluster cfg;
          NPerLevel1Cluster = NPerThreadSubC cfg * NLevel0Cluster cfg * NLevel1Cluster cfg;
          MRepeat = MPerThread div MPerThreadSubC cfg; NRepeat = NPerThread div NPerThreadSubC cfg
      in (bg_copy_subs a_block_mtx p_a_block
            (\<lambda>m_repeat. mMyThreadOffsetA th + row_off * RowStride a_block_mtx + m_repeat * MPerLevel1Cluster)
            a_thread_sub_mtx p_a (\<lambda>m_repeat. m_repeat * MPerThreadSubC cfg)
            (NRow a_thread_sub_mtx, NCol a_thread_sub_mtx) MRepeat,
          bg_copy_subs b_block_mtx p_b_block
            (\<lambda>n_repeat. mMyThreadOffsetB th + row_off * RowStride b_block_mtx + n_repeat * NPerLevel1Cluster)
            b_thread_sub_mtx p_b (\<lambda>n_repeat. n_repeat * NPerThreadSubC cfg)
            (NRow b_thread_sub_mtx, NCol b_thread_sub_mtx) NRepeat))"

definition bg_db_gemm ::
  "bg_cfg \<Rightarrow> ('a::times \<Rightarrow> 'a \<Rightarrow> 'a) \<Rightarrow> (int \<Rightarrow> 'a) \<Rightarrow> (int \<Rightarrow> 'a) \<Rightarrow> (int \<Rightarrow> 'a) \<Rightarrow> (int \<Rightarrow> 'a)" where
  "bg_db_gemm cfg f_accum p_a_now p_b_now p_c =
     threadwise_gemm (make_ConstantMatrixDescriptor (KPerThreadLoop cfg) (NRow (ThreadMatrixC cfg))) p_a_now 0
       (make_ConstantMatrixDescriptor (KPerThreadLoop cfg) (NCol (ThreadMatrixC cfg))) p_b_now 0
       (ThreadMatrixC cfg) p_c 0 f_accum"

definition bg_db_step ::
  "bg_cfg \<Rightarrow> bg_thread \<Rightarrow> (int \<Rightarrow> 'a::times) \<Rightarrow> (int \<Rightarrow> 'a) \<Rightarrow> ('a \<Rightarrow> 'a \<Rightarrow> 'a)
   \<Rightarrow> 'a bg_db_state \<Rightarrow> index_t \<Rightarrow> 'a bg_db_state" where
  "bg_db_step cfg th p_a_block p_b_block f_accum s k_begin =
     (if even_loop s
      then (let (a_next, b_next) = bg_db_preload cfg th p_a_block p_b_block (k_begin + 1) (p_a_thread_1 s) (p_b_thread_1 s)
            in s\<lparr>p_a_thread_1 := a_next, p_b_thread_1 := b_next,
                 p_c_thread_db := bg_db_gemm cfg f_accum (p_a_thread_0 s) (p_b_thread_0 s) (p_c_thread_db s),
                 even_loop := False\<rparr>)
      else (let (a_next, b_next) = bg_db_preload cfg th p_a_block p_b_block (k_begin + 1) (p_a_thread_0 s) (p_b_thread_0 s)
            in s\<lparr>p_a_thread_0 := a_next, p_b_thread_0 := b_next,
                 p_c_thread_db := bg_db_gemm cfg f_accum (p_a_thread_1 s) (p_b_thread_1 s) (p_c_thread_db s),
                 even_loop := True\<rparr>))"

definition bg_Run_RegisterDoubleBuffer ::
  "bg_cfg \<Rightarrow> bg_thread \<Rightarrow> (int \<Rightarrow> 'a::times) \<Rightarrow> (int \<Rightarrow> 'a) \<Rightarrow> (int \<Rightarrow> 'a) \<Rightarrow> ('a \<Rightarrow> 'a \<Rightarrow> 'a)
   \<Rightarrow> (int \<Rightarrow> 'a) \<Rightarrow> (int \<Rightarrow> 'a) \<Rightarrow> (int \<Rightarrow> 'a) \<Rightarrow> (int \<Rightarrow> 'a) \<Rightarrow> (int \<Rightarrow> 'a) option" where
  "bg_Run_RegisterDoubleBuffer cfg th p_a_block p_b_block p_c f_accum a0 b0 a1 b1 =
     (let K = NRow (BlockMatrixA cfg); KPerThreadLoop = KPerThreadLoop cfg
      in if KPerThreadLoop \<le> 0 \<and> KPerThreadLoop < K then None
         else (let (a0', b0') = bg_db_preload cfg th p_a_block p_b_block 0 a0 b0;
                   s = foldl (bg_db_step cfg th p_a_block p_b_block f_accum)
                         \<lparr>p_a_thread_0 = a0', p_b_thread_0 = b0', p_a_thread_1 = a1, p_b_thread_1 = b1,
                          p_c_thread_db = p_c, even_loop = True\<rparr>
                         (int_range_step 0 (K - KPerThreadLoop) KPerThreadLoop)
               in Some (if even_loop s
                        then bg_db_gemm cfg f_accum (p_a_thread_0 s) (p_b_thread_0 s) (p_c_thread_db s)
                        else bg_db_gemm cfg f_accum (p_a_thread_1 s) (p_b_thread_1 s) (p_c_thread_db s))))"

definition bg_copy_a :: "bg_cfg \<Rightarrow> bg_thread \<Rightarrow> (int \<Rightarrow> 'a) \<Rightarrow> index_t \<Rightarrow> (int \<Rightarrow> 'a) \<Rightarrow> index_t \<Rightarrow> (int \<Rightarrow> 'a)" where
  "bg_copy_a cfg th p_a_block k_begin p_a_thread m_repeat =
     (let a_block_mtx = BlockMatrixA cfg; MPerThread = NRow (ThreadMatrixC cfg);
          a_thread_mtx = make_ConstantMatrixDescriptor (KPerThreadLoop cfg) MPerThread;
          a_thread_sub_mtx = make_ConstantMatrixDescriptor_strided (KPerThreadLoop cfg) (MPerThreadSubC cfg) MPerThread;
          MPerLevel1Cluster = MPerThreadSubC cfg * MLevel0Cluster cfg * MLevel1Cluster cfg
      in threadwise_matrix_copy a_block_mtx p_a_block
           (GetOffsetFromMultiIndex a_block_mtx k_begin (m_repeat * MPerLevel1Cluster) + mMyThreadOffsetA th)
           a_thread_mtx p_a_thread (GetOffsetFromMultiIndex a_thread_mtx 0 (m_repeat * MPerThreadSubC cfg))
           (NRow a_thread_sub_mtx, NCol a_thread_sub_mtx))"

definition bg_copy_b :: "bg_cfg \<Rightarrow> bg_thread \<Rightarrow> (int \<Rightarrow> 'a) \<Rightarrow> index_t \<Rightarrow> (int \<Rightarrow> 'a) \<Rightarrow> index_t \<Rightarrow> (int \<Rightarrow> 'a)" where
  "bg_copy_b cfg th p_b_block k_begin p_b_thread n_repeat =
     (let b_block_mtx = BlockMatrixB cfg; NPerThread = NCol (ThreadMatrixC cfg);
          b_thread_mtx = make_ConstantMatrixDescriptor (KPerThreadLoop cfg) NPerThread;
          b_thread_sub_mtx = make_ConstantMatrixDescriptor_strided (KPerThreadLoop cfg) (NPerThreadSubC cfg) NPerThread;
          NPerLevel1Cluster = NPerThreadSubC cfg * NLevel0Cluster cfg * NLevel1Cluster cfg
      in threadwise_matrix_copy b_block_mtx p_b_block
           (GetOffsetFromMultiIndex b_block_mtx k_begin (n_repeat * NPerLevel1Cluster) + mMyThreadOffsetB th)
           b_thread_mtx p_b_thread (GetOffsetFromMultiIndex b_thread_mtx 0 (n_repeat * NPerThreadSubC cfg))
           (NRow b_thread_sub_mtx, NCol b_thread_sub_mtx))"

definition bg_sub_gemm ::
  "bg_cfg \<Rightarrow> ('a::times \<Rightarrow> 'a \<Rightarrow> 'a) \<Rightarrow> (int \<Rightarrow> 'a) \<Rightarrow> index_t \<Rightarrow> (int \<Rightarrow> 'a) \<Rightarrow> index_t \<Rightarrow> (int \<Rightarrow> 'a) \<Rightarrow> (int \<Rightarrow> 'a)" where
  "bg_sub_gemm cfg f_accum p_a_thread m_repeat p_b_thread n_repeat p_c_thread =
     (let c_thread_mtx = ThreadMatrixC cfg; MPerThread = NRow c_thread_mtx; NPerThread = NCol c_thread_mtx;
          a_thread_mtx = make_ConstantMatrixDescriptor (KPerThreadLoop cfg) MPerThread;
          b_thread_mtx = make_ConstantMatrixDescriptor (KPerThreadLoop cfg) NPerThread;
          a_thread_sub_mtx = make_ConstantMatrixDescriptor_strided (KPerThreadLoop cfg) (MPerThreadSubC cfg) MPerThread;
          b_thread_sub_mtx = make_ConstantMatrixDescriptor_strided (KPerThreadLoop cfg) (NPerThreadSubC cfg) NPerThread;
          c_thread_sub_mtx = make_ConstantMatrixDescriptor_strided (MPerThreadSubC cfg) (NPerThreadSubC cfg) NPerThread
      in threadwise_gemm a_thread_sub_mtx p_a_thread (GetOffsetFromMultiIndex a_thread_mtx 0 (m_repeat * MPerThreadSubC cfg))
           b_thread_sub_mtx p_b_thread (GetOffsetFromMultiIndex b_thread_mtx 0 (n_repeat * NPerThreadSubC cfg))
           c_thread_sub_mtx p_c_thread
           (GetOffsetFromMultiIndex c_thread_mtx (m_repeat * MPerThreadSubC cfg) (n_repeat * NPerThreadSubC cfg)) f_accum)"

definition bg_pipeline_step ::
  "bg_cfg \<Rightarrow> bg_thread \<Rightarrow> (int \<Rightarrow> 'a::times) \<Rightarrow> (int \<Rightarrow> 'a) \<Rightarrow> ('a \<Rightarrow> 'a \<Rightarrow> 'a)
   \<Rightarrow> (int \<Rightarrow> 'a) \<times> (int \<Rightarrow> 'a) \<times> (int \<Rightarrow> 'a) \<Rightarrow> index_t \<Rightarrow> (int \<Rightarrow> 'a) \<times> (int \<Rightarrow> 'a) \<times> (int \<Rightarrow> 'a)" where
  "bg_pipeline_step cfg th p_a_block p_b_block f_accum s k_begin =
     (let (p_a_thread, p_b_thread, p_c_0) = s;
          MRepeat = NRow (ThreadMatrixC cfg) div MPerThreadSubC cfg;
          NRepeat = NCol (ThreadMatrixC cfg) div NPerThreadSubC cfg;
          \<comment> \<open>C-sub(s) in the first row-wise sub-block of C\<close>
          p_a_1 = bg_copy_a cfg th p_a_block k_begin p_a_thread 0;
          p_b_1 = bg_copy_b cfg th p_b_block k_begin p_b_thread 0;
          p_c_1 = bg_sub_gemm cfg f_accum p_a_1 0 p_b_1 0 p_c_0;
          (p_b_2, p_c_2) = foldl (\<lambda>(p_b, p_c) n_repeat.
              let p_b' = bg_copy_b cfg th p_b_block k_begin p_b n_repeat
              in (p_b', bg_sub_gemm cfg f_accum p_a_1 0 p_b' n_repeat p_c))
            (p_b_1, p_c_1) [1..NRepeat - 1];
          \<comment> \<open>the other row-wise sub-blocks: all B-sub(s) are in registers, only the A-sub(s) are copied\<close>
          (p_a_3, p_c_3) = foldl (\<lambda>(p_a, p_c) m_repeat.
              let p_a' = bg_copy_a cfg th p_a_block k_begin p_a m_repeat
              in (p_a', foldl (\<lambda>p_c n_repeat. bg_sub_gemm cfg f_accum p_a' m_repeat p_b_2 n_repeat p_c)
                          p_c [0..NRepeat - 1]))
            (p_a_1, p_c_2) [1..MRepeat - 1]
      in (p_a_3, p_b_2, p_c_3))"

definition bg_Run_PipelineReadAndCompute ::
  "bg_cfg \<Rightarrow> bg_thread \<Rightarrow> (int \<Rightarrow> 'a::times) \<Rightarrow> (int \<Rightarrow> 'a) \<Rightarrow> (int \<Rightarrow> 'a) \<Rightarrow> ('a \<Rightarrow> 'a \<Rightarrow> 'a)
   \<Rightarrow> (int \<Rightarrow> 'a) \<Rightarrow> (int \<Rightarrow> 'a) \<Rightarrow> (int \<Rightarrow> 'a) option" where
  "bg_Run_PipelineReadAndCompute cfg th p_a_block p_b_block p_c f_accum p_a_thread0 p_b_thread0 =
     (let K = NRow (BlockMatrixA cfg)
      in if KPerThreadLoop cfg \<le> 0 \<and> 0 < K then None
         else Some (snd (snd (foldl (bg_pipeline_step cfg th p_a_block p_b_block f_accum)
                                    (p_a_thread0, p_b_thread0, p_c)
                                    (int_range_step 0 K (KPerThreadLoop cfg))))))"

definition bg_rows_loaded ::
  "bg_cfg \<Rightarrow> bg_thread \<Rightarrow> (int \<Rightarrow> 'a) \<Rightarrow> (int \<Rightarrow> 'a) \<Rightarrow> index_t \<Rightarrow> (int \<Rightarrow> 'a) \<Rightarrow> (int \<Rightarrow> 'a) \<Rightarrow> bool" where
  "bg_rows_loaded cfg th p_a_block p_b_block r p_a p_b \<longleftrightarrow>
     (\<forall>k i. 0 \<le> k \<and> k < KPerThreadLoop cfg \<and> 0 \<le> i \<and> i < NRow (ThreadMatrixC cfg) \<longrightarrow>
        p_a (GetOffsetFromMultiIndex (make_ConstantMatrixDescriptor (KPerThreadLoop cfg) (NRow (ThreadMatrixC cfg))) k i)
        = p_a_block (mMyThreadOffsetA th + GetOffsetFromMultiIndex (BlockMatrixA cfg) (r + k)
                       (row (GetDistanceFromBeginOfThreadMatrixC cfg i 0))))
     \<and> (\<forall>k j. 0 \<le> k \<and> k < KPerThreadLoop cfg \<and> 0 \<le> j \<and> j < NCol (ThreadMatrixC cfg) \<longrightarrow>
        p_b (GetOffsetFromMultiIndex (make_ConstantMatrixDescriptor (KPerThreadLoop cfg) (NCol (ThreadMatrixC cfg))) k j)
        = p_b_block (mMyThreadOffsetB th + GetOffsetFromMultiIndex (BlockMatrixB cfg) (r + k)
                       (col (GetDistanceFromBeginOfThreadMatrixC cfg 0 j))))"

lemma bg_distance_row_col:
  "row (GetDistanceFromBeginOfThreadMatrixC cfg i j) = row (GetDistanceFromBeginOfThreadMatrixC cfg i 0)"
  "col (GetDistanceFromBeginOfThreadMatrixC cfg i j) = col (GetDistanceFromBeginOfThreadMatrixC cfg 0 j)"
  by (simp_all add: GetDistanceFromBeginOfThreadMatrixC_def Let_def)

lemma bg_db_preload_loaded:
  assumes ok: "bg_static_ok cfg" and pos: "bg_positive cfg"
  shows "bg_rows_loaded cfg th p_a_block p_b_block r
           (fst (bg_db_preload cfg th p_a_block p_b_block r p_a p_b))
           (snd (bg_db_preload cfg th p_a_block p_b_block r p_a p_b))"
proof -
  have SM: "0 < MPerThreadSubC cfg" and SN: "0 < NPerThreadSubC cfg" using bg_positives[OF pos] by simp_all
  have MT: "NRow (ThreadMatrixC cfg) = NRow (ThreadMatrixC cfg) div MPerThreadSubC cfg * MPerThreadSubC cfg"
    and NT: "NCol (ThreadMatrixC cfg) = NCol (ThreadMatrixC cfg) div NPerThreadSubC cfg * NPerThreadSubC cfg"
    using bg_shape[OF ok pos] by simp_all
  show ?thesis unfolding bg_rows_loaded_def
  proof (intro conjI allI impI)
    fix k i assume ki: "0 \<le> k \<and> k < KPerThreadLoop cfg \<and> 0 \<le> i \<and> i < NRow (ThreadMatrixC cfg)"
    show "fst (bg_db_preload cfg th p_a_block p_b_block r p_a p_b)
            (GetOffsetFromMultiIndex (make_ConstantMatrixDescriptor (KPerThreadLoop cfg) (NRow (ThreadMatrixC cfg))) k i)
          = p_a_block (mMyThreadOffsetA th + GetOffsetFromMultiIndex (BlockMatrixA cfg) (r + k)
                       (row (GetDistanceFromBeginOfThreadMatrixC cfg i 0)))"
      using bg_copy_subs_at[OF SM MT, where dst = "make_ConstantMatrixDescriptor_strided (KPerThreadLoop cfg) (MPerThreadSubC cfg) (NRow (ThreadMatrixC cfg))"
          and src = "BlockMatrixA cfg" and p_src = p_a_block and p_dst = p_a
          and base = "mMyThreadOffsetA th + r * RowStride (BlockMatrixA cfg)"
          and L = "MPerThreadSubC cfg * MLevel0Cluster cfg * MLevel1Cluster cfg" and KP = "KPerThreadLoop cfg"
          and src_off = "\<lambda>m. mMyThreadOffsetA th + r * RowStride (BlockMatrixA cfg) + m * (MPerThreadSubC cfg * MLevel0Cluster cfg * MLevel1Cluster cfg)"
          and dst_off = "\<lambda>m. m * MPerThreadSubC cfg" and k = k and i = i] ki
      by (simp add: bg_db_preload_def Let_def cmd_defs GetDistanceFromBeginOfThreadMatrixC_def algebra_simps)
  next
    fix k j assume kj: "0 \<le> k \<and> k < KPerThreadLoop cfg \<and> 0 \<le> j \<and> j < NCol (ThreadMatrixC cfg)"
    show "snd (bg_db_preload cfg th p_a_block p_b_block r p_a p_b)
            (GetOffsetFromMultiIndex (make_ConstantMatrixDescriptor (KPerThreadLoop cfg) (NCol (ThreadMatrixC cfg))) k j)
          = p_b_block (mMyThreadOffsetB th + GetOffsetFromMultiIndex (BlockMatrixB cfg) (r + k)
                       (col (GetDistanceFromBeginOfThreadMatrixC cfg 0 j)))"
      using bg_copy_subs_at[OF SN NT, where dst = "make_ConstantMatrixDescriptor_strided (KPerThreadLoop cfg) (NPerThreadSubC cfg) (NCol (ThreadMatrixC cfg))"
          and src = "BlockMatrixB cfg" and p_src = p_b_block and p_dst = p_b
          and base = "mMyThreadOffsetB th + r * RowStride (BlockMatrixB cfg)"
          and L = "NPerThreadSubC cfg * NLevel0Cluster cfg * NLevel1Cluster cfg" and KP = "KPerThreadLoop cfg"
          and src_off = "\<lambda>n. mMyThreadOffsetB th + r * RowStride (BlockMatrixB cfg) + n * (NPerThreadSubC cfg * NLevel0Cluster cfg * NLevel1Cluster cfg)"
          and dst_off = "\<lambda>n. n * NPerThreadSubC cfg" and k = k and i = j] kj
      by (simp add: bg_db_preload_def Let_def cmd_defs GetDistanceFromBeginOfThreadMatrixC_def algebra_simps)
  qed
qed

lemma bg_db_gemm_at:
  assumes ld: "bg_rows_loaded cfg th p_a_block p_b_block r p_a p_b"
    and wf: "NCol (ThreadMatrixC cfg) \<le> RowStride (ThreadMatrixC cfg)"
    and i0: "0 \<le> i0" "i0 < NRow (ThreadMatrixC cfg)" and j0: "0 \<le> j0" "j0 < NCol (ThreadMatrixC cfg)"
  shows "bg_db_gemm cfg f p_a p_b p_c (GetOffsetFromMultiIndex (ThreadMatrixC cfg) i0 j0)
         = foldl f (p_c (GetOffsetFromMultiIndex (ThreadMatrixC cfg) i0 j0))
             [p_a_block (mMyThreadOffsetA th
                  + GetOffsetFromMultiIndex (BlockMatrixA cfg) (r + k) (row (GetDistanceFromBeginOfThreadMatrixC cfg i0 j0)))
              * p_b_block (mMyThreadOffsetB th
                  + GetOffsetFromMultiIndex (BlockMatrixB cfg) (r + k) (col (GetDistanceFromBeginOfThreadMatrixC cfg i0 j0))).
              k \<leftarrow> [0..KPerThreadLoop cfg - 1]]"
proof -
  let ?A = "make_ConstantMatrixDescriptor (KPerThreadLoop cfg) (NRow (ThreadMatrixC cfg))"
  let ?B = "make_ConstantMatrixDescriptor (KPerThreadLoop cfg) (NCol (ThreadMatrixC cfg))"
  have "bg_db_gemm cfg f p_a p_b p_c (GetOffsetFromMultiIndex (ThreadMatrixC cfg) i0 j0)
        = foldl f (p_c (GetOffsetFromMultiIndex (ThreadMatrixC cfg) i0 j0))
            [p_a (GetOffsetFromMultiIndex ?A k i0) * p_b (GetOffsetFromMultiIndex ?B k j0). k \<leftarrow> [0..KPerThreadLoop cfg - 1]]"
    using threadwise_gemm_at[where a_mtx = ?A and b_mtx = ?B and c_mtx = "ThreadMatrixC cfg" and isel = i0 and jsel = j0
        and p_a = p_a and a_off = 0 and p_b = p_b and b_off = 0 and p_c = p_c and c_off = 0 and f = f] wf i0 j0
    by (simp add: bg_db_gemm_def make_ConstantMatrixDescriptor_def)
  also have "\<dots> = foldl f (p_c (GetOffsetFromMultiIndex (ThreadMatrixC cfg) i0 j0))
             [p_a_block (mMyThreadOffsetA th
                  + GetOffsetFromMultiIndex (BlockMatrixA cfg) (r + k) (row (GetDistanceFromBeginOfThreadMatrixC cfg i0 j0)))
              * p_b_block (mMyThreadOffsetB th
                  + GetOffsetFromMultiIndex (BlockMatrixB cfg) (r + k) (col (GetDistanceFromBeginOfThreadMatrixC cfg i0 j0))).
              k \<leftarrow> [0..KPerThreadLoop cfg - 1]]"
    by (rule foldl_map_cong) (use ld i0 j0 in \<open>simp add: bg_rows_loaded_def bg_distance_row_col[of cfg i0 j0]\<close>)
  finally show ?thesis .
qed

lemma bg_db_gemm_other:
  assumes "\<And>i j. 0 \<le> i \<Longrightarrow> i < NRow (ThreadMatrixC cfg) \<Longrightarrow> 0 \<le> j \<Longrightarrow> j < NCol (ThreadMatrixC cfg)
             \<Longrightarrow> p \<noteq> GetOffsetFromMultiIndex (ThreadMatrixC cfg) i j"
  shows "bg_db_gemm cfg f p_a p_b p_c p = p_c p"
  unfolding bg_db_gemm_def
  by (rule threadwise_gemm_other) (use assms in \<open>simp add: make_ConstantMatrixDescriptor_def\<close>)

lemma bg_db_step_even:
  "even_loop s \<Longrightarrow> bg_db_step cfg th p_a_block p_b_block f s kb
     = s\<lparr>p_a_thread_1 := fst (bg_db_preload cfg th p_a_block p_b_block (kb + 1) (p_a_thread_1 s) (p_b_thread_1 s)),
         p_b_thread_1 := snd (bg_db_preload cfg th p_a_block p_b_block (kb + 1) (p_a_thread_1 s) (p_b_thread_1 s)),
         p_c_thread_db := bg_db_gemm cfg f (p_a_thread_0 s) (p_b_thread_0 s) (p_c_thread_db s), even_loop := False\<rparr>"
  by (simp add: bg_db_step_def split_def Let_def)

lemma bg_db_step_odd:
  "\<not> even_loop s \<Longrightarrow> bg_db_step cfg th p_a_block p_b_block f s kb
     = s\<lparr>p_a_thread_0 := fst (bg_db_preload cfg th p_a_block p_b_block (kb + 1) (p_a_thread_0 s) (p_b_thread_0 s)),
         p_b_thread_0 := snd (bg_db_preload cfg th p_a_block p_b_block (kb + 1) (p_a_thread_0 s) (p_b_thread_0 s)),
         p_c_thread_db := bg_db_gemm cfg f (p_a_thread_1 s) (p_b_thread_1 s) (p_c_thread_db s), even_loop := True\<rparr>"
  by (simp add: bg_db_step_def split_def Let_def)

lemma bg_db_loop:
  fixes f :: "'a::times \<Rightarrow> 'a \<Rightarrow> 'a" and s0 :: "'a bg_db_state"
  assumes ok: "bg_static_ok cfg" and pos: "bg_positive cfg"
    and wf: "NCol (ThreadMatrixC cfg) \<le> RowStride (ThreadMatrixC cfg)" and KP: "KPerThreadLoop cfg = 1"
    and s0: "even_loop s0" "bg_rows_loaded cfg th p_a_block p_b_block 0 (p_a_thread_0 s0) (p_b_thread_0 s0)"
    and n: "0 \<le> n"
  defines "S \<equiv> \<lambda>n. foldl (bg_db_step cfg th p_a_block p_b_block f) s0 [0..n - 1]"
  shows "even_loop (S n) = even n
    \<and> bg_rows_loaded cfg th p_a_block p_b_block n
        (if even n then p_a_thread_0 (S n) else p_a_thread_1 (S n))
        (if even n then p_b_thread_0 (S n) else p_b_thread_1 (S n))
    \<and> (\<forall>i0 j0. 0 \<le> i0 \<and> i0 < NRow (ThreadMatrixC cfg) \<and> 0 \<le> j0 \<and> j0 < NCol (ThreadMatrixC cfg) \<longrightarrow>
         p_c_thread_db (S n) (GetOffsetFromMultiIndex (ThreadMatrixC cfg) i0 j0)
         = foldl f (p_c_thread_db s0 (GetOffsetFromMultiIndex (ThreadMatrixC cfg) i0 j0))
             [p_a_block (mMyThreadOffsetA th
                  + GetOffsetFromMultiIndex (BlockMatrixA cfg) k (row (GetDistanceFromBeginOfThreadMatrixC cfg i0 j0)))
              * p_b_block (mMyThreadOffsetB th
                  + GetOffsetFromMultiIndex (BlockMatrixB cfg) k (col (GetDistanceFromBeginOfThreadMatrixC cfg i0 j0))).
              k \<leftarrow> [0..n - 1]])
    \<and> (\<forall>p. (\<forall>i j. 0 \<le> i \<and> i < NRow (ThreadMatrixC cfg) \<and> 0 \<le> j \<and> j < NCol (ThreadMatrixC cfg)
               \<longrightarrow> p \<noteq> GetOffsetFromMultiIndex (ThreadMatrixC cfg) i j)
         \<longrightarrow> p_c_thread_db (S n) p = p_c_thread_db s0 p)"
  using n
proof (induction n rule: int_ge_induct)
  case base
  then show ?case using s0 by (simp add: S_def)
next
  case (step n)
  have S1: "S (n + 1) = bg_db_step cfg th p_a_block p_b_block f (S n) n"
    using step.hyps by (simp add: S_def upto_snoc_nonneg)
  have k1: "[0..KPerThreadLoop cfg - 1] = [0]" using KP by simp
  have snoc: "[0..n] = [0..n - 1] @ [n]" using step.hyps by (simp add: upto_snoc_nonneg)
  have now: "bg_rows_loaded cfg th p_a_block p_b_block n
        (if even_loop (S n) then p_a_thread_0 (S n) else p_a_thread_1 (S n))
        (if even_loop (S n) then p_b_thread_0 (S n) else p_b_thread_1 (S n))"
    using step.IH by simp
  have gemm: "p_c_thread_db (S (n + 1))
      = bg_db_gemm cfg f (if even_loop (S n) then p_a_thread_0 (S n) else p_a_thread_1 (S n))
          (if even_loop (S n) then p_b_thread_0 (S n) else p_b_thread_1 (S n)) (p_c_thread_db (S n))"
    unfolding S1 by (cases "even_loop (S n)") (simp_all add: bg_db_step_even bg_db_step_odd)
  have next_ld: "bg_rows_loaded cfg th p_a_block p_b_block (n + 1)
        (if even (n + 1) then p_a_thread_0 (S (n + 1)) else p_a_thread_1 (S (n + 1)))
        (if even (n + 1) then p_b_thread_0 (S (n + 1)) else p_b_thread_1 (S (n + 1)))"
    using step.IH unfolding S1
    by (cases "even n") (simp_all add: bg_db_step_even bg_db_step_odd bg_db_preload_loaded[OF ok pos])
  have ev: "even_loop (S (n + 1)) = even (n + 1)"
    using step.IH unfolding S1 by (cases "even n") (simp_all add: bg_db_step_even bg_db_step_odd)
  show ?case
  proof (intro conjI allI impI)
    show "even_loop (S (n + 1)) = even (n + 1)" by (fact ev)
  next
    show "bg_rows_loaded cfg th p_a_block p_b_block (n + 1)
        (if even (n + 1) then p_a_thread_0 (S (n + 1)) else p_a_thread_1 (S (n + 1)))
        (if even (n + 1) then p_b_thread_0 (S (n + 1)) else p_b_thread_1 (S (n + 1)))" by (fact next_ld)
  next
    fix i0 j0 assume ij: "0 \<le> i0 \<and> i0 < NRow (ThreadMatrixC cfg) \<and> 0 \<le> j0 \<and> j0 < NCol (ThreadMatrixC cfg)"
    show "p_c_thread_db (S (n + 1)) (GetOffsetFromMultiIndex (ThreadMatrixC cfg) i0 j0)
         = foldl f (p_c_thread_db s0 (GetOffsetFromMultiIndex (ThreadMatrixC cfg) i0 j0))
             [p_a_block (mMyThreadOffsetA th
                  + GetOffsetFromMultiIndex (BlockMatrixA cfg) k (row (GetDistanceFromBeginOfThreadMatrixC cfg i0 j0)))
              * p_b_block (mMyThreadOffsetB th
                  + GetOffsetFromMultiIndex (BlockMatrixB cfg) k (col (GetDistanceFromBeginOfThreadMatrixC cfg i0 j0))).
              k \<leftarrow> [0..n + 1 - 1]]"
    proof -
      have "p_c_thread_db (S (n + 1)) (GetOffsetFromMultiIndex (ThreadMatrixC cfg) i0 j0)
         = foldl f (p_c_thread_db (S n) (GetOffsetFromMultiIndex (ThreadMatrixC cfg) i0 j0))
             [p_a_block (mMyThreadOffsetA th
                  + GetOffsetFromMultiIndex (BlockMatrixA cfg) (n + k) (row (GetDistanceFromBeginOfThreadMatrixC cfg i0 j0)))
              * p_b_block (mMyThreadOffsetB th
                  + GetOffsetFromMultiIndex (BlockMatrixB cfg) (n + k) (col (GetDistanceFromBeginOfThreadMatrixC cfg i0 j0))).
              k \<leftarrow> [0..KPerThreadLoop cfg - 1]]"
        unfolding gemm using bg_db_gemm_at[OF now wf] ij by blast
      then show ?thesis using step.IH ij by (simp add: snoc k1)
    qed
  next
    fix p assume "\<forall>i j. 0 \<le> i \<and> i < NRow (ThreadMatrixC cfg) \<and> 0 \<le> j \<and> j < NCol (ThreadMatrixC cfg)
               \<longrightarrow> p \<noteq> GetOffsetFromMultiIndex (ThreadMatrixC cfg) i j"
    then show "p_c_thread_db (S (n + 1)) p = p_c_thread_db s0 p"
      using step.IH unfolding gemm by (simp add: bg_db_gemm_other)
  qed
qed

text \<open>C11: \<open>Run_RegisterDoubleBuffer\<close> refines the micro-GEMM contract when
  \<open>KPerThreadLoop = 1\<close> and K > 0: the register double buffer (preload row 0; at each step
  prefetch the next row into the other buffer and multiply the current one; one last
  multiply after the loop) leaves in C exactly what \<open>bg_reference\<close> accumulates.\<close>

theorem bg_Run_RegisterDoubleBuffer_refines_reference:
  assumes ok: "bg_static_ok cfg" and pos: "bg_positive cfg" and wf: "cmd_wf (ThreadMatrixC cfg)"
    and KP: "KPerThreadLoop cfg = 1" and K: "0 < NRow (BlockMatrixA cfg)"
  shows "bg_Run_RegisterDoubleBuffer cfg th p_a_block p_b_block p_c f a0 b0 a1 b1
         = Some (bg_reference cfg th p_a_block p_b_block p_c f)"
proof -
  let ?K = "NRow (BlockMatrixA cfg)"
  have wf': "NCol (ThreadMatrixC cfg) \<le> RowStride (ThreadMatrixC cfg)" using wf by (simp add: cmd_wf_def)
  define s0 where "s0 = \<lparr>p_a_thread_0 = fst (bg_db_preload cfg th p_a_block p_b_block 0 a0 b0),
      p_b_thread_0 = snd (bg_db_preload cfg th p_a_block p_b_block 0 a0 b0),
      p_a_thread_1 = a1, p_b_thread_1 = b1, p_c_thread_db = p_c, even_loop = True\<rparr>"
  define sK where "sK = foldl (bg_db_step cfg th p_a_block p_b_block f) s0 [0..?K - 1 - 1]"
  have ld0: "bg_rows_loaded cfg th p_a_block p_b_block 0 (p_a_thread_0 s0) (p_b_thread_0 s0)"
    using bg_db_preload_loaded[OF ok pos] by (simp add: s0_def)
  have c0: "p_c_thread_db s0 = p_c" "even_loop s0" by (simp_all add: s0_def)
  have inv: "even_loop sK = even (?K - 1)
    \<and> bg_rows_loaded cfg th p_a_block p_b_block (?K - 1)
        (if even (?K - 1) then p_a_thread_0 sK else p_a_thread_1 sK)
        (if even (?K - 1) then p_b_thread_0 sK else p_b_thread_1 sK)
    \<and> (\<forall>i0 j0. 0 \<le> i0 \<and> i0 < NRow (ThreadMatrixC cfg) \<and> 0 \<le> j0 \<and> j0 < NCol (ThreadMatrixC cfg) \<longrightarrow>
         p_c_thread_db sK (GetOffsetFromMultiIndex (ThreadMatrixC cfg) i0 j0)
         = foldl f (p_c (GetOffsetFromMultiIndex (ThreadMatrixC cfg) i0 j0))
             [p_a_block (mMyThreadOffsetA th
                  + GetOffsetFromMultiIndex (BlockMatrixA cfg) k (row (GetDistanceFromBeginOfThreadMatrixC cfg i0 j0)))
              * p_b_block (mMyThreadOffsetB th
                  + GetOffsetFromMultiIndex (BlockMatrixB cfg) k (col (GetDistanceFromBeginOfThreadMatrixC cfg i0 j0))).
              k \<leftarrow> [0..?K - 1 - 1]])
    \<and> (\<forall>p. (\<forall>i j. 0 \<le> i \<and> i < NRow (ThreadMatrixC cfg) \<and> 0 \<le> j \<and> j < NCol (ThreadMatrixC cfg)
               \<longrightarrow> p \<noteq> GetOffsetFromMultiIndex (ThreadMatrixC cfg) i j)
         \<longrightarrow> p_c_thread_db sK p = p_c p)"
    using bg_db_loop[OF ok pos wf' KP, of s0 th p_a_block p_b_block "?K - 1" f] ld0 K c0
    unfolding sK_def by simp
  define na where "na = (if even_loop sK then p_a_thread_0 sK else p_a_thread_1 sK)"
  define nb where "nb = (if even_loop sK then p_b_thread_0 sK else p_b_thread_1 sK)"
  have run: "bg_Run_RegisterDoubleBuffer cfg th p_a_block p_b_block p_c f a0 b0 a1 b1
             = Some (bg_db_gemm cfg f na nb (p_c_thread_db sK))"
    using KP K by (simp add: bg_Run_RegisterDoubleBuffer_def split_def Let_def s0_def sK_def na_def nb_def
        int_range_step_one)
  have ld: "bg_rows_loaded cfg th p_a_block p_b_block (?K - 1) na nb"
    using inv by (simp add: na_def nb_def)
  have "bg_db_gemm cfg f na nb (p_c_thread_db sK) p = bg_reference cfg th p_a_block p_b_block p_c f p" for p
  proof (cases "\<exists>i j. 0 \<le> i \<and> i < NRow (ThreadMatrixC cfg) \<and> 0 \<le> j \<and> j < NCol (ThreadMatrixC cfg)
                     \<and> p = GetOffsetFromMultiIndex (ThreadMatrixC cfg) i j")
    case True
    then obtain i j where ij: "0 \<le> i" "i < NRow (ThreadMatrixC cfg)" "0 \<le> j" "j < NCol (ThreadMatrixC cfg)"
      and p: "p = GetOffsetFromMultiIndex (ThreadMatrixC cfg) i j" by blast
    have "[0..?K - 1] = [0..?K - 1 - 1] @ [?K - 1]" using K by (simp add: upto_snoc_nonneg)
    then show ?thesis
      using inv ij KP by (simp add: p bg_db_gemm_at[OF ld wf' ij] bg_reference_at[OF wf' ij])
  next
    case False
    then have h: "\<And>i j. 0 \<le> i \<Longrightarrow> i < NRow (ThreadMatrixC cfg) \<Longrightarrow> 0 \<le> j \<Longrightarrow> j < NCol (ThreadMatrixC cfg)
                   \<Longrightarrow> p \<noteq> GetOffsetFromMultiIndex (ThreadMatrixC cfg) i j" by blast
    then show ?thesis using inv by (simp add: bg_db_gemm_other bg_reference_other)
  qed
  then show ?thesis unfolding run by (simp add: fun_eq_iff)
qed

theorem bg_Run_RegisterDoubleBuffer_refines_reference_witness:
  "bg_static_ok \<lparr>BlockSize = 4, BlockMatrixA = \<lparr>NRow = 2, NCol = 8, RowStride = 8\<rparr>,
       BlockMatrixB = \<lparr>NRow = 2, NCol = 8, RowStride = 8\<rparr>, ThreadMatrixC = \<lparr>NRow = 4, NCol = 4, RowStride = 4\<rparr>,
       MPerThreadSubC = 2, NPerThreadSubC = 2, MLevel0Cluster = 1, NLevel0Cluster = 1,
       MLevel1Cluster = 2, NLevel1Cluster = 2, KPerThreadLoop = 1\<rparr> \<and> bg_positive \<lparr>BlockSize = 4, BlockMatrixA = \<lparr>NRow = 2, NCol = 8, RowStride = 8\<rparr>,
       BlockMatrixB = \<lparr>NRow = 2, NCol = 8, RowStride = 8\<rparr>, ThreadMatrixC = \<lparr>NRow = 4, NCol = 4, RowStride = 4\<rparr>,
       MPerThreadSubC = 2, NPerThreadSubC = 2, MLevel0Cluster = 1, NLevel0Cluster = 1,
       MLevel1Cluster = 2, NLevel1Cluster = 2, KPerThreadLoop = 1\<rparr> \<and> cmd_wf (ThreadMatrixC \<lparr>BlockSize = 4, BlockMatrixA = \<lparr>NRow = 2, NCol = 8, RowStride = 8\<rparr>,
       BlockMatrixB = \<lparr>NRow = 2, NCol = 8, RowStride = 8\<rparr>, ThreadMatrixC = \<lparr>NRow = 4, NCol = 4, RowStride = 4\<rparr>,
       MPerThreadSubC = 2, NPerThreadSubC = 2, MLevel0Cluster = 1, NLevel0Cluster = 1,
       MLevel1Cluster = 2, NLevel1Cluster = 2, KPerThreadLoop = 1\<rparr>)
   \<and> KPerThreadLoop \<lparr>BlockSize = 4, BlockMatrixA = \<lparr>NRow = 2, NCol = 8, RowStride = 8\<rparr>,
       BlockMatrixB = \<lparr>NRow = 2, NCol = 8, RowStride = 8\<rparr>, ThreadMatrixC = \<lparr>NRow = 4, NCol = 4, RowStride = 4\<rparr>,
       MPerThreadSubC = 2, NPerThreadSubC = 2, MLevel0Cluster = 1, NLevel0Cluster = 1,
       MLevel1Cluster = 2, NLevel1Cluster = 2, KPerThreadLoop = 1\<rparr> = 1 \<and> 0 < NRow (BlockMatrixA \<lparr>BlockSize = 4, BlockMatrixA = \<lparr>NRow = 2, NCol = 8, RowStride = 8\<rparr>,
       BlockMatrixB = \<lparr>NRow = 2, NCol = 8, RowStride = 8\<rparr>, ThreadMatrixC = \<lparr>NRow = 4, NCol = 4, RowStride = 4\<rparr>,
       MPerThreadSubC = 2, NPerThreadSubC = 2, MLevel0Cluster = 1, NLevel0Cluster = 1,
       MLevel1Cluster = 2, NLevel1Cluster = 2, KPerThreadLoop = 1\<rparr>)
   \<and> bg_Run_RegisterDoubleBuffer \<lparr>BlockSize = 4, BlockMatrixA = \<lparr>NRow = 2, NCol = 8, RowStride = 8\<rparr>,
       BlockMatrixB = \<lparr>NRow = 2, NCol = 8, RowStride = 8\<rparr>, ThreadMatrixC = \<lparr>NRow = 4, NCol = 4, RowStride = 4\<rparr>,
       MPerThreadSubC = 2, NPerThreadSubC = 2, MLevel0Cluster = 1, NLevel0Cluster = 1,
       MLevel1Cluster = 2, NLevel1Cluster = 2, KPerThreadLoop = 1\<rparr> \<lparr>mMyThreadOffsetA = 2, mMyThreadOffsetB = 4\<rparr> (\<lambda>x. x) (\<lambda>x. 1 - x)
       (\<lambda>x. 0 :: int) (+) (\<lambda>x. 0) (\<lambda>x. 0) (\<lambda>x. 0) (\<lambda>x. 0)
     = Some (bg_reference \<lparr>BlockSize = 4, BlockMatrixA = \<lparr>NRow = 2, NCol = 8, RowStride = 8\<rparr>,
       BlockMatrixB = \<lparr>NRow = 2, NCol = 8, RowStride = 8\<rparr>, ThreadMatrixC = \<lparr>NRow = 4, NCol = 4, RowStride = 4\<rparr>,
       MPerThreadSubC = 2, NPerThreadSubC = 2, MLevel0Cluster = 1, NLevel0Cluster = 1,
       MLevel1Cluster = 2, NLevel1Cluster = 2, KPerThreadLoop = 1\<rparr> \<lparr>mMyThreadOffsetA = 2, mMyThreadOffsetB = 4\<rparr> (\<lambda>x. x) (\<lambda>x. 1 - x) (\<lambda>x. 0) (+))"
  using bg_Run_RegisterDoubleBuffer_refines_reference[of "\<lparr>BlockSize = 4, BlockMatrixA = \<lparr>NRow = 2, NCol = 8, RowStride = 8\<rparr>,
       BlockMatrixB = \<lparr>NRow = 2, NCol = 8, RowStride = 8\<rparr>, ThreadMatrixC = \<lparr>NRow = 4, NCol = 4, RowStride = 4\<rparr>,
       MPerThreadSubC = 2, NPerThreadSubC = 2, MLevel0Cluster = 1, NLevel0Cluster = 1,
       MLevel1Cluster = 2, NLevel1Cluster = 2, KPerThreadLoop = 1\<rparr>" "\<lparr>mMyThreadOffsetA = 2, mMyThreadOffsetB = 4\<rparr>"
      "\<lambda>x. x" "\<lambda>x. 1 - x" "\<lambda>x. 0 :: int" "(+)" "\<lambda>x. 0" "\<lambda>x. 0" "\<lambda>x. 0" "\<lambda>x. 0"]
  by (simp add: bg_static_ok_def bg_positive_def cmd_wf_def)

text \<open>With \<open>KPerThreadLoop = 2\<close> the prefetch from row \<open>k_begin + 1\<close> is wrong: on a
  4 x 1 by 4 x 1 block with A = 1, 2, 3, 4 and B = 1, \<open>Run_RegisterDoubleBuffer\<close> sums
  rows 0, 1, 1, 2 (giving 8) where \<open>Run\<close> sums rows 0 .. 3 (giving 10).\<close>

lemma bg_sub_le:
  assumes ok: "bg_static_ok cfg" and pos: "bg_positive cfg"
  shows "MPerThreadSubC cfg \<le> NRow (ThreadMatrixC cfg)" "NPerThreadSubC cfg \<le> NCol (ThreadMatrixC cfg)"
  using int_factor_le[OF bg_shape(1)[OF ok pos] bg_shape(3)[OF ok pos]]
    int_factor_le[OF bg_shape(4)[OF ok pos] bg_shape(6)[OF ok pos]] bg_positives[OF pos] by simp_all

lemma bg_copy_a_at:
  assumes ok: "bg_static_ok cfg" and pos: "bg_positive cfg"
    and k: "0 \<le> k" "k < KPerThreadLoop cfg" and i: "0 \<le> i" "i < NRow (ThreadMatrixC cfg)"
  shows "bg_copy_a cfg th p_a_block kb p_a (i div MPerThreadSubC cfg)
           (GetOffsetFromMultiIndex (make_ConstantMatrixDescriptor (KPerThreadLoop cfg) (NRow (ThreadMatrixC cfg))) k i)
         = p_a_block (mMyThreadOffsetA th + GetOffsetFromMultiIndex (BlockMatrixA cfg) (kb + k)
                        (row (GetDistanceFromBeginOfThreadMatrixC cfg i j)))"
proof -
  have SM: "0 < MPerThreadSubC cfg" using bg_positives[OF pos] by simp
  have MT: "MPerThreadSubC cfg \<le> NRow (ThreadMatrixC cfg)" by (rule bg_sub_le[OF ok pos])
  show ?thesis
    using tmc_region_at[of "MPerThreadSubC cfg" "make_ConstantMatrixDescriptor (KPerThreadLoop cfg) (NRow (ThreadMatrixC cfg))"
        k "KPerThreadLoop cfg" i "i div MPerThreadSubC cfg" "BlockMatrixA cfg" p_a_block] MT SM k i
    by (simp add: bg_copy_a_def Let_def cmd_defs GetDistanceFromBeginOfThreadMatrixC_def algebra_simps)
qed

lemma bg_copy_b_at:
  assumes ok: "bg_static_ok cfg" and pos: "bg_positive cfg"
    and k: "0 \<le> k" "k < KPerThreadLoop cfg" and j: "0 \<le> j" "j < NCol (ThreadMatrixC cfg)"
  shows "bg_copy_b cfg th p_b_block kb p_b (j div NPerThreadSubC cfg)
           (GetOffsetFromMultiIndex (make_ConstantMatrixDescriptor (KPerThreadLoop cfg) (NCol (ThreadMatrixC cfg))) k j)
         = p_b_block (mMyThreadOffsetB th + GetOffsetFromMultiIndex (BlockMatrixB cfg) (kb + k)
                        (col (GetDistanceFromBeginOfThreadMatrixC cfg i j)))"
proof -
  have SN: "0 < NPerThreadSubC cfg" using bg_positives[OF pos] by simp
  have NT: "NPerThreadSubC cfg \<le> NCol (ThreadMatrixC cfg)" by (rule bg_sub_le[OF ok pos])
  show ?thesis
    using tmc_region_at[of "NPerThreadSubC cfg" "make_ConstantMatrixDescriptor (KPerThreadLoop cfg) (NCol (ThreadMatrixC cfg))"
        k "KPerThreadLoop cfg" j "j div NPerThreadSubC cfg" "BlockMatrixB cfg" p_b_block] NT SN k j
    by (simp add: bg_copy_b_def Let_def cmd_defs GetDistanceFromBeginOfThreadMatrixC_def algebra_simps)
qed

lemma bg_copy_a_other:
  assumes ok: "bg_static_ok cfg" and pos: "bg_positive cfg"
    and m: "0 \<le> m" "m < NRow (ThreadMatrixC cfg) div MPerThreadSubC cfg"
    and i: "0 \<le> i" "i < NRow (ThreadMatrixC cfg)" "i div MPerThreadSubC cfg \<noteq> m"
  shows "bg_copy_a cfg th p_a_block kb p_a m
           (GetOffsetFromMultiIndex (make_ConstantMatrixDescriptor (KPerThreadLoop cfg) (NRow (ThreadMatrixC cfg))) k i)
         = p_a (GetOffsetFromMultiIndex (make_ConstantMatrixDescriptor (KPerThreadLoop cfg) (NRow (ThreadMatrixC cfg))) k i)"
  using tmc_region_other[of "MPerThreadSubC cfg" "make_ConstantMatrixDescriptor (KPerThreadLoop cfg) (NRow (ThreadMatrixC cfg))"
      "NRow (ThreadMatrixC cfg)" m i] bg_positives[OF pos] bg_shape[OF ok pos] m i
  by (simp add: bg_copy_a_def Let_def make_ConstantMatrixDescriptor_def make_ConstantMatrixDescriptor_strided_def)

lemma bg_copy_b_other:
  assumes ok: "bg_static_ok cfg" and pos: "bg_positive cfg"
    and n: "0 \<le> n" "n < NCol (ThreadMatrixC cfg) div NPerThreadSubC cfg"
    and j: "0 \<le> j" "j < NCol (ThreadMatrixC cfg)" "j div NPerThreadSubC cfg \<noteq> n"
  shows "bg_copy_b cfg th p_b_block kb p_b n
           (GetOffsetFromMultiIndex (make_ConstantMatrixDescriptor (KPerThreadLoop cfg) (NCol (ThreadMatrixC cfg))) k j)
         = p_b (GetOffsetFromMultiIndex (make_ConstantMatrixDescriptor (KPerThreadLoop cfg) (NCol (ThreadMatrixC cfg))) k j)"
  using tmc_region_other[of "NPerThreadSubC cfg" "make_ConstantMatrixDescriptor (KPerThreadLoop cfg) (NCol (ThreadMatrixC cfg))"
      "NCol (ThreadMatrixC cfg)" n j] bg_positives[OF pos] bg_shape[OF ok pos] n j
  by (simp add: bg_copy_b_def Let_def make_ConstantMatrixDescriptor_def make_ConstantMatrixDescriptor_strided_def)

lemma bg_sub_gemm_at:
  assumes ok: "bg_static_ok cfg" and pos: "bg_positive cfg"
    and RS: "RowStride (ThreadMatrixC cfg) = NCol (ThreadMatrixC cfg)"
    and i0: "0 \<le> i0" "i0 < NRow (ThreadMatrixC cfg)" and j0: "0 \<le> j0" "j0 < NCol (ThreadMatrixC cfg)"
  shows "bg_sub_gemm cfg f p_a (i0 div MPerThreadSubC cfg) p_b (j0 div NPerThreadSubC cfg) p_c
           (GetOffsetFromMultiIndex (ThreadMatrixC cfg) i0 j0)
         = foldl f (p_c (GetOffsetFromMultiIndex (ThreadMatrixC cfg) i0 j0))
             [p_a (GetOffsetFromMultiIndex (make_ConstantMatrixDescriptor (KPerThreadLoop cfg) (NRow (ThreadMatrixC cfg))) k i0)
              * p_b (GetOffsetFromMultiIndex (make_ConstantMatrixDescriptor (KPerThreadLoop cfg) (NCol (ThreadMatrixC cfg))) k j0).
              k \<leftarrow> [0..KPerThreadLoop cfg - 1]]"
proof -
  let ?SM = "MPerThreadSubC cfg" and ?SN = "NPerThreadSubC cfg" and ?KP = "KPerThreadLoop cfg"
  let ?MT = "NRow (ThreadMatrixC cfg)" and ?NT = "NCol (ThreadMatrixC cfg)"
  have SM: "0 < ?SM" and SN: "0 < ?SN" using bg_positives[OF pos] by simp_all
  have le: "?SN \<le> ?NT" using bg_sub_le[OF ok pos] by simp
  have di: "i0 div ?SM * ?SM + i0 mod ?SM = i0" and dj: "j0 div ?SN * ?SN + j0 mod ?SN = j0"
    by (rule div_mult_mod_eq)+
  have c: "GetOffsetFromMultiIndex (ThreadMatrixC cfg) (i0 div ?SM * ?SM) (j0 div ?SN * ?SN)
           + GetOffsetFromMultiIndex (make_ConstantMatrixDescriptor_strided ?SM ?SN ?NT) (i0 mod ?SM) (j0 mod ?SN)
         = GetOffsetFromMultiIndex (ThreadMatrixC cfg) i0 j0"
  proof -
    have di': "i0 * ?NT = i0 div ?SM * ?SM * ?NT + i0 mod ?SM * ?NT" using di by (metis distrib_right)
    show ?thesis using RS di' dj by (simp add: cmd_defs algebra_simps)
  qed
  have a: "GetOffsetFromMultiIndex (make_ConstantMatrixDescriptor ?KP ?MT) 0 (i0 div ?SM * ?SM)
           + GetOffsetFromMultiIndex (make_ConstantMatrixDescriptor_strided ?KP ?SM ?MT) k (i0 mod ?SM)
         = GetOffsetFromMultiIndex (make_ConstantMatrixDescriptor ?KP ?MT) k i0" for k
    using di by (simp add: cmd_defs algebra_simps)
  have b: "GetOffsetFromMultiIndex (make_ConstantMatrixDescriptor ?KP ?NT) 0 (j0 div ?SN * ?SN)
           + GetOffsetFromMultiIndex (make_ConstantMatrixDescriptor_strided ?KP ?SN ?NT) k (j0 mod ?SN)
         = GetOffsetFromMultiIndex (make_ConstantMatrixDescriptor ?KP ?NT) k j0" for k
    using dj by (simp add: cmd_defs algebra_simps)
  show ?thesis
    using threadwise_gemm_at[where a_mtx = "make_ConstantMatrixDescriptor_strided ?KP ?SM ?MT"
        and b_mtx = "make_ConstantMatrixDescriptor_strided ?KP ?SN ?NT"
        and c_mtx = "make_ConstantMatrixDescriptor_strided ?SM ?SN ?NT"
        and isel = "i0 mod ?SM" and jsel = "j0 mod ?SN" and p_a = p_a and p_b = p_b and p_c = p_c and f = f
        and a_off = "GetOffsetFromMultiIndex (make_ConstantMatrixDescriptor ?KP ?MT) 0 (i0 div ?SM * ?SM)"
        and b_off = "GetOffsetFromMultiIndex (make_ConstantMatrixDescriptor ?KP ?NT) 0 (j0 div ?SN * ?SN)"
        and c_off = "GetOffsetFromMultiIndex (ThreadMatrixC cfg) (i0 div ?SM * ?SM) (j0 div ?SN * ?SN)"]
      SM SN le
    unfolding bg_sub_gemm_def Let_def c a b by (simp add: make_ConstantMatrixDescriptor_strided_def)
qed

lemma bg_sub_gemm_other:
  assumes ok: "bg_static_ok cfg" and pos: "bg_positive cfg"
    and RS: "RowStride (ThreadMatrixC cfg) = NCol (ThreadMatrixC cfg)"
    and j0: "0 \<le> j0" "j0 < NCol (ThreadMatrixC cfg)"
    and n: "0 \<le> n" "n < NCol (ThreadMatrixC cfg) div NPerThreadSubC cfg"
    and ne: "(m, n) \<noteq> (i0 div MPerThreadSubC cfg, j0 div NPerThreadSubC cfg)"
  shows "bg_sub_gemm cfg f p_a m p_b n p_c (GetOffsetFromMultiIndex (ThreadMatrixC cfg) i0 j0)
         = p_c (GetOffsetFromMultiIndex (ThreadMatrixC cfg) i0 j0)"
  unfolding bg_sub_gemm_def Let_def
proof (rule threadwise_gemm_other)
  let ?SM = "MPerThreadSubC cfg" and ?SN = "NPerThreadSubC cfg" and ?NT = "NCol (ThreadMatrixC cfg)"
  fix i j assume i: "0 \<le> i" "i < NCol (make_ConstantMatrixDescriptor_strided (KPerThreadLoop cfg) ?SM (NRow (ThreadMatrixC cfg)))"
    and j: "0 \<le> j" "j < NCol (make_ConstantMatrixDescriptor_strided (KPerThreadLoop cfg) ?SN ?NT)"
  have SM: "0 < ?SM" and SN: "0 < ?SN" using bg_positives[OF pos] by simp_all
  have lt: "n * ?SN + j < ?NT"
    using radix_lt[of j ?SN n "?NT div ?SN"] j n bg_shape(4)[OF ok pos] by (simp add: make_ConstantMatrixDescriptor_strided_def)
  show "GetOffsetFromMultiIndex (ThreadMatrixC cfg) i0 j0
        \<noteq> GetOffsetFromMultiIndex (ThreadMatrixC cfg) (m * ?SM) (n * ?SN)
          + GetOffsetFromMultiIndex (make_ConstantMatrixDescriptor_strided ?SM ?SN ?NT) i j"
  proof
    assume "GetOffsetFromMultiIndex (ThreadMatrixC cfg) i0 j0
        = GetOffsetFromMultiIndex (ThreadMatrixC cfg) (m * ?SM) (n * ?SN)
          + GetOffsetFromMultiIndex (make_ConstantMatrixDescriptor_strided ?SM ?SN ?NT) i j"
    then have "i0 * ?NT + j0 = (m * ?SM + i) * ?NT + (n * ?SN + j)" using RS by (simp add: cmd_defs algebra_simps)
    then have "i0 = m * ?SM + i \<and> j0 = n * ?SN + j"
      using rowmajor_offset_unique[of j0 ?NT "n * ?SN + j" i0 "m * ?SM + i"] j0 lt n j SN
      by (simp add: zero_le_mult_iff make_ConstantMatrixDescriptor_strided_def)
    then show False using ne i j SM SN by (simp add: make_ConstantMatrixDescriptor_strided_def)
  qed
qed

lemma bg_sub_gemm_outside:
  assumes ok: "bg_static_ok cfg" and pos: "bg_positive cfg"
    and RS: "RowStride (ThreadMatrixC cfg) = NCol (ThreadMatrixC cfg)"
    and m: "0 \<le> m" "m < NRow (ThreadMatrixC cfg) div MPerThreadSubC cfg"
    and n: "0 \<le> n" "n < NCol (ThreadMatrixC cfg) div NPerThreadSubC cfg"
    and p: "\<And>i j. 0 \<le> i \<Longrightarrow> i < NRow (ThreadMatrixC cfg) \<Longrightarrow> 0 \<le> j \<Longrightarrow> j < NCol (ThreadMatrixC cfg)
             \<Longrightarrow> p \<noteq> GetOffsetFromMultiIndex (ThreadMatrixC cfg) i j"
  shows "bg_sub_gemm cfg f p_a m p_b n p_c p = p_c p"
  unfolding bg_sub_gemm_def Let_def
proof (rule threadwise_gemm_other)
  let ?SM = "MPerThreadSubC cfg" and ?SN = "NPerThreadSubC cfg" and ?NT = "NCol (ThreadMatrixC cfg)"
  fix i j assume i: "0 \<le> i" "i < NCol (make_ConstantMatrixDescriptor_strided (KPerThreadLoop cfg) ?SM (NRow (ThreadMatrixC cfg)))"
    and j: "0 \<le> j" "j < NCol (make_ConstantMatrixDescriptor_strided (KPerThreadLoop cfg) ?SN ?NT)"
  have SM: "0 < ?SM" and SN: "0 < ?SN" using bg_positives[OF pos] by simp_all
  have lti: "m * ?SM + i < NRow (ThreadMatrixC cfg)"
    using radix_lt[of i ?SM m "NRow (ThreadMatrixC cfg) div ?SM"] i m bg_shape(1)[OF ok pos]
    by (simp add: make_ConstantMatrixDescriptor_strided_def)
  have ltj: "n * ?SN + j < ?NT"
    using radix_lt[of j ?SN n "?NT div ?SN"] j n bg_shape(4)[OF ok pos] by (simp add: make_ConstantMatrixDescriptor_strided_def)
  have "GetOffsetFromMultiIndex (ThreadMatrixC cfg) (m * ?SM) (n * ?SN)
          + GetOffsetFromMultiIndex (make_ConstantMatrixDescriptor_strided ?SM ?SN ?NT) i j
        = GetOffsetFromMultiIndex (ThreadMatrixC cfg) (m * ?SM + i) (n * ?SN + j)"
    using RS by (simp add: cmd_defs algebra_simps)
  moreover have "p \<noteq> GetOffsetFromMultiIndex (ThreadMatrixC cfg) (m * ?SM + i) (n * ?SN + j)"
    using p lti ltj m n i j SM SN by (simp add: zero_le_mult_iff make_ConstantMatrixDescriptor_strided_def)
  ultimately show "p \<noteq> GetOffsetFromMultiIndex (ThreadMatrixC cfg) (m * ?SM) (n * ?SN)
          + GetOffsetFromMultiIndex (make_ConstantMatrixDescriptor_strided ?SM ?SN ?NT) i j" by simp
qed

lemma bg_pipeline_step_unfold:
  "bg_pipeline_step cfg th p_a_block p_b_block f (p_a, p_b, p_c) kb =
     (let MR = NRow (ThreadMatrixC cfg) div MPerThreadSubC cfg; NR = NCol (ThreadMatrixC cfg) div NPerThreadSubC cfg;
          pa1 = bg_copy_a cfg th p_a_block kb p_a 0;
          s2 = foldl (\<lambda>(p_b, p_c) n. (bg_copy_b cfg th p_b_block kb p_b n,
                        bg_sub_gemm cfg f pa1 0 (bg_copy_b cfg th p_b_block kb p_b n) n p_c))
                 (bg_copy_b cfg th p_b_block kb p_b 0,
                  bg_sub_gemm cfg f pa1 0 (bg_copy_b cfg th p_b_block kb p_b 0) 0 p_c) [1..NR - 1];
          s3 = foldl (\<lambda>(p_a, p_c) m. (bg_copy_a cfg th p_a_block kb p_a m,
                        foldl (\<lambda>p_c n. bg_sub_gemm cfg f (bg_copy_a cfg th p_a_block kb p_a m) m (fst s2) n p_c)
                          p_c [0..NR - 1]))
                 (pa1, snd s2) [1..MR - 1]
      in (fst s3, fst s2, snd s3))"
  by (simp add: bg_pipeline_step_def Let_def split_def)

lemma bg_copy_b_all:
  assumes ok: "bg_static_ok cfg" and pos: "bg_positive cfg"
    and k: "0 \<le> k" "k < KPerThreadLoop cfg" and j: "0 \<le> j" "j < NCol (ThreadMatrixC cfg)"
  shows "foldl (bg_copy_b cfg th p_b_block kb) p_b [0..NCol (ThreadMatrixC cfg) div NPerThreadSubC cfg - 1]
           (GetOffsetFromMultiIndex (make_ConstantMatrixDescriptor (KPerThreadLoop cfg) (NCol (ThreadMatrixC cfg))) k j)
         = p_b_block (mMyThreadOffsetB th + GetOffsetFromMultiIndex (BlockMatrixB cfg) (kb + k)
                        (col (GetDistanceFromBeginOfThreadMatrixC cfg i j)))"
proof (rule foldl_write_at[of "j div NPerThreadSubC cfg"])
  show "j div NPerThreadSubC cfg \<in> set [0..NCol (ThreadMatrixC cfg) div NPerThreadSubC cfg - 1]"
    using bg_local_digits[OF j bg_shape(4)[OF ok pos]] bg_positives[OF pos] by simp
next
  fix x d assume "x \<in> set [0..NCol (ThreadMatrixC cfg) div NPerThreadSubC cfg - 1]" "x \<noteq> j div NPerThreadSubC cfg"
  then show "bg_copy_b cfg th p_b_block kb d x
               (GetOffsetFromMultiIndex (make_ConstantMatrixDescriptor (KPerThreadLoop cfg) (NCol (ThreadMatrixC cfg))) k j)
             = d (GetOffsetFromMultiIndex (make_ConstantMatrixDescriptor (KPerThreadLoop cfg) (NCol (ThreadMatrixC cfg))) k j)"
    using bg_copy_b_other[OF ok pos _ _ j, of x] by auto
qed (rule bg_copy_b_at[OF ok pos k j])

lemma bg_pipeline_row0:
  assumes ok: "bg_static_ok cfg" and pos: "bg_positive cfg"
    and RS: "RowStride (ThreadMatrixC cfg) = NCol (ThreadMatrixC cfg)"
    and i0: "0 \<le> i0" "i0 < NRow (ThreadMatrixC cfg)" and j0: "0 \<le> j0" "j0 < NCol (ThreadMatrixC cfg)"
  shows "snd (foldl (\<lambda>(p_b, p_c) n. (bg_copy_b cfg th p_b_block kb p_b n,
                        bg_sub_gemm cfg f (bg_copy_a cfg th p_a_block kb p_a 0) 0 (bg_copy_b cfg th p_b_block kb p_b n) n p_c))
               s [1..NCol (ThreadMatrixC cfg) div NPerThreadSubC cfg - 1]) (GetOffsetFromMultiIndex (ThreadMatrixC cfg) i0 j0)
         = (if i0 div MPerThreadSubC cfg = 0 \<and> j0 div NPerThreadSubC cfg \<noteq> 0
            then foldl f (snd s (GetOffsetFromMultiIndex (ThreadMatrixC cfg) i0 j0)) [p_a_block (mMyThreadOffsetA th
                  + GetOffsetFromMultiIndex (BlockMatrixA cfg) (kb + k) (row (GetDistanceFromBeginOfThreadMatrixC cfg i0 j0)))
              * p_b_block (mMyThreadOffsetB th
                  + GetOffsetFromMultiIndex (BlockMatrixB cfg) (kb + k) (col (GetDistanceFromBeginOfThreadMatrixC cfg i0 j0))).
              k \<leftarrow> [0..KPerThreadLoop cfg - 1]]
            else snd s (GetOffsetFromMultiIndex (ThreadMatrixC cfg) i0 j0))"
proof -
  let ?P = "GetOffsetFromMultiIndex (ThreadMatrixC cfg) i0 j0" and ?NR = "NCol (ThreadMatrixC cfg) div NPerThreadSubC cfg"
  let ?F = "\<lambda>(p_b, p_c) n. (bg_copy_b cfg th p_b_block kb p_b n,
                bg_sub_gemm cfg f (bg_copy_a cfg th p_a_block kb p_a 0) 0 (bg_copy_b cfg th p_b_block kb p_b n) n p_c)"
  have dj: "0 \<le> j0 div NPerThreadSubC cfg \<and> j0 div NPerThreadSubC cfg < ?NR"
    using bg_local_digits[OF j0 bg_shape(4)[OF ok pos]] bg_positives[OF pos] by simp
  have oth: "snd (?F d n) ?P = snd d ?P"
    if "n \<in> set [1..?NR - 1]" "(0, n) \<noteq> (i0 div MPerThreadSubC cfg, j0 div NPerThreadSubC cfg)" for d n
    using bg_sub_gemm_other[OF ok pos RS j0, of n 0 i0] that by (simp add: split_def)
  show ?thesis
  proof (cases "i0 div MPerThreadSubC cfg = 0 \<and> j0 div NPerThreadSubC cfg \<noteq> 0")
    case True
    have at: "snd (?F d (j0 div NPerThreadSubC cfg)) ?P = foldl f (snd d ?P) [p_a_block (mMyThreadOffsetA th
                  + GetOffsetFromMultiIndex (BlockMatrixA cfg) (kb + k) (row (GetDistanceFromBeginOfThreadMatrixC cfg i0 j0)))
              * p_b_block (mMyThreadOffsetB th
                  + GetOffsetFromMultiIndex (BlockMatrixB cfg) (kb + k) (col (GetDistanceFromBeginOfThreadMatrixC cfg i0 j0))).
              k \<leftarrow> [0..KPerThreadLoop cfg - 1]]" for d
    proof -
      have "snd (?F d (j0 div NPerThreadSubC cfg)) ?P
            = foldl f (snd d ?P)
                [bg_copy_a cfg th p_a_block kb p_a (i0 div MPerThreadSubC cfg)
                   (GetOffsetFromMultiIndex (make_ConstantMatrixDescriptor (KPerThreadLoop cfg) (NRow (ThreadMatrixC cfg))) k i0)
                 * bg_copy_b cfg th p_b_block kb (fst d) (j0 div NPerThreadSubC cfg)
                   (GetOffsetFromMultiIndex (make_ConstantMatrixDescriptor (KPerThreadLoop cfg) (NCol (ThreadMatrixC cfg))) k j0).
                 k \<leftarrow> [0..KPerThreadLoop cfg - 1]]"
        using bg_sub_gemm_at[OF ok pos RS i0 j0] True by (simp add: split_def)
      also have "\<dots> = foldl f (snd d ?P) [p_a_block (mMyThreadOffsetA th
                  + GetOffsetFromMultiIndex (BlockMatrixA cfg) (kb + k) (row (GetDistanceFromBeginOfThreadMatrixC cfg i0 j0)))
              * p_b_block (mMyThreadOffsetB th
                  + GetOffsetFromMultiIndex (BlockMatrixB cfg) (kb + k) (col (GetDistanceFromBeginOfThreadMatrixC cfg i0 j0))).
              k \<leftarrow> [0..KPerThreadLoop cfg - 1]]"
        by (rule foldl_map_cong) (simp add: bg_copy_a_at[OF ok pos _ _ i0, where j = j0] bg_copy_b_at[OF ok pos _ _ j0, where i = i0])
      finally show ?thesis .
    qed
    show ?thesis
      using foldl_proj_once[where proj = "\<lambda>d. snd d ?P" and xsel = "j0 div NPerThreadSubC cfg" and F = ?F
          and h = "\<lambda>v. foldl f v [p_a_block (mMyThreadOffsetA th
                  + GetOffsetFromMultiIndex (BlockMatrixA cfg) (kb + k) (row (GetDistanceFromBeginOfThreadMatrixC cfg i0 j0)))
              * p_b_block (mMyThreadOffsetB th
                  + GetOffsetFromMultiIndex (BlockMatrixB cfg) (kb + k) (col (GetDistanceFromBeginOfThreadMatrixC cfg i0 j0))).
              k \<leftarrow> [0..KPerThreadLoop cfg - 1]]" and xs = "[1..?NR - 1]" and d = s] True dj oth at by auto
  next
    case False
    then show ?thesis
      using foldl_proj_other[where proj = "\<lambda>d. snd d ?P" and F = ?F and xs = "[1..?NR - 1]" and d = s] oth by auto
  qed
qed

lemma bg_pipeline_row_inner:
  assumes ok: "bg_static_ok cfg" and pos: "bg_positive cfg"
    and RS: "RowStride (ThreadMatrixC cfg) = NCol (ThreadMatrixC cfg)"
    and i0: "0 \<le> i0" "i0 < NRow (ThreadMatrixC cfg)" and j0: "0 \<le> j0" "j0 < NCol (ThreadMatrixC cfg)"
  shows "foldl (\<lambda>p_c n. bg_sub_gemm cfg f p_a m p_b n p_c) c [0..NCol (ThreadMatrixC cfg) div NPerThreadSubC cfg - 1]
           (GetOffsetFromMultiIndex (ThreadMatrixC cfg) i0 j0)
         = (if m = i0 div MPerThreadSubC cfg
            then foldl f (c (GetOffsetFromMultiIndex (ThreadMatrixC cfg) i0 j0))
              [p_a (GetOffsetFromMultiIndex (make_ConstantMatrixDescriptor (KPerThreadLoop cfg) (NRow (ThreadMatrixC cfg))) k i0)
               * p_b (GetOffsetFromMultiIndex (make_ConstantMatrixDescriptor (KPerThreadLoop cfg) (NCol (ThreadMatrixC cfg))) k j0).
               k \<leftarrow> [0..KPerThreadLoop cfg - 1]]
            else c (GetOffsetFromMultiIndex (ThreadMatrixC cfg) i0 j0))"
proof -
  let ?P = "GetOffsetFromMultiIndex (ThreadMatrixC cfg) i0 j0" and ?NR = "NCol (ThreadMatrixC cfg) div NPerThreadSubC cfg"
  have dj: "0 \<le> j0 div NPerThreadSubC cfg \<and> j0 div NPerThreadSubC cfg < ?NR"
    using bg_local_digits[OF j0 bg_shape(4)[OF ok pos]] bg_positives[OF pos] by simp
  have oth: "bg_sub_gemm cfg f p_a m p_b n d ?P = d ?P"
    if "n \<in> set [0..?NR - 1]" "(m, n) \<noteq> (i0 div MPerThreadSubC cfg, j0 div NPerThreadSubC cfg)" for d n
    using bg_sub_gemm_other[OF ok pos RS j0, of n m i0] that by simp
  show ?thesis
  proof (cases "m = i0 div MPerThreadSubC cfg")
    case True
    have "foldl (\<lambda>p_c n. bg_sub_gemm cfg f p_a m p_b n p_c) c [0..?NR - 1] ?P
        = foldl f (c ?P)
              [p_a (GetOffsetFromMultiIndex (make_ConstantMatrixDescriptor (KPerThreadLoop cfg) (NRow (ThreadMatrixC cfg))) k i0)
               * p_b (GetOffsetFromMultiIndex (make_ConstantMatrixDescriptor (KPerThreadLoop cfg) (NCol (ThreadMatrixC cfg))) k j0).
               k \<leftarrow> [0..KPerThreadLoop cfg - 1]]"
      by (rule foldl_proj_once[where proj = "\<lambda>d. d ?P" and xsel = "j0 div NPerThreadSubC cfg"
          and F = "\<lambda>p_c n. bg_sub_gemm cfg f p_a m p_b n p_c" and xs = "[0..?NR - 1]" and d = c
          and h = "\<lambda>v. foldl f v
              [p_a (GetOffsetFromMultiIndex (make_ConstantMatrixDescriptor (KPerThreadLoop cfg) (NRow (ThreadMatrixC cfg))) k i0)
               * p_b (GetOffsetFromMultiIndex (make_ConstantMatrixDescriptor (KPerThreadLoop cfg) (NCol (ThreadMatrixC cfg))) k j0).
               k \<leftarrow> [0..KPerThreadLoop cfg - 1]]"])
        (use True dj oth bg_sub_gemm_at[OF ok pos RS i0 j0] in auto)
    then show ?thesis using True by simp
  next
    case False
    then show ?thesis
      using foldl_proj_other[where proj = "\<lambda>d. d ?P" and F = "\<lambda>p_c n. bg_sub_gemm cfg f p_a m p_b n p_c"
          and xs = "[0..?NR - 1]" and d = c] oth by auto
  qed
qed

lemma bg_pipeline_rows:
  assumes ok: "bg_static_ok cfg" and pos: "bg_positive cfg"
    and RS: "RowStride (ThreadMatrixC cfg) = NCol (ThreadMatrixC cfg)"
    and i0: "0 \<le> i0" "i0 < NRow (ThreadMatrixC cfg)" and j0: "0 \<le> j0" "j0 < NCol (ThreadMatrixC cfg)"
    and pbF: "\<And>k. 0 \<le> k \<Longrightarrow> k < KPerThreadLoop cfg \<Longrightarrow>
       p_bF (GetOffsetFromMultiIndex (make_ConstantMatrixDescriptor (KPerThreadLoop cfg) (NCol (ThreadMatrixC cfg))) k j0)
       = p_b_block (mMyThreadOffsetB th + GetOffsetFromMultiIndex (BlockMatrixB cfg) (kb + k)
                        (col (GetDistanceFromBeginOfThreadMatrixC cfg i0 j0)))"
  shows "snd (foldl (\<lambda>(p_a, p_c) m. (bg_copy_a cfg th p_a_block kb p_a m,
                        foldl (\<lambda>p_c n. bg_sub_gemm cfg f (bg_copy_a cfg th p_a_block kb p_a m) m p_bF n p_c)
                          p_c [0..NCol (ThreadMatrixC cfg) div NPerThreadSubC cfg - 1]))
               s [1..NRow (ThreadMatrixC cfg) div MPerThreadSubC cfg - 1]) (GetOffsetFromMultiIndex (ThreadMatrixC cfg) i0 j0)
         = (if i0 div MPerThreadSubC cfg \<noteq> 0
            then foldl f (snd s (GetOffsetFromMultiIndex (ThreadMatrixC cfg) i0 j0)) [p_a_block (mMyThreadOffsetA th
                  + GetOffsetFromMultiIndex (BlockMatrixA cfg) (kb + k) (row (GetDistanceFromBeginOfThreadMatrixC cfg i0 j0)))
              * p_b_block (mMyThreadOffsetB th
                  + GetOffsetFromMultiIndex (BlockMatrixB cfg) (kb + k) (col (GetDistanceFromBeginOfThreadMatrixC cfg i0 j0))).
              k \<leftarrow> [0..KPerThreadLoop cfg - 1]]
            else snd s (GetOffsetFromMultiIndex (ThreadMatrixC cfg) i0 j0))"
proof -
  let ?P = "GetOffsetFromMultiIndex (ThreadMatrixC cfg) i0 j0" and ?MR = "NRow (ThreadMatrixC cfg) div MPerThreadSubC cfg"
  let ?F = "\<lambda>(p_a, p_c) m. (bg_copy_a cfg th p_a_block kb p_a m,
                        foldl (\<lambda>p_c n. bg_sub_gemm cfg f (bg_copy_a cfg th p_a_block kb p_a m) m p_bF n p_c)
                          p_c [0..NCol (ThreadMatrixC cfg) div NPerThreadSubC cfg - 1])"
  have di: "0 \<le> i0 div MPerThreadSubC cfg \<and> i0 div MPerThreadSubC cfg < ?MR"
    using bg_local_digits[OF i0 bg_shape(1)[OF ok pos]] bg_positives[OF pos] by simp
  have oth: "snd (?F d m) ?P = snd d ?P" if "m \<noteq> i0 div MPerThreadSubC cfg" for d m
    using bg_pipeline_row_inner[OF ok pos RS i0 j0, of f "bg_copy_a cfg th p_a_block kb (fst d) m" m p_bF "snd d"] that
    by (simp add: split_def)
  show ?thesis
  proof (cases "i0 div MPerThreadSubC cfg \<noteq> 0")
    case True
    have at: "snd (?F d (i0 div MPerThreadSubC cfg)) ?P = foldl f (snd d ?P) [p_a_block (mMyThreadOffsetA th
                  + GetOffsetFromMultiIndex (BlockMatrixA cfg) (kb + k) (row (GetDistanceFromBeginOfThreadMatrixC cfg i0 j0)))
              * p_b_block (mMyThreadOffsetB th
                  + GetOffsetFromMultiIndex (BlockMatrixB cfg) (kb + k) (col (GetDistanceFromBeginOfThreadMatrixC cfg i0 j0))).
              k \<leftarrow> [0..KPerThreadLoop cfg - 1]]" for d
    proof -
      have "snd (?F d (i0 div MPerThreadSubC cfg)) ?P
            = foldl f (snd d ?P)
                [bg_copy_a cfg th p_a_block kb (fst d) (i0 div MPerThreadSubC cfg)
                   (GetOffsetFromMultiIndex (make_ConstantMatrixDescriptor (KPerThreadLoop cfg) (NRow (ThreadMatrixC cfg))) k i0)
                 * p_bF (GetOffsetFromMultiIndex (make_ConstantMatrixDescriptor (KPerThreadLoop cfg) (NCol (ThreadMatrixC cfg))) k j0).
                 k \<leftarrow> [0..KPerThreadLoop cfg - 1]]"
        using bg_pipeline_row_inner[OF ok pos RS i0 j0, of f "bg_copy_a cfg th p_a_block kb (fst d) (i0 div MPerThreadSubC cfg)"
            "i0 div MPerThreadSubC cfg" p_bF "snd d"] by (simp add: split_def)
      also have "\<dots> = foldl f (snd d ?P) [p_a_block (mMyThreadOffsetA th
                  + GetOffsetFromMultiIndex (BlockMatrixA cfg) (kb + k) (row (GetDistanceFromBeginOfThreadMatrixC cfg i0 j0)))
              * p_b_block (mMyThreadOffsetB th
                  + GetOffsetFromMultiIndex (BlockMatrixB cfg) (kb + k) (col (GetDistanceFromBeginOfThreadMatrixC cfg i0 j0))).
              k \<leftarrow> [0..KPerThreadLoop cfg - 1]]"
        by (rule foldl_map_cong) (simp add: bg_copy_a_at[OF ok pos _ _ i0, where j = j0] pbF)
      finally show ?thesis .
    qed
    show ?thesis
      using foldl_proj_once[where proj = "\<lambda>d. snd d ?P" and xsel = "i0 div MPerThreadSubC cfg" and F = ?F
          and h = "\<lambda>v. foldl f v [p_a_block (mMyThreadOffsetA th
                  + GetOffsetFromMultiIndex (BlockMatrixA cfg) (kb + k) (row (GetDistanceFromBeginOfThreadMatrixC cfg i0 j0)))
              * p_b_block (mMyThreadOffsetB th
                  + GetOffsetFromMultiIndex (BlockMatrixB cfg) (kb + k) (col (GetDistanceFromBeginOfThreadMatrixC cfg i0 j0))).
              k \<leftarrow> [0..KPerThreadLoop cfg - 1]]" and xs = "[1..?MR - 1]" and d = s] True di oth at by auto
  next
    case False
    then show ?thesis
      using foldl_proj_other[where proj = "\<lambda>d. snd d ?P" and F = ?F and xs = "[1..?MR - 1]" and d = s] oth by auto
  qed
qed

lemma bg_Run_step_regs:
  "fst (bg_Run_step cfg th p_a_block p_b_block f (p_a, p_b, p_c) kb)
     = foldl (bg_copy_a cfg th p_a_block kb) p_a [0..NRow (ThreadMatrixC cfg) div MPerThreadSubC cfg - 1]"
  "fst (snd (bg_Run_step cfg th p_a_block p_b_block f (p_a, p_b, p_c) kb))
     = foldl (bg_copy_b cfg th p_b_block kb) p_b [0..NCol (ThreadMatrixC cfg) div NPerThreadSubC cfg - 1]"
  by (simp_all add: bg_Run_step_def bg_copy_subs_def bg_copy_a_def[abs_def] bg_copy_b_def[abs_def] Let_def)

lemma bg_pipeline_step_eq_Run_step:
  assumes ok: "bg_static_ok cfg" and pos: "bg_positive cfg"
    and RS: "RowStride (ThreadMatrixC cfg) = NCol (ThreadMatrixC cfg)"
  shows "bg_pipeline_step cfg th p_a_block p_b_block f s kb = bg_Run_step cfg th p_a_block p_b_block f s kb"
proof -
  obtain p_a p_b p_c where s: "s = (p_a, p_b, p_c)" by (cases s) auto
  let ?MR = "NRow (ThreadMatrixC cfg) div MPerThreadSubC cfg" and ?NR = "NCol (ThreadMatrixC cfg) div NPerThreadSubC cfg"
  define pa1 where "pa1 = bg_copy_a cfg th p_a_block kb p_a 0"
  define s2 where "s2 = foldl (\<lambda>(p_b, p_c) n. (bg_copy_b cfg th p_b_block kb p_b n,
                        bg_sub_gemm cfg f pa1 0 (bg_copy_b cfg th p_b_block kb p_b n) n p_c))
                 (bg_copy_b cfg th p_b_block kb p_b 0,
                  bg_sub_gemm cfg f pa1 0 (bg_copy_b cfg th p_b_block kb p_b 0) 0 p_c) [1..?NR - 1]"
  define s3 where "s3 = foldl (\<lambda>(p_a, p_c) m. (bg_copy_a cfg th p_a_block kb p_a m,
                        foldl (\<lambda>p_c n. bg_sub_gemm cfg f (bg_copy_a cfg th p_a_block kb p_a m) m (fst s2) n p_c)
                          p_c [0..?NR - 1]))
                 (pa1, snd s2) [1..?MR - 1]"
  have step: "bg_pipeline_step cfg th p_a_block p_b_block f s kb = (fst s3, fst s2, snd s3)"
    unfolding s bg_pipeline_step_unfold Let_def pa1_def s2_def s3_def ..
  have MR: "[0..?MR - 1] = 0 # [1..?MR - 1]" and NR: "[0..?NR - 1] = 0 # [1..?NR - 1]"
    using bg_shape(3,6)[OF ok pos] by (simp_all add: upto_rec1)
  have ra: "fst s3 = foldl (bg_copy_a cfg th p_a_block kb) p_a [0..?MR - 1]"
    unfolding s3_def MR
    using foldl_pair_fst[where G = "bg_copy_a cfg th p_a_block kb" and H = "\<lambda>p_a p_c m. foldl (\<lambda>p_c n.
        bg_sub_gemm cfg f (bg_copy_a cfg th p_a_block kb p_a m) m (fst s2) n p_c) p_c [0..?NR - 1]"]
    by (simp add: pa1_def)
  have rb: "fst s2 = foldl (bg_copy_b cfg th p_b_block kb) p_b [0..?NR - 1]"
    unfolding s2_def NR
    using foldl_pair_fst[where G = "bg_copy_b cfg th p_b_block kb" and H = "\<lambda>p_b p_c n.
        bg_sub_gemm cfg f pa1 0 (bg_copy_b cfg th p_b_block kb p_b n) n p_c"]
    by simp
  have c: "snd s3 p = snd (snd (bg_Run_step cfg th p_a_block p_b_block f s kb)) p" for p
  proof (cases "\<exists>i j. 0 \<le> i \<and> i < NRow (ThreadMatrixC cfg) \<and> 0 \<le> j \<and> j < NCol (ThreadMatrixC cfg)
                     \<and> p = GetOffsetFromMultiIndex (ThreadMatrixC cfg) i j")
    case True
    then obtain i0 j0 where i0: "0 \<le> i0" "i0 < NRow (ThreadMatrixC cfg)" and j0: "0 \<le> j0" "j0 < NCol (ThreadMatrixC cfg)"
      and p: "p = GetOffsetFromMultiIndex (ThreadMatrixC cfg) i0 j0" by blast
    have pbF: "fst s2 (GetOffsetFromMultiIndex (make_ConstantMatrixDescriptor (KPerThreadLoop cfg) (NCol (ThreadMatrixC cfg))) k j0)
       = p_b_block (mMyThreadOffsetB th + GetOffsetFromMultiIndex (BlockMatrixB cfg) (kb + k)
                        (col (GetDistanceFromBeginOfThreadMatrixC cfg i0 j0)))" if "0 \<le> k" "k < KPerThreadLoop cfg" for k
      unfolding rb by (rule bg_copy_b_all[OF ok pos that j0])
    have c1: "bg_sub_gemm cfg f pa1 0 (bg_copy_b cfg th p_b_block kb p_b 0) 0 p_c p
        = (if i0 div MPerThreadSubC cfg = 0 \<and> j0 div NPerThreadSubC cfg = 0 then foldl f (p_c p) [p_a_block (mMyThreadOffsetA th
                  + GetOffsetFromMultiIndex (BlockMatrixA cfg) (kb + k) (row (GetDistanceFromBeginOfThreadMatrixC cfg i0 j0)))
              * p_b_block (mMyThreadOffsetB th
                  + GetOffsetFromMultiIndex (BlockMatrixB cfg) (kb + k) (col (GetDistanceFromBeginOfThreadMatrixC cfg i0 j0))).
              k \<leftarrow> [0..KPerThreadLoop cfg - 1]] else p_c p)"
    proof (cases "i0 div MPerThreadSubC cfg = 0 \<and> j0 div NPerThreadSubC cfg = 0")
      case True
      then have e: "i0 div MPerThreadSubC cfg = 0" "j0 div NPerThreadSubC cfg = 0" by simp_all
      have "bg_sub_gemm cfg f pa1 0 (bg_copy_b cfg th p_b_block kb p_b 0) 0 p_c p
          = foldl f (p_c p)
              [pa1 (GetOffsetFromMultiIndex (make_ConstantMatrixDescriptor (KPerThreadLoop cfg) (NRow (ThreadMatrixC cfg))) k i0)
               * bg_copy_b cfg th p_b_block kb p_b 0
                   (GetOffsetFromMultiIndex (make_ConstantMatrixDescriptor (KPerThreadLoop cfg) (NCol (ThreadMatrixC cfg))) k j0).
               k \<leftarrow> [0..KPerThreadLoop cfg - 1]]"
        using bg_sub_gemm_at[OF ok pos RS i0 j0, of f pa1 "bg_copy_b cfg th p_b_block kb p_b 0" p_c] e by (simp add: p)
      also have "\<dots> = foldl f (p_c p) [p_a_block (mMyThreadOffsetA th
                  + GetOffsetFromMultiIndex (BlockMatrixA cfg) (kb + k) (row (GetDistanceFromBeginOfThreadMatrixC cfg i0 j0)))
              * p_b_block (mMyThreadOffsetB th
                  + GetOffsetFromMultiIndex (BlockMatrixB cfg) (kb + k) (col (GetDistanceFromBeginOfThreadMatrixC cfg i0 j0))).
              k \<leftarrow> [0..KPerThreadLoop cfg - 1]]"
        by (rule foldl_map_cong)
          (simp add: pa1_def bg_copy_a_at[OF ok pos _ _ i0, where j = j0, unfolded e]
            bg_copy_b_at[OF ok pos _ _ j0, where i = i0, unfolded e])
      finally show ?thesis using True by simp
    next
      case False
      then show ?thesis
        using bg_sub_gemm_other[OF ok pos RS j0, of 0 0 i0] bg_shape(6)[OF ok pos] by (auto simp: p)
    qed
    have "snd s3 p = foldl f (p_c p) [p_a_block (mMyThreadOffsetA th
                  + GetOffsetFromMultiIndex (BlockMatrixA cfg) (kb + k) (row (GetDistanceFromBeginOfThreadMatrixC cfg i0 j0)))
              * p_b_block (mMyThreadOffsetB th
                  + GetOffsetFromMultiIndex (BlockMatrixB cfg) (kb + k) (col (GetDistanceFromBeginOfThreadMatrixC cfg i0 j0))).
              k \<leftarrow> [0..KPerThreadLoop cfg - 1]]"
      using bg_pipeline_rows[OF ok pos RS i0 j0, where p_bF = "fst s2" and kb = kb and th = th and p_b_block = p_b_block,
          OF pbF, of p_a_block f "(pa1, snd s2)"]
        bg_pipeline_row0[OF ok pos RS i0 j0, of th p_b_block kb f p_a_block p_a] c1
      unfolding s3_def s2_def pa1_def p by (auto split: if_splits)
    moreover have "NCol (ThreadMatrixC cfg) \<le> RowStride (ThreadMatrixC cfg)" using RS by simp
    ultimately show ?thesis
      using bg_Run_step_at[OF ok pos _ i0 j0, of th p_a_block p_b_block f "(p_a, p_b, p_c)" kb] by (simp add: s p)
  next
    case False
    then have h: "\<And>i j. 0 \<le> i \<Longrightarrow> i < NRow (ThreadMatrixC cfg) \<Longrightarrow> 0 \<le> j \<Longrightarrow> j < NCol (ThreadMatrixC cfg)
                   \<Longrightarrow> p \<noteq> GetOffsetFromMultiIndex (ThreadMatrixC cfg) i j" by blast
    have out: "bg_sub_gemm cfg f x m y n d p = d p" if "0 \<le> m" "m < ?MR" "0 \<le> n" "n < ?NR" for x y d m n
      using bg_sub_gemm_outside[OF ok pos RS that h] by simp
    have mr0: "0 < ?MR" "0 < ?NR" using bg_shape(3,6)[OF ok pos] by simp_all
    have "snd s2 p = p_c p"
      unfolding s2_def
      by (subst foldl_proj_other[where proj = "\<lambda>d. snd d p"]) (auto simp: split_def out mr0)
    moreover have inner: "foldl (\<lambda>p_c n. bg_sub_gemm cfg f x m (fst s2) n p_c) c [0..?NR - 1] p = c p"
      if "m \<in> set [1..?MR - 1]" for x m c
      by (rule foldl_proj_other[where proj = "\<lambda>d. d p"]) (use that in \<open>auto simp: out\<close>)
    moreover have "snd s3 p = snd s2 p"
      unfolding s3_def by (subst foldl_proj_other[where proj = "\<lambda>d. snd d p"]) (auto simp: split_def inner)
    ultimately show ?thesis
      using bg_Run_step_other[OF h, of th p_a_block p_b_block f "(p_a, p_b, p_c)" kb] by (simp add: s)
  qed
  show ?thesis
    unfolding step using ra rb c bg_Run_step_regs[of cfg th p_a_block p_b_block f p_a p_b p_c kb]
    by (simp add: s prod_eq_iff fun_eq_iff)
qed

text \<open>C12: \<open>Run_PipelineReadAndCompute\<close>, which interleaves the sub-matrix copies with
  sub-GEMMs on \<open>MPerThreadSubC x NPerThreadSubC\<close> blocks of C, computes the same registers
  as \<open>Run\<close> for every K and \<open>KPerThreadLoop\<close>, provided the thread's C matrix is packed
  (\<open>RowStride = NCol\<close>): its C sub-descriptor uses the row stride \<open>NPerThread\<close>.\<close>

theorem bg_Run_PipelineReadAndCompute_eq_Run:
  assumes ok: "bg_static_ok cfg" and pos: "bg_positive cfg"
    and RS: "RowStride (ThreadMatrixC cfg) = NCol (ThreadMatrixC cfg)"
  shows "bg_Run_PipelineReadAndCompute cfg th p_a_block p_b_block p_c f p_a_thread0 p_b_thread0
         = bg_Run cfg th p_a_block p_b_block p_c f p_a_thread0 p_b_thread0"
proof -
  have eq: "bg_pipeline_step cfg th p_a_block p_b_block f = bg_Run_step cfg th p_a_block p_b_block f"
    by (intro ext) (rule bg_pipeline_step_eq_Run_step[OF ok pos RS])
  show ?thesis unfolding bg_Run_PipelineReadAndCompute_def bg_Run_def eq ..
qed

theorem bg_Run_PipelineReadAndCompute_eq_Run_witness:
  "bg_static_ok \<lparr>BlockSize = 4, BlockMatrixA = \<lparr>NRow = 2, NCol = 8, RowStride = 8\<rparr>,
       BlockMatrixB = \<lparr>NRow = 2, NCol = 8, RowStride = 8\<rparr>, ThreadMatrixC = \<lparr>NRow = 4, NCol = 4, RowStride = 4\<rparr>,
       MPerThreadSubC = 2, NPerThreadSubC = 2, MLevel0Cluster = 1, NLevel0Cluster = 1,
       MLevel1Cluster = 2, NLevel1Cluster = 2, KPerThreadLoop = 1\<rparr> \<and> bg_positive \<lparr>BlockSize = 4, BlockMatrixA = \<lparr>NRow = 2, NCol = 8, RowStride = 8\<rparr>,
       BlockMatrixB = \<lparr>NRow = 2, NCol = 8, RowStride = 8\<rparr>, ThreadMatrixC = \<lparr>NRow = 4, NCol = 4, RowStride = 4\<rparr>,
       MPerThreadSubC = 2, NPerThreadSubC = 2, MLevel0Cluster = 1, NLevel0Cluster = 1,
       MLevel1Cluster = 2, NLevel1Cluster = 2, KPerThreadLoop = 1\<rparr> \<and> RowStride (ThreadMatrixC \<lparr>BlockSize = 4, BlockMatrixA = \<lparr>NRow = 2, NCol = 8, RowStride = 8\<rparr>,
       BlockMatrixB = \<lparr>NRow = 2, NCol = 8, RowStride = 8\<rparr>, ThreadMatrixC = \<lparr>NRow = 4, NCol = 4, RowStride = 4\<rparr>,
       MPerThreadSubC = 2, NPerThreadSubC = 2, MLevel0Cluster = 1, NLevel0Cluster = 1,
       MLevel1Cluster = 2, NLevel1Cluster = 2, KPerThreadLoop = 1\<rparr>) = NCol (ThreadMatrixC \<lparr>BlockSize = 4, BlockMatrixA = \<lparr>NRow = 2, NCol = 8, RowStride = 8\<rparr>,
       BlockMatrixB = \<lparr>NRow = 2, NCol = 8, RowStride = 8\<rparr>, ThreadMatrixC = \<lparr>NRow = 4, NCol = 4, RowStride = 4\<rparr>,
       MPerThreadSubC = 2, NPerThreadSubC = 2, MLevel0Cluster = 1, NLevel0Cluster = 1,
       MLevel1Cluster = 2, NLevel1Cluster = 2, KPerThreadLoop = 1\<rparr>)
   \<and> bg_Run_PipelineReadAndCompute \<lparr>BlockSize = 4, BlockMatrixA = \<lparr>NRow = 2, NCol = 8, RowStride = 8\<rparr>,
       BlockMatrixB = \<lparr>NRow = 2, NCol = 8, RowStride = 8\<rparr>, ThreadMatrixC = \<lparr>NRow = 4, NCol = 4, RowStride = 4\<rparr>,
       MPerThreadSubC = 2, NPerThreadSubC = 2, MLevel0Cluster = 1, NLevel0Cluster = 1,
       MLevel1Cluster = 2, NLevel1Cluster = 2, KPerThreadLoop = 1\<rparr> \<lparr>mMyThreadOffsetA = 2, mMyThreadOffsetB = 4\<rparr> (\<lambda>x. x) (\<lambda>x. 1 - x)
       (\<lambda>x. 0 :: int) (+) (\<lambda>x. 0) (\<lambda>x. 0)
     = bg_Run \<lparr>BlockSize = 4, BlockMatrixA = \<lparr>NRow = 2, NCol = 8, RowStride = 8\<rparr>,
       BlockMatrixB = \<lparr>NRow = 2, NCol = 8, RowStride = 8\<rparr>, ThreadMatrixC = \<lparr>NRow = 4, NCol = 4, RowStride = 4\<rparr>,
       MPerThreadSubC = 2, NPerThreadSubC = 2, MLevel0Cluster = 1, NLevel0Cluster = 1,
       MLevel1Cluster = 2, NLevel1Cluster = 2, KPerThreadLoop = 1\<rparr> \<lparr>mMyThreadOffsetA = 2, mMyThreadOffsetB = 4\<rparr> (\<lambda>x. x) (\<lambda>x. 1 - x) (\<lambda>x. 0) (+) (\<lambda>x. 0) (\<lambda>x. 0)"
  using bg_Run_PipelineReadAndCompute_eq_Run[of "\<lparr>BlockSize = 4, BlockMatrixA = \<lparr>NRow = 2, NCol = 8, RowStride = 8\<rparr>,
       BlockMatrixB = \<lparr>NRow = 2, NCol = 8, RowStride = 8\<rparr>, ThreadMatrixC = \<lparr>NRow = 4, NCol = 4, RowStride = 4\<rparr>,
       MPerThreadSubC = 2, NPerThreadSubC = 2, MLevel0Cluster = 1, NLevel0Cluster = 1,
       MLevel1Cluster = 2, NLevel1Cluster = 2, KPerThreadLoop = 1\<rparr>" "\<lparr>mMyThreadOffsetA = 2, mMyThreadOffsetB = 4\<rparr>"
      "\<lambda>x. x" "\<lambda>x. 1 - x" "\<lambda>x. 0 :: int" "(+)" "\<lambda>x. 0" "\<lambda>x. 0"]
  by (simp add: bg_static_ok_def bg_positive_def)

end
