(* ===== verification/BufferAddressing.thy ===== *)
theory BufferAddressing
  imports CK_Prelude
begin

text \<open>Buffer addressing of \<^verbatim>\<open>amd_buffer_addressing_v2.hpp\<close>.  The memory of a wave is a
  byte-addressed map \<open>nat \<Rightarrow> 'a\<close> holding one element every four bytes.  The LLVM intrinsics
  \<^verbatim>\<open>llvm.amdgcn.buffer.load/store\<close> are modelled from their documented behaviour
  (\<open>hw_buffer_load\<close>, \<open>hw_buffer_store\<close>): a dword at byte offset \<open>o\<close> is read or written only when
  \<open>o + 4\<close> does not exceed the range of the buffer resource, otherwise the load returns zero and
  the store is dropped.  Offsets and ranges are 32-bit words, so the byte offset computed by the
  code wraps around.  The two variants of \<open>amd_buffer_load_v2\<close> and \<open>amd_buffer_store_v2\<close>
  (with and without the macro \<^verbatim>\<open>CK_EXPERIMENTAL_USE_BUFFER_*_OOB_CHECK_OFFSET_TRICK\<close>) are
  selected by the flag \<open>oob_trick\<close>; the vector width is the length of the list.\<close>

definition hw_buffer_load :: "(nat \<Rightarrow> 'a::zero) \<Rightarrow> 32 word \<Rightarrow> 32 word \<Rightarrow> nat \<Rightarrow> 'a list" where
  "hw_buffer_load mem num_records offset n =
     map (\<lambda>i. if unat offset + 4 * i + 4 \<le> unat num_records then mem (unat offset + 4 * i) else 0) [0..<n]"

definition hw_buffer_store :: "(nat \<Rightarrow> 'a) \<Rightarrow> 32 word \<Rightarrow> 32 word \<Rightarrow> 'a list \<Rightarrow> (nat \<Rightarrow> 'a)" where
  "hw_buffer_store mem num_records offset vs =
     foldl (\<lambda>m (i, v). if unat offset + 4 * i + 4 \<le> unat num_records then m(unat offset + 4 * i := v) else m)
       mem (zip [0..<length vs] vs)"

definition amd_buffer_load_v2 ::
  "bool \<Rightarrow> nat \<Rightarrow> (nat \<Rightarrow> 'a::zero) \<Rightarrow> index_t \<Rightarrow> bool \<Rightarrow> index_t \<Rightarrow> 'a list" where
  "amd_buffer_load_v2 oob_trick VectorSize p_src_wave src_thread_data_offset src_thread_data_valid src_data_range =
     (let range = (word_of_int (src_data_range * 4) :: 32 word);
          src_thread_addr_offset = (word_of_int (src_thread_data_offset * 4) :: 32 word)
      in if oob_trick
         then (let src_addr_shift = (if src_thread_data_valid then 0 else 0x7fffffff) :: 32 word
               in hw_buffer_load p_src_wave range (src_addr_shift + src_thread_addr_offset) VectorSize)
         else (let tmp = hw_buffer_load p_src_wave range src_thread_addr_offset VectorSize
               in if src_thread_data_valid then tmp else replicate VectorSize 0))"

definition amd_buffer_store_v2 ::
  "bool \<Rightarrow> 'a list \<Rightarrow> (nat \<Rightarrow> 'a) \<Rightarrow> index_t \<Rightarrow> bool \<Rightarrow> index_t \<Rightarrow> (nat \<Rightarrow> 'a)" where
  "amd_buffer_store_v2 oob_trick src_thread_data p_dst_wave dst_thread_data_offset dst_thread_data_valid dst_data_range =
     (let range = (word_of_int (dst_data_range * 4) :: 32 word);
          dst_thread_addr_offset = (word_of_int (dst_thread_data_offset * 4) :: 32 word)
      in if oob_trick
         then (let dst_addr_shift = (if dst_thread_data_valid then 0 else 0x7fffffff) :: 32 word
               in hw_buffer_store p_dst_wave range (dst_addr_shift + dst_thread_addr_offset) src_thread_data)
         else if dst_thread_data_valid
         then hw_buffer_store p_dst_wave range dst_thread_addr_offset src_thread_data
         else p_dst_wave)"

lemma unat_word_of_int_32: "unat (word_of_int z :: 32 word) = nat (z mod 2 ^ 32)"
  by (simp add: unat_eq_nat_uint uint_word_of_int_eq take_bit_eq_mod)

lemma unat_shift_offset:
  "unat ((0x7fffffff :: 32 word) + word_of_int z) = nat ((2147483647 + z) mod 2 ^ 32)"
proof -
  have "(0x7fffffff :: 32 word) + word_of_int z = word_of_int (2147483647 + z)" by simp
  then show ?thesis by (simp only: unat_word_of_int_32)
qed

lemma unat_word_of_int_small: "0 \<le> z \<Longrightarrow> z < 2 ^ 32 \<Longrightarrow> unat (word_of_int z :: 32 word) = nat z"
  by (simp add: unat_word_of_int_32)

lemma unat_shift_small:
  "0 \<le> z \<Longrightarrow> z < 2 ^ 31 \<Longrightarrow> unat ((0x7fffffff :: 32 word) + word_of_int z) = nat (2147483647 + z)"
  by (simp add: unat_shift_offset)

lemma hw_buffer_load_oob:
  "unat num_records < unat offset + 4 \<Longrightarrow> hw_buffer_load mem num_records offset n = replicate n 0"
  by (simp add: hw_buffer_load_def map_replicate_const)

lemma foldl_pair_keep: "foldl (\<lambda>m (i, v). m) mem ps = mem"
  by (induction ps arbitrary: mem) auto

lemma hw_buffer_store_oob:
  "unat num_records < unat offset + 4 \<Longrightarrow> hw_buffer_store mem num_records offset vs = mem"
  by (simp add: hw_buffer_store_def foldl_pair_keep)

lemma dvd_aligned_below:
  "4 dvd d \<Longrightarrow> d < 4 * n + 4 \<Longrightarrow> d \<noteq> 4 * n \<Longrightarrow> d < 4 * (n :: nat)"
  by (elim dvdE) simp

lemma zip_upt_snoc: "zip [0..<Suc (length xs)] (xs @ [x]) = zip [0..<length xs] xs @ [(length xs, x)]"
  by simp

lemma hw_buffer_store_in_range:
  assumes "unat offset + 4 * length vs \<le> unat num_records"
  shows "hw_buffer_store mem num_records offset vs
         = (\<lambda>p. if unat offset \<le> p \<and> p < unat offset + 4 * length vs \<and> 4 dvd (p - unat offset)
                then vs ! ((p - unat offset) div 4) else mem p)"
  using assms
proof (induction vs rule: rev_induct)
  case Nil
  then show ?case by (auto simp: hw_buffer_store_def fun_eq_iff)
next
  case (snoc x xs)
  have ih: "hw_buffer_store mem num_records offset xs
         = (\<lambda>p. if unat offset \<le> p \<and> p < unat offset + 4 * length xs \<and> 4 dvd (p - unat offset)
                then xs ! ((p - unat offset) div 4) else mem p)"
    using snoc by simp
  have st: "hw_buffer_store mem num_records offset (xs @ [x])
        = (hw_buffer_store mem num_records offset xs)(unat offset + 4 * length xs := x)"
    using snoc.prems by (simp add: hw_buffer_store_def zip_upt_snoc del: upt_Suc)
  show ?case
  proof
    fix p
    show "hw_buffer_store mem num_records offset (xs @ [x]) p
          = (if unat offset \<le> p \<and> p < unat offset + 4 * length (xs @ [x]) \<and> 4 dvd (p - unat offset)
             then (xs @ [x]) ! ((p - unat offset) div 4) else mem p)"
    proof (cases "p = unat offset + 4 * length xs")
      case True
      then show ?thesis unfolding st by (simp add: nth_append)
    next
      case False
      have "p < unat offset + 4 * length xs"
        if "unat offset \<le> p" "p < unat offset + 4 * length (xs @ [x])" "4 dvd (p - unat offset)"
      proof -
        have "p - unat offset < 4 * length xs + 4" "p - unat offset \<noteq> 4 * length xs" using that False by auto
        then have "p - unat offset < 4 * length xs" using dvd_aligned_below that(3) by blast
        then show ?thesis using that(1) by linarith
      qed
      then show ?thesis unfolding st ih using False by (auto simp: nth_append)
    qed
  qed
qed

lemma hw_buffer_roundtrip:
  assumes "unat offset + 4 * length vs \<le> unat num_records"
  shows "hw_buffer_load (hw_buffer_store mem num_records offset vs) num_records offset (length vs) = vs"
proof (rule nth_equalityI)
  fix i assume i: "i < length (hw_buffer_load (hw_buffer_store mem num_records offset vs) num_records offset (length vs))"
  then have "i < length vs" by (simp add: hw_buffer_load_def)
  then show "hw_buffer_load (hw_buffer_store mem num_records offset vs) num_records offset (length vs) ! i = vs ! i"
    using assms by (simp add: hw_buffer_load_def hw_buffer_store_in_range[OF assms])
qed (simp add: hw_buffer_load_def)

lemma buffer_offsets:
  fixes off r :: int
  assumes "0 \<le> off" "off * 4 < 2 ^ 31" "0 \<le> r" "r * 4 < 2 ^ 31"
  shows "unat (word_of_int (off * 4) :: 32 word) = nat (off * 4)"
    and "unat (word_of_int (r * 4) :: 32 word) = nat (r * 4)"
    and "unat ((0x7fffffff :: 32 word) + word_of_int (off * 4)) = nat (2147483647 + off * 4)"
  using assms by (simp_all add: unat_word_of_int_small unat_shift_small del: of_int_mult)

lemma buffer_invalid_oob:
  fixes off r :: int
  assumes "0 \<le> off" "off * 4 < 2 ^ 31" "0 \<le> r" "r * 4 < 2 ^ 31"
  shows "unat (word_of_int (r * 4) :: 32 word) < unat ((0x7fffffff :: 32 word) + word_of_int (off * 4)) + 4"
  using assms by (simp add: buffer_offsets del: of_int_mult)

text \<open>C13: the offset trick (\<^verbatim>\<open>CK_EXPERIMENTAL_USE_BUFFER_LOAD_OOB_CHECK_OFFSET_TRICK\<close> and its
  store counterpart) is equivalent to the branch that tests the flag, for non-negative offsets
  and ranges below \<open>2^31\<close> bytes.\<close>

theorem amd_buffer_v2_offset_trick_eq:
  fixes off r :: int
  assumes "0 \<le> off" "off * 4 < 2 ^ 31" "0 \<le> r" "r * 4 < 2 ^ 31"
  shows "amd_buffer_load_v2 True N p_src off valid r = amd_buffer_load_v2 False N p_src off valid r
         \<and> amd_buffer_store_v2 True vs p_dst off valid r = amd_buffer_store_v2 False vs p_dst off valid r"
  using buffer_invalid_oob[OF assms]
  by (cases valid) (simp_all add: amd_buffer_load_v2_def amd_buffer_store_v2_def Let_def hw_buffer_load_oob hw_buffer_store_oob del: of_int_mult)

theorem amd_buffer_v2_offset_trick_eq_witness:
  "0 \<le> (3 :: int) \<and> (3 :: int) * 4 < 2 ^ 31 \<and> 0 \<le> (8 :: int) \<and> (8 :: int) * 4 < 2 ^ 31
   \<and> amd_buffer_load_v2 True 2 (\<lambda>b. int b) 3 True 8 = amd_buffer_load_v2 False 2 (\<lambda>b. int b) 3 True 8
   \<and> amd_buffer_store_v2 True [1, 2 :: int] (\<lambda>b. 0) 3 True 8 = amd_buffer_store_v2 False [1, 2] (\<lambda>b. 0) 3 True 8"
  using amd_buffer_v2_offset_trick_eq[of 3 8 2 "\<lambda>b. int b" True "[1, 2 :: int]" "\<lambda>b. 0"] by simp

text \<open>C14: a valid vector store followed by a valid load of the same offset and length returns
  the stored vector, when the whole vector lies inside the range.\<close>

theorem amd_buffer_v2_store_load:
  fixes off r :: int
  assumes "0 \<le> off" "(off + int (length vs)) * 4 \<le> r * 4" "r * 4 < 2 ^ 31"
  shows "amd_buffer_load_v2 oob_trick (length vs) (amd_buffer_store_v2 oob_trick vs p_dst off True r) off True r = vs"
proof -
  have b: "0 \<le> off" "off * 4 < 2 ^ 31" "0 \<le> r" "r * 4 < 2 ^ 31" using assms by simp_all
  have "unat (word_of_int (off * 4) :: 32 word) + 4 * length vs \<le> unat (word_of_int (r * 4) :: 32 word)"
    using assms by (simp add: buffer_offsets[OF b] algebra_simps nat_le_eq_zle flip: nat_mult_distrib del: of_int_mult)
  then show ?thesis
    by (cases oob_trick) (simp_all add: amd_buffer_load_v2_def amd_buffer_store_v2_def Let_def hw_buffer_roundtrip del: of_int_mult)
qed

theorem amd_buffer_v2_store_load_witness:
  "0 \<le> (3 :: int) \<and> (3 + int (length [5, 6 :: int])) * 4 \<le> (8 :: int) * 4 \<and> (8 :: int) * 4 < 2 ^ 31
   \<and> amd_buffer_load_v2 True (length [5, 6 :: int]) (amd_buffer_store_v2 True [5, 6 :: int] (\<lambda>b. 0) 3 True 8) 3 True 8
     = [5, 6]"
  using amd_buffer_v2_store_load[of 3 "[5, 6 :: int]" 8 True "\<lambda>b. 0"] by simp

end
