(* ===== verification/DeviceGemm.thy ===== *)
theory DeviceGemm
  imports CK_Prelude "HOL-Library.Signed_Division" "HOL-Library.Disjoint_Sets"
begin

text \<open>The host-side GEMM operator \<^verbatim>\<open>DeviceGemmXdl\<close> of \<^verbatim>\<open>device_gemm_xdl.hpp\<close>: the
  grid descriptors it builds for A (K0 x M x K1), B (K0 x N x K1) and C (M x N), the
  \<^verbatim>\<open>Argument\<close> constructor, \<^verbatim>\<open>IsSupportedArgument\<close>, \<^verbatim>\<open>MakeArgument\<close> and
  \<^verbatim>\<open>Invoker::Run\<close>, whose result is the description of the kernel launch it issues or the
  \<^verbatim>\<open>std::runtime_error\<close> it throws.  The gridwise operator
  \<^verbatim>\<open>GridwiseGemm_k0mk1_k0nk1_mn_xdlops_v2r3\<close> it calls (its validity check, grid size,
  main-loop flag and block-to-C-tile map) is not part of the sources and is modelled from
  the specification.  C integer division and remainder of \<open>index_t\<close> truncate toward zero:
  they are \<open>sdiv\<close> and \<open>smod\<close>.  A failed \<^verbatim>\<open>assert\<close> is the error \<open>AssertionFailure\<close>.\<close>

datatype tensor_layout = RowMajor | ColumnMajor

datatype dg_error = AssertionFailure | RuntimeError string

text \<open>The template parameters of \<^verbatim>\<open>DeviceGemmXdl\<close> that the host code reads.  The others
  (data types, element operations, \<^verbatim>\<open>MPerXDL\<close>, \<^verbatim>\<open>NPerXDL\<close>, \<^verbatim>\<open>MXdlPerWave\<close>,
  \<^verbatim>\<open>NXdlPerWave\<close>, the block transfer shapes) are only passed on to the gridwise kernel,
  whose body is outside \<^verbatim>\<open>src/\<close>; they change no value the host computes.\<close>

record dg_cfg =
  dg_ALayout :: tensor_layout
  dg_BLayout :: tensor_layout
  dg_CLayout :: tensor_layout
  dg_BlockSize :: index_t
  dg_MPerBlock :: index_t
  dg_NPerBlock :: index_t
  dg_K0PerBlock :: index_t
  dg_K1 :: index_t

definition dg_cfg_ok :: "dg_cfg \<Rightarrow> bool" where
  "dg_cfg_ok cfg \<longleftrightarrow> 0 < dg_BlockSize cfg \<and> 0 < dg_MPerBlock cfg \<and> 0 < dg_NPerBlock cfg
     \<and> 0 < dg_K0PerBlock cfg \<and> 0 < dg_K1 cfg"

subsection \<open>Naive and transformed descriptors\<close>

text \<open>A naive 2-d descriptor is an Embed transform: offset \<open>i * stride0 + j * stride1\<close>.\<close>

record naive_desc2 =
  nd_len0 :: index_t
  nd_len1 :: index_t
  nd_stride0 :: index_t
  nd_stride1 :: index_t

definition make_naive_tensor_descriptor :: "index_t \<times> index_t \<Rightarrow> index_t \<times> index_t \<Rightarrow> naive_desc2" where
  "make_naive_tensor_descriptor lens strides =
     \<lparr>nd_len0 = fst lens, nd_len1 = snd lens, nd_stride0 = fst strides, nd_stride1 = snd strides\<rparr>"

definition nd_offset :: "naive_desc2 \<Rightarrow> index_t \<Rightarrow> index_t \<Rightarrow> index_t" where
  "nd_offset d i j = i * nd_stride0 d + j * nd_stride1 d"

definition nd_element_space_size :: "naive_desc2 \<Rightarrow> index_t" where
  "nd_element_space_size d = 1 + (nd_len0 d - 1) * nd_stride0 d + (nd_len1 d - 1) * nd_stride1 d"

text \<open>The K0 x X x K1 view: an unmerge of the K dimension of a naive descriptor into
  \<open>(K0, K1)\<close> and a pass-through of the other dimension X (M for A, N for B).  The flag
  \<open>kd_k_first\<close> says whether K is the first dimension of the naive descriptor (B, K x N)
  or the second (A, M x K).\<close>

record k0xk1_desc =
  kd_K0 :: index_t
  kd_X :: index_t
  kd_K1 :: index_t
  kd_base :: naive_desc2
  kd_k_first :: bool

definition kd_offset :: "k0xk1_desc \<Rightarrow> index_t \<Rightarrow> index_t \<Rightarrow> index_t \<Rightarrow> index_t" where
  "kd_offset d k0 x k1 =
     (let k = k0 * kd_K1 d + k1
      in if kd_k_first d then nd_offset (kd_base d) k x else nd_offset (kd_base d) x k)"

definition naive_desc_of_layout :: "tensor_layout \<Rightarrow> index_t \<Rightarrow> index_t \<Rightarrow> index_t \<Rightarrow> naive_desc2" where
  "naive_desc_of_layout layout R C Stride =
     (case layout of
        RowMajor \<Rightarrow> make_naive_tensor_descriptor (R, C) (Stride, 1)
      | ColumnMajor \<Rightarrow> make_naive_tensor_descriptor (R, C) (1, Stride))"

definition MakeAGridDescriptor_K0_M_K1 ::
  "dg_cfg \<Rightarrow> index_t \<Rightarrow> index_t \<Rightarrow> index_t \<Rightarrow> dg_error + k0xk1_desc" where
  "MakeAGridDescriptor_K0_M_K1 cfg M K StrideA =
     (if K smod dg_K1 cfg \<noteq> 0 then Inl AssertionFailure
      else let K0 = K sdiv dg_K1 cfg;
               a_grid_desc_m_k = naive_desc_of_layout (dg_ALayout cfg) M K StrideA
           in Inr \<lparr>kd_K0 = K0, kd_X = M, kd_K1 = dg_K1 cfg, kd_base = a_grid_desc_m_k, kd_k_first = False\<rparr>)"

definition MakeBGridDescriptor_K0_N_K1 ::
  "dg_cfg \<Rightarrow> index_t \<Rightarrow> index_t \<Rightarrow> index_t \<Rightarrow> dg_error + k0xk1_desc" where
  "MakeBGridDescriptor_K0_N_K1 cfg K N StrideB =
     (if K smod dg_K1 cfg \<noteq> 0 then Inl AssertionFailure
      else let K0 = K sdiv dg_K1 cfg;
               b_grid_desc_k_n = naive_desc_of_layout (dg_BLayout cfg) K N StrideB
           in Inr \<lparr>kd_K0 = K0, kd_X = N, kd_K1 = dg_K1 cfg, kd_base = b_grid_desc_k_n, kd_k_first = True\<rparr>)"

definition MakeCGridDescriptor_M_N :: "dg_cfg \<Rightarrow> index_t \<Rightarrow> index_t \<Rightarrow> index_t \<Rightarrow> naive_desc2" where
  "MakeCGridDescriptor_M_N cfg M N StrideC = naive_desc_of_layout (dg_CLayout cfg) M N StrideC"

subsection \<open>The gridwise operator, from the specification\<close>

text \<open>The pre-flight check: the three descriptors agree on M, N, K0 and K1, and the tile
  sizes divide the problem.\<close>

definition xdl_CheckValidity ::
  "dg_cfg \<Rightarrow> k0xk1_desc \<Rightarrow> k0xk1_desc \<Rightarrow> naive_desc2 \<Rightarrow> index_t \<Rightarrow> index_t \<Rightarrow> bool" where
  "xdl_CheckValidity cfg a b c M01 N01 =
     (let M = kd_X a; N = kd_X b; K0 = kd_K0 a
      in M = nd_len0 c \<and> N = nd_len1 c \<and> K0 = kd_K0 b
         \<and> kd_K1 a = dg_K1 cfg \<and> kd_K1 b = dg_K1 cfg
         \<and> M smod dg_MPerBlock cfg = 0 \<and> N smod dg_NPerBlock cfg = 0 \<and> K0 smod dg_K0PerBlock cfg = 0)"

definition xdl_CalculateGridSize :: "dg_cfg \<Rightarrow> naive_desc2 \<Rightarrow> index_t" where
  "xdl_CalculateGridSize cfg c = (nd_len0 c sdiv dg_MPerBlock cfg) * (nd_len1 c sdiv dg_NPerBlock cfg)"

definition xdl_CalculateHasMainK0BlockLoop :: "dg_cfg \<Rightarrow> index_t \<Rightarrow> bool" where
  "xdl_CalculateHasMainK0BlockLoop cfg K0 = (2 * dg_K0PerBlock cfg < K0)"

text \<open>The block-to-C-tile map: the \<open>M0 x N0\<close> tiles are enumerated cluster by cluster, a
  cluster being \<open>M01 x N01\<close> tiles and the clusters in row-major order (block id
  \<open>((m00 * N00 + n00) * M01 + m01) * N01 + n01\<close>); the tiles outside the full clusters follow
  in row-major order.  Block \<open>id\<close> computes tile number \<open>id\<close> of this enumeration.\<close>

definition xdl_cluster_tiles :: "index_t \<Rightarrow> index_t \<Rightarrow> index_t \<Rightarrow> index_t \<Rightarrow> (index_t \<times> index_t) list" where
  "xdl_cluster_tiles M0 N0 M01 N01 =
     map (\<lambda>((m00, n00), (m01, n01)). (m00 * M01 + m01, n00 * N01 + n01))
       (List.product (List.product [0..M0 div M01 - 1] [0..N0 div N01 - 1])
                     (List.product [0..M01 - 1] [0..N01 - 1]))"

definition xdl_edge_tiles :: "index_t \<Rightarrow> index_t \<Rightarrow> index_t \<Rightarrow> index_t \<Rightarrow> (index_t \<times> index_t) list" where
  "xdl_edge_tiles M0 N0 M01 N01 =
     filter (\<lambda>(m0, n0). \<not> (m0 < M0 div M01 * M01 \<and> n0 < N0 div N01 * N01))
       (List.product [0..M0 - 1] [0..N0 - 1])"

definition xdl_MakeBlock2CTileMap ::
  "dg_cfg \<Rightarrow> naive_desc2 \<Rightarrow> index_t \<Rightarrow> index_t \<Rightarrow> index_t \<Rightarrow> index_t \<times> index_t" where
  "xdl_MakeBlock2CTileMap cfg c M01 N01 =
     (let M0 = nd_len0 c sdiv dg_MPerBlock cfg; N0 = nd_len1 c sdiv dg_NPerBlock cfg;
          tiles = xdl_cluster_tiles M0 N0 M01 N01 @ xdl_edge_tiles M0 N0 M01 N01
      in (\<lambda>block_id. tiles ! nat block_id))"

subsection \<open>Argument, Invoker and the operator interface\<close>

text \<open>The device pointers are passed through unchanged and are not modelled; a block-to-tile
  map left default-constructed (the check failed in the constructor) is \<open>None\<close>.\<close>

record dg_argument =
  a_grid_desc_k0_m_k1 :: k0xk1_desc
  b_grid_desc_k0_n_k1 :: k0xk1_desc
  c_grid_desc_m_n :: naive_desc2
  block_2_ctile_map :: "(index_t \<Rightarrow> index_t \<times> index_t) option"
  arg_M01 :: index_t
  arg_N01 :: index_t

definition dg_Argument ::
  "dg_cfg \<Rightarrow> index_t \<Rightarrow> index_t \<Rightarrow> index_t \<Rightarrow> index_t \<Rightarrow> index_t \<Rightarrow> index_t \<Rightarrow> index_t \<Rightarrow> index_t
   \<Rightarrow> dg_error + dg_argument" where
  "dg_Argument cfg M N K StrideA StrideB StrideC M01 N01 =
     (case MakeAGridDescriptor_K0_M_K1 cfg M K StrideA of
        Inl e \<Rightarrow> Inl e
      | Inr a \<Rightarrow>
          (case MakeBGridDescriptor_K0_N_K1 cfg K N StrideB of
             Inl e \<Rightarrow> Inl e
           | Inr b \<Rightarrow>
               (let c = MakeCGridDescriptor_M_N cfg M N StrideC
                in Inr \<lparr>a_grid_desc_k0_m_k1 = a, b_grid_desc_k0_n_k1 = b, c_grid_desc_m_n = c,
                        block_2_ctile_map =
                          (if xdl_CheckValidity cfg a b c M01 N01
                           then Some (xdl_MakeBlock2CTileMap cfg c M01 N01) else None),
                        arg_M01 = M01, arg_N01 = N01\<rparr>)))"

definition dg_IsSupportedArgument :: "dg_cfg \<Rightarrow> dg_argument \<Rightarrow> bool" where
  "dg_IsSupportedArgument cfg arg =
     xdl_CheckValidity cfg (a_grid_desc_k0_m_k1 arg) (b_grid_desc_k0_n_k1 arg) (c_grid_desc_m_n arg)
       (arg_M01 arg) (arg_N01 arg)"

definition dg_MakeArgument ::
  "dg_cfg \<Rightarrow> index_t \<Rightarrow> index_t \<Rightarrow> index_t \<Rightarrow> index_t \<Rightarrow> index_t \<Rightarrow> index_t \<Rightarrow> dg_error + dg_argument" where
  "dg_MakeArgument cfg M N K StrideA StrideB StrideC = dg_Argument cfg M N K StrideA StrideB StrideC 1 1"

text \<open>What \<^verbatim>\<open>Invoker::Run\<close> hands to \<^verbatim>\<open>launch_and_time_kernel\<close>: the grid and block
  sizes, the \<open>HasMainK0BlockLoop\<close> template argument of the kernel, and the block-to-tile map
  of the argument.  The measured time it returns is not modelled.\<close>

record kernel_launch =
  launch_grid_size :: index_t
  launch_block_size :: index_t
  launch_has_main_k0_block_loop :: bool
  launch_block_2_ctile_map :: "(index_t \<Rightarrow> index_t \<times> index_t) option"

definition dg_Invoker_Run :: "dg_cfg \<Rightarrow> dg_argument \<Rightarrow> dg_error + kernel_launch" where
  "dg_Invoker_Run cfg arg =
     (if \<not> xdl_CheckValidity cfg (a_grid_desc_k0_m_k1 arg) (b_grid_desc_k0_n_k1 arg) (c_grid_desc_m_n arg)
            (arg_M01 arg) (arg_N01 arg)
      then Inl (RuntimeError ''wrong! GridwiseGemm_km_kn_m0m1n0n1_xdlops_v2r3 has invalid setting'')
      else
        (let grid_size = xdl_CalculateGridSize cfg (c_grid_desc_m_n arg);
             K0 = kd_K0 (a_grid_desc_k0_m_k1 arg);
             has_main_k0_block_loop = xdl_CalculateHasMainK0BlockLoop cfg K0
         in Inr \<lparr>launch_grid_size = grid_size, launch_block_size = dg_BlockSize cfg,
                 launch_has_main_k0_block_loop = has_main_k0_block_loop,
                 launch_block_2_ctile_map = block_2_ctile_map arg\<rparr>))"

subsection \<open>What the descriptors and the launch promise\<close>

text \<open>A descriptor is well formed when its offset map is injective on its index box and stays
  inside its element space; the K0 x X x K1 view is well formed when, in addition, it is a
  re-indexing of its naive descriptor (a bijection onto the offsets of the X x K box).  The
  caller's strides must not make rows (columns) overlap: \<open>dg_stride_ok\<close>.\<close>

definition nd_box :: "naive_desc2 \<Rightarrow> (index_t \<times> index_t) set" where
  "nd_box d = {0..<nd_len0 d} \<times> {0..<nd_len1 d}"

definition nd_offset2 :: "naive_desc2 \<Rightarrow> index_t \<times> index_t \<Rightarrow> index_t" where
  "nd_offset2 d = (\<lambda>(i, j). nd_offset d i j)"

definition nd_wf :: "naive_desc2 \<Rightarrow> bool" where
  "nd_wf d \<longleftrightarrow> inj_on (nd_offset2 d) (nd_box d) \<and> nd_offset2 d ` nd_box d \<subseteq> {0..<nd_element_space_size d}"

definition kd_wf :: "k0xk1_desc \<Rightarrow> bool" where
  "kd_wf d \<longleftrightarrow> nd_wf (kd_base d)
     \<and> bij_betw (\<lambda>(k0, x, k1). kd_offset d k0 x k1) ({0..<kd_K0 d} \<times> {0..<kd_X d} \<times> {0..<kd_K1 d})
                (nd_offset2 (kd_base d) ` nd_box (kd_base d))"

definition dg_stride_ok :: "tensor_layout \<Rightarrow> index_t \<Rightarrow> index_t \<Rightarrow> index_t \<Rightarrow> bool" where
  "dg_stride_ok layout R C Stride = (case layout of RowMajor \<Rightarrow> C \<le> Stride | ColumnMajor \<Rightarrow> R \<le> Stride)"

text \<open>The C elements of the \<open>MPerBlock x NPerBlock\<close> tile \<open>(m0, n0)\<close>.\<close>

definition dg_tile_elements :: "dg_cfg \<Rightarrow> index_t \<times> index_t \<Rightarrow> (index_t \<times> index_t) list" where
  "dg_tile_elements cfg t =
     map (\<lambda>(i, j). (fst t * dg_MPerBlock cfg + i, snd t * dg_NPerBlock cfg + j))
       (List.product [0..dg_MPerBlock cfg - 1] [0..dg_NPerBlock cfg - 1])"

subsection \<open>Integer division, radix and tile enumeration\<close>

lemma smod_int_eq_0_iff: "(a :: int) smod b = 0 \<longleftrightarrow> b dvd a"
  by (auto simp: signed_modulo_int_def sgn_0_0 abs_dvd_iff dvd_abs_iff
      simp flip: dvd_eq_mod_eq_0)

lemma sdiv_int_nonneg: "0 \<le> (a :: int) \<Longrightarrow> 0 \<le> b \<Longrightarrow> a sdiv b = a div b"
  by (auto simp: signed_divide_int_def sgn_if)

lemma mixed_radix_div:
  fixes x a n :: int
  assumes "0 \<le> a" "a < n"
  shows "(x * n + a) div n = x"
proof -
  have "a div n = 0" using assms by (simp add: div_pos_pos_trivial)
  then show ?thesis using assms by simp
qed

lemma mixed_radix_eq_iff:
  fixes x y a b n :: int
  assumes "0 \<le> a" "a < n" "0 \<le> b" "b < n"
  shows "x * n + a = y * n + b \<longleftrightarrow> x = y \<and> a = b"
  using mixed_radix_div[OF assms(1,2), of x] mixed_radix_div[OF assms(3,4), of y] by auto

lemma set_xdl_cluster_tiles:
  assumes "0 < M01" "0 < N01"
  shows "set (xdl_cluster_tiles M0 N0 M01 N01) = {0..<M0 div M01 * M01} \<times> {0..<N0 div N01 * N01}"
proof (intro equalityI subsetI)
  fix t assume "t \<in> set (xdl_cluster_tiles M0 N0 M01 N01)"
  then obtain m00 n00 m01 n01 where t: "t = (m00 * M01 + m01, n00 * N01 + n01)"
    and r: "0 \<le> m00" "m00 \<le> M0 div M01 - 1" "0 \<le> n00" "n00 \<le> N0 div N01 - 1"
           "0 \<le> m01" "m01 < M01" "0 \<le> n01" "n01 < N01"
    by (auto simp: xdl_cluster_tiles_def)
  have "m00 * M01 + m01 < M0 div M01 * M01" "n00 * N01 + n01 < N0 div N01 * N01"
    using r by (simp_all add: radix_lt)
  then show "t \<in> {0..<M0 div M01 * M01} \<times> {0..<N0 div N01 * N01}" using t r by simp
next
  fix t assume "t \<in> {0..<M0 div M01 * M01} \<times> {0..<N0 div N01 * N01}"
  then obtain m n where t: "t = (m, n)" "0 \<le> m" "m < M0 div M01 * M01" "0 \<le> n" "n < N0 div N01 * N01"
    by auto
  have "m div M01 < M0 div M01" "n div N01 < N0 div N01"
    using t assms by (simp_all add: int_div_less_of_less_mult)
  then have "((m div M01, n div N01), (m mod M01, n mod N01))
      \<in> set (List.product (List.product [0..M0 div M01 - 1] [0..N0 div N01 - 1])
                          (List.product [0..M01 - 1] [0..N01 - 1]))"
    using t assms by (simp add: nonneg_div_mod_bounds)
  then show "t \<in> set (xdl_cluster_tiles M0 N0 M01 N01)"
    unfolding xdl_cluster_tiles_def t(1) set_map
    by (rule rev_image_eqI) simp
qed

lemma distinct_xdl_cluster_tiles:
  assumes "0 < M01" "0 < N01"
  shows "distinct (xdl_cluster_tiles M0 N0 M01 N01)"
proof -
  let ?f = "\<lambda>((m00, n00), (m01, n01)). (m00 * M01 + m01, n00 * N01 + n01) :: index_t \<times> index_t"
  let ?P = "List.product (List.product [0..M0 div M01 - 1] [0..N0 div N01 - 1])
                         (List.product [0..M01 - 1] [0..N01 - 1])"
  have "inj_on ?f (set ?P)"
    by (auto simp: inj_on_def mixed_radix_eq_iff)
  then show ?thesis by (simp add: xdl_cluster_tiles_def distinct_map distinct_product)
qed

lemma set_xdl_edge_tiles:
  "set (xdl_edge_tiles M0 N0 M01 N01)
     = {0..<M0} \<times> {0..<N0} - {0..<M0 div M01 * M01} \<times> {0..<N0 div N01 * N01}"
  by (auto simp: xdl_edge_tiles_def)

lemma distinct_xdl_edge_tiles: "distinct (xdl_edge_tiles M0 N0 M01 N01)"
  by (simp add: xdl_edge_tiles_def distinct_product)

lemma div_mult_le_int: "0 \<le> (m :: int) \<Longrightarrow> 0 < q \<Longrightarrow> m div q * q \<le> m"
proof -
  assume "0 \<le> m" "0 < q"
  have "m div q * q + m mod q = m" by simp
  moreover have "0 \<le> m mod q" using \<open>0 < q\<close> by simp
  ultimately show "m div q * q \<le> m" by linarith
qed

lemma xdl_tiles:
  assumes "0 < M01" "0 < N01" "0 \<le> M0" "0 \<le> N0"
  shows "distinct (xdl_cluster_tiles M0 N0 M01 N01 @ xdl_edge_tiles M0 N0 M01 N01)"
    and "set (xdl_cluster_tiles M0 N0 M01 N01 @ xdl_edge_tiles M0 N0 M01 N01) = {0..<M0} \<times> {0..<N0}"
proof -
  have "M0 div M01 * M01 \<le> M0" "N0 div N01 * N01 \<le> N0"
    using assms by (simp_all add: div_mult_le_int)
  then have sub: "{0..<M0 div M01 * M01} \<times> {0..<N0 div N01 * N01} \<subseteq> {0..<M0} \<times> {0..<N0}" by auto
  show "distinct (xdl_cluster_tiles M0 N0 M01 N01 @ xdl_edge_tiles M0 N0 M01 N01)"
    using assms by (simp add: distinct_xdl_cluster_tiles distinct_xdl_edge_tiles
                              set_xdl_cluster_tiles set_xdl_edge_tiles)
  show "set (xdl_cluster_tiles M0 N0 M01 N01 @ xdl_edge_tiles M0 N0 M01 N01) = {0..<M0} \<times> {0..<N0}"
    using assms sub by (auto simp: set_xdl_cluster_tiles set_xdl_edge_tiles)
qed

lemma bij_betw_nth_int:
  assumes "distinct xs"
  shows "bij_betw (\<lambda>i. xs ! nat i) {0..<int (length xs)} (set xs)"
proof (rule bij_betw_imageI)
  show "inj_on (\<lambda>i. xs ! nat i) {0..<int (length xs)}"
    using assms by (auto simp: inj_on_def nth_eq_iff_index_eq)
  show "(\<lambda>i. xs ! nat i) ` {0..<int (length xs)} = set xs"
  proof (intro equalityI subsetI)
    fix y assume "y \<in> set xs"
    then obtain k where "k < length xs" "y = xs ! k" by (auto simp: in_set_conv_nth)
    then show "y \<in> (\<lambda>i. xs ! nat i) ` {0..<int (length xs)}"
      by (intro rev_image_eqI[of "int k"]) simp_all
  qed auto
qed

lemma xdl_tiles_length:
  assumes "0 < M01" "0 < N01" "0 \<le> M0" "0 \<le> N0"
  shows "int (length (xdl_cluster_tiles M0 N0 M01 N01 @ xdl_edge_tiles M0 N0 M01 N01)) = M0 * N0"
proof -
  have "length (xdl_cluster_tiles M0 N0 M01 N01 @ xdl_edge_tiles M0 N0 M01 N01) = card ({0..<M0} \<times> {0..<N0})"
    using xdl_tiles[OF assms] by (metis distinct_card)
  then show ?thesis using assms by (simp add: card_cartesian_product)
qed

lemma xdl_MakeBlock2CTileMap_bij:
  assumes "0 < M01" "0 < N01" "0 \<le> nd_len0 c sdiv dg_MPerBlock cfg" "0 \<le> nd_len1 c sdiv dg_NPerBlock cfg"
  shows "bij_betw (xdl_MakeBlock2CTileMap cfg c M01 N01) {0..<xdl_CalculateGridSize cfg c}
           ({0..<nd_len0 c sdiv dg_MPerBlock cfg} \<times> {0..<nd_len1 c sdiv dg_NPerBlock cfg})"
  using bij_betw_nth_int[OF xdl_tiles(1)[OF assms]] xdl_tiles(2)[OF assms] xdl_tiles_length[OF assms]
  by (simp add: xdl_MakeBlock2CTileMap_def xdl_CalculateGridSize_def Let_def)

subsection \<open>Descriptors\<close>

lemma naive_desc_of_layout_lens [simp]:
  "nd_len0 (naive_desc_of_layout l R C S) = R" "nd_len1 (naive_desc_of_layout l R C S) = C"
  by (cases l; simp add: naive_desc_of_layout_def make_naive_tensor_descriptor_def)+

lemma naive_desc_of_layout_wf:
  assumes "dg_stride_ok l R C S"
  shows "nd_wf (naive_desc_of_layout l R C S)"
proof (cases l)
  case RowMajor
  then have d: "naive_desc_of_layout l R C S = \<lparr>nd_len0 = R, nd_len1 = C, nd_stride0 = S, nd_stride1 = 1\<rparr>"
    and CS: "C \<le> S"
    using assms by (simp_all add: naive_desc_of_layout_def make_naive_tensor_descriptor_def dg_stride_ok_def)
  have inj: "inj_on (\<lambda>(i, j). i * S + j) ({0..<R} \<times> {0..<C})"
    using CS by (auto simp: inj_on_def mixed_radix_eq_iff)
  have "i * S + j < 1 + (R - 1) * S + (C - 1)" if "0 \<le> i" "i < R" "0 \<le> j" "j < C" for i j
  proof -
    have "i * S \<le> (R - 1) * S" using that CS by (intro mult_right_mono) simp_all
    then show ?thesis using that by simp
  qed
  moreover have "0 \<le> i * S + j" if "0 \<le> i" "0 \<le> j" "j < C" for i j
    using that CS by simp
  ultimately show ?thesis using inj
    by (auto simp: d nd_wf_def nd_box_def nd_offset2_def nd_offset_def nd_element_space_size_def)
next
  case ColumnMajor
  then have d: "naive_desc_of_layout l R C S = \<lparr>nd_len0 = R, nd_len1 = C, nd_stride0 = 1, nd_stride1 = S\<rparr>"
    and RS: "R \<le> S"
    using assms by (simp_all add: naive_desc_of_layout_def make_naive_tensor_descriptor_def dg_stride_ok_def)
  have inj: "inj_on (\<lambda>(i, j). i + j * S) ({0..<R} \<times> {0..<C})"
    using RS by (auto simp: inj_on_def add.commute[of _ "_ * S"] mixed_radix_eq_iff)
  have "i + j * S < 1 + (R - 1) + (C - 1) * S" if "0 \<le> i" "i < R" "0 \<le> j" "j < C" for i j
  proof -
    have "j * S \<le> (C - 1) * S" using that RS by (intro mult_right_mono) simp_all
    then show ?thesis using that by simp
  qed
  moreover have "0 \<le> i + j * S" if "0 \<le> i" "i < R" "0 \<le> j" for i j
    using that RS by simp
  ultimately show ?thesis using inj
    by (auto simp: d nd_wf_def nd_box_def nd_offset2_def nd_offset_def nd_element_space_size_def)
qed

lemma unmerge_k_bij:
  fixes K0 K1 :: int
  assumes "0 < K1"
  shows "bij_betw (\<lambda>(k0, k1). k0 * K1 + k1) ({0..<K0} \<times> {0..<K1}) {0..<K0 * K1}"
proof (rule bij_betw_imageI)
  show "inj_on (\<lambda>(k0, k1). k0 * K1 + k1) ({0..<K0} \<times> {0..<K1})"
    by (auto simp: inj_on_def mixed_radix_eq_iff)
  show "(\<lambda>(k0, k1). k0 * K1 + k1) ` ({0..<K0} \<times> {0..<K1}) = {0..<K0 * K1}"
  proof (intro equalityI subsetI)
    fix k assume "k \<in> (\<lambda>(k0, k1). k0 * K1 + k1) ` ({0..<K0} \<times> {0..<K1})"
    then show "k \<in> {0..<K0 * K1}" by (auto simp: radix_lt)
  next
    fix k assume k: "k \<in> {0..<K0 * K1}"
    then have "k div K1 < K0" using assms by (simp add: int_div_less_of_less_mult)
    then show "k \<in> (\<lambda>(k0, k1). k0 * K1 + k1) ` ({0..<K0} \<times> {0..<K1})"
      using k assms by (intro rev_image_eqI[of "(k div K1, k mod K1)"]) (simp_all add: nonneg_div_mod_bounds)
  qed
qed

lemma bij_betw_pair_left:
  "bij_betw f A B \<Longrightarrow> bij_betw (\<lambda>(a, x). (f a, x)) (A \<times> X) (B \<times> X)"
  by (auto simp: bij_betw_def inj_on_def)

lemma bij_betw_pair_right:
  "bij_betw f A B \<Longrightarrow> bij_betw (\<lambda>(x, a). (x, f a)) (X \<times> A) (X \<times> B)"
  by (auto simp: bij_betw_def inj_on_def)

lemma K_sdiv_K1_mult:
  fixes K K1 :: int
  assumes "K smod K1 = 0" "0 < K1" "0 \<le> K"
  shows "K sdiv K1 * K1 = K"
  using assms by (simp add: sdiv_int_nonneg smod_int_eq_0_iff)

lemma MakeAGridDescriptor_K0_M_K1_wf:
  assumes a: "MakeAGridDescriptor_K0_M_K1 cfg M K StrideA = Inr a"
    and pos: "0 < dg_K1 cfg" "0 \<le> K" and st: "dg_stride_ok (dg_ALayout cfg) M K StrideA"
  shows "kd_wf a"
proof -
  let ?K1 = "dg_K1 cfg" and ?K0 = "K sdiv dg_K1 cfg" and ?d = "naive_desc_of_layout (dg_ALayout cfg) M K StrideA"
  have sm: "K smod ?K1 = 0" and aeq: "a = \<lparr>kd_K0 = ?K0, kd_X = M, kd_K1 = ?K1, kd_base = ?d, kd_k_first = False\<rparr>"
    using a by (auto simp: MakeAGridDescriptor_K0_M_K1_def Let_def split: if_splits)
  have KK: "?K0 * ?K1 = K" using K_sdiv_K1_mult[OF sm pos] .
  have wf: "nd_wf ?d" using naive_desc_of_layout_wf[OF st] .
  have re: "bij_betw (\<lambda>(x, a). (x, (\<lambda>(k0, k1). k0 * ?K1 + k1) a)) ({0..<M} \<times> {0..<?K0} \<times> {0..<?K1}) (nd_box ?d)"
    using bij_betw_pair_right[OF unmerge_k_bij[OF pos(1), of ?K0], of "{0..<M}"] KK
    by (simp add: nd_box_def)
  have sw: "bij_betw (\<lambda>(k0, x, k1). (x, k0, k1)) ({0..<?K0} \<times> {0..<M} \<times> {0..<?K1}) ({0..<M} \<times> {0..<?K0} \<times> {0..<?K1})"
    by (auto simp: bij_betw_def inj_on_def image_iff)
  have "bij_betw (nd_offset2 ?d \<circ> ((\<lambda>(x, a). (x, (\<lambda>(k0, k1). k0 * ?K1 + k1) a)) \<circ> (\<lambda>(k0, x, k1). (x, k0, k1))))
          ({0..<?K0} \<times> {0..<M} \<times> {0..<?K1}) (nd_offset2 ?d ` nd_box ?d)"
    using wf by (intro bij_betw_trans[OF bij_betw_trans[OF sw re]] inj_on_imp_bij_betw) (simp add: nd_wf_def)
  moreover have "nd_offset2 ?d \<circ> ((\<lambda>(x, a). (x, (\<lambda>(k0, k1). k0 * ?K1 + k1) a)) \<circ> (\<lambda>(k0, x, k1). (x, k0, k1)))
                 = (\<lambda>(k0, x, k1). kd_offset a k0 x k1)"
    by (auto simp: aeq kd_offset_def nd_offset2_def)
  ultimately show ?thesis using wf by (simp add: kd_wf_def aeq)
qed

lemma MakeBGridDescriptor_K0_N_K1_wf:
  assumes b: "MakeBGridDescriptor_K0_N_K1 cfg K N StrideB = Inr b"
    and pos: "0 < dg_K1 cfg" "0 \<le> K" and st: "dg_stride_ok (dg_BLayout cfg) K N StrideB"
  shows "kd_wf b"
proof -
  let ?K1 = "dg_K1 cfg" and ?K0 = "K sdiv dg_K1 cfg" and ?d = "naive_desc_of_layout (dg_BLayout cfg) K N StrideB"
  have sm: "K smod ?K1 = 0" and beq: "b = \<lparr>kd_K0 = ?K0, kd_X = N, kd_K1 = ?K1, kd_base = ?d, kd_k_first = True\<rparr>"
    using b by (auto simp: MakeBGridDescriptor_K0_N_K1_def Let_def split: if_splits)
  have KK: "?K0 * ?K1 = K" using K_sdiv_K1_mult[OF sm pos] .
  have wf: "nd_wf ?d" using naive_desc_of_layout_wf[OF st] .
  have re: "bij_betw (\<lambda>(a, x). ((\<lambda>(k0, k1). k0 * ?K1 + k1) a, x)) (({0..<?K0} \<times> {0..<?K1}) \<times> {0..<N}) (nd_box ?d)"
    using bij_betw_pair_left[OF unmerge_k_bij[OF pos(1), of ?K0], of "{0..<N}"] KK
    by (simp add: nd_box_def)
  have sw: "bij_betw (\<lambda>(k0, x, k1). ((k0, k1), x)) ({0..<?K0} \<times> {0..<N} \<times> {0..<?K1}) (({0..<?K0} \<times> {0..<?K1}) \<times> {0..<N})"
    by (auto simp: bij_betw_def inj_on_def image_iff)
  have "bij_betw (nd_offset2 ?d \<circ> ((\<lambda>(a, x). ((\<lambda>(k0, k1). k0 * ?K1 + k1) a, x)) \<circ> (\<lambda>(k0, x, k1). ((k0, k1), x))))
          ({0..<?K0} \<times> {0..<N} \<times> {0..<?K1}) (nd_offset2 ?d ` nd_box ?d)"
    using wf by (intro bij_betw_trans[OF bij_betw_trans[OF sw re]] inj_on_imp_bij_betw) (simp add: nd_wf_def)
  moreover have "nd_offset2 ?d \<circ> ((\<lambda>(a, x). ((\<lambda>(k0, k1). k0 * ?K1 + k1) a, x)) \<circ> (\<lambda>(k0, x, k1). ((k0, k1), x)))
                 = (\<lambda>(k0, x, k1). kd_offset b k0 x k1)"
    by (auto simp: beq kd_offset_def nd_offset2_def)
  ultimately show ?thesis using wf by (simp add: kd_wf_def beq)
qed

subsection \<open>Arguments and launches\<close>

lemma dg_Argument_Inr:
  assumes "dg_Argument cfg M N K StrideA StrideB StrideC M01 N01 = Inr arg"
  obtains a b where "MakeAGridDescriptor_K0_M_K1 cfg M K StrideA = Inr a"
    "MakeBGridDescriptor_K0_N_K1 cfg K N StrideB = Inr b"
    "arg = \<lparr>a_grid_desc_k0_m_k1 = a, b_grid_desc_k0_n_k1 = b,
            c_grid_desc_m_n = MakeCGridDescriptor_M_N cfg M N StrideC,
            block_2_ctile_map =
              (if xdl_CheckValidity cfg a b (MakeCGridDescriptor_M_N cfg M N StrideC) M01 N01
               then Some (xdl_MakeBlock2CTileMap cfg (MakeCGridDescriptor_M_N cfg M N StrideC) M01 N01) else None),
            arg_M01 = M01, arg_N01 = N01\<rparr>"
  using assms by (auto simp: dg_Argument_def Let_def split: sum.splits)

lemma MakeGridDescriptors_Inr:
  "MakeAGridDescriptor_K0_M_K1 cfg M K StrideA = Inr a \<Longrightarrow>
     K smod dg_K1 cfg = 0 \<and> kd_K0 a = K sdiv dg_K1 cfg \<and> kd_X a = M \<and> kd_K1 a = dg_K1 cfg"
  "MakeBGridDescriptor_K0_N_K1 cfg K N StrideB = Inr b \<Longrightarrow>
     K smod dg_K1 cfg = 0 \<and> kd_K0 b = K sdiv dg_K1 cfg \<and> kd_X b = N \<and> kd_K1 b = dg_K1 cfg"
  by (auto simp: MakeAGridDescriptor_K0_M_K1_def MakeBGridDescriptor_K0_N_K1_def Let_def split: if_splits)

lemma dg_Argument_CheckValidity:
  assumes "dg_Argument cfg M N K StrideA StrideB StrideC M01 N01 = Inr arg"
  shows "xdl_CheckValidity cfg (a_grid_desc_k0_m_k1 arg) (b_grid_desc_k0_n_k1 arg) (c_grid_desc_m_n arg)
           (arg_M01 arg) (arg_N01 arg)
         \<longleftrightarrow> dg_MPerBlock cfg dvd M \<and> dg_NPerBlock cfg dvd N \<and> dg_K0PerBlock cfg dvd K sdiv dg_K1 cfg"
proof -
  obtain a b where ab: "MakeAGridDescriptor_K0_M_K1 cfg M K StrideA = Inr a"
    "MakeBGridDescriptor_K0_N_K1 cfg K N StrideB = Inr b" and arg:
    "arg = \<lparr>a_grid_desc_k0_m_k1 = a, b_grid_desc_k0_n_k1 = b,
            c_grid_desc_m_n = MakeCGridDescriptor_M_N cfg M N StrideC,
            block_2_ctile_map =
              (if xdl_CheckValidity cfg a b (MakeCGridDescriptor_M_N cfg M N StrideC) M01 N01
               then Some (xdl_MakeBlock2CTileMap cfg (MakeCGridDescriptor_M_N cfg M N StrideC) M01 N01) else None),
            arg_M01 = M01, arg_N01 = N01\<rparr>"
    using dg_Argument_Inr[OF assms] by blast
  show ?thesis
    using MakeGridDescriptors_Inr(1)[OF ab(1)] MakeGridDescriptors_Inr(2)[OF ab(2)]
    by (simp add: arg xdl_CheckValidity_def MakeCGridDescriptor_M_N_def smod_int_eq_0_iff)
qed

lemma dg_tile_elements_disjoint:
  assumes "dg_cfg_ok cfg" "t \<noteq> t'"
  shows "set (dg_tile_elements cfg t) \<inter> set (dg_tile_elements cfg t') = {}"
  using assms by (cases t; cases t') (auto simp: dg_tile_elements_def dg_cfg_ok_def mixed_radix_eq_iff)

lemma dg_tile_elements_cover:
  assumes "dg_cfg_ok cfg"
  shows "(\<Union>t\<in>{0..<M0} \<times> {0..<N0}. set (dg_tile_elements cfg t))
         = {0..<M0 * dg_MPerBlock cfg} \<times> {0..<N0 * dg_NPerBlock cfg}"
proof (intro equalityI subsetI)
  fix e assume "e \<in> (\<Union>t\<in>{0..<M0} \<times> {0..<N0}. set (dg_tile_elements cfg t))"
  then show "e \<in> {0..<M0 * dg_MPerBlock cfg} \<times> {0..<N0 * dg_NPerBlock cfg}"
    using assms by (auto simp: dg_tile_elements_def dg_cfg_ok_def radix_lt)
next
  fix e assume e: "e \<in> {0..<M0 * dg_MPerBlock cfg} \<times> {0..<N0 * dg_NPerBlock cfg}"
  obtain m n where mn: "e = (m, n)" by (cases e)
  let ?t = "(m div dg_MPerBlock cfg, n div dg_NPerBlock cfg)"
  have "?t \<in> {0..<M0} \<times> {0..<N0}"
    using e assms by (auto simp: mn dg_cfg_ok_def int_div_less_of_less_mult pos_imp_zdiv_nonneg_iff)
  moreover have "e \<in> set (dg_tile_elements cfg ?t)"
    using e assms unfolding dg_tile_elements_def mn set_map
    by (intro rev_image_eqI[of "(m mod dg_MPerBlock cfg, n mod dg_NPerBlock cfg)"])
       (auto simp: dg_cfg_ok_def)
  ultimately show "e \<in> (\<Union>t\<in>{0..<M0} \<times> {0..<N0}. set (dg_tile_elements cfg t))" by blast
qed

lemma dg_launch_Inr:
  assumes arg: "dg_Argument cfg M N K StrideA StrideB StrideC M01 N01 = Inr arg"
    and run: "dg_Invoker_Run cfg arg = Inr l"
  shows "launch_block_2_ctile_map l = Some (xdl_MakeBlock2CTileMap cfg (MakeCGridDescriptor_M_N cfg M N StrideC) M01 N01)"
    and "launch_grid_size l = xdl_CalculateGridSize cfg (MakeCGridDescriptor_M_N cfg M N StrideC)"
    and "c_grid_desc_m_n arg = MakeCGridDescriptor_M_N cfg M N StrideC"
    and "dg_MPerBlock cfg dvd M" "dg_NPerBlock cfg dvd N"
proof -
  have ok: "xdl_CheckValidity cfg (a_grid_desc_k0_m_k1 arg) (b_grid_desc_k0_n_k1 arg) (c_grid_desc_m_n arg)
              (arg_M01 arg) (arg_N01 arg)"
    using run by (auto simp: dg_Invoker_Run_def split: if_splits)
  obtain a b where "MakeAGridDescriptor_K0_M_K1 cfg M K StrideA = Inr a"
    "MakeBGridDescriptor_K0_N_K1 cfg K N StrideB = Inr b" and argeq:
    "arg = \<lparr>a_grid_desc_k0_m_k1 = a, b_grid_desc_k0_n_k1 = b,
            c_grid_desc_m_n = MakeCGridDescriptor_M_N cfg M N StrideC,
            block_2_ctile_map =
              (if xdl_CheckValidity cfg a b (MakeCGridDescriptor_M_N cfg M N StrideC) M01 N01
               then Some (xdl_MakeBlock2CTileMap cfg (MakeCGridDescriptor_M_N cfg M N StrideC) M01 N01) else None),
            arg_M01 = M01, arg_N01 = N01\<rparr>"
    using dg_Argument_Inr[OF arg] by blast
  show "launch_block_2_ctile_map l = Some (xdl_MakeBlock2CTileMap cfg (MakeCGridDescriptor_M_N cfg M N StrideC) M01 N01)"
    "launch_grid_size l = xdl_CalculateGridSize cfg (MakeCGridDescriptor_M_N cfg M N StrideC)"
    "c_grid_desc_m_n arg = MakeCGridDescriptor_M_N cfg M N StrideC"
    using ok run by (auto simp: argeq dg_Invoker_Run_def Let_def)
  show "dg_MPerBlock cfg dvd M" "dg_NPerBlock cfg dvd N"
    using ok dg_Argument_CheckValidity[OF arg] by simp_all
qed

text \<open>C15: on an argument built by \<^verbatim>\<open>MakeArgument\<close>, \<^verbatim>\<open>IsSupportedArgument\<close> holds and
  \<^verbatim>\<open>Invoker::Run\<close> launches the kernel on \<open>(M / MPerBlock) * (N / NPerBlock)\<close> blocks of
  \<open>BlockSize\<close> threads exactly when MPerBlock divides M, NPerBlock divides N and K0PerBlock
  divides \<open>K0 = K / K1\<close>; otherwise Run throws its \<^verbatim>\<open>runtime_error\<close>.\<close>

theorem dg_Invoker_Run_MakeArgument:
  assumes "dg_MakeArgument cfg M N K StrideA StrideB StrideC = Inr arg"
  shows "dg_IsSupportedArgument cfg arg
           = (dg_MPerBlock cfg dvd M \<and> dg_NPerBlock cfg dvd N \<and> dg_K0PerBlock cfg dvd K sdiv dg_K1 cfg)
         \<and> dg_Invoker_Run cfg arg =
           (if dg_MPerBlock cfg dvd M \<and> dg_NPerBlock cfg dvd N \<and> dg_K0PerBlock cfg dvd K sdiv dg_K1 cfg
            then Inr \<lparr>launch_grid_size = M sdiv dg_MPerBlock cfg * (N sdiv dg_NPerBlock cfg),
                      launch_block_size = dg_BlockSize cfg,
                      launch_has_main_k0_block_loop = (2 * dg_K0PerBlock cfg < K sdiv dg_K1 cfg),
                      launch_block_2_ctile_map =
                        Some (xdl_MakeBlock2CTileMap cfg (MakeCGridDescriptor_M_N cfg M N StrideC) 1 1)\<rparr>
            else Inl (RuntimeError ''wrong! GridwiseGemm_km_kn_m0m1n0n1_xdlops_v2r3 has invalid setting''))"
proof -
  have arg: "dg_Argument cfg M N K StrideA StrideB StrideC 1 1 = Inr arg"
    using assms by (simp add: dg_MakeArgument_def)
  note chk = dg_Argument_CheckValidity[OF arg]
  obtain a b where ab: "MakeAGridDescriptor_K0_M_K1 cfg M K StrideA = Inr a"
    "MakeBGridDescriptor_K0_N_K1 cfg K N StrideB = Inr b" and argeq:
    "arg = \<lparr>a_grid_desc_k0_m_k1 = a, b_grid_desc_k0_n_k1 = b,
            c_grid_desc_m_n = MakeCGridDescriptor_M_N cfg M N StrideC,
            block_2_ctile_map =
              (if xdl_CheckValidity cfg a b (MakeCGridDescriptor_M_N cfg M N StrideC) 1 1
               then Some (xdl_MakeBlock2CTileMap cfg (MakeCGridDescriptor_M_N cfg M N StrideC) 1 1) else None),
            arg_M01 = 1, arg_N01 = 1\<rparr>"
    using dg_Argument_Inr[OF arg] by blast
  show ?thesis
    using chk MakeGridDescriptors_Inr(1)[OF ab(1)]
    by (auto simp: argeq dg_IsSupportedArgument_def dg_Invoker_Run_def Let_def xdl_CalculateGridSize_def
                   xdl_CalculateHasMainK0BlockLoop_def MakeCGridDescriptor_M_N_def)
qed

theorem dg_Invoker_Run_MakeArgument_witness:
  "dg_MakeArgument
     \<lparr>dg_ALayout = RowMajor, dg_BLayout = ColumnMajor, dg_CLayout = RowMajor, dg_BlockSize = 256,
      dg_MPerBlock = 2, dg_NPerBlock = 2, dg_K0PerBlock = 1, dg_K1 = 2\<rparr> 3 6 8 8 8 6
   = Inr \<lparr>a_grid_desc_k0_m_k1 = \<lparr>kd_K0 = 4, kd_X = 3, kd_K1 = 2,
            kd_base = \<lparr>nd_len0 = 3, nd_len1 = 8, nd_stride0 = 8, nd_stride1 = 1\<rparr>, kd_k_first = False\<rparr>,
          b_grid_desc_k0_n_k1 = \<lparr>kd_K0 = 4, kd_X = 6, kd_K1 = 2,
            kd_base = \<lparr>nd_len0 = 8, nd_len1 = 6, nd_stride0 = 1, nd_stride1 = 8\<rparr>, kd_k_first = True\<rparr>,
          c_grid_desc_m_n = \<lparr>nd_len0 = 3, nd_len1 = 6, nd_stride0 = 6, nd_stride1 = 1\<rparr>,
          block_2_ctile_map = None, arg_M01 = 1, arg_N01 = 1\<rparr>
   \<and> \<not> dg_IsSupportedArgument
       \<lparr>dg_ALayout = RowMajor, dg_BLayout = ColumnMajor, dg_CLayout = RowMajor, dg_BlockSize = 256,
        dg_MPerBlock = 2, dg_NPerBlock = 2, dg_K0PerBlock = 1, dg_K1 = 2\<rparr>
       \<lparr>a_grid_desc_k0_m_k1 = \<lparr>kd_K0 = 4, kd_X = 3, kd_K1 = 2,
            kd_base = \<lparr>nd_len0 = 3, nd_len1 = 8, nd_stride0 = 8, nd_stride1 = 1\<rparr>, kd_k_first = False\<rparr>,
          b_grid_desc_k0_n_k1 = \<lparr>kd_K0 = 4, kd_X = 6, kd_K1 = 2,
            kd_base = \<lparr>nd_len0 = 8, nd_len1 = 6, nd_stride0 = 1, nd_stride1 = 8\<rparr>, kd_k_first = True\<rparr>,
          c_grid_desc_m_n = \<lparr>nd_len0 = 3, nd_len1 = 6, nd_stride0 = 6, nd_stride1 = 1\<rparr>,
          block_2_ctile_map = None, arg_M01 = 1, arg_N01 = 1\<rparr>
   \<and> dg_Invoker_Run
       \<lparr>dg_ALayout = RowMajor, dg_BLayout = ColumnMajor, dg_CLayout = RowMajor, dg_BlockSize = 256,
        dg_MPerBlock = 2, dg_NPerBlock = 2, dg_K0PerBlock = 1, dg_K1 = 2\<rparr>
       \<lparr>a_grid_desc_k0_m_k1 = \<lparr>kd_K0 = 4, kd_X = 3, kd_K1 = 2,
            kd_base = \<lparr>nd_len0 = 3, nd_len1 = 8, nd_stride0 = 8, nd_stride1 = 1\<rparr>, kd_k_first = False\<rparr>,
          b_grid_desc_k0_n_k1 = \<lparr>kd_K0 = 4, kd_X = 6, kd_K1 = 2,
            kd_base = \<lparr>nd_len0 = 8, nd_len1 = 6, nd_stride0 = 1, nd_stride1 = 8\<rparr>, kd_k_first = True\<rparr>,
          c_grid_desc_m_n = \<lparr>nd_len0 = 3, nd_len1 = 6, nd_stride0 = 6, nd_stride1 = 1\<rparr>,
          block_2_ctile_map = None, arg_M01 = 1, arg_N01 = 1\<rparr>
     = Inl (RuntimeError ''wrong! GridwiseGemm_km_kn_m0m1n0n1_xdlops_v2r3 has invalid setting'')"
proof -
  have mk: "dg_MakeArgument
     \<lparr>dg_ALayout = RowMajor, dg_BLayout = ColumnMajor, dg_CLayout = RowMajor, dg_BlockSize = 256,
      dg_MPerBlock = 2, dg_NPerBlock = 2, dg_K0PerBlock = 1, dg_K1 = 2\<rparr> 3 6 8 8 8 6
   = Inr \<lparr>a_grid_desc_k0_m_k1 = \<lparr>kd_K0 = 4, kd_X = 3, kd_K1 = 2,
            kd_base = \<lparr>nd_len0 = 3, nd_len1 = 8, nd_stride0 = 8, nd_stride1 = 1\<rparr>, kd_k_first = False\<rparr>,
          b_grid_desc_k0_n_k1 = \<lparr>kd_K0 = 4, kd_X = 6, kd_K1 = 2,
            kd_base = \<lparr>nd_len0 = 8, nd_len1 = 6, nd_stride0 = 1, nd_stride1 = 8\<rparr>, kd_k_first = True\<rparr>,
          c_grid_desc_m_n = \<lparr>nd_len0 = 3, nd_len1 = 6, nd_stride0 = 6, nd_stride1 = 1\<rparr>,
          block_2_ctile_map = None, arg_M01 = 1, arg_N01 = 1\<rparr>"
    by (simp add: dg_MakeArgument_def dg_Argument_def MakeAGridDescriptor_K0_M_K1_def
                  MakeBGridDescriptor_K0_N_K1_def MakeCGridDescriptor_M_N_def naive_desc_of_layout_def
                  make_naive_tensor_descriptor_def xdl_CheckValidity_def
                  signed_modulo_int_def signed_divide_int_def)
  show ?thesis
    using dg_Invoker_Run_MakeArgument[OF mk] mk by simp
qed

lemma dg_launch_tile_map:
  assumes "dg_cfg_ok cfg" "0 \<le> M" "0 \<le> N" "0 < M01" "0 < N01"
    and "dg_Argument cfg M N K StrideA StrideB StrideC M01 N01 = Inr arg"
    and "dg_Invoker_Run cfg arg = Inr l"
  shows "\<exists>f. launch_block_2_ctile_map l = Some f
             \<and> bij_betw f {0..<launch_grid_size l} ({0..<M div dg_MPerBlock cfg} \<times> {0..<N div dg_NPerBlock cfg})"
proof -
  have s: "M sdiv dg_MPerBlock cfg = M div dg_MPerBlock cfg" "N sdiv dg_NPerBlock cfg = N div dg_NPerBlock cfg"
    using assms(1-3) by (simp_all add: sdiv_int_nonneg dg_cfg_ok_def)
  have "bij_betw (xdl_MakeBlock2CTileMap cfg (MakeCGridDescriptor_M_N cfg M N StrideC) M01 N01)
          {0..<xdl_CalculateGridSize cfg (MakeCGridDescriptor_M_N cfg M N StrideC)}
          ({0..<M div dg_MPerBlock cfg} \<times> {0..<N div dg_NPerBlock cfg})"
    using xdl_MakeBlock2CTileMap_bij[OF assms(4,5), where cfg = cfg and c = "MakeCGridDescriptor_M_N cfg M N StrideC"] assms(1-3)
    by (simp add: MakeCGridDescriptor_M_N_def s dg_cfg_ok_def pos_imp_zdiv_nonneg_iff)
  then show ?thesis using dg_launch_Inr(1,2)[OF assms(6,7)] by simp
qed


lemma dg_example_argument:
  "dg_Argument \<lparr>dg_ALayout = RowMajor, dg_BLayout = ColumnMajor, dg_CLayout = RowMajor, dg_BlockSize = 256,
      dg_MPerBlock = 2, dg_NPerBlock = 2, dg_K0PerBlock = 1, dg_K1 = 2\<rparr> 4 6 8 8 8 6 2 1 = Inr \<lparr>a_grid_desc_k0_m_k1 = \<lparr>kd_K0 = 4, kd_X = 4, kd_K1 = 2,
            kd_base = \<lparr>nd_len0 = 4, nd_len1 = 8, nd_stride0 = 8, nd_stride1 = 1\<rparr>, kd_k_first = False\<rparr>,
          b_grid_desc_k0_n_k1 = \<lparr>kd_K0 = 4, kd_X = 6, kd_K1 = 2,
            kd_base = \<lparr>nd_len0 = 8, nd_len1 = 6, nd_stride0 = 1, nd_stride1 = 8\<rparr>, kd_k_first = True\<rparr>,
          c_grid_desc_m_n = \<lparr>nd_len0 = 4, nd_len1 = 6, nd_stride0 = 6, nd_stride1 = 1\<rparr>,
          block_2_ctile_map = Some (xdl_MakeBlock2CTileMap \<lparr>dg_ALayout = RowMajor, dg_BLayout = ColumnMajor, dg_CLayout = RowMajor, dg_BlockSize = 256,
      dg_MPerBlock = 2, dg_NPerBlock = 2, dg_K0PerBlock = 1, dg_K1 = 2\<rparr> \<lparr>nd_len0 = 4, nd_len1 = 6, nd_stride0 = 6, nd_stride1 = 1\<rparr> 2 1),
          arg_M01 = 2, arg_N01 = 1\<rparr>"
  by (simp add: dg_Argument_def MakeAGridDescriptor_K0_M_K1_def
                MakeBGridDescriptor_K0_N_K1_def MakeCGridDescriptor_M_N_def naive_desc_of_layout_def
                make_naive_tensor_descriptor_def xdl_CheckValidity_def
                signed_modulo_int_def signed_divide_int_def Let_def)

lemma dg_example_run:
  "dg_Invoker_Run \<lparr>dg_ALayout = RowMajor, dg_BLayout = ColumnMajor, dg_CLayout = RowMajor, dg_BlockSize = 256,
      dg_MPerBlock = 2, dg_NPerBlock = 2, dg_K0PerBlock = 1, dg_K1 = 2\<rparr> \<lparr>a_grid_desc_k0_m_k1 = \<lparr>kd_K0 = 4, kd_X = 4, kd_K1 = 2,
            kd_base = \<lparr>nd_len0 = 4, nd_len1 = 8, nd_stride0 = 8, nd_stride1 = 1\<rparr>, kd_k_first = False\<rparr>,
          b_grid_desc_k0_n_k1 = \<lparr>kd_K0 = 4, kd_X = 6, kd_K1 = 2,
            kd_base = \<lparr>nd_len0 = 8, nd_len1 = 6, nd_stride0 = 1, nd_stride1 = 8\<rparr>, kd_k_first = True\<rparr>,
          c_grid_desc_m_n = \<lparr>nd_len0 = 4, nd_len1 = 6, nd_stride0 = 6, nd_stride1 = 1\<rparr>,
          block_2_ctile_map = Some (xdl_MakeBlock2CTileMap \<lparr>dg_ALayout = RowMajor, dg_BLayout = ColumnMajor, dg_CLayout = RowMajor, dg_BlockSize = 256,
      dg_MPerBlock = 2, dg_NPerBlock = 2, dg_K0PerBlock = 1, dg_K1 = 2\<rparr> \<lparr>nd_len0 = 4, nd_len1 = 6, nd_stride0 = 6, nd_stride1 = 1\<rparr> 2 1),
          arg_M01 = 2, arg_N01 = 1\<rparr> = Inr \<lparr>launch_grid_size = 6, launch_block_size = 256, launch_has_main_k0_block_loop = True,
          launch_block_2_ctile_map = Some (xdl_MakeBlock2CTileMap \<lparr>dg_ALayout = RowMajor, dg_BLayout = ColumnMajor, dg_CLayout = RowMajor, dg_BlockSize = 256,
      dg_MPerBlock = 2, dg_NPerBlock = 2, dg_K0PerBlock = 1, dg_K1 = 2\<rparr> \<lparr>nd_len0 = 4, nd_len1 = 6, nd_stride0 = 6, nd_stride1 = 1\<rparr> 2 1)\<rparr>"
  by (simp add: dg_Invoker_Run_def xdl_CheckValidity_def xdl_CalculateGridSize_def
                xdl_CalculateHasMainK0BlockLoop_def signed_modulo_int_def signed_divide_int_def)

text \<open>C16: every launch of \<^verbatim>\<open>Invoker::Run\<close> on a constructed argument maps its block ids
  \<open>0 .. grid_size - 1\<close> one-to-one onto the \<open>(M / MPerBlock) x (N / NPerBlock)\<close> C tiles, for
  every cluster shape \<open>M01 x N01\<close>.\<close>

theorem dg_launch_block_map_bij:
  assumes "dg_cfg_ok cfg" "0 \<le> M" "0 \<le> N" "0 < M01" "0 < N01"
    and "dg_Argument cfg M N K StrideA StrideB StrideC M01 N01 = Inr arg"
    and "dg_Invoker_Run cfg arg = Inr l"
  shows "\<exists>f. launch_block_2_ctile_map l = Some f
             \<and> bij_betw f {0..<launch_grid_size l} ({0..<M div dg_MPerBlock cfg} \<times> {0..<N div dg_NPerBlock cfg})"
  using dg_launch_tile_map[OF assms] .

theorem dg_launch_block_map_bij_witness:
  "dg_cfg_ok \<lparr>dg_ALayout = RowMajor, dg_BLayout = ColumnMajor, dg_CLayout = RowMajor, dg_BlockSize = 256,
      dg_MPerBlock = 2, dg_NPerBlock = 2, dg_K0PerBlock = 1, dg_K1 = 2\<rparr> \<and> 0 \<le> (4::int) \<and> 0 \<le> (6::int) \<and> 0 < (2::int) \<and> 0 < (1::int)
   \<and> dg_Argument \<lparr>dg_ALayout = RowMajor, dg_BLayout = ColumnMajor, dg_CLayout = RowMajor, dg_BlockSize = 256,
      dg_MPerBlock = 2, dg_NPerBlock = 2, dg_K0PerBlock = 1, dg_K1 = 2\<rparr> 4 6 8 8 8 6 2 1 = Inr \<lparr>a_grid_desc_k0_m_k1 = \<lparr>kd_K0 = 4, kd_X = 4, kd_K1 = 2,
            kd_base = \<lparr>nd_len0 = 4, nd_len1 = 8, nd_stride0 = 8, nd_stride1 = 1\<rparr>, kd_k_first = False\<rparr>,
          b_grid_desc_k0_n_k1 = \<lparr>kd_K0 = 4, kd_X = 6, kd_K1 = 2,
            kd_base = \<lparr>nd_len0 = 8, nd_len1 = 6, nd_stride0 = 1, nd_stride1 = 8\<rparr>, kd_k_first = True\<rparr>,
          c_grid_desc_m_n = \<lparr>nd_len0 = 4, nd_len1 = 6, nd_stride0 = 6, nd_stride1 = 1\<rparr>,
          block_2_ctile_map = Some (xdl_MakeBlock2CTileMap \<lparr>dg_ALayout = RowMajor, dg_BLayout = ColumnMajor, dg_CLayout = RowMajor, dg_BlockSize = 256,
      dg_MPerBlock = 2, dg_NPerBlock = 2, dg_K0PerBlock = 1, dg_K1 = 2\<rparr> \<lparr>nd_len0 = 4, nd_len1 = 6, nd_stride0 = 6, nd_stride1 = 1\<rparr> 2 1),
          arg_M01 = 2, arg_N01 = 1\<rparr>
   \<and> dg_Invoker_Run \<lparr>dg_ALayout = RowMajor, dg_BLayout = ColumnMajor, dg_CLayout = RowMajor, dg_BlockSize = 256,
      dg_MPerBlock = 2, dg_NPerBlock = 2, dg_K0PerBlock = 1, dg_K1 = 2\<rparr> \<lparr>a_grid_desc_k0_m_k1 = \<lparr>kd_K0 = 4, kd_X = 4, kd_K1 = 2,
            kd_base = \<lparr>nd_len0 = 4, nd_len1 = 8, nd_stride0 = 8, nd_stride1 = 1\<rparr>, kd_k_first = False\<rparr>,
          b_grid_desc_k0_n_k1 = \<lparr>kd_K0 = 4, kd_X = 6, kd_K1 = 2,
            kd_base = \<lparr>nd_len0 = 8, nd_len1 = 6, nd_stride0 = 1, nd_stride1 = 8\<rparr>, kd_k_first = True\<rparr>,
          c_grid_desc_m_n = \<lparr>nd_len0 = 4, nd_len1 = 6, nd_stride0 = 6, nd_stride1 = 1\<rparr>,
          block_2_ctile_map = Some (xdl_MakeBlock2CTileMap \<lparr>dg_ALayout = RowMajor, dg_BLayout = ColumnMajor, dg_CLayout = RowMajor, dg_BlockSize = 256,
      dg_MPerBlock = 2, dg_NPerBlock = 2, dg_K0PerBlock = 1, dg_K1 = 2\<rparr> \<lparr>nd_len0 = 4, nd_len1 = 6, nd_stride0 = 6, nd_stride1 = 1\<rparr> 2 1),
          arg_M01 = 2, arg_N01 = 1\<rparr> = Inr \<lparr>launch_grid_size = 6, launch_block_size = 256, launch_has_main_k0_block_loop = True,
          launch_block_2_ctile_map = Some (xdl_MakeBlock2CTileMap \<lparr>dg_ALayout = RowMajor, dg_BLayout = ColumnMajor, dg_CLayout = RowMajor, dg_BlockSize = 256,
      dg_MPerBlock = 2, dg_NPerBlock = 2, dg_K0PerBlock = 1, dg_K1 = 2\<rparr> \<lparr>nd_len0 = 4, nd_len1 = 6, nd_stride0 = 6, nd_stride1 = 1\<rparr> 2 1)\<rparr>
   \<and> (\<exists>f. launch_block_2_ctile_map \<lparr>launch_grid_size = 6, launch_block_size = 256, launch_has_main_k0_block_loop = True,
          launch_block_2_ctile_map = Some (xdl_MakeBlock2CTileMap \<lparr>dg_ALayout = RowMajor, dg_BLayout = ColumnMajor, dg_CLayout = RowMajor, dg_BlockSize = 256,
      dg_MPerBlock = 2, dg_NPerBlock = 2, dg_K0PerBlock = 1, dg_K1 = 2\<rparr> \<lparr>nd_len0 = 4, nd_len1 = 6, nd_stride0 = 6, nd_stride1 = 1\<rparr> 2 1)\<rparr> = Some f
          \<and> bij_betw f {0..<launch_grid_size \<lparr>launch_grid_size = 6, launch_block_size = 256, launch_has_main_k0_block_loop = True,
          launch_block_2_ctile_map = Some (xdl_MakeBlock2CTileMap \<lparr>dg_ALayout = RowMajor, dg_BLayout = ColumnMajor, dg_CLayout = RowMajor, dg_BlockSize = 256,
      dg_MPerBlock = 2, dg_NPerBlock = 2, dg_K0PerBlock = 1, dg_K1 = 2\<rparr> \<lparr>nd_len0 = 4, nd_len1 = 6, nd_stride0 = 6, nd_stride1 = 1\<rparr> 2 1)\<rparr>} ({0..<4 div 2} \<times> {0..<6 div 2}))"
  using dg_launch_block_map_bij[OF _ _ _ _ _ dg_example_argument dg_example_run]
  by (simp add: dg_cfg_ok_def dg_example_argument dg_example_run)

lemma inj_on_image_disjoint:
  "inj_on g C \<Longrightarrow> A \<subseteq> C \<Longrightarrow> B \<subseteq> C \<Longrightarrow> A \<inter> B = {} \<Longrightarrow> g ` A \<inter> g ` B = {}"
  by (simp flip: inj_on_image_Int)

text \<open>C17: the C tiles of the blocks of a launch cover the C matrix without overlap: with
  strides that keep the rows (row-major) or columns (column-major) of C apart, the offsets
  that different blocks write are disjoint and together they are every offset of C.  This is
  what makes the \<open>Set\<close> write mode of the output correct across blocks.\<close>

theorem dg_launch_c_tiles_partition:
  assumes cfg: "dg_cfg_ok cfg" and nn: "0 \<le> M" "0 \<le> N" and cl: "0 < M01" "0 < N01"
    and st: "dg_stride_ok (dg_CLayout cfg) M N StrideC"
    and arg: "dg_Argument cfg M N K StrideA StrideB StrideC M01 N01 = Inr arg"
    and run: "dg_Invoker_Run cfg arg = Inr l"
  shows "\<exists>f. launch_block_2_ctile_map l = Some f
           \<and> disjoint_family_on (\<lambda>b. nd_offset2 (c_grid_desc_m_n arg) ` set (dg_tile_elements cfg (f b)))
               {0..<launch_grid_size l}
           \<and> (\<Union>b\<in>{0..<launch_grid_size l}. nd_offset2 (c_grid_desc_m_n arg) ` set (dg_tile_elements cfg (f b)))
               = nd_offset2 (c_grid_desc_m_n arg) ` nd_box (c_grid_desc_m_n arg)"
proof -
  let ?c = "c_grid_desc_m_n arg" and ?M0 = "M div dg_MPerBlock cfg" and ?N0 = "N div dg_NPerBlock cfg"
  let ?D = "{0..<launch_grid_size l}" and ?T = "{0..<?M0} \<times> {0..<?N0}"
  obtain f where f: "launch_block_2_ctile_map l = Some f" and bij: "bij_betw f ?D ?T"
    using dg_launch_tile_map[OF cfg nn cl arg run] by blast
  have c: "?c = MakeCGridDescriptor_M_N cfg M N StrideC" using dg_launch_Inr(3)[OF arg run] .
  have wf: "nd_wf ?c" using naive_desc_of_layout_wf[OF st] by (simp add: c MakeCGridDescriptor_M_N_def)
  have "?M0 * dg_MPerBlock cfg = M" "?N0 * dg_NPerBlock cfg = N"
    using dg_launch_Inr(4,5)[OF arg run] by simp_all
  then have box: "nd_box ?c = (\<Union>t\<in>?T. set (dg_tile_elements cfg t))"
    using dg_tile_elements_cover[OF cfg, of ?M0 ?N0]
    by (simp add: c nd_box_def MakeCGridDescriptor_M_N_def)
  have sub: "set (dg_tile_elements cfg (f b)) \<subseteq> nd_box ?c" if "b \<in> ?D" for b
  proof -
    have "f b \<in> ?T" using bij_betw_apply[OF bij that] .
    then show ?thesis unfolding box by (rule UN_upper)
  qed
  have inj: "inj_on (nd_offset2 ?c) (nd_box ?c)" using wf by (simp add: nd_wf_def)
  have "disjoint_family_on (\<lambda>b. nd_offset2 ?c ` set (dg_tile_elements cfg (f b))) ?D"
  proof (unfold disjoint_family_on_def, intro ballI impI)
    fix b b' assume bb: "b \<in> ?D" "b' \<in> ?D" "b \<noteq> b'"
    have "f b \<noteq> f b'" using bij_betw_imp_inj_on[OF bij] bb by (metis inj_on_eq_iff)
    then show "nd_offset2 ?c ` set (dg_tile_elements cfg (f b)) \<inter> nd_offset2 ?c ` set (dg_tile_elements cfg (f b')) = {}"
      by (rule inj_on_image_disjoint[OF inj sub[OF bb(1)] sub[OF bb(2)] dg_tile_elements_disjoint[OF cfg]])
  qed
  moreover have "(\<Union>b\<in>?D. nd_offset2 ?c ` set (dg_tile_elements cfg (f b))) = nd_offset2 ?c ` nd_box ?c"
  proof -
    have "(\<Union>b\<in>?D. set (dg_tile_elements cfg (f b))) = (\<Union>t\<in>f ` ?D. set (dg_tile_elements cfg t))" by simp
    also have "\<dots> = nd_box ?c" using bij box by (simp add: bij_betw_def)
    finally show ?thesis by (simp flip: image_UN)
  qed
  ultimately show ?thesis using f by blast
qed

theorem dg_launch_c_tiles_partition_witness:
  "dg_cfg_ok \<lparr>dg_ALayout = RowMajor, dg_BLayout = ColumnMajor, dg_CLayout = RowMajor, dg_BlockSize = 256,
      dg_MPerBlock = 2, dg_NPerBlock = 2, dg_K0PerBlock = 1, dg_K1 = 2\<rparr> \<and> 0 \<le> (4::int) \<and> 0 \<le> (6::int) \<and> 0 < (2::int) \<and> 0 < (1::int)
   \<and> dg_stride_ok RowMajor 4 6 6
   \<and> dg_Argument \<lparr>dg_ALayout = RowMajor, dg_BLayout = ColumnMajor, dg_CLayout = RowMajor, dg_BlockSize = 256,
      dg_MPerBlock = 2, dg_NPerBlock = 2, dg_K0PerBlock = 1, dg_K1 = 2\<rparr> 4 6 8 8 8 6 2 1 = Inr \<lparr>a_grid_desc_k0_m_k1 = \<lparr>kd_K0 = 4, kd_X = 4, kd_K1 = 2,
            kd_base = \<lparr>nd_len0 = 4, nd_len1 = 8, nd_stride0 = 8, nd_stride1 = 1\<rparr>, kd_k_first = False\<rparr>,
          b_grid_desc_k0_n_k1 = \<lparr>kd_K0 = 4, kd_X = 6, kd_K1 = 2,
            kd_base = \<lparr>nd_len0 = 8, nd_len1 = 6, nd_stride0 = 1, nd_stride1 = 8\<rparr>, kd_k_first = True\<rparr>,
          c_grid_desc_m_n = \<lparr>nd_len0 = 4, nd_len1 = 6, nd_stride0 = 6, nd_stride1 = 1\<rparr>,
          block_2_ctile_map = Some (xdl_MakeBlock2CTileMap \<lparr>dg_ALayout = RowMajor, dg_BLayout = ColumnMajor, dg_CLayout = RowMajor, dg_BlockSize = 256,
      dg_MPerBlock = 2, dg_NPerBlock = 2, dg_K0PerBlock = 1, dg_K1 = 2\<rparr> \<lparr>nd_len0 = 4, nd_len1 = 6, nd_stride0 = 6, nd_stride1 = 1\<rparr> 2 1),
          arg_M01 = 2, arg_N01 = 1\<rparr>
   \<and> dg_Invoker_Run \<lparr>dg_ALayout = RowMajor, dg_BLayout = ColumnMajor, dg_CLayout = RowMajor, dg_BlockSize = 256,
      dg_MPerBlock = 2, dg_NPerBlock = 2, dg_K0PerBlock = 1, dg_K1 = 2\<rparr> \<lparr>a_grid_desc_k0_m_k1 = \<lparr>kd_K0 = 4, kd_X = 4, kd_K1 = 2,
            kd_base = \<lparr>nd_len0 = 4, nd_len1 = 8, nd_stride0 = 8, nd_stride1 = 1\<rparr>, kd_k_first = False\<rparr>,
          b_grid_desc_k0_n_k1 = \<lparr>kd_K0 = 4, kd_X = 6, kd_K1 = 2,
            kd_base = \<lparr>nd_len0 = 8, nd_len1 = 6, nd_stride0 = 1, nd_stride1 = 8\<rparr>, kd_k_first = True\<rparr>,
          c_grid_desc_m_n = \<lparr>nd_len0 = 4, nd_len1 = 6, nd_stride0 = 6, nd_stride1 = 1\<rparr>,
          block_2_ctile_map = Some (xdl_MakeBlock2CTileMap \<lparr>dg_ALayout = RowMajor, dg_BLayout = ColumnMajor, dg_CLayout = RowMajor, dg_BlockSize = 256,
      dg_MPerBlock = 2, dg_NPerBlock = 2, dg_K0PerBlock = 1, dg_K1 = 2\<rparr> \<lparr>nd_len0 = 4, nd_len1 = 6, nd_stride0 = 6, nd_stride1 = 1\<rparr> 2 1),
          arg_M01 = 2, arg_N01 = 1\<rparr> = Inr \<lparr>launch_grid_size = 6, launch_block_size = 256, launch_has_main_k0_block_loop = True,
          launch_block_2_ctile_map = Some (xdl_MakeBlock2CTileMap \<lparr>dg_ALayout = RowMajor, dg_BLayout = ColumnMajor, dg_CLayout = RowMajor, dg_BlockSize = 256,
      dg_MPerBlock = 2, dg_NPerBlock = 2, dg_K0PerBlock = 1, dg_K1 = 2\<rparr> \<lparr>nd_len0 = 4, nd_len1 = 6, nd_stride0 = 6, nd_stride1 = 1\<rparr> 2 1)\<rparr>
   \<and> (\<exists>f. launch_block_2_ctile_map \<lparr>launch_grid_size = 6, launch_block_size = 256, launch_has_main_k0_block_loop = True,
          launch_block_2_ctile_map = Some (xdl_MakeBlock2CTileMap \<lparr>dg_ALayout = RowMajor, dg_BLayout = ColumnMajor, dg_CLayout = RowMajor, dg_BlockSize = 256,
      dg_MPerBlock = 2, dg_NPerBlock = 2, dg_K0PerBlock = 1, dg_K1 = 2\<rparr> \<lparr>nd_len0 = 4, nd_len1 = 6, nd_stride0 = 6, nd_stride1 = 1\<rparr> 2 1)\<rparr> = Some f
          \<and> disjoint_family_on (\<lambda>b. nd_offset2 \<lparr>nd_len0 = 4, nd_len1 = 6, nd_stride0 = 6, nd_stride1 = 1\<rparr> ` set (dg_tile_elements \<lparr>dg_ALayout = RowMajor, dg_BLayout = ColumnMajor, dg_CLayout = RowMajor, dg_BlockSize = 256,
      dg_MPerBlock = 2, dg_NPerBlock = 2, dg_K0PerBlock = 1, dg_K1 = 2\<rparr> (f b)))
              {0..<launch_grid_size \<lparr>launch_grid_size = 6, launch_block_size = 256, launch_has_main_k0_block_loop = True,
          launch_block_2_ctile_map = Some (xdl_MakeBlock2CTileMap \<lparr>dg_ALayout = RowMajor, dg_BLayout = ColumnMajor, dg_CLayout = RowMajor, dg_BlockSize = 256,
      dg_MPerBlock = 2, dg_NPerBlock = 2, dg_K0PerBlock = 1, dg_K1 = 2\<rparr> \<lparr>nd_len0 = 4, nd_len1 = 6, nd_stride0 = 6, nd_stride1 = 1\<rparr> 2 1)\<rparr>}
          \<and> (\<Union>b\<in>{0..<launch_grid_size \<lparr>launch_grid_size = 6, launch_block_size = 256, launch_has_main_k0_block_loop = True,
          launch_block_2_ctile_map = Some (xdl_MakeBlock2CTileMap \<lparr>dg_ALayout = RowMajor, dg_BLayout = ColumnMajor, dg_CLayout = RowMajor, dg_BlockSize = 256,
      dg_MPerBlock = 2, dg_NPerBlock = 2, dg_K0PerBlock = 1, dg_K1 = 2\<rparr> \<lparr>nd_len0 = 4, nd_len1 = 6, nd_stride0 = 6, nd_stride1 = 1\<rparr> 2 1)\<rparr>}. nd_offset2 \<lparr>nd_len0 = 4, nd_len1 = 6, nd_stride0 = 6, nd_stride1 = 1\<rparr> ` set (dg_tile_elements \<lparr>dg_ALayout = RowMajor, dg_BLayout = ColumnMajor, dg_CLayout = RowMajor, dg_BlockSize = 256,
      dg_MPerBlock = 2, dg_NPerBlock = 2, dg_K0PerBlock = 1, dg_K1 = 2\<rparr> (f b)))
              = nd_offset2 \<lparr>nd_len0 = 4, nd_len1 = 6, nd_stride0 = 6, nd_stride1 = 1\<rparr> ` nd_box \<lparr>nd_len0 = 4, nd_len1 = 6, nd_stride0 = 6, nd_stride1 = 1\<rparr>)"
  using dg_launch_c_tiles_partition[OF _ _ _ _ _ _ dg_example_argument dg_example_run]
  by (simp add: dg_cfg_ok_def dg_stride_ok_def dg_example_argument dg_example_run)

text \<open>C18: with non-overlapping strides, the descriptors an argument holds are well formed:
  the C descriptor and the naive descriptors under A and B are injective on their boxes and
  stay inside their element spaces, and the K0 x M x K1 and K0 x N x K1 views of A and B are
  bijective re-indexings of the M x K and K x N matrices.\<close>

theorem dg_Argument_descriptors_wf:
  assumes "dg_Argument cfg M N K StrideA StrideB StrideC M01 N01 = Inr arg"
    and "0 < dg_K1 cfg" "0 \<le> K"
    and "dg_stride_ok (dg_ALayout cfg) M K StrideA" "dg_stride_ok (dg_BLayout cfg) K N StrideB"
    and "dg_stride_ok (dg_CLayout cfg) M N StrideC"
  shows "kd_wf (a_grid_desc_k0_m_k1 arg) \<and> kd_wf (b_grid_desc_k0_n_k1 arg) \<and> nd_wf (c_grid_desc_m_n arg)"
proof -
  obtain a b where ab: "MakeAGridDescriptor_K0_M_K1 cfg M K StrideA = Inr a"
    "MakeBGridDescriptor_K0_N_K1 cfg K N StrideB = Inr b" and argeq:
    "arg = \<lparr>a_grid_desc_k0_m_k1 = a, b_grid_desc_k0_n_k1 = b,
            c_grid_desc_m_n = MakeCGridDescriptor_M_N cfg M N StrideC,
            block_2_ctile_map =
              (if xdl_CheckValidity cfg a b (MakeCGridDescriptor_M_N cfg M N StrideC) M01 N01
               then Some (xdl_MakeBlock2CTileMap cfg (MakeCGridDescriptor_M_N cfg M N StrideC) M01 N01) else None),
            arg_M01 = M01, arg_N01 = N01\<rparr>"
    using dg_Argument_Inr[OF assms(1)] by blast
  show ?thesis
    using MakeAGridDescriptor_K0_M_K1_wf[OF ab(1) assms(2,3,4)] MakeBGridDescriptor_K0_N_K1_wf[OF ab(2) assms(2,3,5)]
          naive_desc_of_layout_wf[OF assms(6)]
    by (simp add: argeq MakeCGridDescriptor_M_N_def)
qed

theorem dg_Argument_descriptors_wf_witness:
  "dg_Argument \<lparr>dg_ALayout = RowMajor, dg_BLayout = ColumnMajor, dg_CLayout = RowMajor, dg_BlockSize = 256,
      dg_MPerBlock = 2, dg_NPerBlock = 2, dg_K0PerBlock = 1, dg_K1 = 2\<rparr> 4 6 8 8 8 6 2 1 = Inr \<lparr>a_grid_desc_k0_m_k1 = \<lparr>kd_K0 = 4, kd_X = 4, kd_K1 = 2,
            kd_base = \<lparr>nd_len0 = 4, nd_len1 = 8, nd_stride0 = 8, nd_stride1 = 1\<rparr>, kd_k_first = False\<rparr>,
          b_grid_desc_k0_n_k1 = \<lparr>kd_K0 = 4, kd_X = 6, kd_K1 = 2,
            kd_base = \<lparr>nd_len0 = 8, nd_len1 = 6, nd_stride0 = 1, nd_stride1 = 8\<rparr>, kd_k_first = True\<rparr>,
          c_grid_desc_m_n = \<lparr>nd_len0 = 4, nd_len1 = 6, nd_stride0 = 6, nd_stride1 = 1\<rparr>,
          block_2_ctile_map = Some (xdl_MakeBlock2CTileMap \<lparr>dg_ALayout = RowMajor, dg_BLayout = ColumnMajor, dg_CLayout = RowMajor, dg_BlockSize = 256,
      dg_MPerBlock = 2, dg_NPerBlock = 2, dg_K0PerBlock = 1, dg_K1 = 2\<rparr> \<lparr>nd_len0 = 4, nd_len1 = 6, nd_stride0 = 6, nd_stride1 = 1\<rparr> 2 1),
          arg_M01 = 2, arg_N01 = 1\<rparr>
   \<and> 0 < (2::int) \<and> 0 \<le> (8::int)
   \<and> dg_stride_ok RowMajor 4 8 8 \<and> dg_stride_ok ColumnMajor 8 6 8 \<and> dg_stride_ok RowMajor 4 6 6
   \<and> kd_wf \<lparr>kd_K0 = 4, kd_X = 4, kd_K1 = 2,
            kd_base = \<lparr>nd_len0 = 4, nd_len1 = 8, nd_stride0 = 8, nd_stride1 = 1\<rparr>, kd_k_first = False\<rparr>
   \<and> kd_wf \<lparr>kd_K0 = 4, kd_X = 6, kd_K1 = 2,
            kd_base = \<lparr>nd_len0 = 8, nd_len1 = 6, nd_stride0 = 1, nd_stride1 = 8\<rparr>, kd_k_first = True\<rparr>
   \<and> nd_wf \<lparr>nd_len0 = 4, nd_len1 = 6, nd_stride0 = 6, nd_stride1 = 1\<rparr>"
  using dg_Argument_descriptors_wf[OF dg_example_argument]
  by (simp add: dg_stride_ok_def dg_example_argument)

end
