(* ===== verification/ConvDrivers.thy ===== *)
theory ConvDrivers
  imports GridwiseGemm "HOL-Library.Signed_Division" "HOL-Library.Multiset"
begin

text \<open>The host-side convolution drivers: the argument handling and output-size computation
  of \<^verbatim>\<open>src/driver/conv_driver_v2_olc.cpp\<close>, the host layout conversions of
  \<^verbatim>\<open>device_static_convolution_forward_implicit_gemm_v5r1_nchw_kcyx_nkhw.hpp\<close> (NCHW to
  NC0HWC1 before the kernel, NK0HWK1 back to NKHW after it), and the padding of the GEMM M
  dimension in \<^verbatim>\<open>device_convolution_forward_implicit_gemm_v4r4r4_xdlops_nhwc_kyxc_nhwk.hpp\<close>.
  The command-line arguments are the values \<^verbatim>\<open>atoi\<close> returns for them; the host
  \<^verbatim>\<open>Tensor\<close> (its packed \<^verbatim>\<open>HostTensorDescriptor\<close> and its element access) and
  \<^verbatim>\<open>make_ParallelTensorFunctor\<close>, whose header is not under \<^verbatim>\<open>src/\<close>, are modelled from
  the specification: a tensor is a packed row-major array, and the parallel functor applies
  its body once to every index of the box, in some order.\<close>

section \<open>conv_driver_v2_olc: arguments and output lengths\<close>

datatype ConvTensorLayout = NCHW | NHWC

datatype conv_driver_error = WrongArgumentCount

record conv_problem =
  cp_layout :: ConvTensorLayout
  cp_do_verification :: bool
  cp_init_method :: int
  cp_do_log :: bool
  cp_nrepeat :: int
  cp_N :: index_t
  cp_K :: index_t
  cp_C :: index_t
  cp_Y :: index_t
  cp_X :: index_t
  cp_Hi :: index_t
  cp_Wi :: index_t
  cp_conv_strides :: "index_t \<times> index_t"
  cp_conv_dilations :: "index_t \<times> index_t"
  cp_in_left_pads :: "index_t \<times> index_t"
  cp_in_right_pads :: "index_t \<times> index_t"

text \<open>\<open>argv ! i\<close> is \<^verbatim>\<open>atoi(argv[i])\<close>; a wrong count prints the usage and exits.\<close>

definition conv_driver_parse :: "int list \<Rightarrow> conv_driver_error + conv_problem" where
  "conv_driver_parse argv =
     (if length argv \<noteq> 21 then Inl WrongArgumentCount
      else Inr \<lparr>cp_layout = (if argv ! 1 = 0 then NCHW else NHWC),
                cp_do_verification = (argv ! 2 \<noteq> 0), cp_init_method = argv ! 3,
                cp_do_log = (argv ! 4 \<noteq> 0), cp_nrepeat = argv ! 5,
                cp_N = argv ! 6, cp_K = argv ! 7, cp_C = argv ! 8, cp_Y = argv ! 9, cp_X = argv ! 10,
                cp_Hi = argv ! 11, cp_Wi = argv ! 12,
                cp_conv_strides = (argv ! 13, argv ! 14), cp_conv_dilations = (argv ! 15, argv ! 16),
                cp_in_left_pads = (argv ! 17, argv ! 18), cp_in_right_pads = (argv ! 19, argv ! 20)\<rparr>)"

text \<open>One output length: \<^verbatim>\<open>(Hi + LeftPad + RightPad - YEff) / Stride + 1\<close>, with C's
  truncating division.\<close>

definition conv_out_size :: "index_t \<Rightarrow> index_t \<Rightarrow> index_t \<Rightarrow> index_t \<Rightarrow> index_t \<Rightarrow> index_t \<Rightarrow> index_t" where
  "conv_out_size Hi left_pad right_pad Y dilation stride =
     (let YEff = (Y - 1) * dilation + 1
      in (Hi + left_pad + right_pad - YEff) sdiv stride + 1)"

definition conv_out_lengths :: "conv_problem \<Rightarrow> index_t \<times> index_t" where
  "conv_out_lengths p =
     (conv_out_size (cp_Hi p) (fst (cp_in_left_pads p)) (fst (cp_in_right_pads p)) (cp_Y p)
        (fst (cp_conv_dilations p)) (fst (cp_conv_strides p)),
      conv_out_size (cp_Wi p) (snd (cp_in_left_pads p)) (snd (cp_in_right_pads p)) (cp_X p)
        (snd (cp_conv_dilations p)) (snd (cp_conv_strides p)))"

definition conv_tensor_lengths :: "conv_problem \<Rightarrow> index_t list \<times> index_t list \<times> index_t list" where
  "conv_tensor_lengths p =
     (let (Ho, Wo) = conv_out_lengths p
      in case cp_layout p of
           NCHW \<Rightarrow> ([cp_N p, cp_C p, cp_Hi p, cp_Wi p], [cp_K p, cp_C p, cp_Y p, cp_X p], [cp_N p, cp_K p, Ho, Wo])
         | NHWC \<Rightarrow> ([cp_N p, cp_Hi p, cp_Wi p, cp_C p], [cp_K p, cp_Y p, cp_X p, cp_C p], [cp_N p, Ho, Wo, cp_K p]))"

section \<open>v5r1: host layout conversions\<close>

record 'a host_tensor =
  ht_lengths :: "nat list"
  ht_data :: "nat \<Rightarrow> 'a"

fun host_strides :: "nat list \<Rightarrow> nat list" where
  "host_strides [] = []"
| "host_strides (l # ls) = prod_list ls # host_strides ls"

definition host_offset :: "nat list \<Rightarrow> nat list \<Rightarrow> nat" where
  "host_offset lens idx = sum_list (map2 (*) idx (host_strides lens))"

definition tensor_get :: "'a host_tensor \<Rightarrow> nat list \<Rightarrow> 'a" where
  "tensor_get t idx = ht_data t (host_offset (ht_lengths t) idx)"

definition tensor_set :: "'a host_tensor \<Rightarrow> nat list \<Rightarrow> 'a \<Rightarrow> 'a host_tensor" where
  "tensor_set t idx v = t\<lparr>ht_data := (ht_data t)(host_offset (ht_lengths t) idx := v)\<rparr>"

definition make_ParallelTensorFunctor :: "('s \<Rightarrow> nat list \<Rightarrow> 's) \<Rightarrow> nat list \<Rightarrow> 's \<Rightarrow> 's" where
  "make_ParallelTensorFunctor f lens s = foldl f s (ford lens)"

text \<open>The bodies of the three functors (lines 99--107 and 185--188); the functor's index is
  the list of its arguments.\<close>

definition f_nchw2nc0hwc1 :: "nat \<Rightarrow> 'a host_tensor \<Rightarrow> 'a host_tensor \<Rightarrow> nat list \<Rightarrow> 'a host_tensor" where
  "f_nchw2nc0hwc1 InWeiVectorSize in_n_c_hi_wi in_n_c0_hi_wi_c1 idx =
     (case idx of
        [n, hi, wi, c] \<Rightarrow>
          tensor_set in_n_c0_hi_wi_c1 [n, c div InWeiVectorSize, hi, wi, c mod InWeiVectorSize]
            (tensor_get in_n_c_hi_wi [n, c, hi, wi])
      | _ \<Rightarrow> in_n_c0_hi_wi_c1)"

definition f_kcyx2kc0yxc1 :: "nat \<Rightarrow> 'a host_tensor \<Rightarrow> 'a host_tensor \<Rightarrow> nat list \<Rightarrow> 'a host_tensor" where
  "f_kcyx2kc0yxc1 InWeiVectorSize wei_k_c_y_x wei_k_c0_y_x_c1 idx =
     (case idx of
        [k, y, x, c] \<Rightarrow>
          tensor_set wei_k_c0_y_x_c1 [k, c div InWeiVectorSize, y, x, c mod InWeiVectorSize]
            (tensor_get wei_k_c_y_x [k, c, y, x])
      | _ \<Rightarrow> wei_k_c0_y_x_c1)"

definition f_nk0hwk1_to_nkhw :: "nat \<Rightarrow> 'a host_tensor \<Rightarrow> 'a host_tensor \<Rightarrow> nat list \<Rightarrow> 'a host_tensor" where
  "f_nk0hwk1_to_nkhw InWeiVectorSize out_n_k0_ho_wo_k1 out_n_k_ho_wo idx =
     (case idx of
        [n, k, ho, wo] \<Rightarrow>
          tensor_set out_n_k_ho_wo [n, k, ho, wo]
            (tensor_get out_n_k0_ho_wo_k1 [n, k div InWeiVectorSize, ho, wo, k mod InWeiVectorSize])
      | _ \<Rightarrow> out_n_k_ho_wo)"

text \<open>The lengths the driver reads from its template arguments (lines 45--62).\<close>

record v5r1_dims =
  v5_N :: nat
  v5_K :: nat
  v5_C :: nat
  v5_Hi :: nat
  v5_Wi :: nat
  v5_Ho :: nat
  v5_Wo :: nat
  v5_Y :: nat
  v5_X :: nat

definition v5r1_make_dims :: "nat list \<Rightarrow> nat list \<Rightarrow> nat list \<Rightarrow> v5r1_dims" where
  "v5r1_make_dims InLengths WeiLengths OutLengths =
     \<lparr>v5_N = OutLengths ! 0, v5_K = OutLengths ! 1, v5_C = WeiLengths ! 1,
      v5_Hi = InLengths ! 2, v5_Wi = InLengths ! 3, v5_Ho = OutLengths ! 2, v5_Wo = OutLengths ! 3,
      v5_Y = WeiLengths ! 2, v5_X = WeiLengths ! 3\<rparr>"

text \<open>Lines 92--110: the vectorised input and weight tensors (their initial contents are
  whatever the allocation holds) and the two conversions into them.\<close>

definition v5r1_pack_input ::
  "nat \<Rightarrow> v5r1_dims \<Rightarrow> 'a host_tensor \<Rightarrow> (nat \<Rightarrow> 'a) \<Rightarrow> 'a host_tensor" where
  "v5r1_pack_input InWeiVectorSize d in_n_c_hi_wi init =
     make_ParallelTensorFunctor (f_nchw2nc0hwc1 InWeiVectorSize in_n_c_hi_wi)
       [v5_N d, v5_Hi d, v5_Wi d, v5_C d]
       \<lparr>ht_lengths = [v5_N d, v5_C d div InWeiVectorSize, v5_Hi d, v5_Wi d, InWeiVectorSize], ht_data = init\<rparr>"

definition v5r1_pack_weight ::
  "nat \<Rightarrow> v5r1_dims \<Rightarrow> 'a host_tensor \<Rightarrow> (nat \<Rightarrow> 'a) \<Rightarrow> 'a host_tensor" where
  "v5r1_pack_weight InWeiVectorSize d wei_k_c_y_x init =
     make_ParallelTensorFunctor (f_kcyx2kc0yxc1 InWeiVectorSize wei_k_c_y_x)
       [v5_K d, v5_Y d, v5_X d, v5_C d]
       \<lparr>ht_lengths = [v5_K d, v5_C d div InWeiVectorSize, v5_Y d, v5_X d, InWeiVectorSize], ht_data = init\<rparr>"

text \<open>Lines 185--190: the conversion of the kernel's NK0HWK1 output back to NKHW.\<close>

definition v5r1_unpack_output ::
  "nat \<Rightarrow> v5r1_dims \<Rightarrow> 'a host_tensor \<Rightarrow> 'a host_tensor \<Rightarrow> 'a host_tensor" where
  "v5r1_unpack_output InWeiVectorSize d out_n_k0_ho_wo_k1 out_n_k_ho_wo =
     make_ParallelTensorFunctor (f_nk0hwk1_to_nkhw InWeiVectorSize out_n_k0_ho_wo_k1)
       [v5_N d, v5_K d, v5_Ho d, v5_Wo d] out_n_k_ho_wo"

section \<open>v4r4r4: padding GemmM to a multiple of GemmMPerBlock\<close>

text \<open>A right-pad transform (from the specification): the upper dimension has length
  \<open>low + pad\<close>, an index is passed through unchanged and is valid iff it is below \<open>low\<close>.\<close>

record right_pad =
  rp_low_length :: index_t
  rp_right_pad :: index_t

definition make_right_pad_transform :: "index_t \<Rightarrow> index_t \<Rightarrow> right_pad" where
  "make_right_pad_transform low pad = \<lparr>rp_low_length = low, rp_right_pad = pad\<rparr>"

definition rp_upper_length :: "right_pad \<Rightarrow> index_t" where
  "rp_upper_length r = rp_low_length r + rp_right_pad r"

definition rp_valid :: "right_pad \<Rightarrow> index_t \<Rightarrow> bool" where
  "rp_valid r i \<longleftrightarrow> i < rp_low_length r"

text \<open>The padded views of the driver (lines 427--439 and 488--497): the A matrix
  GemmK0 x GemmM x GemmK1 and the C matrix GemmM x GemmN, with GemmM right-padded by
  \<open>GemmMPad\<close>; GemmK0, GemmK1 and GemmN pass through.\<close>

record v4r4r4_descs =
  in_gemmk0 :: index_t
  in_gemmm :: right_pad
  in_gemmk1 :: index_t
  out_gemmm :: right_pad
  out_gemmn :: index_t

definition v4r4r4_GemmMPad :: "index_t \<Rightarrow> index_t \<Rightarrow> index_t" where
  "v4r4r4_GemmMPad GemmMRaw GemmMPerBlock = integer_least_multiple GemmMRaw GemmMPerBlock - GemmMRaw"

definition v4r4r4_pad_descs :: "index_t \<Rightarrow> index_t \<Rightarrow> index_t \<Rightarrow> index_t \<Rightarrow> index_t \<Rightarrow> v4r4r4_descs" where
  "v4r4r4_pad_descs GemmMPerBlock GemmK0 GemmMRaw GemmK1 GemmN =
     (let GemmMPad = v4r4r4_GemmMPad GemmMRaw GemmMPerBlock
      in \<lparr>in_gemmk0 = GemmK0, in_gemmm = make_right_pad_transform GemmMRaw GemmMPad, in_gemmk1 = GemmK1,
          out_gemmm = make_right_pad_transform GemmMRaw GemmMPad, out_gemmn = GemmN\<rparr>)"

section \<open>Host tensors and folds of writes\<close>

lemma host_offset_Nil [simp]: "host_offset [] idx = 0" "host_offset lens [] = 0"
  by (simp_all add: host_offset_def)

lemma host_offset_Cons [simp]:
  "host_offset (l # ls) (i # is) = i * prod_list ls + host_offset ls is"
  by (simp add: host_offset_def)

lemma host_offset_lt: "in_box lens idx \<Longrightarrow> host_offset lens idx < prod_list lens"
proof (induction lens idx rule: in_box.induct)
  case (2 l ls i xs)
  then have "host_offset ls xs < prod_list ls" "i < l" by simp_all
  then have "i * prod_list ls + host_offset ls xs < (i + 1) * prod_list ls" by simp
  also have "\<dots> \<le> l * prod_list ls" using \<open>i < l\<close> by (intro mult_right_mono) simp_all
  finally show ?case by simp
qed simp_all

lemma host_offset_inj:
  "in_box lens a \<Longrightarrow> in_box lens b \<Longrightarrow> host_offset lens a = host_offset lens b \<Longrightarrow> a = b"
proof (induction lens a arbitrary: b rule: in_box.induct)
  case (2 l ls i xs)
  obtain j ys where b: "b = j # ys" "j < l" "in_box ls ys" using "2.prems"(2) by (cases b) auto
  have lt: "host_offset ls xs < prod_list ls" "host_offset ls ys < prod_list ls"
    using "2.prems"(1) b(3) by (simp_all add: host_offset_lt)
  have eq: "i * prod_list ls + host_offset ls xs = j * prod_list ls + host_offset ls ys"
    using "2.prems"(3) b(1) by simp
  then have "(i * prod_list ls + host_offset ls xs) div prod_list ls = (j * prod_list ls + host_offset ls ys) div prod_list ls"
    by simp
  then have "i = j" using lt by simp
  then have "host_offset ls xs = host_offset ls ys" using eq by simp
  then show ?case using "2.IH" "2.prems"(1) b \<open>i = j\<close> by simp
qed (auto elim: in_box.elims)

lemma inj_on_host_offset: "inj_on (host_offset lens) {idx. in_box lens idx}"
  by (auto intro: inj_onI host_offset_inj)

text \<open>A fold whose every step is one \<open>tensor_set\<close> keeps the lengths and is a fold of
  pointwise writes on the data.\<close>

lemma foldl_tensor_set:
  assumes "\<And>s x. x \<in> set xs \<Longrightarrow> f s x = tensor_set s (g x) (v x)"
  shows "ht_lengths (foldl f s xs) = ht_lengths s
         \<and> ht_data (foldl f s xs) = foldl (\<lambda>m x. m(host_offset (ht_lengths s) (g x) := v x)) (ht_data s) xs"
  using assms by (induction xs arbitrary: s) (simp_all add: tensor_set_def)

lemma foldl_upd_at:
  assumes "inj_on off (set xs)" "x \<in> set xs"
  shows "foldl (\<lambda>m x. m(off x := val x)) m0 xs (off x) = val x"
  by (rule foldl_write_at[of x]) (use assms in \<open>auto simp: inj_on_def\<close>)

lemma foldl_upd_outside:
  assumes "p \<notin> off ` set xs"
  shows "foldl (\<lambda>m x. m(off x := val x)) m0 xs p = m0 p"
  using assms by (intro foldl_write_other) auto

lemma foldl_upd_perm:
  assumes "inj_on off (set xs)" "mset xs = mset ys"
  shows "foldl (\<lambda>m x. m(off x := val x)) m0 xs = foldl (\<lambda>m x. m(off x := val x)) m0 ys"
proof
  fix p
  have set: "set ys = set xs" using assms(2) by (rule mset_eq_setD[symmetric])
  show "foldl (\<lambda>m x. m(off x := val x)) m0 xs p = foldl (\<lambda>m x. m(off x := val x)) m0 ys p"
  proof (cases "p \<in> off ` set xs")
    case True
    then obtain x where x: "x \<in> set xs" "p = off x" by blast
    then show ?thesis using assms(1) set foldl_upd_at[of off xs x val m0] foldl_upd_at[of off ys x val m0] by simp
  next
    case False
    then show ?thesis using set foldl_upd_outside[of p off xs val m0] foldl_upd_outside[of p off ys val m0] by simp
  qed
qed

lemma ford4_elem:
  "x \<in> set (ford [a, b, c, e]) \<longleftrightarrow> (\<exists>i j k l. x = [i, j, k, l] \<and> i < a \<and> j < b \<and> k < c \<and> l < e)"
  unfolding set_ford mem_Collect_eq by (auto elim!: in_box.elims)

section \<open>The v5r1 conversions\<close>

lemma foldl_tensor_set_get:
  assumes f: "\<And>s x. x \<in> set xs \<Longrightarrow> f s x = tensor_set s (g x) (v x)"
    and inj: "inj_on (\<lambda>x. host_offset (ht_lengths s) (g x)) (set xs)" and x: "x \<in> set xs"
  shows "tensor_get (foldl f s xs) (g x) = v x"
proof -
  note fs = foldl_tensor_set[of xs f g v s, OF f]
  show ?thesis
    using foldl_upd_at[OF inj x, of v "ht_data s"] fs by (simp add: tensor_get_def)
qed

lemma f_nchw2nc0hwc1_4 [simp]:
  "f_nchw2nc0hwc1 V t s [n, hi, wi, c] = tensor_set s [n, c div V, hi, wi, c mod V] (tensor_get t [n, c, hi, wi])"
  by (simp add: f_nchw2nc0hwc1_def)

lemma f_nk0hwk1_to_nkhw_4 [simp]:
  "f_nk0hwk1_to_nkhw V ot s [n, k, ho, wo] = tensor_set s [n, k, ho, wo] (tensor_get ot [n, k div V, ho, wo, k mod V])"
  by (simp add: f_nk0hwk1_to_nkhw_def)

lemma pack_step:
  "x \<in> set (ford [a, b, e, C]) \<Longrightarrow>
     f_nchw2nc0hwc1 V t s x = tensor_set s [x ! 0, x ! 3 div V, x ! 1, x ! 2, x ! 3 mod V] (tensor_get t [x ! 0, x ! 3, x ! 1, x ! 2])"
  by (auto simp: ford4_elem simp del: ford.simps)

lemma unpack_step:
  "x \<in> set (ford [a, b, e, C]) \<Longrightarrow>
     f_nk0hwk1_to_nkhw V ot s x = tensor_set s x (tensor_get ot [x ! 0, x ! 1 div V, x ! 2, x ! 3, x ! 1 mod V])"
  by (auto simp: ford4_elem simp del: ford.simps)

lemma div_mod_lt_dvd:
  fixes c C V :: nat
  assumes "0 < V" "V dvd C" "c < C"
  shows "c div V < C div V"
  using assms by (auto simp: less_mult_imp_div_less elim!: dvdE)

lemma pack_index_inj:
  fixes V :: nat
  assumes "0 < V"
  shows "inj_on (\<lambda>x. [x ! 0, x ! 3 div V, x ! 1, x ! 2, x ! 3 mod V]) (set (ford [a, b, e, C]))"
proof (rule inj_onI)
  fix x y assume "x \<in> set (ford [a, b, e, C])" "y \<in> set (ford [a, b, e, C])"
    and eq: "[x ! 0, x ! 3 div V, x ! 1, x ! 2, x ! 3 mod V] = [y ! 0, y ! 3 div V, y ! 1, y ! 2, y ! 3 mod V]"
  then obtain i j k l i' j' k' l' where "x = [i, j, k, l]" "y = [i', j', k', l']" by (auto simp: ford4_elem)
  moreover have "l = l'"
  proof -
    have "l div V = l' div V" "l mod V = l' mod V" using eq \<open>x = [i, j, k, l]\<close> \<open>y = [i', j', k', l']\<close> by simp_all
    then show ?thesis by (metis div_mult_mod_eq)
  qed
  ultimately show "x = y" using eq by simp
qed

lemma pack_index_in_box:
  fixes V :: nat
  assumes "0 < V" "V dvd C" "x \<in> set (ford [N, Hi, Wi, C])"
  shows "in_box [N, C div V, Hi, Wi, V] [x ! 0, x ! 3 div V, x ! 1, x ! 2, x ! 3 mod V]"
  using assms div_mod_lt_dvd[OF assms(1,2)] by (auto simp: ford4_elem)

lemma v5r1_pack_input_lengths:
  "ht_lengths (v5r1_pack_input V d t init) = [v5_N d, v5_C d div V, v5_Hi d, v5_Wi d, V]"
  using foldl_tensor_set[of "ford [v5_N d, v5_Hi d, v5_Wi d, v5_C d]" "f_nchw2nc0hwc1 V t"
      "\<lambda>x. [x ! 0, x ! 3 div V, x ! 1, x ! 2, x ! 3 mod V]" "\<lambda>x. tensor_get t [x ! 0, x ! 3, x ! 1, x ! 2]"
      "\<lparr>ht_lengths = [v5_N d, v5_C d div V, v5_Hi d, v5_Wi d, V], ht_data = init\<rparr>", OF pack_step]
  by (simp add: v5r1_pack_input_def make_ParallelTensorFunctor_def del: ford.simps)

lemma pack_offset_inj:
  fixes V :: nat
  assumes "0 < V" "V dvd v5_C d"
  shows "inj_on (\<lambda>x. host_offset [v5_N d, v5_C d div V, v5_Hi d, v5_Wi d, V] [x ! 0, x ! 3 div V, x ! 1, x ! 2, x ! 3 mod V])
           (set (ford [v5_N d, v5_Hi d, v5_Wi d, v5_C d]))"
proof (rule inj_onI)
  fix x y assume xy: "x \<in> set (ford [v5_N d, v5_Hi d, v5_Wi d, v5_C d])" "y \<in> set (ford [v5_N d, v5_Hi d, v5_Wi d, v5_C d])"
    and eq: "host_offset [v5_N d, v5_C d div V, v5_Hi d, v5_Wi d, V] [x ! 0, x ! 3 div V, x ! 1, x ! 2, x ! 3 mod V]
           = host_offset [v5_N d, v5_C d div V, v5_Hi d, v5_Wi d, V] [y ! 0, y ! 3 div V, y ! 1, y ! 2, y ! 3 mod V]"
  have "[x ! 0, x ! 3 div V, x ! 1, x ! 2, x ! 3 mod V] = [y ! 0, y ! 3 div V, y ! 1, y ! 2, y ! 3 mod V]"
    using host_offset_inj[OF pack_index_in_box[OF assms xy(1)] pack_index_in_box[OF assms xy(2)] eq] .
  then show "x = y" using inj_onD[OF pack_index_inj[OF assms(1)] _ xy] by blast
qed

lemma v5r1_pack_input_get:
  fixes V :: nat
  assumes "0 < V" "V dvd v5_C d" "in_box [v5_N d, v5_Hi d, v5_Wi d, v5_C d] [n, hi, wi, c]"
  shows "tensor_get (v5r1_pack_input V d t init) [n, c div V, hi, wi, c mod V] = tensor_get t [n, c, hi, wi]"
proof -
  have x: "[n, hi, wi, c] \<in> set (ford [v5_N d, v5_Hi d, v5_Wi d, v5_C d])" using assms(3) by (simp only: set_ford mem_Collect_eq)
  show ?thesis
    using foldl_tensor_set_get[where f = "f_nchw2nc0hwc1 V t" and g = "\<lambda>x. [x ! 0, x ! 3 div V, x ! 1, x ! 2, x ! 3 mod V]"
        and v = "\<lambda>x. tensor_get t [x ! 0, x ! 3, x ! 1, x ! 2]" and xs = "ford [v5_N d, v5_Hi d, v5_Wi d, v5_C d]",
        OF pack_step _ x] pack_offset_inj[OF assms(1,2)]
    by (simp add: v5r1_pack_input_def make_ParallelTensorFunctor_def del: ford.simps)
qed

lemma v5r1_unpack_output_get:
  assumes "ht_lengths out = [v5_N d, v5_K d, v5_Ho d, v5_Wo d]" "in_box [v5_N d, v5_K d, v5_Ho d, v5_Wo d] idx"
  shows "tensor_get (v5r1_unpack_output V d ot out) idx = tensor_get ot [idx ! 0, idx ! 1 div V, idx ! 2, idx ! 3, idx ! 1 mod V]"
proof -
  have x: "idx \<in> set (ford [v5_N d, v5_K d, v5_Ho d, v5_Wo d])" using assms(2) by (simp only: set_ford mem_Collect_eq)
  have inj: "inj_on (\<lambda>x. host_offset (ht_lengths out) x) (set (ford [v5_N d, v5_K d, v5_Ho d, v5_Wo d]))"
    using assms(1) inj_on_host_offset[of "[v5_N d, v5_K d, v5_Ho d, v5_Wo d]"] by (simp only: set_ford)
  show ?thesis
    using foldl_tensor_set_get[where f = "f_nk0hwk1_to_nkhw V ot" and g = "\<lambda>x. x"
        and v = "\<lambda>x. tensor_get ot [x ! 0, x ! 1 div V, x ! 2, x ! 3, x ! 1 mod V]"
        and xs = "ford [v5_N d, v5_K d, v5_Ho d, v5_Wo d]", OF unpack_step inj x]
    by (simp add: v5r1_unpack_output_def make_ParallelTensorFunctor_def del: ford.simps)
qed

section \<open>Properties of the drivers\<close>

lemma integer_least_multiple_bounds:
  fixes x y :: int
  assumes "0 < y"
  shows "y dvd integer_least_multiple x y" "integer_least_multiple x y < x + y"
proof -
  show "y dvd integer_least_multiple x y" by (simp add: integer_least_multiple_def)
  have "y * ((x + y - 1) div y) + (x + y - 1) mod y = x + y - 1" by simp
  moreover have "0 \<le> (x + y - 1) mod y" using assms by simp
  ultimately have "y * ((x + y - 1) div y) \<le> x + y - 1" by linarith
  then show "integer_least_multiple x y < x + y" by (simp add: integer_least_multiple_def)
qed

lemma sdiv_int_nonneg_pos: "0 \<le> (a :: int) \<Longrightarrow> 0 < b \<Longrightarrow> a sdiv b = a div b"
  by (auto simp: signed_divide_int_def sgn_if)

lemma sdiv_int_neg_pos: "(a :: int) < 0 \<Longrightarrow> 0 < b \<Longrightarrow> a sdiv b = - ((- a) div b)"
  by (simp add: signed_divide_int_def sgn_if)

text \<open>C19: when the padded input is at least as long as the dilated filter and the stride
  is positive, the output length is the number of filter positions: the last output row
  \<open>Ho - 1\<close> starts a window that fits in the padded input and a row \<open>Ho\<close> would not.\<close>

theorem conv_out_size_windows:
  assumes "0 < stride" "(Y - 1) * dilation + 1 \<le> Hi + left_pad + right_pad"
  shows "0 < conv_out_size Hi left_pad right_pad Y dilation stride
         \<and> (conv_out_size Hi left_pad right_pad Y dilation stride - 1) * stride + ((Y - 1) * dilation + 1)
             \<le> Hi + left_pad + right_pad
         \<and> Hi + left_pad + right_pad
             < conv_out_size Hi left_pad right_pad Y dilation stride * stride + ((Y - 1) * dilation + 1)"
proof -
  define D where "D = Hi + left_pad + right_pad - ((Y - 1) * dilation + 1)"
  have D0: "0 \<le> D" using assms(2) by (simp add: D_def)
  have ho: "conv_out_size Hi left_pad right_pad Y dilation stride = D div stride + 1"
    using D0 assms(1) by (simp add: conv_out_size_def D_def Let_def sdiv_int_nonneg_pos)
  define q where "q = D div stride"
  have dm: "q * stride + D mod stride = D" by (simp add: q_def)
  have "0 \<le> D mod stride" "D mod stride < stride" using assms(1) by simp_all
  then have lo: "q * stride \<le> D" and hi: "D < q * stride + stride" using dm by linarith+
  have q0: "0 \<le> q" using D0 assms(1) by (simp add: q_def pos_imp_zdiv_nonneg_iff)
  have "(q + 1 - 1) * stride = q * stride" "(q + 1) * stride = q * stride + stride" by (simp_all add: algebra_simps)
  then show ?thesis using lo hi q0 by (simp add: ho flip: q_def) (simp add: D_def)
qed

theorem conv_out_size_windows_witness:
  "0 < (2::int) \<and> (3 - 1) * 1 + 1 \<le> (7::int) + 1 + 1
   \<and> 0 < conv_out_size 7 1 1 3 1 2
   \<and> (conv_out_size 7 1 1 3 1 2 - 1) * 2 + ((3 - 1) * 1 + 1) \<le> (7::int) + 1 + 1
   \<and> (7::int) + 1 + 1 < conv_out_size 7 1 1 3 1 2 * 2 + ((3 - 1) * 1 + 1)"
  using conv_out_size_windows[of 2 3 1 7 1 1] by simp

text \<open>C20: when the padded input is shorter than the dilated filter, C's truncating division
  rounds the negative quotient towards zero: the driver computes
  \<open>Ho = 1 - (YEff - (Hi + pads)) / stride\<close>, which is positive (although no filter window
  fits) exactly when the shortfall is less than the stride.\<close>

theorem conv_out_size_short_input:
  assumes "0 < stride" "Hi + left_pad + right_pad < (Y - 1) * dilation + 1"
  shows "conv_out_size Hi left_pad right_pad Y dilation stride
           = 1 - ((Y - 1) * dilation + 1 - (Hi + left_pad + right_pad)) div stride
         \<and> (0 < conv_out_size Hi left_pad right_pad Y dilation stride
              \<longleftrightarrow> (Y - 1) * dilation + 1 - (Hi + left_pad + right_pad) < stride)"
proof -
  define S where "S = (Y - 1) * dilation + 1 - (Hi + left_pad + right_pad)"
  have S0: "0 < S" using assms(2) by (simp add: S_def)
  have ho: "conv_out_size Hi left_pad right_pad Y dilation stride = 1 - S div stride"
    using sdiv_int_neg_pos[of "- S" stride] S0 assms(1)
    by (simp add: conv_out_size_def Let_def S_def algebra_simps)
  have "0 \<le> S div stride" using S0 assms(1) by (simp add: pos_imp_zdiv_nonneg_iff)
  moreover have "S div stride = 0 \<longleftrightarrow> S < stride" using S0 assms(1) by (auto simp: div_pos_pos_trivial zdiv_eq_0_iff)
  ultimately have "0 < 1 - S div stride \<longleftrightarrow> S < stride" by linarith
  then show ?thesis using ho by (simp add: S_def)
qed

theorem conv_out_size_short_input_witness:
  "0 < (3::int) \<and> (1::int) + 0 + 0 < (3 - 1) * 1 + 1
   \<and> conv_out_size 1 0 0 3 1 3 = 1 - ((3 - 1) * 1 + 1 - (1 + 0 + 0)) div 3
   \<and> (0 < conv_out_size 1 0 0 3 1 3 \<longleftrightarrow> (3 - 1) * 1 + 1 - ((1::int) + 0 + 0) < 3)"
  using conv_out_size_short_input[of 3 1 0 0 3 1] by simp

text \<open>C21: the driver's two layout conversions are inverse: packing an NKHW tensor into
  NK0HWK1 the way the input is packed, then converting back the way the output is, returns
  every element, when the vector width divides K.\<close>

theorem v5r1_unpack_pack_roundtrip:
  assumes "0 < V" "V dvd v5_K d" "ht_lengths out = [v5_N d, v5_K d, v5_Ho d, v5_Wo d]"
    and "v5_N d' = v5_N d" "v5_C d' = v5_K d" "v5_Hi d' = v5_Ho d" "v5_Wi d' = v5_Wo d"
    and "in_box [v5_N d, v5_K d, v5_Ho d, v5_Wo d] idx"
  shows "tensor_get (v5r1_unpack_output V d (v5r1_pack_input V d' t init) out) idx = tensor_get t idx"
proof -
  obtain n k ho wo where idx: "idx = [n, k, ho, wo]" and b: "n < v5_N d" "k < v5_K d" "ho < v5_Ho d" "wo < v5_Wo d"
    using assms(8) by (auto elim!: in_box.elims)
  have "in_box [v5_N d', v5_Hi d', v5_Wi d', v5_C d'] [n, ho, wo, k]" using b assms(4-7) by simp
  then have "tensor_get (v5r1_pack_input V d' t init) [n, k div V, ho, wo, k mod V] = tensor_get t [n, k, ho, wo]"
    using v5r1_pack_input_get[of V d'] assms(1,2,5) by simp
  then show ?thesis using v5r1_unpack_output_get[OF assms(3,8)] idx by simp
qed

theorem v5r1_unpack_pack_roundtrip_witness:
  "0 < (2::nat) \<and> 2 dvd v5_K \<lparr>v5_N = 1, v5_K = 2, v5_C = 2, v5_Hi = 1, v5_Wi = 1, v5_Ho = 1, v5_Wo = 1, v5_Y = 1, v5_X = 1\<rparr>
   \<and> tensor_get (v5r1_unpack_output 2 \<lparr>v5_N = 1, v5_K = 2, v5_C = 2, v5_Hi = 1, v5_Wi = 1, v5_Ho = 1, v5_Wo = 1, v5_Y = 1, v5_X = 1\<rparr>
        (v5r1_pack_input 2 \<lparr>v5_N = 1, v5_K = 2, v5_C = 2, v5_Hi = 1, v5_Wi = 1, v5_Ho = 1, v5_Wo = 1, v5_Y = 1, v5_X = 1\<rparr>
           \<lparr>ht_lengths = [1, 2, 1, 1], ht_data = \<lambda>i. int i + 10\<rparr> (\<lambda>i. 0))
        \<lparr>ht_lengths = [1, 2, 1, 1], ht_data = \<lambda>i. 0\<rparr>) [0, 1, 0, 0]
     = tensor_get \<lparr>ht_lengths = [1, 2, 1, 1], ht_data = \<lambda>i. int i + 10\<rparr> [0, 1, 0, 0]"
  using v5r1_unpack_pack_roundtrip[of 2 "\<lparr>v5_N = 1, v5_K = 2, v5_C = 2, v5_Hi = 1, v5_Wi = 1, v5_Ho = 1, v5_Wo = 1, v5_Y = 1, v5_X = 1\<rparr>"
      "\<lparr>ht_lengths = [1, 2, 1, 1], ht_data = \<lambda>i. 0\<rparr>" "\<lparr>v5_N = 1, v5_K = 2, v5_C = 2, v5_Hi = 1, v5_Wi = 1, v5_Ho = 1, v5_Wo = 1, v5_Y = 1, v5_X = 1\<rparr>"
      "[0, 1, 0, 0]" "\<lparr>ht_lengths = [1, 2, 1, 1], ht_data = \<lambda>i. int i + 10\<rparr>" "\<lambda>i. 0"]
  by simp

text \<open>C22: the parallel functor of the input conversion is well defined: whatever order its
  threads run the iterations in, the packed tensor is the same, because (when the vector
  width divides C) every iteration writes its own element.\<close>

theorem v5r1_pack_input_order_independent:
  assumes "0 < V" "V dvd v5_C d" "mset xs = mset (ford [v5_N d, v5_Hi d, v5_Wi d, v5_C d])"
  shows "foldl (f_nchw2nc0hwc1 V t)
           \<lparr>ht_lengths = [v5_N d, v5_C d div V, v5_Hi d, v5_Wi d, V], ht_data = init\<rparr> xs
         = v5r1_pack_input V d t init"
proof -
  let ?F = "ford [v5_N d, v5_Hi d, v5_Wi d, v5_C d]"
  let ?s = "\<lparr>ht_lengths = [v5_N d, v5_C d div V, v5_Hi d, v5_Wi d, V], ht_data = init\<rparr>"
  let ?g = "\<lambda>x. [x ! 0, x ! 3 div V, x ! 1, x ! 2, x ! 3 mod V]"
  let ?v = "\<lambda>x. tensor_get t [x ! 0, x ! 3, x ! 1, x ! 2]"
  have set: "set xs = set ?F" using assms(3) by (rule mset_eq_setD)
  have stx: "f_nchw2nc0hwc1 V t s x = tensor_set s (?g x) (?v x)" if "x \<in> set xs" for s x
    using pack_step that set by blast
  have stF: "f_nchw2nc0hwc1 V t s x = tensor_set s (?g x) (?v x)" if "x \<in> set ?F" for s x
    using pack_step that by blast
  note A = foldl_tensor_set[of xs "f_nchw2nc0hwc1 V t" ?g ?v ?s, OF stx]
  note B = foldl_tensor_set[of ?F "f_nchw2nc0hwc1 V t" ?g ?v ?s, OF stF]
  have inj: "inj_on (\<lambda>x. host_offset (ht_lengths ?s) (?g x)) (set xs)"
    using pack_offset_inj[OF assms(1,2)] set by simp
  have "ht_data (foldl (f_nchw2nc0hwc1 V t) ?s xs) = ht_data (foldl (f_nchw2nc0hwc1 V t) ?s ?F)"
    using A B foldl_upd_perm[OF inj assms(3)] by simp
  moreover have "ht_lengths (foldl (f_nchw2nc0hwc1 V t) ?s xs) = ht_lengths (foldl (f_nchw2nc0hwc1 V t) ?s ?F)"
    using A B by simp
  ultimately show ?thesis
    unfolding v5r1_pack_input_def make_ParallelTensorFunctor_def by (intro host_tensor.equality) simp_all
qed

theorem v5r1_pack_input_order_independent_witness:
  "0 < (2::nat) \<and> 2 dvd v5_C \<lparr>v5_N = 1, v5_K = 2, v5_C = 2, v5_Hi = 1, v5_Wi = 1, v5_Ho = 1, v5_Wo = 1, v5_Y = 1, v5_X = 1\<rparr>
   \<and> mset (rev (ford [1, 1, 1, 2])) = mset (ford [1, 1, 1, 2])
   \<and> foldl (f_nchw2nc0hwc1 2 \<lparr>ht_lengths = [1, 2, 1, 1], ht_data = \<lambda>i. int i\<rparr>)
       \<lparr>ht_lengths = [1, 2 div 2, 1, 1, 2], ht_data = \<lambda>i. 0\<rparr> (rev (ford [1, 1, 1, 2]))
     = v5r1_pack_input 2 \<lparr>v5_N = 1, v5_K = 2, v5_C = 2, v5_Hi = 1, v5_Wi = 1, v5_Ho = 1, v5_Wo = 1, v5_Y = 1, v5_X = 1\<rparr>
         \<lparr>ht_lengths = [1, 2, 1, 1], ht_data = \<lambda>i. int i\<rparr> (\<lambda>i. 0)"
  using v5r1_pack_input_order_independent[of 2 "\<lparr>v5_N = 1, v5_K = 2, v5_C = 2, v5_Hi = 1, v5_Wi = 1, v5_Ho = 1, v5_Wo = 1, v5_Y = 1, v5_X = 1\<rparr>"
      "rev (ford [1, 1, 1, 2])" "\<lparr>ht_lengths = [1, 2, 1, 1], ht_data = \<lambda>i. int i\<rparr>" "\<lambda>i. 0"]
  by simp

text \<open>C23: when the vector width does not divide C and there are at least two images, the
  input conversion is not race-free: the iteration for channel \<open>C0 * V\<close> of image 0 (the
  first channel of the incomplete vector) and the iteration for channel 0 of image 1 write
  the same element of the packed tensor (row \<open>C0 = C / V\<close> of image 0 is past the end of
  its channel dimension), so whenever their source values differ the two orders of these
  iterations leave different tensors.\<close>

theorem v5r1_pack_input_race:
  assumes "0 < V" "\<not> V dvd v5_C d" "2 \<le> v5_N d" "0 < v5_Hi d" "0 < v5_Wi d"
  shows "\<exists>x\<in>set (ford [v5_N d, v5_Hi d, v5_Wi d, v5_C d]). \<exists>y\<in>set (ford [v5_N d, v5_Hi d, v5_Wi d, v5_C d]).
           x \<noteq> y
         \<and> (\<forall>t s. ht_lengths s = [v5_N d, v5_C d div V, v5_Hi d, v5_Wi d, V]
               \<longrightarrow> tensor_get t [x ! 0, x ! 3, x ! 1, x ! 2] \<noteq> tensor_get t [y ! 0, y ! 3, y ! 1, y ! 2]
               \<longrightarrow> f_nchw2nc0hwc1 V t (f_nchw2nc0hwc1 V t s x) y \<noteq> f_nchw2nc0hwc1 V t (f_nchw2nc0hwc1 V t s y) x)"
proof -
  let ?C0 = "v5_C d div V"
  let ?lens = "[v5_N d, ?C0, v5_Hi d, v5_Wi d, V]"
  have "v5_C d mod V \<noteq> 0" using assms(2) by (simp add: dvd_eq_mod_eq_0)
  then have c: "?C0 * V < v5_C d" using div_mult_mod_eq[of "v5_C d" V] by linarith
  define x where "x = [0, 0, 0, ?C0 * V]"
  define y where "y = [1, 0, 0, (0::nat)]"
  have mem: "x \<in> set (ford [v5_N d, v5_Hi d, v5_Wi d, v5_C d])" "y \<in> set (ford [v5_N d, v5_Hi d, v5_Wi d, v5_C d])"
    using c assms(3-5) unfolding ford4_elem x_def y_def by auto
  have same: "host_offset ?lens [0, ?C0 * V div V, 0, 0, ?C0 * V mod V] = host_offset ?lens [1, 0 div V, 0, 0, 0 mod V]"
    using assms(1) by simp
  have race: "f_nchw2nc0hwc1 V t (f_nchw2nc0hwc1 V t s x) y \<noteq> f_nchw2nc0hwc1 V t (f_nchw2nc0hwc1 V t s y) x"
    if l: "ht_lengths s = ?lens"
      and v: "tensor_get t [x ! 0, x ! 3, x ! 1, x ! 2] \<noteq> tensor_get t [y ! 0, y ! 3, y ! 1, y ! 2]" for t s
  proof
    let ?p = "host_offset ?lens [1, 0 div V, 0, 0, 0 mod V]"
    assume "f_nchw2nc0hwc1 V t (f_nchw2nc0hwc1 V t s x) y = f_nchw2nc0hwc1 V t (f_nchw2nc0hwc1 V t s y) x"
    then have "ht_data (f_nchw2nc0hwc1 V t (f_nchw2nc0hwc1 V t s x) y) ?p
             = ht_data (f_nchw2nc0hwc1 V t (f_nchw2nc0hwc1 V t s y) x) ?p" by simp
    then show False using v l same assms(1,4,5) by (simp add: x_def y_def tensor_set_def)
  qed
  have "x \<noteq> y" by (simp add: x_def y_def)
  then show ?thesis using mem race by blast
qed

theorem v5r1_pack_input_race_witness:
  "\<exists>x\<in>set (ford [2, 1, 1, 3]). \<exists>y\<in>set (ford [2, 1, 1, 3]).
     x \<noteq> y
   \<and> (\<forall>t s. ht_lengths s = [2, 3 div 2, 1, 1, 2]
         \<longrightarrow> tensor_get t [x ! 0, x ! 3, x ! 1, x ! 2] \<noteq> tensor_get t [y ! 0, y ! 3, y ! 1, y ! 2]
         \<longrightarrow> f_nchw2nc0hwc1 2 t (f_nchw2nc0hwc1 2 t s x) y \<noteq> f_nchw2nc0hwc1 2 t (f_nchw2nc0hwc1 2 t s y) x)"
  using v5r1_pack_input_race[of 2 "\<lparr>v5_N = 2, v5_K = 2, v5_C = 3, v5_Hi = 1, v5_Wi = 1, v5_Ho = 1, v5_Wo = 1, v5_Y = 1, v5_X = 1\<rparr>"]
  by simp

text \<open>C24: the v4r4r4 driver pads GemmM to the least multiple of GemmMPerBlock: the padded
  length is a multiple of the tile, at least GemmMRaw and less than GemmMRaw + GemmMPerBlock;
  A and C are padded alike, and an index is valid exactly when it is below GemmMRaw.\<close>

theorem v4r4r4_pad_descs_bounds:
  assumes "0 < GemmMPerBlock"
    and "ds = v4r4r4_pad_descs GemmMPerBlock GemmK0 GemmMRaw GemmK1 GemmN"
  shows "rp_upper_length (in_gemmm ds) = rp_upper_length (out_gemmm ds)
         \<and> GemmMPerBlock dvd rp_upper_length (in_gemmm ds)
         \<and> GemmMRaw \<le> rp_upper_length (in_gemmm ds)
         \<and> rp_upper_length (in_gemmm ds) < GemmMRaw + GemmMPerBlock
         \<and> rp_valid (in_gemmm ds) = (\<lambda>m. m < GemmMRaw) \<and> rp_valid (out_gemmm ds) = (\<lambda>m. m < GemmMRaw)"
proof -
  have u: "rp_upper_length (in_gemmm ds) = integer_least_multiple GemmMRaw GemmMPerBlock"
          "rp_upper_length (out_gemmm ds) = integer_least_multiple GemmMRaw GemmMPerBlock"
    using assms(2) by (simp_all add: v4r4r4_pad_descs_def v4r4r4_GemmMPad_def make_right_pad_transform_def rp_upper_length_def Let_def)
  have v: "rp_valid (in_gemmm ds) = (\<lambda>m. m < GemmMRaw)" "rp_valid (out_gemmm ds) = (\<lambda>m. m < GemmMRaw)"
    using assms(2) by (simp_all add: v4r4r4_pad_descs_def make_right_pad_transform_def rp_valid_def fun_eq_iff Let_def)
  show ?thesis
    using u v integer_least_multiple_ge[OF assms(1)] integer_least_multiple_bounds[OF assms(1)] by simp
qed

theorem v4r4r4_pad_descs_bounds_witness:
  "0 < (128::int) \<and> v4r4r4_pad_descs 128 4 300 8 64 = v4r4r4_pad_descs 128 4 300 8 64
   \<and> rp_upper_length (in_gemmm (v4r4r4_pad_descs 128 4 300 8 64)) = rp_upper_length (out_gemmm (v4r4r4_pad_descs 128 4 300 8 64))
   \<and> 128 dvd rp_upper_length (in_gemmm (v4r4r4_pad_descs 128 4 300 8 64))
   \<and> 300 \<le> rp_upper_length (in_gemmm (v4r4r4_pad_descs 128 4 300 8 64))
   \<and> rp_upper_length (in_gemmm (v4r4r4_pad_descs 128 4 300 8 64)) < 300 + 128
   \<and> rp_valid (in_gemmm (v4r4r4_pad_descs 128 4 300 8 64)) = (\<lambda>m. m < 300)
   \<and> rp_valid (out_gemmm (v4r4r4_pad_descs 128 4 300 8 64)) = (\<lambda>m. m < 300)"
  using v4r4r4_pad_descs_bounds[of 128 "v4r4r4_pad_descs 128 4 300 8 64" 4 300 8 64] by auto

end
