(* ===== verification/TupleHelper.thy ===== *)
theory TupleHelper
  imports CK_Prelude
begin

text \<open>The tuple helpers of \<^verbatim>\<open>tuple_helper.hpp\<close> and the remaining multi-index operations
  of \<^verbatim>\<open>multi_index.hpp\<close> (\<^verbatim>\<open>make_zero_multi_index\<close>, \<^verbatim>\<open>to_multi_index\<close>, the
  compound assignments).  A tuple whose elements share one type is a list, and a
  compile-time index sequence \<^verbatim>\<open>Sequence<0, ..., N-1>\<close> is \<open>[0..<N]\<close>.  The code is
  evaluated at compile time: a failed \<^verbatim>\<open>static_assert\<close>, or a \<^verbatim>\<open>Tuple::At\<close> past the
  end, is a compile error, modelled as \<open>None\<close>.  The lemmas read the compound
  assignments as the element-wise operators of \<open>CK_Prelude\<close>.\<close>

definition make_tuple :: "'a list \<Rightarrow> 'a list" where
  "make_tuple xs = xs"

definition generate_tuple :: "(index_t \<Rightarrow> 'a) \<Rightarrow> nat \<Rightarrow> 'a list" where
  "generate_tuple f N = make_tuple (map (\<lambda>i. f (int i)) [0..<N])"

definition merge_tuples :: "'a list list \<Rightarrow> 'a list" where
  "merge_tuples tuples = make_tuple (concat tuples)"

definition tuple_at :: "'a list \<Rightarrow> nat \<Rightarrow> 'a option" where
  "tuple_at x i = (if i < length x then Some (x ! i) else None)"

definition transform_tuples :: "('a \<Rightarrow> 'b) \<Rightarrow> 'a list \<Rightarrow> 'b list" where
  "transform_tuples f x = make_tuple (map (\<lambda>i. f (x ! i)) [0..<length x])"

definition transform_tuples2 :: "('a \<Rightarrow> 'b \<Rightarrow> 'c) \<Rightarrow> 'a list \<Rightarrow> 'b list \<Rightarrow> 'c list option" where
  "transform_tuples2 f x y =
     those (map (\<lambda>i. case (tuple_at x i, tuple_at y i) of
                        (Some a, Some b) \<Rightarrow> Some (f a b)
                      | _ \<Rightarrow> None) [0..<length x])"

definition transform_tuples3 ::
  "('a \<Rightarrow> 'b \<Rightarrow> 'c \<Rightarrow> 'd) \<Rightarrow> 'a list \<Rightarrow> 'b list \<Rightarrow> 'c list \<Rightarrow> 'd list option" where
  "transform_tuples3 f x y z =
     those (map (\<lambda>i. case (tuple_at x i, tuple_at y i, tuple_at z i) of
                        (Some a, Some b, Some c) \<Rightarrow> Some (f a b c)
                      | _ \<Rightarrow> None) [0..<length x])"

definition make_zero_multi_index :: "nat \<Rightarrow> multi_index" where
  "make_zero_multi_index NSize = replicate NSize 0"

definition to_multi_index :: "index_t list \<Rightarrow> multi_index" where
  "to_multi_index x = x"

text \<open>\<^verbatim>\<open>y += x\<close> and \<^verbatim>\<open>y -= x\<close>: a \<^verbatim>\<open>static_assert\<close> on the sizes, then an element-wise
  update of \<open>y\<close> in place (the result is the updated \<open>y\<close>).\<close>

definition mi_add_assign :: "multi_index \<Rightarrow> multi_index \<Rightarrow> multi_index option" where
  "mi_add_assign y x =
     (if length x \<noteq> length y then None
      else Some (foldl (\<lambda>y i. y[i := y ! i + x ! i]) y [0..<length y]))"

definition mi_sub_assign :: "multi_index \<Rightarrow> multi_index \<Rightarrow> multi_index option" where
  "mi_sub_assign y x =
     (if length x \<noteq> length y then None
      else Some (foldl (\<lambda>y i. y[i := y ! i - x ! i]) y [0..<length y]))"

lemma foldl_assign_nth:
  assumes "n \<le> length y"
  shows "length (foldl (\<lambda>y i. y[i := g (y ! i) (x ! i)]) y [0..<n]) = length y
         \<and> (\<forall>j < length y. foldl (\<lambda>y i. y[i := g (y ! i) (x ! i)]) y [0..<n] ! j
                            = (if j < n then g (y ! j) (x ! j) else y ! j))"
  using assms by (induction n) (auto simp: nth_list_update)

lemma foldl_assign_map2:
  assumes "length x = length y"
  shows "foldl (\<lambda>y i. y[i := g (y ! i) (x ! i)]) y [0..<length y] = map2 g y x"
  using foldl_assign_nth[of "length y" y g x] assms by (intro nth_equalityI) auto

lemma mi_add_assign_eq:
  "mi_add_assign y x = (if length x = length y then Some (mi_add y x) else None)"
  by (simp add: mi_add_assign_def mi_add_def foldl_assign_map2[where g = "(+)"])

lemma mi_sub_assign_eq:
  "mi_sub_assign y x = (if length x = length y then Some (mi_sub y x) else None)"
  by (simp add: mi_sub_assign_def mi_sub_def foldl_assign_map2[where g = "(-)"])

end
