(* ===== verification/BlockwiseGemmAsm.thy ===== *)
theory BlockwiseGemmAsm
  imports BlockwiseGemm
begin

text \<open>
  \<^verbatim>\<open>Run_asm\<close> of \<^verbatim>\<open>blockwise_gemm.hip.hpp\<close> (the compiled \<^verbatim>\<open>#if 1\<close> branch of
  the HIP backend).  Each iteration of its \<open>k\<close> loop copies four \<^verbatim>\<open>float4\<close>s into the
  thread's register array \<^verbatim>\<open>p_thread\<close> (\<open>bg_asm_load\<close>: \<^verbatim>\<open>a_loc[0]\<close>,
  \<^verbatim>\<open>a_loc[16]\<close>, \<^verbatim>\<open>b_loc[0]\<close>, \<^verbatim>\<open>b_loc[8]\<close>, each \<open>float4_copy\<close>) and runs the
  64 \<^verbatim>\<open>v_mac_f32\<close> of the inline assembly (\<open>bg_asm_mac\<close>: \<open>C[8i+j] += a[i] * b[j]\<close>,
  with \<open>a\<close> at register 0 and \<open>b\<close> at \<^verbatim>\<open>a_thread_mtx.GetElementSpace()\<close>).  The
  register array is the uninitialised \<open>p_thread0\<close> of the call.  The lemmas show that on
  the shape the assembly is written for (one row of K per iteration) \<open>Run_asm\<close> computes
  the micro-GEMM contract of \<open>BlockwiseGemm\<close>.
\<close>

definition float4_copy :: "(int \<Rightarrow> 'a) \<Rightarrow> int \<Rightarrow> (int \<Rightarrow> 'a) \<Rightarrow> int \<Rightarrow> (int \<Rightarrow> 'a)" where
  "float4_copy dst dst_off src src_off = foldl (\<lambda>d l. d(dst_off + l := src (src_off + l))) dst [0..3]"

definition bg_asm_load ::
  "bg_cfg \<Rightarrow> bg_thread \<Rightarrow> (int \<Rightarrow> 'a) \<Rightarrow> (int \<Rightarrow> 'a) \<Rightarrow> (int \<Rightarrow> 'a) \<Rightarrow> index_t \<Rightarrow> (int \<Rightarrow> 'a)" where
  "bg_asm_load cfg th p_a_block p_b_block p_thread k_begin =
     (let a_src_index = GetOffsetFromMultiIndex (BlockMatrixA cfg) k_begin 0 + mMyThreadOffsetA th;
          b_src_index = GetOffsetFromMultiIndex (BlockMatrixB cfg) k_begin 0 + mMyThreadOffsetB th;
          reg0 = float4_copy p_thread 0 p_a_block a_src_index;
          reg1 = float4_copy reg0 4 p_a_block (a_src_index + 4 * 16);
          reg2 = float4_copy reg1 8 p_b_block b_src_index;
          reg3 = float4_copy reg2 12 p_b_block (b_src_index + 4 * 8)
      in reg3)"

definition bg_asm_mac :: "(int \<Rightarrow> 'a::{plus,times}) \<Rightarrow> index_t \<Rightarrow> (int \<Rightarrow> 'a) \<Rightarrow> (int \<Rightarrow> 'a)" where
  "bg_asm_mac p_thread b_thread_off p_c_thread =
     foldl (\<lambda>c (i, j). c(8 * i + j := c (8 * i + j) + p_thread i * p_thread (b_thread_off + j)))
       p_c_thread (List.product [0..7] [0..7])"

definition bg_Run_asm_step ::
  "bg_cfg \<Rightarrow> bg_thread \<Rightarrow> (int \<Rightarrow> 'a::{plus,times}) \<Rightarrow> (int \<Rightarrow> 'a) \<Rightarrow> (int \<Rightarrow> 'a) \<times> (int \<Rightarrow> 'a)
   \<Rightarrow> index_t \<Rightarrow> (int \<Rightarrow> 'a) \<times> (int \<Rightarrow> 'a)" where
  "bg_Run_asm_step cfg th p_a_block p_b_block s k_begin =
     (let (p_thread, p_c_thread) = s;
          a_thread_mtx = make_ConstantMatrixDescriptor (KPerThreadLoop cfg) (NRow (ThreadMatrixC cfg));
          p_thread' = bg_asm_load cfg th p_a_block p_b_block p_thread k_begin
      in (p_thread', bg_asm_mac p_thread' (GetElementSpace a_thread_mtx) p_c_thread))"

definition bg_Run_asm ::
  "bg_cfg \<Rightarrow> bg_thread \<Rightarrow> (int \<Rightarrow> 'a::{plus,times}) \<Rightarrow> (int \<Rightarrow> 'a) \<Rightarrow> (int \<Rightarrow> 'a) \<Rightarrow> ('a \<Rightarrow> 'a \<Rightarrow> 'a)
   \<Rightarrow> (int \<Rightarrow> 'a) \<Rightarrow> (int \<Rightarrow> 'a) option" where
  "bg_Run_asm cfg th p_a_block p_b_block p_c_thread f_accum p_thread0 =
     (let K = NRow (BlockMatrixA cfg)
      in if KPerThreadLoop cfg \<le> 0 \<and> 0 < K then None
         else Some (snd (foldl (bg_Run_asm_step cfg th p_a_block p_b_block) (p_thread0, p_c_thread)
                                (int_range_step 0 K (KPerThreadLoop cfg)))))"

lemma float4_copy_at:
  "float4_copy dst doff src soff p = (if doff \<le> p \<and> p < doff + 4 then src (soff + (p - doff)) else dst p)"
proof -
  have "[0..3::int] = [0, 1, 2, 3]" by (simp add: upto.simps)
  then show ?thesis by (auto simp: float4_copy_def)
qed

lemma bg_asm_load_at:
  "bg_asm_load cfg th p_a_block p_b_block p_thread kb p =
     (let a = GetOffsetFromMultiIndex (BlockMatrixA cfg) kb 0 + mMyThreadOffsetA th;
          b = GetOffsetFromMultiIndex (BlockMatrixB cfg) kb 0 + mMyThreadOffsetB th
      in if 0 \<le> p \<and> p < 4 then p_a_block (a + p)
         else if 4 \<le> p \<and> p < 8 then p_a_block (a + 64 + (p - 4))
         else if 8 \<le> p \<and> p < 12 then p_b_block (b + (p - 8))
         else if 12 \<le> p \<and> p < 16 then p_b_block (b + 32 + (p - 12))
         else p_thread p)"
  by (simp add: bg_asm_load_def float4_copy_at Let_def)

lemma bg_asm_mac_at:
  assumes "0 \<le> i" "i < 8" "0 \<le> j" "j < 8"
  shows "bg_asm_mac pt boff c (8 * i + j) = c (8 * i + j) + pt i * pt (boff + j)"
  unfolding bg_asm_mac_def
proof (rule foldl_proj_once[where proj = "\<lambda>c. c (8 * i + j)" and xsel = "(i, j)"])
  show "distinct (List.product [0..7::int] [0..7::int])" by (simp add: distinct_product)
  show "(i, j) \<in> set (List.product [0..7] [0..7])" using assms by simp
next
  fix x and d :: "int \<Rightarrow> 'a"
  assume x: "x \<in> set (List.product [0..7] [0..7])" "x \<noteq> (i, j)"
  obtain a b where ab: "x = (a, b)" by (cases x)
  have r: "0 \<le> a" "a < 8" "0 \<le> b" "b < 8" using x(1) ab by auto
  have "a \<noteq> i \<or> b \<noteq> j" using x(2) ab by auto
  then have "8 * a + b \<noteq> 8 * i + j" using r assms by arith
  then show "(case x of (i', j') \<Rightarrow> d(8 * i' + j' := d (8 * i' + j') + pt i' * pt (boff + j'))) (8 * i + j) = d (8 * i + j)"
    using ab by simp
qed simp

lemma bg_asm_mac_other:
  assumes "p < 0 \<or> 64 \<le> p"
  shows "bg_asm_mac pt boff c p = c p"
  unfolding bg_asm_mac_def by (rule foldl_write_other) (use assms in auto)

lemma bg_Run_asm_step_at:
  assumes "0 \<le> i" "i < 8" "0 \<le> j" "j < 8"
  shows "snd (bg_Run_asm_step cfg th p_a_block p_b_block s kb) (8 * i + j)
         = snd s (8 * i + j)
           + bg_asm_load cfg th p_a_block p_b_block (fst s) kb i
             * bg_asm_load cfg th p_a_block p_b_block (fst s) kb
                 (GetElementSpace (make_ConstantMatrixDescriptor (KPerThreadLoop cfg) (NRow (ThreadMatrixC cfg))) + j)"
  by (cases s) (simp add: bg_Run_asm_step_def bg_asm_mac_at[OF assms] Let_def)

lemma bg_Run_asm_fold_other:
  assumes "p < 0 \<or> 64 \<le> p"
  shows "snd (foldl (bg_Run_asm_step cfg th p_a_block p_b_block) s kbs) p = snd s p"
proof (induction kbs arbitrary: s)
  case (Cons kb kbs)
  then show ?case by (cases s) (simp add: bg_Run_asm_step_def bg_asm_mac_other[OF assms] Let_def)
qed simp

lemma div4_cases:
  fixes i :: int
  assumes "0 \<le> i" "i < 8"
  shows "i div 4 * c + i mod 4 = (if i < 4 then i else c + (i - 4))"
proof (cases "i < 4")
  case True
  then show ?thesis using assms by simp
next
  case False
  then have "i div 4 = 1" "i mod 4 = i - 4" using assms by arith+
  then show ?thesis using False by simp
qed

lemma bg_asm_load_a:
  assumes "MPerThreadSubC cfg = 4" "MPerThreadSubC cfg * MLevel0Cluster cfg * MLevel1Cluster cfg = 64"
    and "0 \<le> i" "i < 8"
  shows "bg_asm_load cfg th p_a_block p_b_block pt kb i
         = p_a_block (mMyThreadOffsetA th
             + GetOffsetFromMultiIndex (BlockMatrixA cfg) kb (row (GetDistanceFromBeginOfThreadMatrixC cfg i j)))"
proof -
  have "row (GetDistanceFromBeginOfThreadMatrixC cfg i j) = (if i < 4 then i else 64 + (i - 4))"
    unfolding GetDistanceFromBeginOfThreadMatrixC_def Let_def assms(2) MatrixIndex.simps
    using div4_cases[OF assms(3,4), of 64] assms(1) by simp
  then show ?thesis using assms(3,4) by (simp add: bg_asm_load_at GetOffsetFromMultiIndex_def Let_def ac_simps)
qed

lemma bg_asm_load_b:
  assumes "NPerThreadSubC cfg = 4" "NPerThreadSubC cfg * NLevel0Cluster cfg * NLevel1Cluster cfg = 32"
    and "0 \<le> j" "j < 8"
  shows "bg_asm_load cfg th p_a_block p_b_block pt kb (8 + j)
         = p_b_block (mMyThreadOffsetB th
             + GetOffsetFromMultiIndex (BlockMatrixB cfg) kb (col (GetDistanceFromBeginOfThreadMatrixC cfg i j)))"
proof -
  have "col (GetDistanceFromBeginOfThreadMatrixC cfg i j) = (if j < 4 then j else 32 + (j - 4))"
    unfolding GetDistanceFromBeginOfThreadMatrixC_def Let_def assms(2) MatrixIndex.simps
    using div4_cases[OF assms(3,4), of 32] assms(1) by simp
  then show ?thesis using assms(3,4) by (simp add: bg_asm_load_at GetOffsetFromMultiIndex_def Let_def ac_simps)
qed

lemma bg_Run_asm_fold_at:
  assumes KP: "KPerThreadLoop cfg = 1" and C: "NRow (ThreadMatrixC cfg) = 8"
    and m: "MPerThreadSubC cfg = 4" "MPerThreadSubC cfg * MLevel0Cluster cfg * MLevel1Cluster cfg = 64"
    and n: "NPerThreadSubC cfg = 4" "NPerThreadSubC cfg * NLevel0Cluster cfg * NLevel1Cluster cfg = 32"
    and ij: "0 \<le> i" "i < 8" "0 \<le> j" "j < 8"
  shows "snd (foldl (bg_Run_asm_step cfg th p_a_block p_b_block) s kbs) (8 * i + j)
         = foldl (+) (snd s (8 * i + j))
             [p_a_block (mMyThreadOffsetA th
                  + GetOffsetFromMultiIndex (BlockMatrixA cfg) k (row (GetDistanceFromBeginOfThreadMatrixC cfg i j)))
              * p_b_block (mMyThreadOffsetB th
                  + GetOffsetFromMultiIndex (BlockMatrixB cfg) k (col (GetDistanceFromBeginOfThreadMatrixC cfg i j))).
              k \<leftarrow> kbs]"
proof (induction kbs arbitrary: s)
  case (Cons kb kbs)
  have es: "GetElementSpace (make_ConstantMatrixDescriptor (KPerThreadLoop cfg) (NRow (ThreadMatrixC cfg))) = 8"
    using KP C by (simp add: cmd_defs)
  show ?case
    using Cons.IH[of "bg_Run_asm_step cfg th p_a_block p_b_block s kb"]
    by (simp add: bg_Run_asm_step_at[OF ij] es bg_asm_load_a[where j = j, OF m ij(1,2)]
                  bg_asm_load_b[where i = i, OF n ij(3,4)])
qed simp

text \<open>C25: \<open>Run_asm\<close> refines the micro-GEMM contract on the shape its assembly is written for
  (an 8 x 8 thread tile of two 4 x 4 sub-tiles 64 rows and 32 columns apart, one row of K per
  iteration): the thread's C registers end as in \<open>bg_reference\<close> with \<open>f_accum = (+)\<close>,
  whatever accumulator the caller passes.\<close>

theorem bg_Run_asm_refines_reference:
  assumes KP: "KPerThreadLoop cfg = 1" and C: "ThreadMatrixC cfg = \<lparr>NRow = 8, NCol = 8, RowStride = 8\<rparr>"
    and m: "MPerThreadSubC cfg = 4" "MPerThreadSubC cfg * MLevel0Cluster cfg * MLevel1Cluster cfg = 64"
    and n: "NPerThreadSubC cfg = 4" "NPerThreadSubC cfg * NLevel0Cluster cfg * NLevel1Cluster cfg = 32"
    and K: "0 \<le> NRow (BlockMatrixA cfg)"
  shows "bg_Run_asm cfg th p_a_block p_b_block p_c f_accum p_thread0
         = Some (bg_reference cfg th p_a_block p_b_block p_c (+))"
proof -
  have C8: "NRow (ThreadMatrixC cfg) = 8" "NCol (ThreadMatrixC cfg) = 8" "RowStride (ThreadMatrixC cfg) = 8"
    using C by simp_all
  have off: "GetOffsetFromMultiIndex (ThreadMatrixC cfg) i j = 8 * i + j" for i j
    using C8 by (simp add: GetOffsetFromMultiIndex_def)
  have "snd (foldl (bg_Run_asm_step cfg th p_a_block p_b_block) (p_thread0, p_c)
               [0..NRow (BlockMatrixA cfg) - 1]) p
        = bg_reference cfg th p_a_block p_b_block p_c (+) p" for p
  proof (cases "0 \<le> p \<and> p < 64")
    case True
    define i j where "i = p div 8" and "j = p mod 8"
    have ij: "0 \<le> i" "i < 8" "0 \<le> j" "j < 8" and p: "p = 8 * i + j"
      using True unfolding i_def j_def by auto
    show ?thesis
      using bg_reference_at[of cfg i j th p_a_block p_b_block p_c "(+)"] ij C8
      by (simp add: p off bg_Run_asm_fold_at[OF KP C8(1) m n ij])
  next
    case False
    have "p \<noteq> GetOffsetFromMultiIndex (ThreadMatrixC cfg) i j"
      if "0 \<le> i" "i < NRow (ThreadMatrixC cfg)" "0 \<le> j" "j < NCol (ThreadMatrixC cfg)" for i j
      using that False C8 unfolding off by arith
    moreover have "p < 0 \<or> 64 \<le> p" using False by auto
    ultimately show ?thesis
      by (simp add: bg_Run_asm_fold_other bg_reference_other)
  qed
  then show ?thesis
    using KP K by (simp add: bg_Run_asm_def int_range_step_one fun_eq_iff)
qed

theorem bg_Run_asm_refines_reference_witness:
  "KPerThreadLoop \<lparr>BlockSize = 128, BlockMatrixA = \<lparr>NRow = 2, NCol = 128, RowStride = 128\<rparr>,
       BlockMatrixB = \<lparr>NRow = 2, NCol = 64, RowStride = 64\<rparr>, ThreadMatrixC = \<lparr>NRow = 8, NCol = 8, RowStride = 8\<rparr>,
       MPerThreadSubC = 4, NPerThreadSubC = 4, MLevel0Cluster = 4, NLevel0Cluster = 4,
       MLevel1Cluster = 4, NLevel1Cluster = 2, KPerThreadLoop = 1\<rparr> = 1
   \<and> bg_Run_asm \<lparr>BlockSize = 128, BlockMatrixA = \<lparr>NRow = 2, NCol = 128, RowStride = 128\<rparr>,
       BlockMatrixB = \<lparr>NRow = 2, NCol = 64, RowStride = 64\<rparr>, ThreadMatrixC = \<lparr>NRow = 8, NCol = 8, RowStride = 8\<rparr>,
       MPerThreadSubC = 4, NPerThreadSubC = 4, MLevel0Cluster = 4, NLevel0Cluster = 4,
       MLevel1Cluster = 4, NLevel1Cluster = 2, KPerThreadLoop = 1\<rparr> \<lparr>mMyThreadOffsetA = 4, mMyThreadOffsetB = 8\<rparr>
       (\<lambda>x. x) (\<lambda>x. 1 - x) (\<lambda>x. 0 :: int) (*) (\<lambda>x. 0)
     = Some (bg_reference \<lparr>BlockSize = 128, BlockMatrixA = \<lparr>NRow = 2, NCol = 128, RowStride = 128\<rparr>,
       BlockMatrixB = \<lparr>NRow = 2, NCol = 64, RowStride = 64\<rparr>, ThreadMatrixC = \<lparr>NRow = 8, NCol = 8, RowStride = 8\<rparr>,
       MPerThreadSubC = 4, NPerThreadSubC = 4, MLevel0Cluster = 4, NLevel0Cluster = 4,
       MLevel1Cluster = 4, NLevel1Cluster = 2, KPerThreadLoop = 1\<rparr> \<lparr>mMyThreadOffsetA = 4, mMyThreadOffsetB = 8\<rparr>
       (\<lambda>x. x) (\<lambda>x. 1 - x) (\<lambda>x. 0) (+))"
  using bg_Run_asm_refines_reference[of "\<lparr>BlockSize = 128, BlockMatrixA = \<lparr>NRow = 2, NCol = 128, RowStride = 128\<rparr>,
       BlockMatrixB = \<lparr>NRow = 2, NCol = 64, RowStride = 64\<rparr>, ThreadMatrixC = \<lparr>NRow = 8, NCol = 8, RowStride = 8\<rparr>,
       MPerThreadSubC = 4, NPerThreadSubC = 4, MLevel0Cluster = 4, NLevel0Cluster = 4,
       MLevel1Cluster = 4, NLevel1Cluster = 2, KPerThreadLoop = 1\<rparr>" "\<lparr>mMyThreadOffsetA = 4, mMyThreadOffsetB = 8\<rparr>"
       "\<lambda>x. x" "\<lambda>x. 1 - x" "\<lambda>x. 0 :: int" "(*)" "\<lambda>x. 0"]
  by simp

end
