(* ===== verification/ConvTuning.thy ===== *)
theory ConvTuning
  imports CK_Prelude
begin

text \<open>
  The tuning table of \<^verbatim>\<open>device_convolution_forward_implicit_gemm_v4r4r4_xdlops_nhwc_kyxc_nhwk\<close>
  and its performance report.  The driver defines its tiling constants in a chain of
  \<^verbatim>\<open>#if 0\<close> / \<^verbatim>\<open>#elif 0\<close> / \<^verbatim>\<open>#elif 1\<close> branches; a branch is a pair of its condition and
  the constants it defines (\<open>xdl_tuning\<close>), and the preprocessor keeps the first branch
  whose condition holds (\<open>pp_select\<close>).  The floating-point operation count of the report is
  computed in \<^verbatim>\<open>std::size_t\<close>, a \<open>64 word\<close>; the lemmas show that it is exact for
  tensors whose offsets fit \<^verbatim>\<open>index_t\<close>.
\<close>

record xdl_tuning =
  tn_BlockSize :: index_t
  tn_GemmMPerBlock :: index_t
  tn_GemmNPerBlock :: index_t
  tn_GemmKPerBlock :: index_t
  tn_GemmMPerXDL :: index_t
  tn_GemmNPerXDL :: index_t
  tn_GemmK1 :: index_t
  tn_MRepeat :: index_t
  tn_NRepeat :: index_t
  tn_A_slice :: "index_t list"
  tn_A_cluster :: "index_t list"
  tn_A_src_vector :: index_t
  tn_A_dst_vector :: index_t
  tn_B_slice :: "index_t list"
  tn_B_cluster :: "index_t list"
  tn_B_src_vector :: index_t
  tn_B_dst_vector :: index_t
  tn_C_dst_vector :: index_t

definition pp_select :: "(bool \<times> 'a) list \<Rightarrow> 'a option" where
  "pp_select branches = (case filter fst branches of [] \<Rightarrow> None | (c, x) # _ \<Rightarrow> Some x)"

definition v4r4r4_tunings_fp32 :: "(bool \<times> xdl_tuning) list" where
  "v4r4r4_tunings_fp32 =
    [(False,
       \<lparr>tn_BlockSize = 256, tn_GemmMPerBlock = 256, tn_GemmNPerBlock = 128, tn_GemmKPerBlock = 4,
        tn_GemmMPerXDL = 32, tn_GemmNPerXDL = 32, tn_GemmK1 = 4, tn_MRepeat = 4, tn_NRepeat = 2,
        tn_A_slice = [1, 4, 4], tn_A_cluster = [4, 64, 1], tn_A_src_vector = 4, tn_A_dst_vector = 4,
        tn_B_slice = [1, 2, 4], tn_B_cluster = [4, 64, 1], tn_B_src_vector = 4, tn_B_dst_vector = 4,
        tn_C_dst_vector = 1\<rparr>),
     (False,
       \<lparr>tn_BlockSize = 256, tn_GemmMPerBlock = 128, tn_GemmNPerBlock = 128, tn_GemmKPerBlock = 4,
        tn_GemmMPerXDL = 32, tn_GemmNPerXDL = 32, tn_GemmK1 = 4, tn_MRepeat = 2, tn_NRepeat = 2,
        tn_A_slice = [1, 2, 4], tn_A_cluster = [4, 64, 1], tn_A_src_vector = 4, tn_A_dst_vector = 4,
        tn_B_slice = [1, 2, 4], tn_B_cluster = [4, 64, 1], tn_B_src_vector = 4, tn_B_dst_vector = 4,
        tn_C_dst_vector = 1\<rparr>)]"

definition v4r4r4_tunings_fp16 :: "(bool \<times> xdl_tuning) list" where
  "v4r4r4_tunings_fp16 =
    [(False,
       \<lparr>tn_BlockSize = 256, tn_GemmMPerBlock = 256, tn_GemmNPerBlock = 256, tn_GemmKPerBlock = 4,
        tn_GemmMPerXDL = 32, tn_GemmNPerXDL = 32, tn_GemmK1 = 8, tn_MRepeat = 4, tn_NRepeat = 4,
        tn_A_slice = [1, 4, 8], tn_A_cluster = [4, 64, 1], tn_A_src_vector = 8, tn_A_dst_vector = 8,
        tn_B_slice = [1, 4, 8], tn_B_cluster = [4, 64, 1], tn_B_src_vector = 8, tn_B_dst_vector = 8,
        tn_C_dst_vector = 1\<rparr>),
     (False,
       \<lparr>tn_BlockSize = 256, tn_GemmMPerBlock = 256, tn_GemmNPerBlock = 128, tn_GemmKPerBlock = 4,
        tn_GemmMPerXDL = 32, tn_GemmNPerXDL = 32, tn_GemmK1 = 8, tn_MRepeat = 4, tn_NRepeat = 2,
        tn_A_slice = [1, 4, 8], tn_A_cluster = [4, 64, 1], tn_A_src_vector = 8, tn_A_dst_vector = 8,
        tn_B_slice = [1, 2, 8], tn_B_cluster = [4, 64, 1], tn_B_src_vector = 8, tn_B_dst_vector = 8,
        tn_C_dst_vector = 1\<rparr>),
     (True,
       \<lparr>tn_BlockSize = 256, tn_GemmMPerBlock = 128, tn_GemmNPerBlock = 256, tn_GemmKPerBlock = 4,
        tn_GemmMPerXDL = 32, tn_GemmNPerXDL = 32, tn_GemmK1 = 8, tn_MRepeat = 2, tn_NRepeat = 4,
        tn_A_slice = [1, 2, 8], tn_A_cluster = [4, 64, 1], tn_A_src_vector = 8, tn_A_dst_vector = 8,
        tn_B_slice = [1, 4, 8], tn_B_cluster = [4, 64, 1], tn_B_src_vector = 8, tn_B_dst_vector = 8,
        tn_C_dst_vector = 1\<rparr>),
     (False,
       \<lparr>tn_BlockSize = 256, tn_GemmMPerBlock = 128, tn_GemmNPerBlock = 128, tn_GemmKPerBlock = 4,
        tn_GemmMPerXDL = 32, tn_GemmNPerXDL = 32, tn_GemmK1 = 8, tn_MRepeat = 2, tn_NRepeat = 2,
        tn_A_slice = [1, 2, 8], tn_A_cluster = [4, 64, 1], tn_A_src_vector = 8, tn_A_dst_vector = 8,
        tn_B_slice = [1, 2, 8], tn_B_cluster = [4, 64, 1], tn_B_src_vector = 8, tn_B_dst_vector = 8,
        tn_C_dst_vector = 1\<rparr>),
     (False,
       \<lparr>tn_BlockSize = 128, tn_GemmMPerBlock = 128, tn_GemmNPerBlock = 64, tn_GemmKPerBlock = 4,
        tn_GemmMPerXDL = 32, tn_GemmNPerXDL = 32, tn_GemmK1 = 8, tn_MRepeat = 2, tn_NRepeat = 2,
        tn_A_slice = [1, 4, 8], tn_A_cluster = [4, 32, 1], tn_A_src_vector = 8, tn_A_dst_vector = 8,
        tn_B_slice = [1, 2, 8], tn_B_cluster = [4, 32, 1], tn_B_src_vector = 8, tn_B_dst_vector = 8,
        tn_C_dst_vector = 1\<rparr>),
     (True,
       \<lparr>tn_BlockSize = 256, tn_GemmMPerBlock = 128, tn_GemmNPerBlock = 64, tn_GemmKPerBlock = 4,
        tn_GemmMPerXDL = 32, tn_GemmNPerXDL = 32, tn_GemmK1 = 8, tn_MRepeat = 2, tn_NRepeat = 1,
        tn_A_slice = [1, 2, 8], tn_A_cluster = [4, 64, 1], tn_A_src_vector = 8, tn_A_dst_vector = 8,
        tn_B_slice = [1, 1, 8], tn_B_cluster = [4, 64, 1], tn_B_src_vector = 8, tn_B_dst_vector = 8,
        tn_C_dst_vector = 1\<rparr>)]"

definition v4r4r4_tuning :: "xdl_tuning option" where
  "v4r4r4_tuning = pp_select (v4r4r4_tunings_fp32 @ v4r4r4_tunings_fp16)"

definition v4r4r4_flops :: "index_t \<Rightarrow> index_t \<Rightarrow> index_t \<Rightarrow> index_t \<Rightarrow> index_t \<Rightarrow> index_t \<Rightarrow> index_t \<Rightarrow> 64 word" where
  "v4r4r4_flops N K C Ho Wo Y X =
     2 * word_of_int N * word_of_int K * word_of_int Ho * word_of_int Wo * word_of_int C
       * word_of_int Y * word_of_int X"

lemma unat_word_of_int_64: "unat (word_of_int z :: 64 word) = nat (z mod 2 ^ 64)"
  by (simp add: unat_eq_nat_uint uint_word_of_int_eq take_bit_eq_mod)

lemma v4r4r4_flops_eq: "v4r4r4_flops N K C Ho Wo Y X = word_of_int (2 * ((N * Ho * Wo * K) * (C * Y * X)))"
  by (simp add: v4r4r4_flops_def ac_simps)

lemma prod_bound_2_62:
  fixes a b :: int
  assumes "0 \<le> a" "a \<le> 2 ^ 31" "0 \<le> b" "b \<le> 2 ^ 31"
  shows "a * b \<le> 2 ^ 62"
proof -
  have "a * b \<le> 2 ^ 31 * 2 ^ 31" using assms by (intro mult_mono) auto
  then show ?thesis by simp
qed

text \<open>C27: the operation count \<^verbatim>\<open>std::size_t(2) * N * K * Ho * Wo * C * Y * X\<close> of the report
  does not wrap in 64 bits when the output and the weight tensors have fewer than 2^31
  elements (as their \<^verbatim>\<open>index_t\<close> offsets require): it is the exact count.\<close>

theorem v4r4r4_flops_exact:
  assumes "0 \<le> N" "0 \<le> K" "0 \<le> C" "0 \<le> Ho" "0 \<le> Wo" "0 \<le> Y" "0 \<le> X"
    and out: "N * Ho * Wo * K < 2 ^ 31" and wei: "K * Y * X * C < 2 ^ 31"
  shows "unat (v4r4r4_flops N K C Ho Wo Y X) = nat (2 * N * K * Ho * Wo * C * Y * X)"
proof -
  let ?a = "N * Ho * Wo * K" and ?b = "C * Y * X"
  have a: "0 \<le> ?a" "?a \<le> 2 ^ 31" using assms by simp_all
  have b0: "0 \<le> ?b" using assms by simp
  have ab: "?a * ?b \<le> 2 ^ 62"
  proof (cases "K = 0")
    case True
    then show ?thesis by simp
  next
    case False
    then have "?b \<le> K * ?b" using assms(2) b0 by (simp add: mult_le_cancel_right1)
    also have "K * ?b = K * Y * X * C" by (simp add: ac_simps)
    finally have "?b \<le> 2 ^ 31" using wei by simp
    then show ?thesis using prod_bound_2_62[OF a b0] by simp
  qed
  have p0: "0 \<le> ?a * ?b" using a(1) b0 by (rule mult_nonneg_nonneg)
  have m: "2 * (?a * ?b) mod 2 ^ 64 = 2 * (?a * ?b)"
  proof (rule mod_pos_pos_trivial)
    have "2 * (?a * ?b) \<le> 2 * 2 ^ 62" using ab by (rule mult_left_mono) simp
    then show "2 * (?a * ?b) < 2 ^ 64" by (rule le_less_trans) simp
  qed (use p0 in linarith)
  have "unat (v4r4r4_flops N K C Ho Wo Y X) = nat (2 * (?a * ?b))"
    by (simp only: v4r4r4_flops_eq unat_word_of_int_64 m)
  then show ?thesis by (simp add: ac_simps)
qed

theorem v4r4r4_flops_exact_witness:
  "unat (v4r4r4_flops 1 64 64 14 14 3 3) = 14450688"
  using v4r4r4_flops_exact[of 1 64 64 14 14 3 3] by simp

end
