(* ===== verification/GridwiseDesc.thy ===== *)
theory GridwiseDesc
  imports GridwiseGemm DeviceGemm
begin

text \<open>
  The grid descriptors of \<^verbatim>\<open>GridwiseDynamicGemm_km_kn_m0m1n0n1_v1r2\<close>:
  \<^verbatim>\<open>MakeAKM0M1GridDescriptor\<close> and \<^verbatim>\<open>MakeBKN0N1GridDescriptor\<close> split the M (N)
  dimension of the K x M (K x N) matrix into \<open>M0 = M / MPerBlock\<close> blocks of
  \<open>M1 = MPerBlock\<close> columns with an unmerge transform, so that block \<open>m0\<close> of the grid
  reads columns \<open>m0 * MPerBlock ..\<close>, the window \<open>gg_Run\<close> starts from.  A tensor
  descriptor is its lengths and its offset function; the unmerge maps the upper index
  \<open>(m0, m1)\<close> to the lower index \<open>m0 * M1 + m1\<close>.  The lemmas show that the split
  descriptor is an exact re-indexing of the whole matrix descriptor (a bijection of index
  boxes that preserves offsets) exactly when MPerBlock divides M; the v1r2 operator checks no
  such condition, and otherwise the last \<open>M mod MPerBlock\<close> columns belong to no block.
\<close>

record km_desc =
  kmd_K :: index_t
  kmd_M :: index_t
  kmd_offset :: "index_t \<Rightarrow> index_t \<Rightarrow> index_t"

record km0m1_desc =
  kmd3_K :: index_t
  kmd3_M0 :: index_t
  kmd3_M1 :: index_t
  kmd3_offset :: "index_t \<Rightarrow> index_t \<Rightarrow> index_t \<Rightarrow> index_t"

definition unmerge_desc :: "km_desc \<Rightarrow> index_t \<Rightarrow> km0m1_desc" where
  "unmerge_desc d M1 =
     (let K = kmd_K d; M = kmd_M d; M0 = M sdiv M1
      in \<lparr>kmd3_K = K, kmd3_M0 = M0, kmd3_M1 = M1, kmd3_offset = (\<lambda>k m0 m1. kmd_offset d k (m0 * M1 + m1))\<rparr>)"

definition MakeAKM0M1GridDescriptor :: "gg_cfg \<Rightarrow> km_desc \<Rightarrow> km0m1_desc" where
  "MakeAKM0M1GridDescriptor cfg a_k_m_grid_desc = unmerge_desc a_k_m_grid_desc (MPerBlock cfg)"

definition MakeBKN0N1GridDescriptor :: "gg_cfg \<Rightarrow> km_desc \<Rightarrow> km0m1_desc" where
  "MakeBKN0N1GridDescriptor cfg b_k_n_grid_desc = unmerge_desc b_k_n_grid_desc (NPerBlock cfg)"

definition km0m1_box :: "km0m1_desc \<Rightarrow> (index_t \<times> index_t \<times> index_t) set" where
  "km0m1_box d = {0..<kmd3_K d} \<times> {0..<kmd3_M0 d} \<times> {0..<kmd3_M1 d}"

definition km_box :: "km_desc \<Rightarrow> (index_t \<times> index_t) set" where
  "km_box d = {0..<kmd_K d} \<times> {0..<kmd_M d}"

definition unmerge_index :: "index_t \<Rightarrow> index_t \<times> index_t \<times> index_t \<Rightarrow> index_t \<times> index_t" where
  "unmerge_index M1 = (\<lambda>(k, m0, m1). (k, m0 * M1 + m1))"

lemma unmerge_desc_bij_iff:
  assumes M1: "0 < M1" and K: "0 < kmd_K d" and M: "0 \<le> kmd_M d"
  shows "bij_betw (unmerge_index M1) (km0m1_box (unmerge_desc d M1)) (km_box d) \<longleftrightarrow> M1 dvd kmd_M d"
proof -
  let ?M0 = "kmd_M d div M1"
  have M0: "kmd_M d sdiv M1 = ?M0" using M M1 by (simp add: sdiv_int_nonneg)
  have b: "bij_betw (unmerge_index M1) ({0..<kmd_K d} \<times> {0..<?M0} \<times> {0..<M1}) ({0..<kmd_K d} \<times> {0..<?M0 * M1})"
  proof -
    have "(\<lambda>(x, a). (x, (\<lambda>(k0, k1). k0 * M1 + k1) a)) = unmerge_index M1"
      by (auto simp: unmerge_index_def fun_eq_iff)
    then show ?thesis
      using bij_betw_pair_right[OF unmerge_k_bij[OF M1, of ?M0], of "{0..<kmd_K d}"] by simp
  qed
  have box: "km0m1_box (unmerge_desc d M1) = {0..<kmd_K d} \<times> {0..<?M0} \<times> {0..<M1}"
    by (simp add: km0m1_box_def unmerge_desc_def Let_def M0)
  have "bij_betw (unmerge_index M1) (km0m1_box (unmerge_desc d M1)) (km_box d)
        \<longleftrightarrow> {0..<kmd_K d} \<times> {0..<?M0 * M1} = {0..<kmd_K d} \<times> {0..<kmd_M d}"
    using b unfolding box km_box_def bij_betw_def by blast
  also have "\<dots> \<longleftrightarrow> ?M0 * M1 = kmd_M d"
  proof
    assume "{0..<kmd_K d} \<times> {0..<?M0 * M1} = {0..<kmd_K d} \<times> {0..<kmd_M d}"
    then have lt: "x < ?M0 * M1 \<longleftrightarrow> x < kmd_M d" if "0 \<le> x" for x
      using K that by (auto simp: set_eq_iff)
    have "0 \<le> ?M0 * M1" using M M1 by (simp add: pos_imp_zdiv_nonneg_iff)
    then show "?M0 * M1 = kmd_M d" using lt[of "?M0 * M1"] lt[of "kmd_M d"] M by linarith
  qed simp
  also have "\<dots> \<longleftrightarrow> M1 dvd kmd_M d" by (metis dvd_eq_mod_eq_0 div_mult_mod_eq add_cancel_left_right mult.commute dvd_div_mult_self)
  finally show ?thesis .
qed

lemma unmerge_desc_exact:
  assumes M1: "0 < M1" and K: "0 < kmd_K d" and M: "0 \<le> kmd_M d"
  shows "(\<exists>g. bij_betw g (km0m1_box (unmerge_desc d M1)) (km_box d)
              \<and> (\<forall>(k, m0, m1) \<in> km0m1_box (unmerge_desc d M1).
                   kmd3_offset (unmerge_desc d M1) k m0 m1 = (case g (k, m0, m1) of (k', m) \<Rightarrow> kmd_offset d k' m)))
         \<longleftrightarrow> M1 dvd kmd_M d"
proof
  assume "\<exists>g. bij_betw g (km0m1_box (unmerge_desc d M1)) (km_box d)
              \<and> (\<forall>(k, m0, m1) \<in> km0m1_box (unmerge_desc d M1).
                   kmd3_offset (unmerge_desc d M1) k m0 m1 = (case g (k, m0, m1) of (k', m) \<Rightarrow> kmd_offset d k' m))"
  then obtain g where "bij_betw g (km0m1_box (unmerge_desc d M1)) (km_box d)" by blast
  then have c: "card (km0m1_box (unmerge_desc d M1)) = card (km_box d)" by (rule bij_betw_same_card)
  let ?M0 = "kmd_M d div M1"
  have M0: "kmd_M d sdiv M1 = ?M0" and M00: "0 \<le> ?M0"
    using M M1 by (simp_all add: sdiv_int_nonneg pos_imp_zdiv_nonneg_iff)
  have "nat (kmd_K d) * (nat ?M0 * nat M1) = nat (kmd_K d) * nat (kmd_M d)"
    using c by (simp add: km0m1_box_def km_box_def unmerge_desc_def Let_def M0 card_cartesian_product)
  then have "nat ?M0 * nat M1 = nat (kmd_M d)" using K by simp
  then have "?M0 * M1 = kmd_M d" using M00 M1 M by (metis nat_mult_distrib nat_eq_iff2 less_imp_le zero_le_mult_iff)
  then show "M1 dvd kmd_M d" by (metis dvd_triv_right)
next
  assume "M1 dvd kmd_M d"
  then have "bij_betw (unmerge_index M1) (km0m1_box (unmerge_desc d M1)) (km_box d)"
    using unmerge_desc_bij_iff[OF M1 K M] by simp
  moreover have "\<forall>(k, m0, m1) \<in> km0m1_box (unmerge_desc d M1).
                   kmd3_offset (unmerge_desc d M1) k m0 m1
                   = (case unmerge_index M1 (k, m0, m1) of (k', m) \<Rightarrow> kmd_offset d k' m)"
    by (simp add: unmerge_desc_def unmerge_index_def Let_def)
  ultimately show "\<exists>g. bij_betw g (km0m1_box (unmerge_desc d M1)) (km_box d)
              \<and> (\<forall>(k, m0, m1) \<in> km0m1_box (unmerge_desc d M1).
                   kmd3_offset (unmerge_desc d M1) k m0 m1 = (case g (k, m0, m1) of (k', m) \<Rightarrow> kmd_offset d k' m))"
    by blast
qed

text \<open>C28: the K x M0 x M1 (K x N0 x N1) grid descriptor of the v1r2 gridwise GEMM is an exact
  re-indexing of the K x M (K x N) matrix descriptor -- its index box is in bijection with the
  matrix's, and every one of its offsets is the matrix's offset at the corresponding index --
  exactly when MPerBlock divides M (NPerBlock divides N); otherwise no such correspondence
  exists and the columns past \<open>(M / MPerBlock) * MPerBlock\<close> belong to no block.\<close>

theorem gg_grid_descriptors_exact:
  assumes "0 < MPerBlock cfg" "0 < NPerBlock cfg"
    and "0 < kmd_K a" "0 \<le> kmd_M a" "0 < kmd_K b" "0 \<le> kmd_M b"
  shows "((\<exists>g. bij_betw g (km0m1_box (MakeAKM0M1GridDescriptor cfg a)) (km_box a)
              \<and> (\<forall>(k, m0, m1) \<in> km0m1_box (MakeAKM0M1GridDescriptor cfg a).
                   kmd3_offset (MakeAKM0M1GridDescriptor cfg a) k m0 m1 = (case g (k, m0, m1) of (k', m) \<Rightarrow> kmd_offset a k' m)))
            \<longleftrightarrow> MPerBlock cfg dvd kmd_M a)
       \<and> ((\<exists>g. bij_betw g (km0m1_box (MakeBKN0N1GridDescriptor cfg b)) (km_box b)
              \<and> (\<forall>(k, n0, n1) \<in> km0m1_box (MakeBKN0N1GridDescriptor cfg b).
                   kmd3_offset (MakeBKN0N1GridDescriptor cfg b) k n0 n1 = (case g (k, n0, n1) of (k', n) \<Rightarrow> kmd_offset b k' n)))
            \<longleftrightarrow> NPerBlock cfg dvd kmd_M b)"
  using unmerge_desc_exact[OF assms(1,3,4)] unmerge_desc_exact[OF assms(2,5,6)]
  unfolding MakeAKM0M1GridDescriptor_def MakeBKN0N1GridDescriptor_def by blast

theorem gg_grid_descriptors_exact_witness:
  "(\<exists>g. bij_betw g (km0m1_box (MakeAKM0M1GridDescriptor \<lparr>gK = 8, gM = 64, gN = 100, MPerBlock = 32, NPerBlock = 32, KPerBlock = 4\<rparr>
                     \<lparr>kmd_K = 8, kmd_M = 64, kmd_offset = (\<lambda>k m. k * 64 + m)\<rparr>))
         (km_box \<lparr>kmd_K = 8, kmd_M = 64, kmd_offset = (\<lambda>k m. k * 64 + m)\<rparr>)
       \<and> (\<forall>(k, m0, m1) \<in> km0m1_box (MakeAKM0M1GridDescriptor \<lparr>gK = 8, gM = 64, gN = 100, MPerBlock = 32, NPerBlock = 32, KPerBlock = 4\<rparr>
                     \<lparr>kmd_K = 8, kmd_M = 64, kmd_offset = (\<lambda>k m. k * 64 + m)\<rparr>).
            kmd3_offset (MakeAKM0M1GridDescriptor \<lparr>gK = 8, gM = 64, gN = 100, MPerBlock = 32, NPerBlock = 32, KPerBlock = 4\<rparr>
                     \<lparr>kmd_K = 8, kmd_M = 64, kmd_offset = (\<lambda>k m. k * 64 + m)\<rparr>) k m0 m1
            = (case g (k, m0, m1) of (k', m) \<Rightarrow> kmd_offset \<lparr>kmd_K = 8, kmd_M = 64, kmd_offset = (\<lambda>k m. k * 64 + m)\<rparr> k' m)))
   \<and> \<not> (\<exists>g. bij_betw g (km0m1_box (MakeBKN0N1GridDescriptor \<lparr>gK = 8, gM = 64, gN = 100, MPerBlock = 32, NPerBlock = 32, KPerBlock = 4\<rparr>
                     \<lparr>kmd_K = 8, kmd_M = 100, kmd_offset = (\<lambda>k n. k * 100 + n)\<rparr>))
         (km_box \<lparr>kmd_K = 8, kmd_M = 100, kmd_offset = (\<lambda>k n. k * 100 + n)\<rparr>)
       \<and> (\<forall>(k, n0, n1) \<in> km0m1_box (MakeBKN0N1GridDescriptor \<lparr>gK = 8, gM = 64, gN = 100, MPerBlock = 32, NPerBlock = 32, KPerBlock = 4\<rparr>
                     \<lparr>kmd_K = 8, kmd_M = 100, kmd_offset = (\<lambda>k n. k * 100 + n)\<rparr>).
            kmd3_offset (MakeBKN0N1GridDescriptor \<lparr>gK = 8, gM = 64, gN = 100, MPerBlock = 32, NPerBlock = 32, KPerBlock = 4\<rparr>
                     \<lparr>kmd_K = 8, kmd_M = 100, kmd_offset = (\<lambda>k n. k * 100 + n)\<rparr>) k n0 n1
            = (case g (k, n0, n1) of (k', n) \<Rightarrow> kmd_offset \<lparr>kmd_K = 8, kmd_M = 100, kmd_offset = (\<lambda>k n. k * 100 + n)\<rparr> k' n)))"
proof -
  note th = gg_grid_descriptors_exact[of "\<lparr>gK = 8, gM = 64, gN = 100, MPerBlock = 32, NPerBlock = 32, KPerBlock = 4\<rparr>"
      "\<lparr>kmd_K = 8, kmd_M = 64, kmd_offset = (\<lambda>k m. k * 64 + m)\<rparr>" "\<lparr>kmd_K = 8, kmd_M = 100, kmd_offset = (\<lambda>k n. k * 100 + n)\<rparr>"]
  have h: "0 < MPerBlock \<lparr>gK = 8, gM = 64, gN = 100, MPerBlock = 32, NPerBlock = 32, KPerBlock = 4\<rparr>"
    "0 < NPerBlock \<lparr>gK = 8, gM = 64, gN = 100, MPerBlock = 32, NPerBlock = 32, KPerBlock = 4\<rparr>"
    "0 < kmd_K \<lparr>kmd_K = 8, kmd_M = 64, kmd_offset = (\<lambda>k m. k * 64 + m)\<rparr>"
    "0 \<le> kmd_M \<lparr>kmd_K = 8, kmd_M = 64, kmd_offset = (\<lambda>k m. k * 64 + m)\<rparr>"
    "0 < kmd_K \<lparr>kmd_K = 8, kmd_M = 100, kmd_offset = (\<lambda>k n. k * 100 + n)\<rparr>"
    "0 \<le> kmd_M \<lparr>kmd_K = 8, kmd_M = 100, kmd_offset = (\<lambda>k n. k * 100 + n)\<rparr>"
    "MPerBlock \<lparr>gK = 8, gM = 64, gN = 100, MPerBlock = 32, NPerBlock = 32, KPerBlock = 4\<rparr>
       dvd kmd_M \<lparr>kmd_K = 8, kmd_M = 64, kmd_offset = (\<lambda>k m. k * 64 + m)\<rparr>"
    "\<not> NPerBlock \<lparr>gK = 8, gM = 64, gN = 100, MPerBlock = 32, NPerBlock = 32, KPerBlock = 4\<rparr>
       dvd kmd_M \<lparr>kmd_K = 8, kmd_M = 100, kmd_offset = (\<lambda>k n. k * 100 + n)\<rparr>"
    by simp_all
  show ?thesis using th[OF h(1-6)] h(7,8) by blast
qed

end
