(* ===== verification/Spec2Isabelle.thy ===== *)
theory Spec2Isabelle
  imports MatrixDesc SliceTransfer GridwiseGemm BlockwiseGemmVariants BufferAddressing DeviceGemm ConvDrivers
    TupleHelper BlockwiseGemmAsm ConvTuning GridwiseDesc
begin

text \<open>
  \<^bold>\<open>A verification library for the composable_kernel sources under \<^verbatim>\<open>src/\<close>.\<close>

  The program computes \<open>C[m,n] += A[k,m] * B[k,n]\<close> (and convolutions reduced to it) on a
  GPU.  A host operator (\<^verbatim>\<open>DeviceGemmXdl\<close>) builds tensor descriptors, checks the
  problem against its tiling and launches one thread block per C tile.  A block runs a
  gridwise pipeline (\<^verbatim>\<open>GridwiseDynamicGemm_km_kn_m0m1n0n1_v1r2::Run\<close>): it stages K
  tiles of A and B from global memory into a pair of LDS buffers and runs a blockwise GEMM
  on one buffer while the next tile is loaded into the other.  The blockwise GEMM
  (\<^verbatim>\<open>blockwise_gemm.hip.hpp\<close>) gives every thread a sub-tile of the block's C tile,
  copies the rows of A and B it needs into registers and calls the per-thread micro-GEMM.
  Data move between memory levels through the thread-wise slice transfer
  (\<^verbatim>\<open>threadwise_tensor_slice_transfer_v6r2.hpp\<close>), which reads global memory through the
  bounds-checked buffer instructions of \<^verbatim>\<open>amd_buffer_addressing_v2.hpp\<close>.

  \<^bold>\<open>Theories, parts and correspondence to the code.\<close>
  \<^item> \<open>CK_Prelude\<close>: \<open>index_t\<close> as \<open>int\<close>, multi-indices as \<open>int list\<close> with the
    element-wise \<^verbatim>\<open>operator+ - *\<close> of \<^verbatim>\<open>multi_index.hpp\<close> (\<open>mi_add\<close>, \<open>mi_sub\<close>,
    \<open>mi_mul\<close>), index boxes and their lexicographic enumeration \<open>ford\<close>
    (\<^verbatim>\<open>static_ford\<close>), the counted loop \<open>int_range_step\<close> and the loop combinator
    \<open>do_while\<close> (a \<open>partial_function (option)\<close>: a do-while that never ends is \<open>None\<close>).
    Generic lemmas on folds of pointwise updates are shared through \<open>ck_simps\<close>.
  \<^item> \<open>MatrixDesc\<close>: \<^verbatim>\<open>ConstantMatrixDescriptor\<close> as the record \<open>cmd\<close> with its
    static_assert \<open>cmd_wf\<close> and accessors; row-major offsets are injective.
  \<^item> \<open>SliceTransfer\<close>: \<^verbatim>\<open>ThreadwiseTensorSliceTransfer_v6r2\<close> with explicit state
    \<open>xfer_state\<close> (the three coordinates and the destination buffer): the constructor, the
    \<^verbatim>\<open>Set*SliceOrigin\<close> setters, \<open>v6r2_Run\<close> as a fold of \<open>v6r2_access\<close> over
    \<open>ford\<close> of the ordered access lengths (serpentine direction \<open>forward_sweep\<close>, moved
    dimension \<open>move_on_dim\<close>, step \<open>move_coord\<close>), \<open>v6r2_GetCoordinateResetStep\<close> and
    the \<^verbatim>\<open>Move*SliceWindow\<close> operations.  Tensor descriptors are the interface
    \<open>desc_view\<close> (offset and validity of a coordinate).
  \<^item> \<open>GridwiseGemm\<close>: \<open>gg_Run\<close> is the pipeline as an explicit sequence of steps
    (\<open>gg_preload\<close>, \<open>gg_main_body\<close> iterated by \<open>gg_main_loop\<close>, \<open>gg_tail_double\<close>,
    \<open>gg_tail_single\<close>) on a state that records the LDS buffers, the accumulator and the
    trace of events (window moves, \<^verbatim>\<open>__syncthreads\<close>, reads, LDS writes, GEMMs);
    \<open>gg_GetSharedMemoryNumberOfByte\<close> and \<open>gg_lds_buffers\<close> give the LDS layout.
  \<^item> \<open>ThreadwiseGemm\<close>: \<open>threadwise_matrix_copy\<close> and \<open>threadwise_gemm\<close>, modelled from
    the micro-GEMM contract of the specification (their header is not under \<^verbatim>\<open>src/\<close>).
  \<^item> \<open>BlockwiseGemm\<close>: the blockwise GEMM's configuration \<open>bg_cfg\<close>, constructor
    \<open>bg_make\<close> (static_asserts \<open>bg_static_ok\<close>, thread offsets),
    \<open>GetBeginOfThreadMatrixC\<close>, \<open>GetDistanceFromBeginOfThreadMatrixC\<close> and \<open>bg_Run\<close>;
    registers and LDS are functions from addresses to values.
  \<^item> \<open>BlockwiseGemmVariants\<close>: \<open>bg_Run_RegisterDoubleBuffer\<close> (state record
    \<open>bg_db_state\<close>, step \<open>bg_db_step\<close>) and \<open>bg_Run_PipelineReadAndCompute\<close>.
  \<^item> \<open>BufferAddressing\<close>: \<open>amd_buffer_load_v2\<close> and \<open>amd_buffer_store_v2\<close> with the
    offset trick as the flag \<open>oob_trick\<close>; byte offsets and ranges are \<open>32 word\<close>, so the
    wrap-around of the trick is modelled.  The LLVM buffer intrinsics are
    \<open>hw_buffer_load\<close> and \<open>hw_buffer_store\<close>.
  \<^item> \<open>DeviceGemm\<close>: \<^verbatim>\<open>DeviceGemmXdl\<close>'s descriptors, \<open>dg_Argument\<close>,
    \<open>dg_IsSupportedArgument\<close>, \<open>dg_MakeArgument\<close> and \<open>dg_Invoker_Run\<close>.  Results are
    \<open>dg_error + _\<close>: a failed \<^verbatim>\<open>assert\<close> or the thrown \<^verbatim>\<open>runtime_error\<close> is \<open>Inl\<close>.
    C's truncating \<^verbatim>\<open>/\<close> and \<^verbatim>\<open>%\<close> are \<open>sdiv\<close> and \<open>smod\<close>.  The \<^verbatim>\<open>assert\<close>s of
    \<^verbatim>\<open>MakeAGridDescriptor_K0_M_K1\<close> and \<^verbatim>\<open>MakeBGridDescriptor_K0_N_K1\<close> are modelled as a
    debug build runs them; under \<^verbatim>\<open>NDEBUG\<close> they vanish and \<open>K / K1\<close> truncates.  The
    block-to-tile map and the grid size of the xdlops v2r3 GEMM the invoker launches are
    outside \<^verbatim>\<open>src/\<close> and modelled from the specification.
  \<^item> \<open>ConvDrivers\<close>: the argument handling (\<open>conv_driver_parse\<close>, the usage exit as
    \<open>Inl WrongArgumentCount\<close>), output lengths (\<open>conv_out_size\<close>) and tensor lengths of
    \<^verbatim>\<open>conv_driver_v2_olc.cpp\<close>; the host layout conversions of the v5r1 driver
    (\<open>v5r1_pack_input\<close>, \<open>v5r1_pack_weight\<close>, \<open>v5r1_unpack_output\<close>) on host tensors
    (\<open>host_tensor\<close>: packed lengths and a data array), with
    \<^verbatim>\<open>make_ParallelTensorFunctor\<close> as a fold in one order; and the GemmM right padding of
    the v4r4r4 driver (\<open>v4r4r4_pad_descs\<close>).
  \<^item> \<open>BlockwiseGemmAsm\<close>: \<^verbatim>\<open>Run_asm\<close> of the blockwise GEMM (the compiled branch):
    per K step four \<^verbatim>\<open>float4\<close> copies into the register array (\<open>bg_asm_load\<close>,
    \<open>float4_copy\<close>) and the 64 \<^verbatim>\<open>v_mac_f32\<close> of its inline assembly (\<open>bg_asm_mac\<close>).
  \<^item> \<open>ConvTuning\<close>: the v4r4r4 driver's tuning chain (\<open>v4r4r4_tunings_fp32\<close>,
    \<open>v4r4r4_tunings_fp16\<close>, selected by \<open>pp_select\<close> as the preprocessor does) and the
    \<^verbatim>\<open>std::size_t\<close> operation count of its report (\<open>64 word\<close>).
  \<^item> \<open>GridwiseDesc\<close>: \<^verbatim>\<open>MakeAKM0M1GridDescriptor\<close> and \<^verbatim>\<open>MakeBKN0N1GridDescriptor\<close> of
    the v1r2 gridwise GEMM, as unmerge re-indexings of a descriptor (lengths and offset map).
  \<^item> \<open>TupleHelper\<close>: the compile-time helpers of \<^verbatim>\<open>tuple_helper.hpp\<close>
    (\<open>make_tuple\<close>, \<open>generate_tuple\<close>, \<open>merge_tuples\<close>, \<open>transform_tuples\<close> for one, two
    and three tuples) on tuples of one element type as lists, and the remaining operations
    of \<^verbatim>\<open>multi_index.hpp\<close> (\<open>make_zero_multi_index\<close>, \<open>to_multi_index\<close>, the compound
    assignments \<open>mi_add_assign\<close> and \<open>mi_sub_assign\<close> as folds of element updates).  A
    compile error (a failed \<^verbatim>\<open>static_assert\<close>, \<^verbatim>\<open>Tuple::At\<close> past the end) is \<open>None\<close>.
    Its lemmas read the compound assignments on equal sizes as \<open>mi_add\<close> and \<open>mi_sub\<close>.

  \<^bold>\<open>What the lemmas show.\<close>
  \<^item> Slice transfer (C1--C4): one Run writes every destination vector of the slice exactly
    once; afterwards each coordinate is at its origin or moved back by the reset step, as
    its flag says; a slice-window move after Run lands at origin plus step either way; and
    consecutive accesses differ by one vector step in a single dimension.
  \<^item> Gridwise pipeline (C5--C8, C26): the double-buffered Run equals the single-buffered
    reference; no interval between two barriers both writes an LDS buffer and multiplies
    it; Run returns exactly under the host's loop flags (otherwise the do-while never
    ends); the four LDS buffers are disjoint and inside the allocation; with
    \<open>KPerBlock > 0\<close> Run returns, and every tile written to LDS is multiplied exactly once
    before its buffer is rewritten.
  \<^item> Blockwise GEMM (C9--C12, C25): the thread sub-tiles partition the block tile; Run
    refines the micro-GEMM contract; Run_RegisterDoubleBuffer refines it for
    KPerThreadLoop = 1; Run_PipelineReadAndCompute equals Run for packed C; on the 8 x 8
    tile its assembly is written for, with one K row per step, Run_asm computes the
    micro-GEMM contract with \<open>+\<close>, whatever accumulator is passed.
  \<^item> Buffer addressing (C13--C14): the offset trick is equivalent to the flag test for
    non-negative offsets below 2^31 bytes; a store then a load of the same vector
    round-trips.
  \<^item> Device GEMM (C15--C18): Run launches on a constructed argument exactly when the tiles
    divide the problem and otherwise throws; the launch's block-to-tile map is a bijection;
    the blocks' C tiles partition C; the descriptors are injective re-indexings inside
    their element spaces.
  \<^item> Convolution drivers (C19--C24): the output length counts the filter windows when the
    padded input is long enough; when it is too short, C's truncating division gives
    \<open>1 - shortfall / stride\<close>, positive exactly when the shortfall is below the stride; the
    v5r1 output conversion inverts the input conversion; the parallel input conversion
    gives the same tensor in every iteration order when the vector width divides C, and
    two of its iterations write the same element otherwise; GemmM is padded to the least
    multiple of the tile with exactly the raw rows valid.
  \<^item> v4r4r4 report (C27): the operation count is exact in 64 bits for tensors of fewer
    than 2^31 elements.
  \<^item> Grid descriptors (C28): the K x M0 x M1 (K x N0 x N1) descriptor is an exact
    re-indexing of the matrix descriptor, offsets included, exactly when MPerBlock
    (NPerBlock) divides M (N).

  \<^bold>\<open>Bounds and fuel.\<close>  The only loop that may not end is the gridwise do-while, modelled
  with \<open>partial_function (option)\<close> through \<open>do_while\<close>; C7 characterises exactly when it
  returns, and C26 uses the same well-founded argument (the distance of the K offset to
  K) to show that it returns for every flag value when \<open>KPerBlock > 0\<close>.  The parallel functors of the host code are folds in one order; C22 shows that
  the order does not matter where the iterations write distinct elements.  Every other loop is a structural fold over a finite enumeration
  (\<open>ford\<close>, \<open>int_range_step\<close>, \<open>upto\<close>, \<open>upt\<close>, \<open>List.product\<close>), so no fuel is needed.  Widths:
  \<open>index_t\<close> arithmetic is unbounded \<open>int\<close> where the code's values stay small, and
  \<open>32 word\<close> in the buffer addressing, where the offset trick depends on the wrap-around.

  \<^bold>\<open>Not modelled.\<close>
  \<^item> The \<^verbatim>\<open>#else\<close> branch of Run_asm (an alternative assembly sequence the \<^verbatim>\<open>#if 1\<close>
    excludes) and its non-HIP fallback (\<^verbatim>\<open>printf\<close> and \<^verbatim>\<open>assert(false)\<close>).
  \<^item> The output write-back of the v1r2 gridwise GEMM and its kernel wrapper: they call the
    threadwise transfer v1r3 and the blockwise GEMM v2r2, which are not under \<^verbatim>\<open>src/\<close>.
  \<^item> Kernel launch and timing, printing, host memory and tensor generators: input and output
    only.  The gridwise xdlops v2r3 operator and the tensor descriptor helpers that
    \<^verbatim>\<open>device_gemm_xdl.hpp\<close> includes are outside \<^verbatim>\<open>src/\<close> and are modelled from the
    specification (they are marked so in the manifest).
  \<^item> In the convolution drivers: \<^verbatim>\<open>atoi\<close> (the arguments are its results), the tensor
    value generators, the host reference convolution and error check, device memory
    copies, the kernels the drivers launch (outside \<^verbatim>\<open>src/\<close>), the \<^verbatim>\<open>#if 0\<close> blocks,
    the casts of negative lengths to \<^verbatim>\<open>size_t\<close> (lengths are modelled as integers), the
    floating-point performance value, and the tuning constants of the v5r1 driver (their
    checks live in the static driver, outside \<^verbatim>\<open>src/\<close>).
\<close>

end
